(* ===== verification/Lit_Prelude.thy ===== *)
theory Lit_Prelude
  imports Complex_Main "HOL-Library.Word" "HOL-Library.AList"
begin

text \<open>
  Shared vocabulary of the development: JavaScript strings, numbers, errors and
  insertion-ordered maps, with the generic lemmas that the component theories use.

  \<^item> A JavaScript string is a \<open>string\<close> whose characters are the code units U+0000 to
    U+00FF; strings with larger code units are outside the model.
  \<^item> A thrown \<open>Error\<close> is the value \<open>Inl (Error message)\<close> of the type \<open>'a result\<close>;
    \<open>then_res\<close> sequences two computations as the code does when an exception
    propagates.
  \<^item> \<open>js_number\<close> is a JavaScript number: an exact rational where the value is finite.
    The code only handles integers far below 2^53 and quotients of those, where IEEE
    doubles and exact arithmetic agree on every comparison and rounding it performs.
  \<^item> An \<open>omap\<close> is an insertion-ordered map (a JavaScript \<open>Map\<close>, object or MobX
    \<open>observable.map\<close>): an association list with distinct keys.
\<close>

section \<open>Collections of rules\<close>

named_theorems result_simps \<open>rewrite rules for computations that may throw\<close>
named_theorems codec_simps \<open>decoding what has been encoded\<close>
named_theorems omap_simps \<open>lookups after updates of an insertion-ordered map\<close>

section \<open>Errors as values\<close>

datatype js_error = Error string

type_synonym 'a result = "js_error + 'a"

definition then_res :: "'a result \<Rightarrow> ('a \<Rightarrow> 'b result) \<Rightarrow> 'b result" where
  "then_res r f = (case r of Inl e \<Rightarrow> Inl e | Inr x \<Rightarrow> f x)"

lemma then_res_simps [simp]:
  "then_res (Inl e) f = Inl e"
  "then_res (Inr x) f = f x"
  by (simp_all add: then_res_def)

lemma then_res_Inr [result_simps]:
  "then_res r f = Inr y \<longleftrightarrow> (\<exists>x. r = Inr x \<and> f x = Inr y)"
  by (cases r) auto

lemma then_res_Inl [result_simps]:
  "then_res r f = Inl e \<longleftrightarrow> r = Inl e \<or> (\<exists>x. r = Inr x \<and> f x = Inl e)"
  by (cases r) auto

lemma then_res_assoc: "then_res (then_res r f) g = then_res r (\<lambda>x. then_res (f x) g)"
  by (cases r) auto

section \<open>JavaScript strings\<close>

definition js_whitespace :: "char \<Rightarrow> bool" where
  "js_whitespace c \<longleftrightarrow> of_char c \<in> set [9, 10, 11, 12, 13, 32, 160 :: nat]"

definition js_trim :: "string \<Rightarrow> string" where
  "js_trim s = rev (dropWhile js_whitespace (rev (dropWhile js_whitespace s)))"

definition upper_char :: "char \<Rightarrow> char" where
  "upper_char c = (let n = of_char c :: nat in
     if 97 \<le> n \<and> n \<le> 122 then char_of (n - 32) else c)"

definition lower_char :: "char \<Rightarrow> char" where
  "lower_char c = (let n = of_char c :: nat in
     if 65 \<le> n \<and> n \<le> 90 then char_of (n + 32) else c)"

definition toUpperCase :: "string \<Rightarrow> string" where
  "toUpperCase = map upper_char"

definition toLowerCase :: "string \<Rightarrow> string" where
  "toLowerCase = map lower_char"

definition is_digit_char :: "char \<Rightarrow> bool" where
  "is_digit_char c \<longleftrightarrow> (let n = of_char c :: nat in 48 \<le> n \<and> n \<le> 57)"

definition digit_val :: "char \<Rightarrow> nat" where
  "digit_val c = of_char c - 48"

definition is_hex_char :: "char \<Rightarrow> bool" where
  "is_hex_char c \<longleftrightarrow> (let n = of_char c :: nat in
     (48 \<le> n \<and> n \<le> 57) \<or> (97 \<le> n \<and> n \<le> 102) \<or> (65 \<le> n \<and> n \<le> 70))"

definition hex_val :: "char \<Rightarrow> nat" where
  "hex_val c = (let n = of_char c :: nat in
     if n \<le> 57 then n - 48 else if 97 \<le> n then n - 87 else n - 55)"

definition hex_digit :: "nat \<Rightarrow> char" where
  "hex_digit n = char_of (if n < 10 then 48 + n else 87 + n)"

text \<open>The regular expression \<open>/^[0-9a-f]{64}$/i\<close>.\<close>

definition is_hex64 :: "string \<Rightarrow> bool" where
  "is_hex64 s \<longleftrightarrow> length s = 64 \<and> list_all is_hex_char s"

text \<open>Decimal notation of integers (\<open>Number.prototype.toString\<close>).\<close>

fun nat_to_string :: "nat \<Rightarrow> string" where
  "nat_to_string n =
     (if n < 10 then [char_of (48 + n)]
      else nat_to_string (n div 10) @ [char_of (48 + n mod 10)])"

declare nat_to_string.simps [simp del]

definition int_to_string :: "int \<Rightarrow> string" where
  "int_to_string i = (if i < 0 then CHR ''-'' # nat_to_string (nat (- i)) else nat_to_string (nat i))"

text \<open>
  \<open>Number.parseInt(s, 10)\<close>: leading white space, an optional sign, then the longest
  run of digits; \<open>None\<close> is \<open>NaN\<close>.
\<close>

definition digits_to_nat :: "string \<Rightarrow> nat" where
  "digits_to_nat s = foldl (\<lambda>n c. 10 * n + digit_val c) 0 s"

definition parseInt10 :: "string \<Rightarrow> int option" where
  "parseInt10 s =
     (let s = dropWhile js_whitespace s;
          neg = (case s of c # _ \<Rightarrow> c = CHR ''-'' | [] \<Rightarrow> False);
          s = (case s of c # cs \<Rightarrow> if c = CHR ''-'' \<or> c = CHR ''+'' then cs else s | [] \<Rightarrow> []);
          ds = takeWhile is_digit_char s
      in if ds = [] then None
         else Some (if neg then - int (digits_to_nat ds) else int (digits_to_nat ds)))"

definition join :: "string \<Rightarrow> string list \<Rightarrow> string" where
  "join sep xs = (case xs of [] \<Rightarrow> [] | x # xs \<Rightarrow> x @ concat (map (\<lambda>y. sep @ y) xs))"

definition starts_with :: "string \<Rightarrow> string \<Rightarrow> bool" where
  "starts_with p s \<longleftrightarrow> take (length p) s = p"

definition ends_with :: "string \<Rightarrow> string \<Rightarrow> bool" where
  "ends_with p s \<longleftrightarrow> starts_with (rev p) (rev s)"

fun str_includes :: "string \<Rightarrow> string \<Rightarrow> bool" where
  "str_includes p [] \<longleftrightarrow> p = []"
| "str_includes p (c # s) \<longleftrightarrow> starts_with p (c # s) \<or> str_includes p s"

text \<open>\<open>s.indexOf(c)\<close> for a one-character string, \<open>None\<close> standing for -1.\<close>

fun indexOf_char :: "char \<Rightarrow> string \<Rightarrow> nat option" where
  "indexOf_char c [] = None"
| "indexOf_char c (d # s) = (if d = c then Some 0 else map_option Suc (indexOf_char c s))"

section \<open>Bytes\<close>

type_synonym byte = "8 word"

text \<open>\<open>TextEncoder.encode\<close> on code points below 256.\<close>

definition utf8_char :: "char \<Rightarrow> byte list" where
  "utf8_char c = (let n = of_char c :: nat in
     if n < 128 then [of_nat n] else [of_nat (192 + n div 64), of_nat (128 + n mod 64)])"

definition utf8Bytes :: "string \<Rightarrow> byte list" where
  "utf8Bytes s = concat (map utf8_char s)"

text \<open>\<open>Buffer.from(s, "hex")\<close>: stops at the first pair that is not two hex digits.\<close>

fun hex_to_bytes :: "string \<Rightarrow> byte list" where
  "hex_to_bytes (a # b # s) =
     (if is_hex_char a \<and> is_hex_char b
      then of_nat (16 * hex_val a + hex_val b) # hex_to_bytes s else [])"
| "hex_to_bytes _ = []"

definition byte_to_hex :: "byte \<Rightarrow> string" where
  "byte_to_hex b = [hex_digit (unat b div 16), hex_digit (unat b mod 16)]"

definition bytes_to_hex :: "byte list \<Rightarrow> string" where
  "bytes_to_hex bs = concat (map byte_to_hex bs)"

section \<open>JavaScript numbers\<close>

datatype js_number = Finite rat | NonFinite

definition isInteger :: "js_number \<Rightarrow> bool" where
  "isInteger x = (case x of Finite r \<Rightarrow> snd (quotient_of r) = 1 | NonFinite \<Rightarrow> False)"

text \<open>\<open>Math.round\<close>: halves are rounded towards plus infinity.\<close>

definition js_round :: "rat \<Rightarrow> int" where
  "js_round x = \<lfloor>x + 1 / 2\<rfloor>"

section \<open>Sets in insertion order\<close>

text \<open>\<open>new Set(xs)\<close> and \<open>Set.prototype.add\<close>: the first occurrence keeps its place.\<close>

definition set_add :: "'a \<Rightarrow> 'a list \<Rightarrow> 'a list" where
  "set_add x xs = (if x \<in> set xs then xs else xs @ [x])"

definition js_Set :: "'a list \<Rightarrow> 'a list" where
  "js_Set xs = foldl (\<lambda>s x. set_add x s) [] xs"

lemma set_set_add [simp]: "set (set_add x xs) = insert x (set xs)"
  by (auto simp: set_add_def)

lemma distinct_set_add [simp]: "distinct (set_add x xs) \<longleftrightarrow> distinct xs"
  by (auto simp: set_add_def)

lemma foldl_set_add:
  "set (foldl (\<lambda>s x. set_add x s) acc xs) = set acc \<union> set xs"
  "distinct (foldl (\<lambda>s x. set_add x s) acc xs) \<longleftrightarrow> distinct acc"
  by (induction xs arbitrary: acc) auto

lemma foldl_set_add_distinct:
  "distinct (acc @ xs) \<Longrightarrow> foldl (\<lambda>s x. set_add x s) acc xs = acc @ xs"
  by (induction xs arbitrary: acc) (auto simp: set_add_def)

lemma js_Set_simps [simp]:
  "set (js_Set xs) = set xs" "distinct (js_Set xs)"
  by (simp_all add: js_Set_def foldl_set_add)

lemma js_Set_distinct: "distinct xs \<Longrightarrow> js_Set xs = xs"
  by (simp add: js_Set_def foldl_set_add_distinct)

section \<open>Lemmas on strings and bytes\<close>

lemma unat_byte_less [simp]: "unat (b :: byte) < 256"
proof -
  have "unat b < 2 ^ LENGTH(8)" by (rule unsigned_less)
  then show ?thesis by simp
qed

lemma hex_digit_props:
  assumes "n < 16"
  shows "is_hex_char (hex_digit n)" and "hex_val (hex_digit n) = n"
    and "lower_char (hex_digit n) = hex_digit n"
  using assms by (auto simp: is_hex_char_def hex_digit_def hex_val_def lower_char_def Let_def)

lemma hex_to_bytes_byte: "hex_to_bytes (byte_to_hex b @ s) = b # hex_to_bytes s"
proof -
  have "unat b div 16 < 16" and "unat b mod 16 < 16" using unat_byte_less [of b] by linarith+
  then show ?thesis by (simp add: byte_to_hex_def hex_digit_props)
qed

lemma hex_to_bytes_to_hex [codec_simps]: "hex_to_bytes (bytes_to_hex bs) = bs"
  by (induction bs) (simp_all add: bytes_to_hex_def hex_to_bytes_byte)

lemma length_bytes_to_hex [simp]: "length (bytes_to_hex bs) = 2 * length bs"
  by (induction bs) (simp_all add: bytes_to_hex_def byte_to_hex_def)

lemma byte_to_hex_chars: "list_all is_hex_char (byte_to_hex b) \<and> map lower_char (byte_to_hex b) = byte_to_hex b"
proof -
  have "unat b div 16 < 16" and "unat b mod 16 < 16" using unat_byte_less [of b] by linarith+
  then show ?thesis by (simp add: byte_to_hex_def hex_digit_props)
qed

lemma bytes_to_hex_chars [simp]: "list_all is_hex_char (bytes_to_hex bs)"
  by (induction bs) (simp_all add: bytes_to_hex_def byte_to_hex_chars list_all_append)

lemma toLowerCase_bytes_to_hex [simp]: "toLowerCase (bytes_to_hex bs) = bytes_to_hex bs"
  by (induction bs) (simp_all add: bytes_to_hex_def toLowerCase_def byte_to_hex_chars)

lemma inj_bytes_to_hex: "bytes_to_hex a = bytes_to_hex b \<longleftrightarrow> a = b"
  using hex_to_bytes_to_hex by metis

section \<open>Decoding UTF-8\<close>

text \<open>
  \<open>Buffer.toString("utf8")\<close> where every code point is below 256; \<open>None\<close> when the bytes
  hold another code point or are not UTF-8 (JavaScript then produces a string with a
  character outside the model).
\<close>

fun utf8_decode :: "byte list \<Rightarrow> string option" where
  "utf8_decode [] = Some []"
| "utf8_decode (b # bs) =
     (if unat b < 128 then map_option ((#) (char_of (unat b))) (utf8_decode bs)
      else if unat b \<in> {194, 195} then
        (case bs of
           c # bs' \<Rightarrow>
             if 128 \<le> unat c \<and> unat c < 192
             then map_option ((#) (char_of (64 * (unat b - 192) + (unat c - 128)))) (utf8_decode bs')
             else None
         | [] \<Rightarrow> None)
      else None)"

lemma utf8_decode_char:
  "utf8_decode (utf8_char c @ bs) = map_option ((#) c) (utf8_decode bs)"
proof (cases "of_char c < (128 :: nat)")
  case True
  then show ?thesis by (simp add: utf8_char_def Let_def unat_of_nat)
next
  case False
  define n :: nat where "n = of_char c"
  have n: "128 \<le> n" "n < 256" "char_of n = c" using False by (simp_all add: n_def)
  define B D :: byte where "B = of_nat (192 + n div 64)" and "D = of_nat (128 + n mod 64)"
  have B: "unat B = 192 + n div 64"
    unfolding B_def using n(2) by (subst unat_of_nat) simp
  have D: "unat D = 128 + n mod 64"
    unfolding D_def by (subst unat_of_nat) simp
  have enc: "utf8_char c = [B, D]"
    using n(1) by (simp add: utf8_char_def Let_def B_def D_def flip: n_def)
  have "2 \<le> n div 64" and "n div 64 < 4" using n(1,2) by linarith+
  then have 1: "unat B \<in> {194, 195}" by (simp add: B) linarith
  have 2: "64 * (unat B - 192) + (unat D - 128) = n" by (simp add: B D)
  have 3: "\<not> unat B < 128" "128 \<le> unat D" "unat D < 192" by (simp_all add: B D)
  show ?thesis
    unfolding enc by (simp only: append.simps utf8_decode.simps list.case 1 2 3 n(3) if_True if_False simp_thms)
qed

lemma utf8_decode_utf8Bytes [codec_simps]: "utf8_decode (utf8Bytes s) = Some s"
  by (induction s) (simp_all add: utf8Bytes_def utf8_decode_char)

lemma inj_utf8Bytes: "utf8Bytes s = utf8Bytes t \<longleftrightarrow> s = t"
  using utf8_decode_utf8Bytes by (metis option.inject)

lemma length_utf8Bytes: "length (utf8Bytes s) \<le> 2 * length s"
  by (induction s) (auto simp: utf8Bytes_def utf8_char_def Let_def)

section \<open>Trimming and splitting\<close>

lemma js_trim_id:
  assumes "s \<noteq> []" and "\<not> js_whitespace (hd s)" and "\<not> js_whitespace (last s)"
  shows "js_trim s = s"
proof -
  have "dropWhile js_whitespace s = s" using assms(1,2) by (cases s) auto
  moreover have "dropWhile js_whitespace (rev s) = rev s"
    using assms(1,3) by (cases s rule: rev_cases) auto
  ultimately show ?thesis by (simp add: js_trim_def)
qed

lemma hex_char_not_ws: "is_hex_char c \<Longrightarrow> \<not> js_whitespace c"
  by (auto simp: is_hex_char_def js_whitespace_def Let_def)

lemma indexOf_char_append:
  "c \<notin> set s \<Longrightarrow> indexOf_char c (s @ c # t) = Some (length s)"
  by (induction s) auto

lemma length_hex_to_bytes:
  "list_all is_hex_char s \<Longrightarrow> length (hex_to_bytes s) = length s div 2"
  by (induction s rule: hex_to_bytes.induct) auto

lemma length_hex64_bytes: "is_hex64 s \<Longrightarrow> length (hex_to_bytes s) = 32"
  by (simp add: is_hex64_def length_hex_to_bytes)

end
