(* ===== verification/App_Big.thy ===== *)
theory App_Big
  imports Lit_Prelude "HOL-Library.Multiset"
begin

text \<open>
  Arithmetic and sorting as the web app uses them (\<open>app/src/util/bigmath.ts\<close>).

  A \<open>Big\<close> is a decimal number of any length; here it is the rational it denotes, and
  \<open>plus\<close>, \<open>minus\<close>, \<open>mul\<close> and the comparisons are exact. Division and rounding are
  operations of the package \<open>big.js\<close>: they are the fields of the parameter \<open>big_lib\<close>.
  \<open>big_law\<close> is what its documentation promises: division rounds to 20 decimal places,
  half up, and \<open>round\<close> keeps the given number of places with the given mode.
\<close>

section \<open>Decimal numbers\<close>

type_synonym Big = rat

datatype rounding = roundDown | roundHalfUp | roundHalfEven | roundUp

record big_lib =
  big_div :: "rat \<Rightarrow> rat \<Rightarrow> rat"
  big_round :: "rat \<Rightarrow> nat \<Rightarrow> rounding \<Rightarrow> rat"

text \<open>Rounding of a magnitude to an integer.\<close>

definition round_nat :: "rounding \<Rightarrow> rat \<Rightarrow> int" where
  "round_nat rm x =
     (case rm of
        roundDown \<Rightarrow> \<lfloor>x\<rfloor>
      | roundHalfUp \<Rightarrow> \<lfloor>x + 1 / 2\<rfloor>
      | roundHalfEven \<Rightarrow>
          if x - of_int \<lfloor>x\<rfloor> < 1 / 2 \<or> (x - of_int \<lfloor>x\<rfloor> = 1 / 2 \<and> even \<lfloor>x\<rfloor>) then \<lfloor>x\<rfloor> else \<lfloor>x\<rfloor> + 1
      | roundUp \<Rightarrow> \<lceil>x\<rceil>)"

definition round_dec :: "nat \<Rightarrow> rounding \<Rightarrow> rat \<Rightarrow> rat" where
  "round_dec n rm x = sgn x * of_int (round_nat rm (\<bar>x\<bar> * 10 ^ n)) / 10 ^ n"

definition big_law :: "big_lib \<Rightarrow> bool" where
  "big_law B \<longleftrightarrow>
     (\<forall>a b. b \<noteq> 0 \<longrightarrow> big_div B a b = round_dec 20 roundHalfUp (a / b)) \<and>
     (\<forall>x n rm. big_round B x n rm = round_dec n rm x)"

text \<open>A library with these laws, for the witnesses.\<close>

definition exact_big :: big_lib where
  "exact_big = \<lparr>big_div = (\<lambda>a b. round_dec 20 roundHalfUp (a / b)),
                big_round = (\<lambda>x n rm. round_dec n rm x)\<rparr>"

lemma exact_big_law: "big_law exact_big"
  by (simp add: big_law_def exact_big_def)

lemma big_div_eq: "big_law B \<Longrightarrow> b \<noteq> 0 \<Longrightarrow> big_div B a b = round_dec 20 roundHalfUp (a / b)"
  by (simp add: big_law_def)

lemma big_round_eq: "big_law B \<Longrightarrow> big_round B x n rm = round_dec n rm x"
  by (simp add: big_law_def)

lemma round_nat_of_int [simp]: "round_nat rm (of_int i) = i"
  by (cases rm) (simp_all add: round_nat_def floor_eq_iff)

lemma round_dec_nonneg: "0 \<le> x \<Longrightarrow> round_dec n rm x = of_int (round_nat rm (x * 10 ^ n)) / 10 ^ n"
  by (cases "x = 0") (auto simp: round_dec_def sgn_if round_nat_of_int [of rm 0, simplified])

text \<open>A value with at most the given number of decimal places is not changed.\<close>

lemma round_dec_exact:
  assumes "x * 10 ^ n = of_int i"
  shows "round_dec n rm x = x"
proof (cases "0 \<le> x")
  case True
  then have "round_dec n rm x = of_int i / 10 ^ n"
    using assms by (simp add: round_dec_nonneg)
  also have "\<dots> = x" using assms by (simp add: field_simps)
  finally show ?thesis .
next
  case False
  then have "\<bar>x\<bar> * 10 ^ n = of_int (- i)" using assms by simp
  then have "round_nat rm (\<bar>x\<bar> * 10 ^ n) = - i" by (simp only: round_nat_of_int)
  then have "round_dec n rm x = of_int i / 10 ^ n" using False by (simp add: round_dec_def)
  also have "\<dots> = x" using assms by (simp add: field_simps)
  finally show ?thesis .
qed

lemma round_dec_int [simp]: "round_dec n rm (of_int i) = of_int i"
proof -
  have "(of_int i :: rat) * 10 ^ n = of_int (i * 10 ^ n)" by simp
  then show ?thesis by (rule round_dec_exact)
qed

lemma round_dec_down: "0 \<le> x \<Longrightarrow> round_dec 0 roundDown x = of_int \<lfloor>x\<rfloor>"
  by (simp add: round_dec_nonneg round_nat_def)

lemma round_dec_up: "0 \<le> x \<Longrightarrow> round_dec 0 roundUp x = of_int \<lceil>x\<rceil>"
  by (simp add: round_dec_nonneg round_nat_def)

lemma round_half_up_bounds:
  assumes "0 \<le> x"
  shows "round_dec n roundHalfUp x - x \<le> 1 / (2 * 10 ^ n)" "x - round_dec n roundHalfUp x \<le> 1 / (2 * 10 ^ n)"
proof -
  define D :: rat where "D = 10 ^ n"
  define f where "f = \<lfloor>x * D + 1 / 2\<rfloor>"
  have D: "0 < D" by (simp add: D_def)
  have f: "of_int f \<le> x * D + 1 / 2" "x * D + 1 / 2 \<le> of_int f + 1" unfolding f_def by linarith+
  have r: "round_dec n roundHalfUp x = of_int f / D"
    using assms by (simp add: round_dec_nonneg round_nat_def D_def f_def)
  have e: "(x * D + 1 / 2) / D = x + 1 / (2 * D)" using D by (simp add: add_divide_distrib)
  have e': "(of_int f + 1) / D = of_int f / D + 2 / (2 * D)" using D by (simp add: add_divide_distrib)
  have "of_int f / D \<le> x + 1 / (2 * D)" "x + 1 / (2 * D) \<le> of_int f / D + 2 / (2 * D)"
    using divide_right_mono [OF f(1) less_imp_le [OF D]] divide_right_mono [OF f(2) less_imp_le [OF D]]
    unfolding e e' by simp_all
  then show "round_dec n roundHalfUp x - x \<le> 1 / (2 * 10 ^ n)" "x - round_dec n roundHalfUp x \<le> 1 / (2 * 10 ^ n)"
    unfolding r by (simp_all add: add_divide_distrib flip: D_def)
qed

lemma round_half_up_mono: "0 \<le> x \<Longrightarrow> x \<le> y \<Longrightarrow> round_dec n roundHalfUp x \<le> round_dec n roundHalfUp y"
  by (simp add: round_dec_nonneg round_nat_def divide_right_mono floor_mono mult_right_mono)

lemma round_dec_nonneg_result: "0 \<le> x \<Longrightarrow> 0 \<le> round_dec n rm x"
  by (cases rm) (auto simp: round_dec_nonneg round_nat_def intro!: divide_nonneg_nonneg order_trans [OF _ le_of_int_ceiling])

text \<open>
  Dividing whole numbers and rounding down gives the integer quotient, although the
  quotient itself is rounded half up at 20 places first: for a divisor below 10^20 that
  rounding cannot reach the next integer.
\<close>

lemma floor_of_rounded_quotient:
  fixes a b :: int
  assumes "0 \<le> a" and b: "0 < b" "b < 10 ^ 20"
  shows "\<lfloor>round_dec 20 roundHalfUp (of_int a / of_int b)\<rfloor> = a div b"
proof -
  let ?x = "of_int a / of_int b :: rat"
  let ?r = "round_dec 20 roundHalfUp ?x"
  have x0: "0 \<le> ?x" using assms by simp
  have fx: "\<lfloor>?x\<rfloor> = a div b" by (simp add: floor_divide_of_int_eq)
  have low: "of_int (a div b) \<le> ?r"
  proof -
    have "of_int (a div b) \<le> ?x" using fx by linarith
    moreover have "0 \<le> (of_int (a div b) :: rat)" using assms by (simp add: pos_imp_zdiv_nonneg_iff)
    ultimately have "round_dec 20 roundHalfUp (of_int (a div b) :: rat) \<le> ?r"
      by (rule round_half_up_mono [rotated])
    then show ?thesis by simp
  qed
  have gap: "?x + 1 / of_int b \<le> of_int (a div b) + 1"
  proof -
    have "a = b * (a div b) + a mod b" "a mod b < b" using b(1) by simp_all
    then have "a + 1 \<le> b * (a div b) + b" by linarith
    then have "of_int (a + 1) \<le> (of_int (b * (a div b) + b) :: rat)" by (simp only: of_int_le_iff)
    then have "(of_int a + 1) / of_int b \<le> (of_int b * (of_int (a div b) + 1)) / (of_int b :: rat)"
      using b(1) by (intro divide_right_mono) (simp_all add: algebra_simps)
    then show ?thesis using b(1) by (simp add: add_divide_distrib)
  qed
  have "1 / (2 * 10 ^ 20) < (1 / of_int b :: rat)"
  proof -
    have "(of_int b :: rat) < of_int (10 ^ 20)" using b(2) by (simp only: of_int_less_iff)
    then have "(of_int b :: rat) < 2 * 10 ^ 20" by simp
    then show ?thesis using b(1) by (intro divide_strict_left_mono) auto
  qed
  then have "?r < of_int (a div b) + 1"
    using round_half_up_bounds(1) [OF x0, of 20] gap by linarith
  with low show ?thesis by (simp add: floor_eq_iff)
qed

section \<open>Percentages and rates\<close>

definition percentage :: "big_lib \<Rightarrow> Big \<Rightarrow> Big \<Rightarrow> nat \<Rightarrow> rat" where
  "percentage B portion whole decimals =
     (if whole = 0 then 0
      else big_round B (big_div B (portion * 100) whole) decimals roundDown)"

definition toPercent :: "rat \<Rightarrow> rat" where
  "toPercent value = of_int (js_round (value * 100 * 100)) / 100"

definition toBasisPoints :: "rat \<Rightarrow> int" where
  "toBasisPoints value = js_round (toPercent value * 100)"

text \<open>Dividing by zero makes \<open>big.js\<close> throw.\<close>

definition annualPercentRate :: "big_lib \<Rightarrow> Big \<Rightarrow> Big \<Rightarrow> rat \<Rightarrow> rat result" where
  "annualPercentRate B principal_amt premium termInDays =
     (if principal_amt = 0 \<or> termInDays = 0 then Inl (Error ''[big.js] Division by zero'')
      else Inr (big_div B (big_div B premium principal_amt) termInDays * 365))"

text \<open>
  For whole amounts of satoshis the percentage is the integer quotient, hence between 0
  and 100.
\<close>

lemma percentage_whole:
  fixes p w :: int
  assumes "big_law B" and "0 \<le> p" and "0 \<le> w" "w < 10 ^ 20"
  shows "percentage B (of_int p) (of_int w) 0 = of_int (100 * p div w)"
proof (cases "w = 0")
  case False
  have "big_div B (of_int p * 100) (of_int w) = round_dec 20 roundHalfUp (of_int (100 * p) / of_int w)"
    using assms(1) False by (simp add: big_div_eq mult.commute)
  moreover have "0 \<le> round_dec 20 roundHalfUp (of_int (100 * p) / of_int w :: rat)"
    using assms by (intro round_dec_nonneg_result) simp
  ultimately show ?thesis
    using assms False floor_of_rounded_quotient [of "100 * p" w]
    by (simp add: percentage_def big_round_eq round_dec_down)
qed (simp add: percentage_def)

lemma percentage_range:
  fixes p w :: int
  assumes "big_law B" and "0 \<le> p" "p \<le> w" "w < 10 ^ 20"
  shows "0 \<le> percentage B (of_int p) (of_int w) 0" "percentage B (of_int p) (of_int w) 0 \<le> 100"
proof -
  have "0 \<le> 100 * p div w" using assms by (cases "w = 0") (simp_all add: pos_imp_zdiv_nonneg_iff)
  moreover have "100 * p div w \<le> 100"
  proof (cases "w = 0")
    case False
    then have "100 * p div w \<le> 100 * w div w" using assms by (intro zdiv_mono1) auto
    also have "\<dots> = 100" using False by simp
    finally show ?thesis .
  qed simp
  ultimately have "0 \<le> 100 * p div w" "100 * p div w \<le> 100" by linarith+
  then show "0 \<le> percentage B (of_int p) (of_int w) 0" "percentage B (of_int p) (of_int w) 0 \<le> 100"
    using percentage_whole [OF assms(1,2) _ assms(4)] assms(2,3) by simp_all
qed

lemma toBasisPoints_eq: "toBasisPoints value = js_round (value * 10000)"
proof -
  have half: "\<lfloor>1 / 2 :: rat\<rfloor> = 0" by (simp add: floor_eq_iff)
  show ?thesis by (simp add: toBasisPoints_def toPercent_def js_round_def half mult.commute)
qed

section \<open>Sorting\<close>

text \<open>
  \<open>Array.prototype.sort\<close> is stable: an element goes before every later element that the
  comparator does not put strictly before it.
\<close>

fun js_insert :: "('a \<Rightarrow> 'a \<Rightarrow> rat) \<Rightarrow> 'a \<Rightarrow> 'a list \<Rightarrow> 'a list" where
  "js_insert cmp x [] = [x]"
| "js_insert cmp x (y # ys) = (if cmp x y \<le> 0 then x # y # ys else y # js_insert cmp x ys)"

definition js_sort :: "('a \<Rightarrow> 'a \<Rightarrow> rat) \<Rightarrow> 'a list \<Rightarrow> 'a list" where
  "js_sort cmp xs = foldr (js_insert cmp) xs []"

lemma mset_js_insert [simp]: "mset (js_insert cmp x ys) = {#x#} + mset ys"
  by (induction ys) auto

lemma mset_js_sort [simp]: "mset (js_sort cmp xs) = mset xs"
  by (induction xs) (simp_all add: js_sort_def)

lemma set_js_sort [simp]: "set (js_sort cmp xs) = set xs"
  using mset_js_sort [of cmp xs] by (metis set_mset_mset)

lemma length_js_sort [simp]: "length (js_sort cmp xs) = length xs"
  using mset_js_sort [of cmp xs] by (metis size_mset)

text \<open>What a comparator has to satisfy for the order to be meaningful.\<close>

definition comparator :: "('a \<Rightarrow> 'a \<Rightarrow> rat) \<Rightarrow> bool" where
  "comparator cmp \<longleftrightarrow>
     (\<forall>x y. cmp x y \<le> 0 \<or> cmp y x \<le> 0) \<and> (\<forall>x y z. cmp x y \<le> 0 \<longrightarrow> cmp y z \<le> 0 \<longrightarrow> cmp x z \<le> 0)"

lemma sorted_js_insert:
  assumes "comparator cmp" and "sorted_wrt (\<lambda>a b. cmp a b \<le> 0) ys"
  shows "sorted_wrt (\<lambda>a b. cmp a b \<le> 0) (js_insert cmp x ys)"
  using assms(2)
proof (induction ys)
  case (Cons y ys)
  have s: "set (js_insert cmp x ys) = insert x (set ys)"
    using mset_js_insert [of cmp x ys] by (metis set_mset_add_mset_insert set_mset_mset add_mset_add_single union_commute)
  from Cons assms(1) show ?case by (auto simp: s comparator_def)
qed simp

lemma sorted_js_sort:
  "comparator cmp \<Longrightarrow> sorted_wrt (\<lambda>a b. cmp a b \<le> 0) (js_sort cmp xs)"
  by (induction xs) (simp_all add: js_sort_def sorted_js_insert)

lemma comparator_key: "comparator (\<lambda>a b. f a - f b)"
  by (auto simp: comparator_def)

text \<open>\<open>xs.sort(cmp)\<close>, reversed when the list is shown in descending order.\<close>

definition sort_by :: "('a \<Rightarrow> 'a \<Rightarrow> rat) \<Rightarrow> bool \<Rightarrow> 'a list \<Rightarrow> 'a list" where
  "sort_by cmp descending xs =
     (let ys = js_sort cmp xs in if descending then rev ys else ys)"

lemma mset_sort_by [simp]: "mset (sort_by cmp d xs) = mset xs"
  by (simp add: sort_by_def Let_def)

lemma set_sort_by [simp]: "set (sort_by cmp d xs) = set xs"
  by (simp add: sort_by_def Let_def)

end
