(* ===== verification/Js_RegExp.thy ===== *)
theory Js_RegExp
  imports Lit_Prelude
begin

text \<open>
  The regular expressions of the sources, as data, and their matching by backtracking:
  the list of all ways to match, in the order in which JavaScript tries them (an
  earlier alternative first, greedy repetition). \<open>re_exec\<close> is the first match at the
  first position that has one, \<open>re_replace\<close> is \<open>String.prototype.replace\<close> with a
  pattern that is not global.
\<close>

datatype regex =
    Chr char
  | AnyOf string
  | NoneOf string
  | Seq "regex list"
  | Alt "regex list"
  | Opt regex
  | Plus regex
  | Group nat regex
  | Bol
  | Eol
  | Ahead regex

record re_flags =
  ignoreCase :: bool
  multiline :: bool

text \<open>The character before the position, what follows it, and the captured groups.\<close>

record re_state =
  rs_prev :: "char option"
  rs_rest :: string
  rs_caps :: "(nat \<times> string) list"

definition re_canon :: "re_flags \<Rightarrow> char \<Rightarrow> char" where
  "re_canon fl c = (if ignoreCase fl then upper_char c else c)"

definition re_class :: "re_flags \<Rightarrow> string \<Rightarrow> char \<Rightarrow> bool" where
  "re_class fl cs c \<longleftrightarrow> re_canon fl c \<in> set (map (re_canon fl) cs)"

definition re_char :: "(char \<Rightarrow> bool) \<Rightarrow> re_state \<Rightarrow> re_state list" where
  "re_char p st =
     (case rs_rest st of
        [] \<Rightarrow> []
      | c # r \<Rightarrow> if p c then [st\<lparr>rs_prev := Some c, rs_rest := r\<rparr>] else [])"

text \<open>Repetition: each round has to consume something.\<close>

fun re_repeat :: "nat \<Rightarrow> (re_state \<Rightarrow> re_state list) \<Rightarrow> re_state \<Rightarrow> re_state list" where
  "re_repeat 0 f st = [st]"
| "re_repeat (Suc n) f st =
     concat (map (re_repeat n f) (filter (\<lambda>s. length (rs_rest s) < length (rs_rest st)) (f st))) @ [st]"

definition line_break :: "char \<Rightarrow> bool" where
  "line_break c \<longleftrightarrow> of_char c \<in> set [10, 13 :: nat]"

definition re_group :: "nat \<Rightarrow> re_state \<Rightarrow> re_state \<Rightarrow> re_state" where
  "re_group i prior later =
     later\<lparr>rs_caps := AList.update i
       (take (length (rs_rest prior) - length (rs_rest later)) (rs_rest prior)) (rs_caps later)\<rparr>"

fun re_match :: "re_flags \<Rightarrow> regex \<Rightarrow> re_state \<Rightarrow> re_state list" where
  "re_match fl (Chr c) st = re_char (\<lambda>x. re_canon fl x = re_canon fl c) st"
| "re_match fl (AnyOf cs) st = re_char (re_class fl cs) st"
| "re_match fl (NoneOf cs) st = re_char (\<lambda>x. \<not> re_class fl cs x) st"
| "re_match fl (Seq []) st = [st]"
| "re_match fl (Seq (r # rs)) st = concat (map (re_match fl (Seq rs)) (re_match fl r st))"
| "re_match fl (Alt []) st = []"
| "re_match fl (Alt (r # rs)) st = re_match fl r st @ re_match fl (Alt rs) st"
| "re_match fl (Opt r) st = re_match fl r st @ [st]"
| "re_match fl (Plus r) st =
     concat (map (\<lambda>s. re_repeat (length (rs_rest s)) (re_match fl r) s) (re_match fl r st))"
| "re_match fl (Group i r) st = map (re_group i st) (re_match fl r st)"
| "re_match fl Bol st =
     (case rs_prev st of
        None \<Rightarrow> [st]
      | Some c \<Rightarrow> if multiline fl \<and> line_break c then [st] else [])"
| "re_match fl Eol st =
     (case rs_rest st of
        [] \<Rightarrow> [st]
      | c # _ \<Rightarrow> if multiline fl \<and> line_break c then [st] else [])"
| "re_match fl (Ahead r) st =
     (case re_match fl r st of [] \<Rightarrow> [] | s # _ \<Rightarrow> [st\<lparr>rs_caps := rs_caps s\<rparr>])"

text \<open>The first match: what precedes it, its text, what follows it, its groups.\<close>

record re_result =
  rr_before :: string
  rr_text :: string
  rr_after :: string
  rr_caps :: "(nat \<times> string) list"

fun re_search :: "re_flags \<Rightarrow> regex \<Rightarrow> string \<Rightarrow> string \<Rightarrow> re_result option" where
  "re_search fl r prior s =
     (case re_match fl r \<lparr>rs_prev = (if prior = [] then None else Some (hd prior)), rs_rest = s, rs_caps = []\<rparr> of
        st # _ \<Rightarrow> Some \<lparr>rr_before = rev prior, rr_text = take (length s - length (rs_rest st)) s,
                        rr_after = rs_rest st, rr_caps = rs_caps st\<rparr>
      | [] \<Rightarrow> (case s of [] \<Rightarrow> None | c # s' \<Rightarrow> re_search fl r (c # prior) s'))"

definition re_exec :: "re_flags \<Rightarrow> regex \<Rightarrow> string \<Rightarrow> re_result option" where
  "re_exec fl r s = re_search fl r [] s"

definition re_test :: "re_flags \<Rightarrow> regex \<Rightarrow> string \<Rightarrow> bool" where
  "re_test fl r s \<longleftrightarrow> re_exec fl r s \<noteq> None"

text \<open>A group that took no part in the match counts as the empty string.\<close>

definition re_cap :: "re_result \<Rightarrow> nat \<Rightarrow> string" where
  "re_cap m i = (case map_of (rr_caps m) i of None \<Rightarrow> [] | Some t \<Rightarrow> t)"

datatype template = Lit string | Cap nat

definition expand :: "re_result \<Rightarrow> template list \<Rightarrow> string" where
  "expand m ts = concat (map (\<lambda>t. case t of Lit s \<Rightarrow> s | Cap i \<Rightarrow> re_cap m i) ts)"

definition re_replace :: "re_flags \<Rightarrow> regex \<Rightarrow> template list \<Rightarrow> string \<Rightarrow> string" where
  "re_replace fl r ts s =
     (case re_exec fl r s of
        None \<Rightarrow> s
      | Some m \<Rightarrow> rr_before m @ expand m ts @ rr_after m)"

definition chars :: "string \<Rightarrow> regex" where
  "chars s = Seq (map Chr s)"

section \<open>A match is a part of the text\<close>

definition re_suffix :: "string \<Rightarrow> re_state \<Rightarrow> bool" where
  "re_suffix s st \<longleftrightarrow> (\<exists>t. s = t @ rs_rest st)"

lemma re_suffix_trans: "re_suffix s st \<Longrightarrow> re_suffix (rs_rest st) st' \<Longrightarrow> re_suffix s st'"
  by (auto simp: re_suffix_def)

lemma re_char_suffix: "st' \<in> set (re_char p st) \<Longrightarrow> re_suffix (rs_rest st) st'"
proof (cases "rs_rest st")
  case (Cons c r)
  moreover assume "st' \<in> set (re_char p st)"
  ultimately have "rs_rest st = [c] @ rs_rest st'" by (auto simp: re_char_def split: if_splits)
  then show ?thesis unfolding re_suffix_def by blast
qed (simp add: re_char_def)

lemma re_repeat_suffix:
  assumes "\<And>s s'. s' \<in> set (f s) \<Longrightarrow> re_suffix (rs_rest s) s'"
  shows "st' \<in> set (re_repeat n f st) \<Longrightarrow> re_suffix (rs_rest st) st'"
proof (induction n arbitrary: st)
  case (Suc n)
  then show ?case using assms re_suffix_trans by (fastforce simp: re_suffix_def)
qed (simp add: re_suffix_def)

lemma re_match_suffix: "st' \<in> set (re_match fl r st) \<Longrightarrow> re_suffix (rs_rest st) st'"
proof (induction fl r st arbitrary: st' rule: re_match.induct)
  case (5 fl r rs st)
  then show ?case using re_suffix_trans by fastforce
next
  case (9 fl r st)
  from "9.prems" obtain s where s: "s \<in> set (re_match fl r st)"
    "st' \<in> set (re_repeat (length (rs_rest s)) (re_match fl r) s)" by auto
  have "re_suffix (rs_rest s) st'"
    using re_repeat_suffix [of "re_match fl r" st'] "9.IH"(2) s by blast
  with "9.IH"(1) [OF s(1)] show ?case by (rule re_suffix_trans)
qed (auto simp: re_suffix_def re_group_def dest!: re_char_suffix split: option.splits list.splits if_splits)

lemma re_search_parts:
  "re_search fl r prior s = Some m \<Longrightarrow> rev prior @ s = rr_before m @ rr_text m @ rr_after m"
proof (induction fl r prior s rule: re_search.induct)
  case (1 fl r prior s)
  let ?st = "\<lparr>rs_prev = (if prior = [] then None else Some (hd prior)), rs_rest = s, rs_caps = []\<rparr>"
  show ?case
  proof (cases "re_match fl r ?st")
    case Nil
    with 1 show ?thesis by (cases s) (auto simp: Nil)
  next
    case (Cons st l)
    then have "re_suffix s st" using re_match_suffix [of st fl r ?st] by simp
    then obtain t where "s = t @ rs_rest st" by (auto simp: re_suffix_def)
    with "1.prems" Cons show ?thesis by auto
  qed
qed

lemma re_exec_parts: "re_exec fl r s = Some m \<Longrightarrow> s = rr_before m @ rr_text m @ rr_after m"
  using re_search_parts [of fl r "[]" s m] by (simp add: re_exec_def)

end
