(* ===== verification/Js_Base64.thy ===== *)
theory Js_Base64
  imports Lit_Prelude
begin

text \<open>
  Base64 as Node's \<open>Buffer\<close> reads and writes it (used by \<open>l402.ts\<close> for payment hashes
  and by \<open>app/src/util/strings.ts\<close> for the identifiers the daemons send): the reader
  accepts the standard and the URL-safe alphabet, stops at the padding character and
  skips every other character; the writer uses the standard alphabet with padding.
\<close>

section \<open>Reader and writer\<close>

definition base64_val :: "char \<Rightarrow> nat option" where
  "base64_val c = (let n = of_char c :: nat in
     if 65 \<le> n \<and> n \<le> 90 then Some (n - 65)
     else if 97 \<le> n \<and> n \<le> 122 then Some (n - 71)
     else if 48 \<le> n \<and> n \<le> 57 then Some (n + 4)
     else if n = 43 \<or> n = 45 then Some 62
     else if n = 47 \<or> n = 95 then Some 63
     else None)"

definition base64_char :: "nat \<Rightarrow> char" where
  "base64_char n = char_of (if n < 26 then n + 65 else if n < 52 then n + 71
     else if n < 62 then n - 4 else if n = 62 then 43 else 47)"

text \<open>Four sextets make three bytes; an incomplete group makes the bytes it fills.\<close>

fun sextets_to_bytes :: "nat list \<Rightarrow> nat list" where
  "sextets_to_bytes (a # b # c # d # r) =
     (4 * a + b div 16) # (16 * (b mod 16) + c div 4) # (64 * (c mod 4) + d) # sextets_to_bytes r"
| "sextets_to_bytes [a, b, c] = [4 * a + b div 16, 16 * (b mod 16) + c div 4]"
| "sextets_to_bytes [a, b] = [4 * a + b div 16]"
| "sextets_to_bytes _ = []"

definition base64_decode :: "string \<Rightarrow> byte list" where
  "base64_decode s =
     map of_nat (sextets_to_bytes (List.map_filter base64_val (takeWhile (\<lambda>c. c \<noteq> CHR ''='') s)))"

fun encode_groups :: "nat list \<Rightarrow> string" where
  "encode_groups (x # y # z # r) =
     base64_char (x div 4) # base64_char (16 * (x mod 4) + y div 16)
     # base64_char (4 * (y mod 16) + z div 64) # base64_char (z mod 64) # encode_groups r"
| "encode_groups [x, y] =
     [base64_char (x div 4), base64_char (16 * (x mod 4) + y div 16),
      base64_char (4 * (y mod 16)), CHR ''='']"
| "encode_groups [x] =
     [base64_char (x div 4), base64_char (16 * (x mod 4)), CHR ''='', CHR ''='']"
| "encode_groups [] = []"

definition base64_encode :: "byte list \<Rightarrow> string" where
  "base64_encode bs = encode_groups (map unat bs)"

section \<open>Reading what was written\<close>

lemma base64_val_char:
  assumes "n < 64"
  shows "base64_val (base64_char n) = Some n" and "base64_char n \<noteq> CHR ''=''"
proof -
  have "of_char (base64_char n) =
      (if n < 26 then n + 65 else if n < 52 then n + 71
       else if n < 62 then n - 4 else if n = 62 then 43 else 47 :: nat)"
    using assms by (simp add: base64_char_def)
  then show "base64_val (base64_char n) = Some n" and "base64_char n \<noteq> CHR ''=''"
    using assms by (auto simp: base64_val_def Let_def split: if_splits)
qed

lemma decode_encode_groups:
  "(\<And>x. x \<in> set bs \<Longrightarrow> x < 256) \<Longrightarrow>
   sextets_to_bytes (List.map_filter base64_val (takeWhile (\<lambda>c. c \<noteq> CHR ''='') (encode_groups bs))) = bs"
proof (induction bs rule: encode_groups.induct)
  case (1 x y z r)
  have "x < 256" "y < 256" "z < 256" using "1.prems" by auto
  then have "x div 4 < 64" "16 * (x mod 4) + y div 16 < 64" "4 * (y mod 16) + z div 64 < 64" "z mod 64 < 64"
    by linarith+
  moreover have "y div 16 < 16" "z div 64 < 4" using \<open>y < 256\<close> \<open>z < 256\<close> by linarith+
  ultimately show ?case using 1 by (simp add: base64_val_char map_filter_simps)
next
  case (2 x y)
  have "x < 256" "y < 256" using "2.prems" by auto
  then have "x div 4 < 64" "16 * (x mod 4) + y div 16 < 64" "4 * (y mod 16) < 64" by linarith+
  moreover have "y div 16 < 16" using \<open>y < 256\<close> by linarith
  ultimately show ?case by (simp add: base64_val_char map_filter_simps)
next
  case (3 x)
  have "x < 256" using "3.prems" by auto
  then have "x div 4 < 64" "16 * (x mod 4) < 64" by linarith+
  then show ?case by (simp add: base64_val_char map_filter_simps)
qed (simp add: map_filter_simps)

lemma base64_decode_encode [codec_simps]: "base64_decode (base64_encode bs) = bs"
proof -
  have "sextets_to_bytes (List.map_filter base64_val
      (takeWhile (\<lambda>c. c \<noteq> CHR ''='') (encode_groups (map unat bs)))) = map unat bs"
    by (rule decode_encode_groups) auto
  moreover have "map of_nat (map unat bs) = bs"
    by (induction bs) simp_all
  ultimately show ?thesis by (simp add: base64_decode_def base64_encode_def)
qed

end
