(* ===== verification/App_Util.thy ===== *)
theory App_Util
  imports App_Big Js_RegExp Js_Base64
begin

text \<open>
  The helpers of the web app: \<open>app/src/util/strings.ts\<close>, \<open>formatters.ts\<close>,
  \<open>balances.ts\<close>, \<open>constants.ts\<close> and \<open>csv.ts\<close>.
\<close>

section \<open>Strings\<close>

text \<open>\<open>charsToKeep\<close> and \<open>rightCharsToKeep\<close>; an omitted second count is \<open>None\<close>.\<close>

definition ellipseInside :: "string \<Rightarrow> int \<Rightarrow> int option \<Rightarrow> string" where
  "ellipseInside txt charsToKeep rightCharsToKeep =
     (if txt = [] then txt
      else
        (let keep = (if charsToKeep \<le> 0 then 6 else charsToKeep);
             right = (case rightCharsToKeep of None \<Rightarrow> keep | Some r \<Rightarrow> if r = 0 then keep else r)
         in if int (length txt) \<le> keep + right then txt
            else take (nat keep) txt @ ''...'' @ drop (nat (int (length txt) - right)) txt))"

definition irregular :: "(string \<times> string) list" where
  "irregular =
     [(''move'', ''moves''), (''foot'', ''feet''), (''goose'', ''geese''), (''sex'', ''sexes''),
      (''child'', ''children''), (''man'', ''men''), (''tooth'', ''teeth''), (''person'', ''people'')]"

definition uncountable :: "string list" where
  "uncountable =
     [''sheep'', ''fish'', ''deer'', ''moose'', ''series'', ''species'', ''money'', ''rice'', ''information'',
      ''equipment'', ''bison'', ''cod'', ''offspring'', ''pike'', ''salmon'', ''shrimp'', ''swine'', ''trout'',
      ''aircraft'', ''hovercraft'', ''spacecraft'', ''sugar'', ''tuna'', ''you'', ''wood'']"

definition plural_rules :: "(regex \<times> template list) list" where
  "plural_rules =
     [(Seq [Group 1 (chars ''quiz''), Eol], [Cap 1, Lit ''zes'']),
      (Seq [Bol, Group 1 (chars ''ox''), Eol], [Cap 1, Lit ''en'']),
      (Seq [Group 1 (AnyOf ''m|l''), chars ''ouse'', Eol], [Cap 1, Lit ''ice'']),
      (Alt [Seq [Group 1 (Alt [chars ''matr'', chars ''vert'', chars ''ind'']), chars ''ix''],
            Seq [chars ''ex'', Eol]], [Cap 1, Lit ''ices'']),
      (Seq [Group 1 (Alt [chars ''x'', chars ''ch'', chars ''ss'', chars ''sh'']), Eol], [Cap 1, Lit ''es'']),
      (Seq [Group 1 (Alt [NoneOf ''aeiouy'', chars ''qu'']), Chr (CHR ''y''), Eol], [Cap 1, Lit ''ies'']),
      (Seq [Group 1 (chars ''hive''), Eol], [Cap 1, Lit ''s'']),
      (Seq [Alt [Seq [Group 1 (NoneOf ''f''), chars ''fe''], Seq [Group 2 (AnyOf ''lr''), Chr (CHR ''f'')]], Eol],
        [Cap 1, Cap 2, Lit ''ves'']),
      (Seq [Group 1 (Alt [chars ''shea'', chars ''lea'', chars ''loa'', chars ''thie'']), Chr (CHR ''f''), Eol],
        [Cap 1, Lit ''ves'']),
      (Seq [chars ''sis'', Eol], [Lit ''ses'']),
      (Seq [Group 1 (AnyOf ''ti''), chars ''um'', Eol], [Cap 1, Lit ''a'']),
      (Seq [Group 1 (Alt [chars ''tomat'', chars ''potat'', chars ''ech'', chars ''her'', chars ''vet'']),
            Chr (CHR ''o''), Eol], [Cap 1, Lit ''oes'']),
      (Seq [Group 1 (chars ''bu''), Chr (CHR ''s''), Eol], [Cap 1, Lit ''ses'']),
      (Seq [Group 1 (chars ''alias''), Eol], [Cap 1, Lit ''es'']),
      (Seq [Group 1 (chars ''octop''), chars ''us'', Eol], [Cap 1, Lit ''i'']),
      (Seq [Group 1 (Alt [chars ''ax'', chars ''test'']), chars ''is'', Eol], [Cap 1, Lit ''es'']),
      (Seq [Group 1 (chars ''us''), Eol], [Cap 1, Lit ''es'']),
      (Seq [Group 1 (Plus (NoneOf ''s'')), Eol], [Cap 1, Lit ''s''])]"

definition flag_i :: re_flags where
  "flag_i = \<lparr>ignoreCase = True, multiline = False\<rparr>"

fun first_rule :: "(regex \<times> template list) list \<Rightarrow> string \<Rightarrow> string option" where
  "first_rule [] word = None"
| "first_rule ((r, t) # rules) word =
     (if re_test flag_i r word then Some (re_replace flag_i r t word) else first_rule rules word)"

definition plural :: "rat \<Rightarrow> string \<Rightarrow> string" where
  "plural amount word =
     (if amount = 1 then word
      else if toLowerCase word \<in> set uncountable then word
      else case first_rule (map (\<lambda>(w, p). (Seq [chars w, Eol], [Lit p])) irregular) word of
             Some p \<Rightarrow> p
           | None \<Rightarrow> (case first_rule plural_rules word of Some p \<Rightarrow> p | None \<Rightarrow> word))"

definition domainRegex :: regex where
  "domainRegex =
     Seq [Bol, Opt (Seq [chars ''http'', Opt (Chr (CHR ''s'')), chars ''://'']),
          Opt (Seq [Plus (NoneOf [CHR ''@'', CHR 0x0A]), Chr (CHR ''@'')]),
          Opt (chars ''www.''), Group 1 (Plus (NoneOf [CHR '':'', CHR ''/'', CHR 0x0A, CHR ''?'', CHR ''='']))]"

definition extractDomain :: "string \<Rightarrow> string" where
  "extractDomain url =
     (case re_exec \<lparr>ignoreCase = True, multiline = True\<rparr> domainRegex url of
        Some m \<Rightarrow> re_cap m 1
      | None \<Rightarrow> [])"

definition hex :: "string \<Rightarrow> bool \<Rightarrow> string" where
  "hex value reverse =
     (if value = [] then value
      else (let converted = base64_decode value in
            bytes_to_hex (if reverse then rev converted else converted)))"

definition b64 :: "string \<Rightarrow> bool \<Rightarrow> string" where
  "b64 value reverse =
     (let converted = hex_to_bytes value in
      base64_encode (if reverse then rev converted else converted))"

section \<open>Amounts and times\<close>

datatype Unit = sats | bits | btc

record UnitFormat =
  uf_suffix :: string
  uf_name :: string
  uf_denominator :: rat
  uf_decimals :: nat

definition Units :: "Unit \<Rightarrow> UnitFormat" where
  "Units u =
     (case u of
        sats \<Rightarrow> \<lparr>uf_suffix = ''sats'', uf_name = ''Satoshis'', uf_denominator = 1, uf_decimals = 0\<rparr>
      | bits \<Rightarrow> \<lparr>uf_suffix = ''bits'', uf_name = ''Bits'', uf_denominator = 100, uf_decimals = 2\<rparr>
      | btc \<Rightarrow> \<lparr>uf_suffix = ''BTC'', uf_name = ''Bitcoin'', uf_denominator = 100000000, uf_decimals = 8\<rparr>)"

text \<open>\<open>fmt lang decimals\<close> is \<open>Intl.NumberFormat\<close> with that many fraction digits.\<close>

type_synonym number_format = "string \<Rightarrow> nat \<Rightarrow> rat \<Rightarrow> string"

record FormatSatsOptions =
  fo_unit :: "Unit option"
  fo_withSuffix :: "bool option"
  fo_lang :: "string option"

definition or_default :: "'a option \<Rightarrow> 'a \<Rightarrow> 'a" where
  "or_default x d = (case x of Some v \<Rightarrow> v | None \<Rightarrow> d)"

definition formatSats :: "big_lib \<Rightarrow> number_format \<Rightarrow> Big \<Rightarrow> FormatSatsOptions \<Rightarrow> string" where
  "formatSats B fmt amount options =
     (let u = or_default (fo_unit options) sats;
          withSuffix = or_default (fo_withSuffix options) True;
          lang = or_default (fo_lang options) ''en-US'';
          txt = fmt lang (uf_decimals (Units u)) (big_div B amount (uf_denominator (Units u)))
      in if withSuffix then txt @ '' '' @ uf_suffix (Units u) else txt)"

definition formatUnit :: "big_lib \<Rightarrow> number_format \<Rightarrow> Unit \<Rightarrow> string" where
  "formatUnit B fmt u =
     (let btcValue = formatSats B fmt (uf_denominator (Units u))
            \<lparr>fo_unit = Some btc, fo_withSuffix = None, fo_lang = None\<rparr>
      in uf_name (Units u) @ '' ('' @ btcValue @ '')'')"

definition formatTime :: "int \<Rightarrow> string" where
  "formatTime totalSeconds =
     (if totalSeconds \<le> 0 then ''-''
      else
        (let hours = totalSeconds div 3600;
             remainingSecs = totalSeconds mod 3600;
             minutes = remainingSecs div 60;
             seconds = remainingSecs mod 60;
             parts = (if hours \<noteq> 0 then [int_to_string hours @ ''h''] else []) @
                     (if hours \<noteq> 0 \<or> minutes \<noteq> 0 then [int_to_string minutes @ ''m''] else []) @
                     [int_to_string seconds @ ''s'']
         in join '' '' parts))"

definition BLOCKS_PER_DAY :: rat where
  "BLOCKS_PER_DAY = 144"

definition blocksToTime :: "rat \<Rightarrow> string" where
  "blocksToTime blocks =
     (let show_as = (\<lambda>n word. int_to_string n @ '' '' @ plural (of_int n) word);
          days = js_round (blocks / BLOCKS_PER_DAY)
      in if days < 7 then show_as days ''day''
         else if days < 28 then show_as (js_round (of_int days / 7)) ''week''
         else if days < 365 - 30 then show_as (js_round (of_int days / 30)) ''month''
         else show_as (js_round (of_int days / 365)) ''year'')"

section \<open>Channel balances\<close>

datatype BalanceMode = receive | send | routing

datatype BalanceStatus = ok | warn | danger

record BalanceConstraint =
  bc_min :: rat
  bc_max :: rat
  bidirectional :: bool

definition BalanceModes :: "BalanceMode \<Rightarrow> BalanceStatus \<Rightarrow> BalanceConstraint" where
  "BalanceModes mode status =
     (case mode of
        receive \<Rightarrow>
          (case status of
             ok \<Rightarrow> \<lparr>bc_min = 0, bc_max = 33, bidirectional = False\<rparr>
           | warn \<Rightarrow> \<lparr>bc_min = 33, bc_max = 66, bidirectional = False\<rparr>
           | danger \<Rightarrow> \<lparr>bc_min = 66, bc_max = 100, bidirectional = False\<rparr>)
      | send \<Rightarrow>
          (case status of
             ok \<Rightarrow> \<lparr>bc_min = 66, bc_max = 100, bidirectional = False\<rparr>
           | warn \<Rightarrow> \<lparr>bc_min = 33, bc_max = 66, bidirectional = False\<rparr>
           | danger \<Rightarrow> \<lparr>bc_min = 0, bc_max = 33, bidirectional = False\<rparr>)
      | routing \<Rightarrow>
          (case status of
             ok \<Rightarrow> \<lparr>bc_min = 50, bc_max = 70, bidirectional = True\<rparr>
           | warn \<Rightarrow> \<lparr>bc_min = 70, bc_max = 85, bidirectional = True\<rparr>
           | danger \<Rightarrow> \<lparr>bc_min = 85, bc_max = 100, bidirectional = True\<rparr>))"

definition satisfies :: "rat \<Rightarrow> BalanceConstraint \<Rightarrow> bool" where
  "satisfies pct constraint \<longleftrightarrow>
     (let pct = (if bidirectional constraint \<and> pct < 50 then 99 - pct else pct)
      in bc_min constraint \<le> pct \<and> pct < bc_max constraint)"

definition getBalanceStatus :: "big_lib \<Rightarrow> Big \<Rightarrow> Big \<Rightarrow> (BalanceStatus \<Rightarrow> BalanceConstraint) \<Rightarrow> BalanceStatus" where
  "getBalanceStatus B local capacity config =
     (let pct = percentage B local capacity 0 in
      if satisfies pct (config danger) then danger
      else if satisfies pct (config warn) then warn
      else ok)"

record theme_colors =
  gray :: string
  pink :: string
  gold :: string
  green :: string

definition statusToColor :: "BalanceStatus \<Rightarrow> bool \<Rightarrow> theme_colors \<Rightarrow> string" where
  "statusToColor level active colors =
     (if \<not> active then gray colors
      else if level = danger then pink colors
      else if level = warn then gold colors
      else green colors)"

section \<open>CSV export\<close>

text \<open>
  The values an exported object can hold, with the text a template literal makes of
  them. A \<open>Big\<close> is an object, so it is truthy even when it is zero.
\<close>

datatype js_value = VStr string | VInt int | VBig int | VBool bool | VUndefined

definition value_truthy :: "js_value \<Rightarrow> bool" where
  "value_truthy v = (case v of VStr s \<Rightarrow> s \<noteq> [] | VInt i \<Rightarrow> i \<noteq> 0 | VBig i \<Rightarrow> True | VBool b \<Rightarrow> b | VUndefined \<Rightarrow> False)"

definition value_text :: "js_value \<Rightarrow> string" where
  "value_text v =
     (case v of VStr s \<Rightarrow> s | VInt i \<Rightarrow> int_to_string i | VBig i \<Rightarrow> int_to_string i
      | VBool b \<Rightarrow> if b then ''true'' else ''false'' | VUndefined \<Rightarrow> ''undefined'')"

definition csv_wrap :: "js_value \<Rightarrow> string" where
  "csv_wrap v = [CHR 0x22] @ value_text v @ [CHR 0x22]"

definition csv_row :: "js_value list \<Rightarrow> string" where
  "csv_row vs = join '','' (map csv_wrap vs)"

definition convert :: "(string \<times> string) list \<Rightarrow> (string \<Rightarrow> js_value) list \<Rightarrow> string" where
  "convert columns data =
     join [CHR 0x0A]
       (csv_row (map (VStr \<circ> snd) columns) #
        map (\<lambda>obj. csv_row (map (\<lambda>(dataKey, _).
               let value = obj dataKey in if value_truthy value then value else VStr []) columns)) data)"

section \<open>Properties\<close>

lemma hex_digit_of_val: "is_hex_char c \<Longrightarrow> hex_digit (hex_val c) = lower_char c"
  by (auto simp: is_hex_char_def hex_digit_def hex_val_def lower_char_def Let_def)

lemma hex_val_less: "is_hex_char c \<Longrightarrow> hex_val c < 16"
  by (auto simp: is_hex_char_def hex_val_def Let_def)

lemma byte_to_hex_of_digits:
  assumes "is_hex_char a" "is_hex_char b"
  shows "byte_to_hex (of_nat (16 * hex_val a + hex_val b)) = [lower_char a, lower_char b]"
proof -
  have "16 * hex_val a + hex_val b < 256" using assms hex_val_less [of a] hex_val_less [of b] by linarith
  then have "unat (of_nat (16 * hex_val a + hex_val b) :: byte) = 16 * hex_val a + hex_val b"
    by (subst unat_of_nat) simp
  then show ?thesis using assms hex_val_less [of b] by (simp add: byte_to_hex_def hex_digit_of_val)
qed

lemma bytes_to_hex_to_bytes:
  "list_all is_hex_char s \<Longrightarrow> even (length s) \<Longrightarrow> bytes_to_hex (hex_to_bytes s) = toLowerCase s"
  by (induction s rule: hex_to_bytes.induct)
    (simp_all add: bytes_to_hex_def byte_to_hex_of_digits toLowerCase_def del: of_nat_add of_nat_mult)

lemma encode_groups_Nil: "encode_groups bs = [] \<longleftrightarrow> bs = []"
  by (cases bs rule: encode_groups.cases) simp_all

text \<open>
  Identifiers survive the change of encoding: turning a hexadecimal identifier into
  base64 for a daemon and back with \<open>hex\<close>, in either byte order, gives the identifier in
  lower case.
\<close>

lemma hex_b64_roundtrip:
  assumes "list_all is_hex_char v" and "even (length v)" and "v \<noteq> []"
  shows "hex (b64 v reverse) reverse = toLowerCase v"
proof -
  obtain a b s where v: "v = a # b # s" using assms(2,3) by (cases v rule: hex_to_bytes.cases) auto
  then have "hex_to_bytes v \<noteq> []" using assms(1) by simp
  then have "b64 v reverse \<noteq> []" by (simp add: b64_def base64_encode_def encode_groups_Nil Let_def)
  then show ?thesis
    using bytes_to_hex_to_bytes [OF assms(1,2)] by (auto simp: hex_def b64_def codec_simps Let_def)
qed

lemma hex_b64_roundtrip_witness: "hex (b64 ''AbCd01'' True) True = ''abcd01''"
proof -
  have low: "toLowerCase ''AbCd01'' = ''abcd01''" by code_simp
  have "list_all is_hex_char ''AbCd01''" by code_simp
  then show ?thesis using hex_b64_roundtrip [of "''AbCd01''" True] by (simp add: low)
qed

text \<open>A reader of CSV text all of whose fields are quoted: the rows, with their fields.\<close>

function csv_read :: "string \<Rightarrow> string list list option" where
  "csv_read s =
     (case s of
        q # r \<Rightarrow>
          if q \<noteq> CHR 0x22 then None
          else
            (let f = takeWhile (\<lambda>c. c \<noteq> CHR 0x22) r in
             case dropWhile (\<lambda>c. c \<noteq> CHR 0x22) r of
               [] \<Rightarrow> None
             | _ # [] \<Rightarrow> Some [[f]]
             | _ # c # t \<Rightarrow>
                 if length t < length s then
                   (if c = CHR '','' then
                      (case csv_read t of Some (row # rows) \<Rightarrow> Some ((f # row) # rows) | _ \<Rightarrow> None)
                    else if c = CHR 0x0A then map_option ((#) [f]) (csv_read t)
                    else None)
                 else None)
      | [] \<Rightarrow> None)"
  by pat_completeness auto
termination
  by (relation "measure length") auto

declare csv_read.simps [simp del]

lemma value_text_VStr [simp]: "value_text (VStr s) = s"
  by (simp add: value_text_def)

definition plain_text :: "string \<Rightarrow> bool" where
  "plain_text t \<longleftrightarrow> CHR 0x22 \<notin> set t"

lemma csv_read_field:
  assumes "plain_text f"
  shows "csv_read ([CHR 0x22] @ f @ [CHR 0x22]) = Some [[f]]"
    and "csv_read ([CHR 0x22] @ f @ [CHR 0x22] @ CHR '','' # t) =
       (case csv_read t of Some (row # rows) \<Rightarrow> Some ((f # row) # rows) | _ \<Rightarrow> None)"
    and "csv_read ([CHR 0x22] @ f @ [CHR 0x22] @ CHR 0x0A # t) = map_option ((#) [f]) (csv_read t)"
proof -
  have tw: "takeWhile (\<lambda>c. c \<noteq> CHR 0x22) (f @ CHR 0x22 # u) = f"
    and dw: "dropWhile (\<lambda>c. c \<noteq> CHR 0x22) (f @ CHR 0x22 # u) = CHR 0x22 # u" for u
    using assms by (auto simp: plain_text_def takeWhile_append dropWhile_append)
  show "csv_read ([CHR 0x22] @ f @ [CHR 0x22]) = Some [[f]]"
    "csv_read ([CHR 0x22] @ f @ [CHR 0x22] @ CHR '','' # t) =
       (case csv_read t of Some (row # rows) \<Rightarrow> Some ((f # row) # rows) | _ \<Rightarrow> None)"
    "csv_read ([CHR 0x22] @ f @ [CHR 0x22] @ CHR 0x0A # t) = map_option ((#) [f]) (csv_read t)"
    by (subst csv_read.simps, simp add: tw dw Let_def split: option.split list.split)+
qed

lemma join_simps [simp]: "join sep [x] = x" "join sep (x # y # xs) = x @ sep @ join sep (y # xs)"
  by (simp_all add: join_def)

lemma csv_read_row:
  assumes "vs \<noteq> []" and "list_all (\<lambda>v. plain_text (value_text v)) vs"
  shows "csv_read (csv_row vs) = Some [map value_text vs]"
    and "csv_read (csv_row vs @ CHR 0x0A # t) = map_option ((#) (map value_text vs)) (csv_read t)"
proof -
  have "csv_read (csv_row vs) = Some [map value_text vs] \<and>
    csv_read (csv_row vs @ CHR 0x0A # t) = map_option ((#) (map value_text vs)) (csv_read t)"
    using assms
  proof (induction vs)
    case (Cons v vs)
    note field = csv_read_field [of "value_text v", simplified]
    show ?case
    proof (cases vs)
      case Nil
      with Cons.prems show ?thesis using field by (simp add: csv_row_def csv_wrap_def)
    next
      case (Cons w ws)
      then have IH: "csv_read (csv_row vs) = Some [map value_text vs]"
        "csv_read (csv_row vs @ CHR 0x0A # t) = map_option ((#) (map value_text vs)) (csv_read t)"
        using Cons.IH Cons.prems by auto
      have row: "csv_row (v # vs) = [CHR 0x22] @ value_text v @ [CHR 0x22] @ CHR '','' # csv_row vs"
        by (simp add: csv_row_def csv_wrap_def Cons)
      show ?thesis
        using Cons.prems field(2) IH unfolding row by (cases "csv_read t") simp_all
    qed
  qed simp
  then show "csv_read (csv_row vs) = Some [map value_text vs]"
    "csv_read (csv_row vs @ CHR 0x0A # t) = map_option ((#) (map value_text vs)) (csv_read t)" by auto
qed

lemma csv_read_rows:
  assumes "rows \<noteq> []" and "\<And>vs. vs \<in> set rows \<Longrightarrow> vs \<noteq> [] \<and> list_all (\<lambda>v. plain_text (value_text v)) vs"
  shows "csv_read (join [CHR 0x0A] (map csv_row rows)) = Some (map (map value_text) rows)"
  using assms
proof (induction rows)
  case (Cons vs rows)
  then show ?case
    by (cases rows) (simp_all add: csv_read_row)
qed simp

definition cell_text :: "js_value \<Rightarrow> string" where
  "cell_text v = (if value_truthy v then value_text v else [])"

text \<open>
  An exported file can be read back: when no header and no exported value contains a
  double quote, reading the CSV text yields the header row and then one row per object,
  with the text of each of its columns, in order.
\<close>

lemma csv_roundtrip:
  assumes "columns \<noteq> []" and "\<forall>(key, header) \<in> set columns. plain_text header"
    and "\<forall>obj \<in> set data. \<forall>(key, header) \<in> set columns. plain_text (value_text (obj key))"
  shows "csv_read (convert columns data) =
    Some (map snd columns # map (\<lambda>obj. map (\<lambda>(key, _). cell_text (obj key)) columns) data)"
proof -
  let ?cells = "\<lambda>obj. map (\<lambda>(dataKey, _). if value_truthy (obj dataKey) then obj dataKey else VStr []) columns"
  let ?rows = "map (VStr \<circ> snd) columns # map ?cells data"
  have "csv_read (join [CHR 0x0A] (map csv_row ?rows)) = Some (map (map value_text) ?rows)"
  proof (rule csv_read_rows)
    have "list_all (\<lambda>v. plain_text (value_text v)) (map (VStr \<circ> snd) columns)"
      using assms(2) by (auto simp: list_all_iff)
    moreover have "list_all (\<lambda>v. plain_text (value_text v)) (?cells obj)" if "obj \<in> set data" for obj
      using assms(3) that by (fastforce simp: list_all_iff plain_text_def split: if_splits)
    moreover fix vs assume "vs \<in> set ?rows"
    ultimately show "vs \<noteq> [] \<and> list_all (\<lambda>v. plain_text (value_text v)) vs"
      using assms(1) by (elim set_ConsD [THEN disjE]) (auto simp del: list_all_iff)
  qed simp
  moreover have "map value_text (?cells obj) = map (\<lambda>(key, _). cell_text (obj key)) columns" for obj
    by (auto simp: cell_text_def)
  moreover have "map value_text (map (VStr \<circ> snd) columns) = map snd columns"
    by simp
  ultimately show ?thesis by (simp add: convert_def Let_def comp_def case_prod_beta)
qed

definition demo_csv_columns :: "(string \<times> string) list" where
  "demo_csv_columns = [(''id'', ''Swap ID''), (''amount'', ''Amount'')]"

lemma csv_roundtrip_witness:
  "csv_read (convert demo_csv_columns [\<lambda>k. if k = ''id'' then VStr ''a,b'' else VInt 0]) =
     Some [[''Swap ID'', ''Amount''], [''a,b'', []]]"
proof -
  have zero: "int_to_string 0 = ''0''" by code_simp
  show ?thesis using csv_roundtrip [of demo_csv_columns "[\<lambda>k. if k = ''id'' then VStr ''a,b'' else VInt 0]"]
  by (simp add: demo_csv_columns_def plain_text_def cell_text_def value_truthy_def value_text_def zero)
qed

text \<open>The status as a function of the whole-number percentage of the local balance.\<close>

definition status_of_percent :: "BalanceMode \<Rightarrow> int \<Rightarrow> BalanceStatus" where
  "status_of_percent mode p =
     (let q = (case mode of receive \<Rightarrow> p | send \<Rightarrow> 99 - p | routing \<Rightarrow> max p (99 - p));
          warn_at = (case mode of routing \<Rightarrow> 70 | send \<Rightarrow> 34 | receive \<Rightarrow> 33);
          danger_at = (case mode of routing \<Rightarrow> 85 | send \<Rightarrow> 67 | receive \<Rightarrow> 66)
      in if q < warn_at then ok else if q < danger_at then warn else if q < 100 then danger else ok)"

text \<open>
  The status of a channel is decided by the integer percentage of its capacity that is
  local: in each mode the three statuses are consecutive ranges of that percentage. In
  particular the receiving and routing modes report a channel whose whole capacity is
  local as \<open>ok\<close>, because their worst range ends just below 100.
\<close>

lemma getBalanceStatus_by_percent:
  fixes local capacity :: int
  assumes "big_law B" and "0 \<le> local" "local \<le> capacity" "0 < capacity" "capacity < 10 ^ 20"
  shows "getBalanceStatus B (of_int local) (of_int capacity) (BalanceModes mode) =
      status_of_percent mode (100 * local div capacity) \<and>
    (local = capacity \<longrightarrow>
      getBalanceStatus B (of_int local) (of_int capacity) (BalanceModes mode) = ok)"
proof -
  let ?p = "100 * local div capacity"
  have pct: "percentage B (of_int local) (of_int capacity) 0 = of_int ?p"
    using assms by (intro percentage_whole) auto
  then have p: "0 \<le> ?p" "?p \<le> 100" using percentage_range [OF assms(1,2,3,5)] by simp_all
  have mirror: "99 - (of_int ?p :: rat) = of_int (99 - ?p)" by simp
  have status: "getBalanceStatus B (of_int local) (of_int capacity) (BalanceModes mode) = status_of_percent mode ?p"
    using p unfolding getBalanceStatus_def pct Let_def satisfies_def mirror
    by (cases mode) (auto simp: BalanceModes_def status_of_percent_def max_def)
  moreover have "local = capacity \<Longrightarrow> status_of_percent mode ?p = ok"
    using assms(4) by (cases mode) (simp_all add: status_of_percent_def)
  ultimately show ?thesis by metis
qed

lemma getBalanceStatus_by_percent_witness:
  "getBalanceStatus exact_big 700 1000 (BalanceModes receive) = danger \<and>
   getBalanceStatus exact_big 1000 1000 (BalanceModes receive) = ok"
  using getBalanceStatus_by_percent [OF exact_big_law, of 700 1000 receive]
    getBalanceStatus_by_percent [OF exact_big_law, of 1000 1000 receive]
  by (simp add: status_of_percent_def)

end
