(* ===== verification/App_Shell.thy ===== *)
theory App_Shell
  imports App_Util
begin

text \<open>
  The state every part of the web app shares: \<open>app/src/store/views/appView.ts\<close>
  (navigation, tour, alerts, error handling) and
  \<open>app/src/store/stores/settingsStore.ts\<close>.

  The app's state is a chain of record extensions that starts with \<open>app_shell\<close>; every
  operation is polymorphic in the fields added later, so it applies to the state of the
  whole app as it stands. An asynchronous call that an operation starts without waiting
  for it is recorded in \<open>calls\<close>; the effect of its completion is a function of its own.
  \<open>Date.now()\<close> is the field \<open>clock\<close>.
\<close>

section \<open>State\<close>

datatype async_call =
    FetchPendingChannels | FetchAliases | FetchFeeRates | FetchChannelsThrottled
  | FetchPendingChannelsThrottled | FetchBalancesThrottled | FetchOrdersThrottled
  | FetchLeasesThrottled | FetchLatestBatchThrottled | FetchAccountsThrottled
  | PruneSwappedChannelsThrottled | FetchAccounts | FetchAllData | ConnectToStreams
  | SubscribeToStreams | UnsubscribeFromStreams

text \<open>An error that reaches the stores: a rejected login, or any other failure.\<close>

datatype app_error = AuthenticationError string | AppError string

type_synonym 'a api_result = "app_error + 'a"

definition error_message :: "app_error \<Rightarrow> string" where
  "error_message e = (case e of AuthenticationError m \<Rightarrow> m | AppError m \<Rightarrow> m)"

text \<open>Text shown to the user: given literally, or a key of the translation files.\<close>

datatype ui_text = Plain string | Translated string

datatype alert_type = Info | Success | Warning | ErrorAlert | DefaultAlert

record Alert =
  al_id :: int
  al_type :: alert_type
  al_title :: "ui_text option"
  al_message :: ui_text
  al_ms :: "int option"

record SortParams =
  so_field :: "string option"
  so_descending :: bool

datatype graph_view = MyNode | Network

record app_shell =
  clock :: int
  calls :: "async_call list"
  pathname :: string
  authenticated :: bool
  alerts :: "(int \<times> Alert) list"
  processingSwapsVisible :: bool
  tourVisible :: bool
  tourActiveStep :: int
  graphViewMode :: graph_view

record app_settings = app_shell +
  sidebarVisible :: bool
  autoCollapse :: bool
  tourAutoShown :: bool
  unit :: Unit
  balanceMode :: BalanceMode
  bitcoinTxUrl :: string
  lnNodeUrl :: string
  minChanSize :: rat
  maxBatchFeeRate :: rat
  minNodeTier :: int
  channelSort :: SortParams
  historySort :: SortParams
  orderSort :: SortParams
  leaseSort :: SortParams
  sessionSort :: SortParams
  form_minChanSize :: rat
  form_maxBatchFeeRate :: rat
  form_minNodeTier :: int

definition start_call :: "async_call \<Rightarrow> 'a app_shell_scheme \<Rightarrow> 'a app_shell_scheme" where
  "start_call c s = s\<lparr>calls := calls s @ [c]\<rparr>"

section \<open>Alerts and errors\<close>

definition notify ::
    "ui_text \<Rightarrow> ui_text option \<Rightarrow> alert_type \<Rightarrow> 'a app_shell_scheme \<Rightarrow> 'a app_shell_scheme" where
  "notify message title type s =
     (let alert = \<lparr>al_id = clock s, al_type = type, al_title = title, al_message = message,
                   al_ms = (if type = Success then Some 3000 else None)\<rparr>
      in s\<lparr>alerts := AList.update (al_id alert) alert (alerts s)\<rparr>)"

definition clearAlert :: "int \<Rightarrow> 'a app_shell_scheme \<Rightarrow> 'a app_shell_scheme" where
  "clearAlert i s = s\<lparr>alerts := AList.delete i (alerts s)\<rparr>"

definition handleError :: "app_error \<Rightarrow> string \<Rightarrow> 'a app_shell_scheme \<Rightarrow> 'a app_shell_scheme" where
  "handleError error title s =
     (case error of
        AuthenticationError _ \<Rightarrow>
          notify (Translated ''stores.appView.authErrorMsg'') (Some (Translated ''stores.appView.authErrorTitle''))
            ErrorAlert (s\<lparr>authenticated := False\<rparr>)
      | AppError m \<Rightarrow> notify (Plain m) (Some (Plain title)) ErrorAlert s)"

section \<open>Navigation\<close>

text \<open>\<open>base\<close> is \<open>PUBLIC_URL\<close>.\<close>

definition fullWidth :: "string \<Rightarrow> 'a app_shell_scheme \<Rightarrow> bool" where
  "fullWidth base s \<longleftrightarrow> pathname s = base @ ''/pool''"

definition goTo :: "string \<Rightarrow> string \<Rightarrow> 'a app_shell_scheme \<Rightarrow> 'a app_shell_scheme" where
  "goTo base route s =
     (let path = base @ route in if pathname s \<noteq> path then s\<lparr>pathname := path\<rparr> else s)"

definition gotoAuth :: "string \<Rightarrow> 'a app_shell_scheme \<Rightarrow> 'a app_shell_scheme" where
  "gotoAuth base s = goTo base ''/'' s"

definition autoCollapseSidebar :: "'a app_settings_scheme \<Rightarrow> 'a app_settings_scheme" where
  "autoCollapseSidebar s =
     (if autoCollapse s \<and> sidebarVisible s then s\<lparr>sidebarVisible := False\<rparr> else s)"

definition goToMyNode :: "string \<Rightarrow> 'a app_settings_scheme \<Rightarrow> 'a app_settings_scheme" where
  "goToMyNode base s = autoCollapseSidebar (goTo base ''/home'' (s\<lparr>graphViewMode := MyNode\<rparr>))"

definition goToNetwork :: "string \<Rightarrow> 'a app_settings_scheme \<Rightarrow> 'a app_settings_scheme" where
  "goToNetwork base s = autoCollapseSidebar (goTo base ''/home'' (s\<lparr>graphViewMode := Network\<rparr>))"

text \<open>\<open>goToHome\<close>, \<open>goToLoop\<close>, \<open>goToHistory\<close>, \<open>goToSettings\<close>, \<open>goToConnect\<close> and
  \<open>goToConnectCustom\<close> differ in the route only.\<close>

definition goToPage :: "string \<Rightarrow> string \<Rightarrow> 'a app_settings_scheme \<Rightarrow> 'a app_settings_scheme" where
  "goToPage base route s = autoCollapseSidebar (goTo base route s)"

definition goToPool :: "string \<Rightarrow> 'a app_settings_scheme \<Rightarrow> 'a app_settings_scheme" where
  "goToPool base s = (goTo base ''/pool'' s)\<lparr>sidebarVisible := False\<rparr>"

definition showSettings :: "string \<Rightarrow> string \<Rightarrow> 'a app_shell_scheme \<Rightarrow> 'a app_shell_scheme" where
  "showSettings base name s =
     goTo base (''/settings'' @ (if name = [] then [] else ''/'' @ name)) s"

section \<open>Tour\<close>

definition tourGoToNext :: "'a app_shell_scheme \<Rightarrow> 'a app_shell_scheme" where
  "tourGoToNext s = (if tourVisible s then s\<lparr>tourActiveStep := tourActiveStep s + 1\<rparr> else s)"

definition toggleProcessingSwaps :: "'a app_shell_scheme \<Rightarrow> 'a app_shell_scheme" where
  "toggleProcessingSwaps s =
     (let s = s\<lparr>processingSwapsVisible := \<not> processingSwapsVisible s\<rparr> in
      if \<not> processingSwapsVisible s then tourGoToNext s else s)"

section \<open>Settings\<close>

definition toggleSidebar :: "'a app_settings_scheme \<Rightarrow> 'a app_settings_scheme" where
  "toggleSidebar s = s\<lparr>sidebarVisible := \<not> sidebarVisible s\<rparr>"

definition setUnit :: "Unit \<Rightarrow> 'a app_settings_scheme \<Rightarrow> 'a app_settings_scheme" where
  "setUnit u s = s\<lparr>unit := u\<rparr>"

definition setBalanceMode :: "BalanceMode \<Rightarrow> 'a app_settings_scheme \<Rightarrow> 'a app_settings_scheme" where
  "setBalanceMode mode s = s\<lparr>balanceMode := mode\<rparr>"

definition setExplorerUrls ::
    "string \<Rightarrow> string \<Rightarrow> string \<Rightarrow> 'a app_settings_scheme \<Rightarrow> 'a app_settings_scheme" where
  "setExplorerUrls base bitcoinTx lnNode s =
     showSettings base [] (s\<lparr>bitcoinTxUrl := bitcoinTx, lnNodeUrl := lnNode\<rparr>)"

text \<open>The key of the error text, or \<open>None\<close> for a valid address.\<close>

definition validateExplorerUrl :: "string \<Rightarrow> string \<Rightarrow> string option" where
  "validateExplorerUrl url keyword =
     (if url = [] then Some ''stores.settingsStore.required''
      else if \<not> starts_with ''http'' (toLowerCase url) then Some ''stores.settingsStore.httpError''
      else if \<not> str_includes keyword url then Some ''stores.settingsStore.keyword''
      else None)"

text \<open>\<open>s.replace(p, r)\<close> for a literal pattern: its first occurrence is replaced.\<close>

fun replace_first :: "string \<Rightarrow> string \<Rightarrow> string \<Rightarrow> string" where
  "replace_first p r [] = (if p = [] then r else [])"
| "replace_first p r (c # s) =
     (if starts_with p (c # s) then r @ drop (length p) (c # s) else c # replace_first p r s)"

definition getBitcoinTxUrl :: "'a app_settings_scheme \<Rightarrow> string \<Rightarrow> string" where
  "getBitcoinTxUrl s txid = replace_first ''{txid}'' txid (bitcoinTxUrl s)"

definition settings_getLightningNodeUrl :: "'a app_settings_scheme \<Rightarrow> string \<Rightarrow> string" where
  "settings_getLightningNodeUrl s pubkey = replace_first ''{pubkey}'' pubkey (lnNodeUrl s)"

definition setOrderSettings :: "rat \<Rightarrow> rat \<Rightarrow> int \<Rightarrow> 'a app_settings_scheme \<Rightarrow> 'a app_settings_scheme" where
  "setOrderSettings chanSize rate tier s =
     s\<lparr>minChanSize := chanSize, maxBatchFeeRate := rate, minNodeTier := tier\<rparr>"

definition setChannelSort :: "string option \<Rightarrow> bool \<Rightarrow> 'a app_settings_scheme \<Rightarrow> 'a app_settings_scheme" where
  "setChannelSort field descending s = s\<lparr>channelSort := \<lparr>so_field = field, so_descending = descending\<rparr>\<rparr>"

definition resetChannelSort :: "'a app_settings_scheme \<Rightarrow> 'a app_settings_scheme" where
  "resetChannelSort s = s\<lparr>channelSort := \<lparr>so_field = None, so_descending = True\<rparr>\<rparr>"

definition setHistorySort :: "string option \<Rightarrow> bool \<Rightarrow> 'a app_settings_scheme \<Rightarrow> 'a app_settings_scheme" where
  "setHistorySort field descending s = s\<lparr>historySort := \<lparr>so_field = field, so_descending = descending\<rparr>\<rparr>"

definition setOrderSort :: "string option \<Rightarrow> bool \<Rightarrow> 'a app_settings_scheme \<Rightarrow> 'a app_settings_scheme" where
  "setOrderSort field descending s = s\<lparr>orderSort := \<lparr>so_field = field, so_descending = descending\<rparr>\<rparr>"

definition setLeaseSort :: "string option \<Rightarrow> bool \<Rightarrow> 'a app_settings_scheme \<Rightarrow> 'a app_settings_scheme" where
  "setLeaseSort field descending s = s\<lparr>leaseSort := \<lparr>so_field = field, so_descending = descending\<rparr>\<rparr>"

definition setSessionSort :: "string option \<Rightarrow> bool \<Rightarrow> 'a app_settings_scheme \<Rightarrow> 'a app_settings_scheme" where
  "setSessionSort field descending s = s\<lparr>sessionSort := \<lparr>so_field = field, so_descending = descending\<rparr>\<rparr>"

subsection \<open>Saving and loading\<close>

text \<open>
  What is stored under the key \<open>settings\<close>. The optional fields are those the loader tests
  before it uses them; \<open>None\<close> is an absent property.
\<close>

record PersistentSettings =
  ps_sidebarVisible :: bool
  ps_unit :: Unit
  ps_balanceMode :: BalanceMode
  ps_tourAutoShown :: bool
  ps_bitcoinTxUrl :: "string option"
  ps_lnNodeUrl :: "string option"
  ps_minChanSize :: "rat option"
  ps_maxBatchFeeRate :: "rat option"
  ps_minNodeTier :: "int option"
  ps_channelSort :: "SortParams option"
  ps_historySort :: "SortParams option"
  ps_orderSort :: "SortParams option"
  ps_leaseSort :: "SortParams option"
  ps_sessionSort :: "SortParams option"

text \<open>What the autorun of \<open>init\<close> writes.\<close>

definition settings_to_save :: "'a app_settings_scheme \<Rightarrow> PersistentSettings" where
  "settings_to_save s =
     \<lparr>ps_sidebarVisible = sidebarVisible s, ps_unit = unit s, ps_balanceMode = balanceMode s,
      ps_tourAutoShown = tourAutoShown s, ps_bitcoinTxUrl = Some (bitcoinTxUrl s),
      ps_lnNodeUrl = Some (lnNodeUrl s), ps_minChanSize = Some (minChanSize s),
      ps_maxBatchFeeRate = Some (maxBatchFeeRate s), ps_minNodeTier = Some (minNodeTier s),
      ps_channelSort = Some (channelSort s), ps_historySort = Some (historySort s),
      ps_orderSort = Some (orderSort s), ps_leaseSort = Some (leaseSort s),
      ps_sessionSort = Some (sessionSort s)\<rparr>"

definition truthy_text :: "string option \<Rightarrow> string \<Rightarrow> string" where
  "truthy_text x d = (case x of Some t \<Rightarrow> if t = [] then d else t | None \<Rightarrow> d)"

definition truthy_num :: "'n::zero option \<Rightarrow> 'n \<Rightarrow> 'n" where
  "truthy_num x d = (case x of Some n \<Rightarrow> if n = 0 then d else n | None \<Rightarrow> d)"

definition load_settings :: "PersistentSettings \<Rightarrow> 'a app_settings_scheme \<Rightarrow> 'a app_settings_scheme" where
  "load_settings p s =
     (let s = s\<lparr>sidebarVisible := ps_sidebarVisible p, unit := ps_unit p,
                balanceMode := ps_balanceMode p, tourAutoShown := ps_tourAutoShown p,
                bitcoinTxUrl := truthy_text (ps_bitcoinTxUrl p) (bitcoinTxUrl s),
                lnNodeUrl := truthy_text (ps_lnNodeUrl p) (lnNodeUrl s),
                channelSort := or_default (ps_channelSort p) (channelSort s),
                historySort := or_default (ps_historySort p) (historySort s),
                orderSort := or_default (ps_orderSort p) (orderSort s),
                leaseSort := or_default (ps_leaseSort p) (leaseSort s),
                sessionSort := or_default (ps_sessionSort p) (sessionSort s),
                minChanSize := truthy_num (ps_minChanSize p) (minChanSize s),
                maxBatchFeeRate := truthy_num (ps_maxBatchFeeRate p) (maxBatchFeeRate s),
                minNodeTier := truthy_num (ps_minNodeTier p) (minNodeTier s)\<rparr>
      in s\<lparr>form_minChanSize := minChanSize s, form_maxBatchFeeRate := maxBatchFeeRate s,
           form_minNodeTier := minNodeTier s\<rparr>)"

text \<open>\<open>innerWidth\<close> is the width of the window, 0 when the browser does not tell.\<close>

definition settings_load ::
    "PersistentSettings option \<Rightarrow> int \<Rightarrow> 'a app_settings_scheme \<Rightarrow> 'a app_settings_scheme" where
  "settings_load stored innerWidth s =
     (let s = (case stored of Some p \<Rightarrow> load_settings p s | None \<Rightarrow> s) in
      if innerWidth \<noteq> 0 \<and> innerWidth \<le> 1200 then s\<lparr>autoCollapse := True, sidebarVisible := False\<rparr> else s)"

section \<open>Properties\<close>

lemma handleError_frame [simp]:
  "clock (handleError e t s) = clock s" "calls (handleError e t s) = calls s"
  "tourVisible (handleError e t s) = tourVisible s" "tourActiveStep (handleError e t s) = tourActiveStep s"
  "app_shell.more (handleError e t s) = app_shell.more s"
  by (simp_all add: handleError_def notify_def Let_def split: app_error.split)

text \<open>
  An expired login is never shown as an ordinary failure: \<open>handleError\<close> ends the
  authenticated session exactly when it is given an authentication error, always leaves
  an error alert under the current time, and touches nothing but the alerts and the
  authentication flag.
\<close>

lemma handleError_logs_out:
  "authenticated (handleError e title s) = (authenticated s \<and> \<not> (\<exists>m. e = AuthenticationError m)) \<and>
   (\<exists>a. map_of (alerts (handleError e title s)) (clock s) = Some a \<and> al_type a = ErrorAlert) \<and>
   (\<forall>i. i \<noteq> clock s \<longrightarrow> map_of (alerts (handleError e title s)) i = map_of (alerts s) i) \<and>
   (handleError e title s)\<lparr>alerts := alerts s, authenticated := authenticated s\<rparr> = s"
  by (cases e) (auto simp: handleError_def notify_def Let_def update_conv')

lemma handleError_logs_out_witness:
  "map_of (alerts (handleError (AppError ''down'') ''t''
       \<lparr>clock = 7, calls = [], pathname = [], authenticated = True, alerts = [], processingSwapsVisible = False,
        tourVisible = False, tourActiveStep = 0, graphViewMode = MyNode\<rparr>)) (8::int) = None"
  using handleError_logs_out [of "AppError ''down''" "''t''"
      "\<lparr>clock = 7, calls = [], pathname = [], authenticated = True, alerts = [], processingSwapsVisible = False,
        tourVisible = False, tourActiveStep = 0, graphViewMode = MyNode\<rparr>"] by simp

text \<open>
  Saved settings come back: loading what was saved, on a wide screen, restores every
  persisted setting, provided that the explorer addresses are not empty and that the
  order defaults are non-zero or equal to those of the new session; the order form starts
  from the restored values.
\<close>

lemma settings_save_load:
  assumes "bitcoinTxUrl s \<noteq> []" "lnNodeUrl s \<noteq> []"
    and "minChanSize s \<noteq> 0 \<or> minChanSize t = 0" "maxBatchFeeRate s \<noteq> 0 \<or> maxBatchFeeRate t = 0"
    and "minNodeTier s \<noteq> 0 \<or> minNodeTier t = 0" and "1200 < innerWidth"
  shows "settings_to_save (settings_load (Some (settings_to_save s)) innerWidth t) = settings_to_save s \<and>
    form_minChanSize (settings_load (Some (settings_to_save s)) innerWidth t) = minChanSize s \<and>
    form_maxBatchFeeRate (settings_load (Some (settings_to_save s)) innerWidth t) = maxBatchFeeRate s"
  using assms
  by (auto simp: settings_load_def load_settings_def settings_to_save_def truthy_text_def truthy_num_def
      or_default_def Let_def)

definition initial_shell :: app_settings where
  "initial_shell =
     \<lparr>clock = 0, calls = [], pathname = ''/'', authenticated = False, alerts = [],
      processingSwapsVisible = False, tourVisible = False, tourActiveStep = 0, graphViewMode = MyNode,
      sidebarVisible = True, autoCollapse = False, tourAutoShown = False, unit = sats,
      balanceMode = receive, bitcoinTxUrl = ''https://mempool.space/tx/{txid}'',
      lnNodeUrl = ''https://terminal.lightning.engineering/{pubkey}'', minChanSize = 100000,
      maxBatchFeeRate = 100, minNodeTier = 0,
      channelSort = \<lparr>so_field = None, so_descending = True\<rparr>,
      historySort = \<lparr>so_field = Some ''lastUpdateTime'', so_descending = True\<rparr>,
      orderSort = \<lparr>so_field = Some ''creationTimestamp'', so_descending = True\<rparr>,
      leaseSort = \<lparr>so_field = Some ''blocksSoFar'', so_descending = True\<rparr>,
      sessionSort = \<lparr>so_field = Some ''label'', so_descending = False\<rparr>,
      form_minChanSize = 100000, form_maxBatchFeeRate = 100, form_minNodeTier = 0\<rparr>"

lemma settings_save_load_witness:
  "balanceMode (settings_load (Some (settings_to_save (setBalanceMode routing initial_shell))) 1920 initial_shell)
     = routing"
  using settings_save_load [of "setBalanceMode routing initial_shell" initial_shell 1920]
  by (simp add: settings_to_save_def setBalanceMode_def initial_shell_def)

end
