(* ===== verification/App_Sync.thy ===== *)
theory App_Sync
  imports App_Shell
begin

text \<open>
  Keeping a collection in step with a server: what the \<open>fetch...\<close> operations of the
  stores share. Each of them goes through the entries of the reply, updates the object
  stored under the entry's key or creates one, and then deletes local objects that the
  reply does not contain. The locales state what a refresh promises; the stores
  interpret them.
\<close>

section \<open>Upserting and dropping\<close>

definition upsert_all ::
    "('s \<Rightarrow> string) \<Rightarrow> ('s \<Rightarrow> 'm option \<Rightarrow> 'm) \<Rightarrow> 's list \<Rightarrow> (string \<times> 'm) list \<Rightarrow> (string \<times> 'm) list" where
  "upsert_all key upd items m =
     foldl (\<lambda>m s. AList.update (key s) (upd s (map_of m (key s))) m) m items"

definition delete_all :: "string list \<Rightarrow> (string \<times> 'm) list \<Rightarrow> (string \<times> 'm) list" where
  "delete_all ids m = foldl (\<lambda>m i. AList.delete i m) m ids"

text \<open>\<open>localIds.filter(id => !serverIds.includes(id)).forEach(id => map.delete(id))\<close>\<close>

definition drop_missing :: "string list \<Rightarrow> string list \<Rightarrow> (string \<times> 'm) list \<Rightarrow> (string \<times> 'm) list" where
  "drop_missing localIds serverIds m = delete_all (filter (\<lambda>i. i \<notin> set serverIds) localIds) m"

text \<open>What is stored under a key after the entries of a reply have been applied.\<close>

definition latest :: "('s \<Rightarrow> string) \<Rightarrow> ('s \<Rightarrow> 'm option \<Rightarrow> 'm) \<Rightarrow> 's list \<Rightarrow> string \<Rightarrow> 'm option \<Rightarrow> 'm option" where
  "latest key upd items k old = foldl (\<lambda>e s. if key s = k then Some (upd s e) else e) old items"

lemma map_of_upsert_all [omap_simps]:
  "map_of (upsert_all key upd items m) k = latest key upd items k (map_of m k)"
  by (induction items arbitrary: m) (simp_all add: upsert_all_def latest_def update_conv')

lemma latest_absent: "k \<notin> key ` set items \<Longrightarrow> latest key upd items k old = old"
  by (induction items arbitrary: old) (auto simp: latest_def)

lemma latest_present: "k \<in> key ` set items \<Longrightarrow> latest key upd items k old \<noteq> None"
proof (induction items arbitrary: old)
  case (Cons s items)
  have step: "latest key upd (s # items) k old = latest key upd items k (if key s = k then Some (upd s old) else old)"
    by (simp add: latest_def)
  show ?case
  proof (cases "k \<in> key ` set items")
    case False
    then have "key s = k" using Cons.prems by auto
    with False show ?thesis unfolding step by (simp add: latest_absent)
  qed (simp add: step Cons.IH)
qed simp

lemma distinct_upsert_all: "distinct (map fst m) \<Longrightarrow> distinct (map fst (upsert_all key upd items m))"
  by (induction items arbitrary: m) (simp_all add: upsert_all_def distinct_update)

lemma distinct_delete_all: "distinct (map fst m) \<Longrightarrow> distinct (map fst (delete_all ids m))"
  by (induction ids arbitrary: m) (simp_all add: delete_all_def distinct_delete)

lemma map_of_delete_all [omap_simps]:
  "map_of (delete_all ids m) k = (if k \<in> set ids then None else map_of m k)"
  by (induction ids arbitrary: m) (auto simp: delete_all_def delete_conv')

lemma map_of_drop_missing [omap_simps]:
  "map_of (drop_missing localIds serverIds m) k =
     (if k \<in> set localIds \<and> k \<notin> set serverIds then None else map_of m k)"
  by (simp add: drop_missing_def map_of_delete_all)

lemma distinct_drop_missing:
  "distinct (map fst m) \<Longrightarrow> distinct (map fst (drop_missing localIds serverIds m))"
  by (simp add: drop_missing_def distinct_delete_all)

text \<open>Later entries with the same key win, when an update overwrites what an earlier one wrote.\<close>

lemma latest_last:
  assumes absorb: "\<And>s s' e. upd s (Some (upd s' e)) = upd s e"
  shows "filter (\<lambda>s. key s = k) items = xs @ [s] \<Longrightarrow> latest key upd items k old = Some (upd s old)"
proof (induction items arbitrary: old xs)
  case (Cons a items)
  have step: "latest key upd (a # items) k old = latest key upd items k (if key a = k then Some (upd a old) else old)"
    by (simp add: latest_def)
  show ?case
  proof (cases "key a = k")
    case True
    show ?thesis
    proof (cases xs)
      case Nil
      then have "s = a" "filter (\<lambda>s. key s = k) items = []" using Cons.prems True by auto
      then have "k \<notin> key ` set items" by (auto simp: filter_empty_conv)
      then show ?thesis using True \<open>s = a\<close> by (simp add: step latest_absent)
    next
      case (Cons b ys)
      then have "filter (\<lambda>s. key s = k) items = ys @ [s]" using Cons.prems True by auto
      from Cons.IH [OF this] show ?thesis using True absorb by (simp add: step)
    qed
  next
    case False
    then have "filter (\<lambda>s. key s = k) items = xs @ [s]" using Cons.prems by simp
    from Cons.IH [OF this] show ?thesis using False by (simp add: step)
  qed
qed simp

section \<open>The contract of a refresh\<close>

text \<open>
  \<open>refresh items m\<close> is the collection after a reply with the entries \<open>items\<close>; \<open>good\<close> is
  the store's invariant and \<open>entry_ok\<close> what it expects of an entry; \<open>upd s e\<close> is the
  object made of entry \<open>s\<close> and the object \<open>e\<close> stored before, if any.
\<close>

locale upserting_store =
  fixes key :: "'s \<Rightarrow> string" and upd :: "'s \<Rightarrow> 'm option \<Rightarrow> 'm"
    and entry_ok :: "'s \<Rightarrow> bool" and good :: "(string \<times> 'm) list \<Rightarrow> bool"
    and refresh :: "'s list \<Rightarrow> (string \<times> 'm) list \<Rightarrow> (string \<times> 'm) list"
  assumes refresh_stores: "good m \<Longrightarrow> list_all entry_ok items \<Longrightarrow> k \<in> key ` set items \<Longrightarrow>
      map_of (refresh items m) k = latest key upd items k (map_of m k)"
    and refresh_good: "good m \<Longrightarrow> list_all entry_ok items \<Longrightarrow> good (refresh items m)"
    and upd_absorb: "upd s (Some (upd s' e)) = upd s e"
begin

lemma entry_current:
  assumes "good m" "list_all entry_ok items" and "filter (\<lambda>s. key s = k) items = xs @ [s]"
  shows "map_of (refresh items m) k = Some (upd s (map_of m k))"
proof -
  have "s \<in> set (filter (\<lambda>s. key s = k) items)" using assms(3) by simp
  then have "k \<in> key ` set items" by auto
  then show ?thesis
    using refresh_stores [OF assms(1,2)] latest_last [of upd key k items xs s "map_of m k"] upd_absorb assms(3)
    by simp
qed

lemma entry_current_distinct:
  assumes "good m" "list_all entry_ok items" and "distinct (map key items)" "s \<in> set items"
  shows "map_of (refresh items m) (key s) = Some (upd s (map_of m (key s)))"
proof -
  obtain as bs where items: "items = as @ s # bs" using assms(4) by (auto simp: in_set_conv_decomp)
  have "key s \<notin> key ` (set as \<union> set bs)" using assms(3) unfolding items by auto
  then have "key x \<noteq> key s" if "x \<in> set as \<union> set bs" for x using that by (metis imageI)
  then have "filter (\<lambda>x. key x = key s) items = [] @ [s]" unfolding items by (auto simp: filter_empty_conv)
  then show ?thesis by (rule entry_current [OF assms(1,2)])
qed

end

text \<open>A store whose refresh also drops what the server no longer has.\<close>

locale mirroring_store = upserting_store +
  assumes refresh_drops: "good m \<Longrightarrow> list_all entry_ok items \<Longrightarrow> k \<notin> key ` set items \<Longrightarrow>
      map_of (refresh items m) k = None"
begin

lemma keys_mirror:
  assumes "good m" "list_all entry_ok items"
  shows "dom (map_of (refresh items m)) = key ` set items"
proof -
  have "map_of (refresh items m) k \<noteq> None \<longleftrightarrow> k \<in> key ` set items" for k
    using refresh_drops [OF assms, of k] refresh_stores [OF assms, of k] latest_present [of k key items upd]
    by metis
  then show ?thesis by (auto simp: dom_def)
qed

lemma refresh_again:
  assumes "good m" "list_all entry_ok items"
  shows "map_of (refresh items (refresh items m)) = map_of (refresh items m)"
proof
  fix k
  note good' = refresh_good [OF assms]
  show "map_of (refresh items (refresh items m)) k = map_of (refresh items m) k"
  proof (cases "k \<in> key ` set items")
    case True
    then have "filter (\<lambda>s. key s = k) items \<noteq> []" by (auto simp: filter_empty_conv)
    then obtain xs s where f: "filter (\<lambda>s. key s = k) items = xs @ [s]"
      by (cases "filter (\<lambda>s. key s = k) items" rule: rev_cases) auto
    show ?thesis
      using entry_current [OF assms f] entry_current [OF good' assms(2) f] upd_absorb by simp
  next
    case False
    then show ?thesis using refresh_drops [OF good' assms(2)] refresh_drops [OF assms] by simp
  qed
qed

end

text \<open>A store whose refresh never drops anything.\<close>

locale accumulating_store = upserting_store +
  assumes refresh_keeps: "good m \<Longrightarrow> list_all entry_ok items \<Longrightarrow> k \<notin> key ` set items \<Longrightarrow>
      map_of (refresh items m) k = map_of m k"
begin

lemma stale_survives:
  "good m \<Longrightarrow> (\<And>items. items \<in> set replies \<Longrightarrow> list_all entry_ok items \<and> k \<notin> key ` set items) \<Longrightarrow>
   map_of (foldl (\<lambda>m items. refresh items m) m replies) k = map_of m k"
proof (induction replies arbitrary: m)
  case (Cons items replies)
  then have "map_of (refresh items m) k = map_of m k" by (intro refresh_keeps) auto
  then show ?case using Cons.IH [of "refresh items m"] Cons.prems refresh_good by simp
qed simp

end

text \<open>
  The operation of the stores, with the local identifiers it compares: it mirrors the
  server when they include every key.
\<close>

lemma drop_missing_mirrors:
  assumes "refresh items m = drop_missing (ids (upsert_all key upd items m)) (map key items) (upsert_all key upd items m)"
    and "dom (map_of (upsert_all key upd items m)) \<subseteq> set (ids (upsert_all key upd items m))"
  shows "map_of (refresh items m) k =
    (if k \<in> key ` set items then latest key upd items k (map_of m k) else None)"
  using assms by (auto simp: omap_simps domIff subset_iff)

lemma set_update_subset: "set (AList.update k v m) \<subseteq> insert (k, v) (set m)"
  by (induction m) auto

lemma upsert_all_entries:
  assumes "\<And>k v. (k, v) \<in> set m \<Longrightarrow> P k v" and "\<And>s e. P (key s) (upd s e)"
  shows "(k, v) \<in> set (upsert_all key upd items m) \<Longrightarrow> P k v"
  using assms(1)
proof (induction items arbitrary: m)
  case (Cons s items)
  have step: "upsert_all key upd (s # items) m =
      upsert_all key upd items (AList.update (key s) (upd s (map_of m (key s))) m)"
    by (simp add: upsert_all_def)
  have "P k' v'" if "(k', v') \<in> set (AList.update (key s) (upd s (map_of m (key s))) m)" for k' v'
  proof (cases "(k', v') \<in> set m")
    case False
    then have "k' = key s" "v' = upd s (map_of m (key s))"
      using that set_update_subset [of "key s" "upd s (map_of m (key s))" m] by auto
    then show ?thesis using assms(2) by simp
  qed (use Cons.prems(2) in blast)
  then show ?case using Cons.IH Cons.prems(1) unfolding step by blast
qed (simp add: upsert_all_def)

lemma set_delete_all_subset: "set (delete_all ids m) \<subseteq> set m"
proof (induction ids arbitrary: m)
  case (Cons i ids)
  have "set (AList.delete i m) \<subseteq> set m" by (induction m) auto
  then show ?case using Cons.IH [of "AList.delete i m"] by (auto simp: delete_all_def)
qed (simp add: delete_all_def)

lemma set_drop_missing_subset: "set (drop_missing localIds serverIds m) \<subseteq> set m"
  by (simp add: drop_missing_def set_delete_all_subset)

section \<open>Collections stored under their own keys\<close>

text \<open>Collections whose objects are stored under their own key and replaced by a reply.\<close>

definition keyed :: "('m \<Rightarrow> string) \<Rightarrow> (string \<times> 'm) list \<Rightarrow> bool" where
  "keyed f m \<longleftrightarrow> distinct (map fst m) \<and> (\<forall>(k, v) \<in> set m. f v = k)"

lemma keyed_update: "keyed f m \<Longrightarrow> f v = k \<Longrightarrow> keyed f (AList.update k v m)"
  using set_update_subset [of k v m] by (auto simp: keyed_def distinct_update)

lemma keyed_upsert:
  assumes "keyed f m" and "\<And>s e. f (upd s e) = key s"
  shows "keyed f (upsert_all key upd items m)"
  using assms(1)
proof (induction items arbitrary: m)
  case (Cons s items)
  then have "keyed f (AList.update (key s) (upd s (map_of m (key s))) m)" using assms(2) by (intro keyed_update) simp_all
  then show ?case using Cons.IH by (simp add: upsert_all_def)
qed (simp add: upsert_all_def)

lemma keyed_drop: "keyed f m \<Longrightarrow> keyed f (drop_missing l r m)"
  using set_drop_missing_subset [of l r m] by (auto simp: keyed_def distinct_drop_missing)

lemma keyed_lookup: "keyed f m \<Longrightarrow> map_of m k = Some v \<Longrightarrow> f v = k"
  by (auto simp: keyed_def dest!: map_of_SomeD)

lemma dom_fst: "dom (map_of m) \<subseteq> set (map fst m)"
  by (auto dest: map_of_SomeD intro: rev_image_eqI)

text \<open>
  A refresh that drops the names \<open>own\<close> of the map object instead of its keys drops nothing, as
  long as no key is such a name.
\<close>

lemma drop_own_lookup:
  assumes "dom (map_of m) \<inter> set own = {}" "list_all (\<lambda>e. key e \<notin> set own) items"
  shows "map_of (drop_missing own ids (upsert_all key upd items m)) k = latest key upd items k (map_of m k)"
proof (cases "k \<in> set own")
  case True
  then have "map_of m k = None" "k \<notin> key ` set items" using assms by (auto simp: list_all_iff domIff)
  then show ?thesis by (simp add: latest_absent omap_simps)
qed (simp add: omap_simps)

lemma drop_own_disjoint:
  assumes "dom (map_of m) \<inter> set own = {}" "list_all (\<lambda>e. key e \<notin> set own) items"
  shows "dom (map_of (drop_missing own ids (upsert_all key upd items m))) \<inter> set own = {}"
proof -
  have "latest key upd items k (map_of m k) = None" if "k \<in> set own" for k
  proof -
    have "map_of m k = None" "k \<notin> key ` set items" using assms that by (auto simp: list_all_iff domIff)
    then show ?thesis by (simp add: latest_absent)
  qed
  then show ?thesis by (auto simp: domIff drop_own_lookup [OF assms])
qed

end
