(* ===== verification/Loop_Models.thy ===== *)
theory Loop_Models
  imports App_Sync
begin

text \<open>
  The models of the Loop pages: \<open>app/src/store/models/channel.ts\<close> and
  \<open>app/src/store/models/swap.ts\<close>. A value that the daemons send as a decimal string is
  the integer it denotes; enumerations of the protocol files are their numbers.
\<close>

section \<open>Comparing strings\<close>

text \<open>JavaScript compares strings by code units.\<close>

fun str_gt :: "string \<Rightarrow> string \<Rightarrow> bool" where
  "str_gt [] t = False"
| "str_gt (c # s) [] = True"
| "str_gt (c # s) (d # t) =
     (of_char c > (of_char d :: nat) \<or> (c = d \<and> str_gt s t))"

definition compare_text :: "string \<Rightarrow> string \<Rightarrow> rat" where
  "compare_text a b = (if str_gt (toLowerCase a) (toLowerCase b) then 1 else - 1)"

section \<open>Channels\<close>

datatype ChannelStatus = UNKNOWN | OPEN | OPENING | CLOSING | FORCE_CLOSING | WAITING_TO_CLOSE

record Channel =
  ch_status :: ChannelStatus
  chanId :: string
  remotePubkey :: string
  ch_alias :: "string option"
  channelPoint :: string
  capacity :: Big
  localBalance :: Big
  remoteBalance :: Big
  remoteFeeRate :: rat
  ch_active :: bool
  uptime :: Big
  lifetime :: Big

definition new_Channel :: Channel where
  "new_Channel =
     \<lparr>ch_status = UNKNOWN, chanId = [], remotePubkey = [], ch_alias = None, channelPoint = [],
      capacity = 0, localBalance = 0, remoteBalance = 0, remoteFeeRate = 0, ch_active = False,
      uptime = 0, lifetime = 0\<rparr>"

text \<open>\<open>LND.Channel.AsObject\<close> and \<open>PendingChannel.AsObject\<close>, the properties the app reads.\<close>

record lnd_channel =
  lnd_chanId :: string
  lnd_remotePubkey :: string
  lnd_channelPoint :: string
  lnd_capacity :: int
  lnd_localBalance :: int
  lnd_remoteBalance :: int
  lnd_active :: bool
  lnd_uptime :: int
  lnd_lifetime :: int

record lnd_pending =
  pend_remoteNodePub :: string
  pend_channelPoint :: string
  pend_capacity :: int
  pend_localBalance :: int
  pend_remoteBalance :: int

definition has_own_alias :: "Channel \<Rightarrow> bool" where
  "has_own_alias c \<longleftrightarrow>
     (case ch_alias c of None \<Rightarrow> False | Some a \<Rightarrow> a \<noteq> [] \<and> \<not> str_includes a (remotePubkey c))"

definition aliasLabel :: "Channel \<Rightarrow> string" where
  "aliasLabel c =
     (if has_own_alias c then the (ch_alias c) else ellipseInside (remotePubkey c) 6 None)"

definition aliasDetail :: "Channel \<Rightarrow> string" where
  "aliasDetail c =
     (if has_own_alias c then the (ch_alias c) @ [CHR 0x0A] @ remotePubkey c else remotePubkey c)"

definition remoteNodeUrl :: "'a app_settings_scheme \<Rightarrow> Channel \<Rightarrow> string" where
  "remoteNodeUrl s c = settings_getLightningNodeUrl s (remotePubkey c)"

definition uptimePercent :: "big_lib \<Rightarrow> Channel \<Rightarrow> rat" where
  "uptimePercent B c = percentage B (uptime c) (lifetime c) 0"

definition localPercent :: "big_lib \<Rightarrow> Channel \<Rightarrow> rat" where
  "localPercent B c = percentage B (localBalance c) (capacity c) 0"

text \<open>The number that is shown with two decimals.\<close>

definition remoteFeePct :: "big_lib \<Rightarrow> Channel \<Rightarrow> rat" where
  "remoteFeePct B c = big_round B (big_div B (remoteFeeRate c) 1000000 * 100) 2 roundHalfUp"

definition balanceModeOrder :: "big_lib \<Rightarrow> BalanceMode \<Rightarrow> Channel \<Rightarrow> rat" where
  "balanceModeOrder B mode c =
     (case mode of
        routing \<Rightarrow> (let pct = localPercent B c in max pct (99 - pct))
      | send \<Rightarrow> 100 - localPercent B c
      | receive \<Rightarrow> localPercent B c)"

definition balanceStatus :: "big_lib \<Rightarrow> BalanceMode \<Rightarrow> Channel \<Rightarrow> BalanceStatus" where
  "balanceStatus B mode c = getBalanceStatus B (localBalance c) (capacity c) (BalanceModes mode)"

definition Channel_update :: "lnd_channel \<Rightarrow> Channel \<Rightarrow> Channel" where
  "Channel_update lndChannel c =
     c\<lparr>chanId := lnd_chanId lndChannel, remotePubkey := lnd_remotePubkey lndChannel,
       channelPoint := lnd_channelPoint lndChannel, capacity := of_int (lnd_capacity lndChannel),
       localBalance := of_int (lnd_localBalance lndChannel),
       remoteBalance := of_int (lnd_remoteBalance lndChannel), ch_active := lnd_active lndChannel,
       uptime := of_int (lnd_uptime lndChannel), lifetime := of_int (lnd_lifetime lndChannel)\<rparr>"

definition updatePending :: "ChannelStatus \<Rightarrow> lnd_pending \<Rightarrow> Channel \<Rightarrow> Channel" where
  "updatePending status pendingChannel c =
     c\<lparr>ch_status := status, chanId := pend_channelPoint pendingChannel,
       remotePubkey := pend_remoteNodePub pendingChannel,
       channelPoint := pend_channelPoint pendingChannel,
       capacity := of_int (pend_capacity pendingChannel),
       localBalance := of_int (pend_localBalance pendingChannel),
       remoteBalance := of_int (pend_remoteBalance pendingChannel), ch_active := False,
       uptime := 0, lifetime := 0\<rparr>"

definition Channel_create :: "lnd_channel \<Rightarrow> Channel" where
  "Channel_create lndChannel = (Channel_update lndChannel new_Channel)\<lparr>ch_status := OPEN\<rparr>"

definition createPending :: "ChannelStatus \<Rightarrow> lnd_pending \<Rightarrow> Channel" where
  "createPending status pendingChannel = updatePending status pendingChannel new_Channel"

definition Channel_compare :: "big_lib \<Rightarrow> BalanceMode \<Rightarrow> string option \<Rightarrow> Channel \<Rightarrow> Channel \<Rightarrow> rat" where
  "Channel_compare B mode field a b =
     (if field = Some ''remoteBalance'' then remoteBalance a - remoteBalance b
      else if field = Some ''localBalance'' then localBalance a - localBalance b
      else if field = Some ''remoteFeeRate'' then remoteFeeRate a - remoteFeeRate b
      else if field = Some ''uptimePercent'' then uptimePercent B a - uptimePercent B b
      else if field = Some ''aliasLabel'' then compare_text (aliasLabel a) (aliasLabel b)
      else if field = Some ''capacity'' then capacity a - capacity b
      else balanceModeOrder B mode a - balanceModeOrder B mode b)"

definition Channel_csvColumns :: "(string \<times> string) list" where
  "Channel_csvColumns =
     [(''chanId'', ''Channel ID''), (''remotePubkey'', ''Remote Pubkey''), (''capacity'', ''Capacity''),
      (''localBalance'', ''Local Balance''), (''remoteBalance'', ''Remote Balance''), (''active'', ''Active''),
      (''uptimePercent'', ''Uptime Percent'')]"

section \<open>Swaps\<close>

record Swap =
  sw_id :: string
  sw_type :: int
  sw_amount :: Big
  initiationTime :: Big
  lastUpdateTime :: Big
  sw_state :: int
  failureReason :: int

record loop_swap =
  lp_id :: string
  lp_type :: int
  lp_amt :: int
  lp_initiationTime :: int
  lp_lastUpdateTime :: int
  lp_state :: int
  lp_failureReason :: int

abbreviation (input) INITIATED :: int where "INITIATED \<equiv> 0"
abbreviation (input) PREIMAGE_REVEALED :: int where "PREIMAGE_REVEALED \<equiv> 1"
abbreviation (input) HTLC_PUBLISHED :: int where "HTLC_PUBLISHED \<equiv> 2"
abbreviation (input) SUCCESS :: int where "SUCCESS \<equiv> 3"
abbreviation (input) FAILED :: int where "FAILED \<equiv> 4"
abbreviation (input) INVOICE_SETTLED :: int where "INVOICE_SETTLED \<equiv> 5"
abbreviation (input) LOOP_OUT :: int where "LOOP_OUT \<equiv> 0"
abbreviation (input) LOOP_IN :: int where "LOOP_IN \<equiv> 1"

definition Swap_update :: "loop_swap \<Rightarrow> Swap" where
  "Swap_update loopSwap =
     \<lparr>sw_id = lp_id loopSwap, sw_type = lp_type loopSwap, sw_amount = of_int (lp_amt loopSwap),
      initiationTime = of_int (lp_initiationTime loopSwap),
      lastUpdateTime = of_int (lp_lastUpdateTime loopSwap), sw_state = lp_state loopSwap,
      failureReason = lp_failureReason loopSwap\<rparr>"

definition ellipsedId :: "Swap \<Rightarrow> string" where
  "ellipsedId s = ellipseInside (sw_id s) 6 None"

definition isFailed :: "Swap \<Rightarrow> bool" where
  "isFailed s \<longleftrightarrow> sw_state s = FAILED"

text \<open>Times come in nanoseconds; a date is its number of milliseconds, without a fraction.\<close>

definition js_trunc :: "rat \<Rightarrow> int" where
  "js_trunc x = (if 0 \<le> x then \<lfloor>x\<rfloor> else \<lceil>x\<rceil>)"

definition createdOn :: "big_lib \<Rightarrow> Swap \<Rightarrow> int" where
  "createdOn B s = js_trunc (big_div B (big_div B (initiationTime s) 1000) 1000)"

definition updatedOn :: "big_lib \<Rightarrow> Swap \<Rightarrow> int" where
  "updatedOn B s = js_trunc (big_div B (big_div B (lastUpdateTime s) 1000) 1000)"

text \<open>\<open>date_text fmt ms\<close> is \<open>formatDate\<close> of the package \<open>date-fns\<close>.\<close>

definition createdOnLabel :: "big_lib \<Rightarrow> (string \<Rightarrow> int \<Rightarrow> string) \<Rightarrow> Swap \<Rightarrow> string" where
  "createdOnLabel B date_text s = date_text ''MMM d, h:mm a'' (createdOn B s)"

definition updatedOnLabel :: "big_lib \<Rightarrow> (string \<Rightarrow> int \<Rightarrow> string) \<Rightarrow> Swap \<Rightarrow> string" where
  "updatedOnLabel B date_text s = date_text ''MMM d, h:mm a'' (updatedOn B s)"

definition isRecent :: "big_lib \<Rightarrow> int \<Rightarrow> Swap \<Rightarrow> bool" where
  "isRecent B now s \<longleftrightarrow> now - updatedOn B s < 5 * 60 * 1000"

definition isPending :: "Swap \<Rightarrow> bool" where
  "isPending s \<longleftrightarrow> sw_state s \<noteq> SUCCESS \<and> sw_state s \<noteq> FAILED"

definition typeName :: "Swap \<Rightarrow> string" where
  "typeName s =
     (if sw_type s = LOOP_IN then ''Loop In'' else if sw_type s = LOOP_OUT then ''Loop Out'' else ''Unknown'')"

definition stateLabel :: "Swap \<Rightarrow> string" where
  "stateLabel s =
     (if sw_state s = INITIATED then ''Initiated''
      else if sw_state s = PREIMAGE_REVEALED then ''Preimage Revealed''
      else if sw_state s = HTLC_PUBLISHED then ''HTLC Published''
      else if sw_state s = SUCCESS then ''Success''
      else if sw_state s = FAILED then ''Failed''
      else if sw_state s = INVOICE_SETTLED then ''Invoice Settled''
      else ''Unknown'')"

definition failureLabel :: "Swap \<Rightarrow> string" where
  "failureLabel s =
     (if failureReason s = 1 then ''Off-chain Failure''
      else if failureReason s = 2 then ''On-chain Timeout''
      else if failureReason s = 3 then ''Sweep Timeout''
      else if failureReason s = 4 then ''Insufficient Value''
      else if failureReason s = 5 then ''Temporary Failure''
      else if failureReason s = 6 then ''Incorrect Amount''
      else ''Failed'')"

definition Swap_compare :: "string option \<Rightarrow> Swap \<Rightarrow> Swap \<Rightarrow> rat" where
  "Swap_compare field a b =
     (if field = Some ''stateLabel'' then compare_text (stateLabel a) (stateLabel b)
      else if field = Some ''typeName'' then compare_text (typeName a) (typeName b)
      else if field = Some ''amount'' then sw_amount a - sw_amount b
      else if field = Some ''initiationTime'' then initiationTime a - initiationTime b
      else lastUpdateTime a - lastUpdateTime b)"

definition Swap_csvColumns :: "(string \<times> string) list" where
  "Swap_csvColumns =
     [(''id'', ''Swap ID''), (''typeName'', ''Type''), (''amount'', ''Amount''), (''stateLabel'', ''Status''),
      (''createdOnLabel'', ''Created On''), (''updatedOnLabel'', ''Updated On'')]"

section \<open>Properties of the comparators\<close>

lemma str_gt_irrefl [simp]: "\<not> str_gt s s"
  by (induction s) auto

lemma str_gt_trans: "str_gt a b \<Longrightarrow> str_gt b c \<Longrightarrow> str_gt a c"
proof (induction a b arbitrary: c rule: str_gt.induct)
  case (3 x s y t)
  then show ?case by (cases c) auto
qed (auto elim: str_gt.elims)

lemma of_char_inj: "of_char c = (of_char d :: nat) \<Longrightarrow> c = d"
  by (metis char_of_char)

lemma str_gt_total: "a \<noteq> b \<Longrightarrow> str_gt a b \<or> str_gt b a"
proof (induction a b rule: str_gt.induct)
  case (1 t)
  then show ?case by (cases t) auto
next
  case (3 x s y t)
  consider "x = y" | "of_char x < (of_char y :: nat)" | "of_char y < (of_char x :: nat)"
    using of_char_inj [of x y] by linarith
  then show ?case using 3 by cases auto
qed auto

lemma str_le_trans: "\<not> str_gt a b \<Longrightarrow> \<not> str_gt b c \<Longrightarrow> \<not> str_gt a c"
  using str_gt_total [of a b] str_gt_trans [of b a c] by auto

lemma compare_text_le: "compare_text a b \<le> 0 \<longleftrightarrow> \<not> str_gt (toLowerCase a) (toLowerCase b)"
  by (simp add: compare_text_def)

lemma compare_text_comparator: "comparator (\<lambda>a b. compare_text (f a) (f b))"
  unfolding comparator_def compare_text_le using str_gt_trans str_le_trans str_gt_irrefl by blast

lemma comparator_if:
  "comparator f \<Longrightarrow> comparator g \<Longrightarrow> comparator (\<lambda>a b. if P then f a b else g a b)"
  by (cases P) simp_all

text \<open>
  The channel and swap lists are properly sorted whatever the sort field: both
  comparators are total and transitive, so the sorted list contains the same entries with
  no entry before a smaller one. For text fields equal entries are \<open>compare_text\<close>-below
  each other (the comparator answers -1, never the documented zero), which keeps the
  order of a stable sort.
\<close>

lemma compare_sorts_lists:
  "sorted_wrt (\<lambda>a b. Channel_compare B mode field a b \<le> 0) (sort_by (Channel_compare B mode field) False cs) \<and>
   mset (sort_by (Channel_compare B mode field) desc cs) = mset cs \<and>
   sorted_wrt (\<lambda>a b. Swap_compare field a b \<le> 0) (sort_by (Swap_compare field) False ss) \<and>
   mset (sort_by (Swap_compare field) desc ss) = mset ss \<and>
   compare_text t t = - 1"
proof -
  have "comparator (Channel_compare B mode field)"
    unfolding Channel_compare_def [abs_def]
    by (intro comparator_if comparator_key compare_text_comparator)
  moreover have "comparator (Swap_compare field)"
    unfolding Swap_compare_def [abs_def]
    by (intro comparator_if comparator_key compare_text_comparator)
  ultimately show ?thesis by (simp add: sort_by_def Let_def sorted_js_sort compare_text_def)
qed

section \<open>Properties of the models\<close>

text \<open>
  A channel model shows exactly what the node reported: after \<open>update\<close> the derived
  percentages are whole numbers between 0 and 100 whenever the node's own figures are
  consistent, and nothing but the alias, the fee rate and the status survives from the
  model's previous contents.
\<close>

lemma Channel_update_shows_report:
  assumes "big_law B"
    and "0 \<le> lnd_localBalance r" "lnd_localBalance r \<le> lnd_capacity r" "lnd_capacity r < 10 ^ 20"
    and "0 \<le> lnd_uptime r" "lnd_uptime r \<le> lnd_lifetime r" "lnd_lifetime r < 10 ^ 20"
  shows "localPercent B (Channel_update r c) = of_int (100 * lnd_localBalance r div lnd_capacity r) \<and>
    0 \<le> localPercent B (Channel_update r c) \<and> localPercent B (Channel_update r c) \<le> 100 \<and>
    0 \<le> uptimePercent B (Channel_update r c) \<and> uptimePercent B (Channel_update r c) \<le> 100 \<and>
    (ch_alias c = ch_alias d \<and> remoteFeeRate c = remoteFeeRate d \<and> ch_status c = ch_status d \<longrightarrow>
      Channel_update r c = Channel_update r d)"
proof -
  have "Channel_update r c = Channel_update r d"
    if "ch_alias c = ch_alias d" "remoteFeeRate c = remoteFeeRate d" "ch_status c = ch_status d"
    using that by (cases c, cases d) (simp add: Channel_update_def)
  moreover have "0 \<le> lnd_capacity r" "0 \<le> lnd_lifetime r" using assms by linarith+
  ultimately show ?thesis
    using assms percentage_whole [OF assms(1), of "lnd_localBalance r" "lnd_capacity r"]
      percentage_range [OF assms(1), of "lnd_localBalance r" "lnd_capacity r"]
      percentage_range [OF assms(1), of "lnd_uptime r" "lnd_lifetime r"]
    by (simp add: localPercent_def uptimePercent_def Channel_update_def)
qed

definition demo_lnd_channel :: "string \<Rightarrow> lnd_channel" where
  "demo_lnd_channel i =
     \<lparr>lnd_chanId = i, lnd_remotePubkey = ''02ab'', lnd_channelPoint = i @ '':0'', lnd_capacity = 1000000,
      lnd_localBalance = 620000, lnd_remoteBalance = 370000, lnd_active = True, lnd_uptime = 90,
      lnd_lifetime = 100\<rparr>"

lemma Channel_update_shows_report_witness:
  "localPercent exact_big (Channel_update (demo_lnd_channel ''7'') new_Channel) = 62"
  using Channel_update_shows_report [OF exact_big_law, of "demo_lnd_channel ''7''" new_Channel new_Channel]
  by (simp add: demo_lnd_channel_def)

end
