(* ===== verification/App_Node.thy ===== *)
theory App_Node
  imports Loop_Models
begin

text \<open>
  The browser cache (\<open>app/src/util/appStorage.ts\<close>), the node store
  (\<open>app/src/store/stores/nodeStore.ts\<close>) and the status of the subservers
  (\<open>app/src/store/stores/subServerStore.ts\<close>).
\<close>

section \<open>Cached data\<close>

text \<open>A cache entry is its expiry time and its data.\<close>

type_synonym 'v cache = "(int \<times> (string \<times> 'v) list) option"

definition CACHE_TIMEOUT :: int where
  "CACHE_TIMEOUT = 24 * 60 * 60 * 1000"

text \<open>\<open>cached && cached.expires > Date.now()\<close>\<close>

definition cache_fresh :: "int \<Rightarrow> 'v cache \<Rightarrow> bool" where
  "cache_fresh now cached = (case cached of Some (expires, _) \<Rightarrow> expires > now | None \<Rightarrow> False)"

definition cached_data :: "int \<Rightarrow> 'v cache \<Rightarrow> (string \<times> 'v) list" where
  "cached_data now cached =
     (if cache_fresh now cached then (case cached of Some (_, data) \<Rightarrow> data | None \<Rightarrow> []) else [])"

text \<open>The keys that have to be asked for; \<open>truthy\<close> is the truth value of a cached value.\<close>

definition missing_keys ::
    "('v \<Rightarrow> bool) \<Rightarrow> string list \<Rightarrow> int \<Rightarrow> 'v cache \<Rightarrow> string list" where
  "missing_keys is_truthy requiredKeys now cached =
     (let keys = js_Set requiredKeys in
      if cache_fresh now cached
      then filter (\<lambda>k. \<not> (case map_of (cached_data now cached) k of Some v \<Rightarrow> is_truthy v | None \<Rightarrow> False)) keys
      else keys)"

text \<open>
  \<open>now1\<close> is the time of the lookup, \<open>now2\<close> the time at which the API has answered. The
  result is the data and the new cache entry.
\<close>

definition getCached ::
    "('v \<Rightarrow> bool) \<Rightarrow> (string list \<Rightarrow> (string \<times> 'v) list \<Rightarrow> (string \<times> 'v) list api_result) \<Rightarrow>
     string list \<Rightarrow> int \<Rightarrow> int \<Rightarrow> 'v cache \<Rightarrow> (string \<times> 'v) list \<times> 'v cache" where
  "getCached is_truthy fetchFromApi requiredKeys now1 now2 cached =
     (let data = cached_data now1 cached;
          keys = missing_keys is_truthy requiredKeys now1 cached
      in if keys = [] then (data, cached)
         else case fetchFromApi keys data of
           Inl _ \<Rightarrow> (data, cached)
         | Inr data' \<Rightarrow>
             (let expires = (if cache_fresh now2 cached then fst (the cached) else now2 + CACHE_TIMEOUT)
              in (data', Some (expires, data'))))"

section \<open>The node\<close>

record SubServerStatus =
  ss_disabled :: bool
  ss_running :: bool
  ss_error :: string

record app_node = app_settings +
  knownTxns :: "string list"
  pubkey :: string
  node_alias :: string
  node_url :: string
  chain :: string
  network :: string
  channelBalance :: Big
  walletBalance :: Big
  confirmedBalance :: Big
  blockHeight :: int
  ss_loading :: bool
  ss_loop :: SubServerStatus
  ss_pool :: SubServerStatus
  ss_lit :: SubServerStatus

definition pubkeyLabel :: "'a app_node_scheme \<Rightarrow> string" where
  "pubkeyLabel s = ellipseInside (pubkey s) 6 None"

text \<open>\<open>s.split('@')\<close>\<close>

fun split_at :: "string \<Rightarrow> string list" where
  "split_at [] = [[]]"
| "split_at (c # s) =
     (if c = CHR ''@'' then [] # split_at s
      else case split_at s of w # ws \<Rightarrow> (c # w) # ws | [] \<Rightarrow> [[c]])"

definition urlLabel :: "'a app_node_scheme \<Rightarrow> string" where
  "urlLabel s =
     (if node_url s = [] then []
      else case split_at (node_url s) of
             key # host # _ \<Rightarrow> if host = [] then [] else ellipseInside key 6 None @ ''@'' @ host
           | _ \<Rightarrow> [])"

text \<open>\<open>copy\<close>: the value under the key goes to the clipboard, and the user is told.\<close>

definition node_copy :: "string \<Rightarrow> 'a app_node_scheme \<Rightarrow> string \<times> 'a app_node_scheme" where
  "node_copy key s =
     ((if key = ''pubkey'' then pubkey s else if key = ''alias'' then node_alias s else node_url s),
      notify (Plain (''Copied '' @ key @ '' to clipboard'')) (Some (Plain [])) Success s)"

record node_info =
  ni_identityPubkey :: string
  ni_alias :: string
  ni_blockHeight :: int
  ni_chainsList :: "(string \<times> string) list"
  ni_urisList :: "string list"

definition fetchInfo :: "node_info api_result \<Rightarrow> 'a app_node_scheme \<Rightarrow> 'a app_node_scheme" where
  "fetchInfo res s =
     (case res of
        Inl e \<Rightarrow> handleError e ''Unable to fetch node info'' s
      | Inr info \<Rightarrow>
          (let s = s\<lparr>pubkey := ni_identityPubkey info, node_alias := ni_alias info,
                     blockHeight := ni_blockHeight info\<rparr>;
               s = (case ni_chainsList info of
                      (c, n) # _ \<Rightarrow> s\<lparr>chain := c, network := n\<rparr> | [] \<Rightarrow> s)
           in case ni_urisList info of u # _ \<Rightarrow> s\<lparr>node_url := u\<rparr> | [] \<Rightarrow> s))"

text \<open>The replies are the channel balance, then the total and confirmed wallet balances.\<close>

definition fetchBalances ::
    "int api_result \<Rightarrow> (int \<times> int) api_result \<Rightarrow> 'a app_node_scheme \<Rightarrow> 'a app_node_scheme" where
  "fetchBalances offChain onChain s =
     (case offChain of
        Inl e \<Rightarrow> handleError e ''Unable to fetch balances'' s
      | Inr balance \<Rightarrow>
          (case onChain of
             Inl e \<Rightarrow> handleError e ''Unable to fetch balances'' s
           | Inr (totalBal, confirmed) \<Rightarrow>
               s\<lparr>channelBalance := of_int balance, walletBalance := of_int totalBal,
                 confirmedBalance := of_int confirmed\<rparr>))"

record lnd_transaction =
  tx_hash :: string
  tx_amount :: int

definition onTransaction :: "lnd_transaction \<Rightarrow> 'a app_node_scheme \<Rightarrow> 'a app_node_scheme" where
  "onTransaction tx s =
     (let s = (if tx_hash tx \<notin> set (knownTxns s)
               then s\<lparr>knownTxns := knownTxns s @ [tx_hash tx],
                      walletBalance := walletBalance s + of_int (tx_amount tx)\<rparr>
               else s)
      in start_call FetchAccountsThrottled s)"

section \<open>Subservers\<close>

fun apply_status :: "(string \<times> SubServerStatus) list \<Rightarrow> 'a app_node_scheme \<Rightarrow> 'a app_node_scheme" where
  "apply_status [] s = s"
| "apply_status ((serverName, status) # rest) s =
     apply_status rest
       (if serverName = ''pool'' then s\<lparr>ss_pool := status\<rparr>
        else if serverName = ''loop'' then s\<lparr>ss_loop := status\<rparr>
        else if serverName = ''lit'' then s\<lparr>ss_lit := status\<rparr>
        else s)"

definition fetchStatus ::
    "(string \<times> SubServerStatus) list api_result \<Rightarrow> 'a app_node_scheme \<Rightarrow> 'a app_node_scheme" where
  "fetchStatus res s =
     (let s = s\<lparr>ss_loading := True\<rparr>;
          s = (case res of
                 Inl e \<Rightarrow> handleError e ''Unable to fetch SubServer Status'' s
               | Inr statuses \<Rightarrow> apply_status statuses s)
      in s\<lparr>ss_loading := False\<rparr>)"

section \<open>Properties\<close>

lemma required_keys_served:
  assumes new: "\<forall>k \<in> set (missing_keys T ks now1 c). \<exists>v. map_of data k = Some v \<and> T v"
    and old: "\<forall>k. k \<notin> set (missing_keys T ks now1 c) \<longrightarrow> map_of data k = map_of (cached_data now1 c) k"
    and "k \<in> set ks"
  shows "\<exists>v. map_of data k = Some v \<and> T v"
proof (cases "k \<in> set (missing_keys T ks now1 c)")
  case False
  then have "\<exists>v. map_of (cached_data now1 c) k = Some v \<and> T v"
    using \<open>k \<in> set ks\<close> by (auto simp: missing_keys_def Let_def split: if_splits option.splits)
  then show ?thesis using old False by metis
qed (use new in blast)

lemma missing_keys_none:
  assumes "\<forall>k \<in> set ks. \<exists>v. map_of data k = Some v \<and> T v" and "cache_fresh now (Some (e, data))"
  shows "missing_keys T ks now (Some (e, data)) = []"
proof -
  have "case map_of data k of Some v \<Rightarrow> T v | None \<Rightarrow> False" if "k \<in> set ks" for k
    using assms(1) that by fastforce
  then show ?thesis using assms(2) by (simp add: missing_keys_def cached_data_def filter_empty_conv)
qed

text \<open>
  The cache saves calls: when the API answers with a value for every key it was asked for
  and keeps the data it was given, the answer has a value for every required key, and as
  long as the new cache entry is fresh a second request for the same keys is served from it
  without asking the API, whatever that would answer.
\<close>

lemma getCached_serves_again:
  assumes "missing_keys T ks now1 c \<noteq> []"
    and "api (missing_keys T ks now1 c) (cached_data now1 c) = Inr data"
    and "\<forall>k \<in> set (missing_keys T ks now1 c). \<exists>v. map_of data k = Some v \<and> T v"
    and "\<forall>k. k \<notin> set (missing_keys T ks now1 c) \<longrightarrow> map_of data k = map_of (cached_data now1 c) k"
    and "getCached T api ks now1 now2 c = (d, c')" and "cache_fresh now3 c'"
  shows "d = data \<and> (\<forall>k \<in> set ks. \<exists>v. map_of d k = Some v \<and> T v) \<and>
    getCached T api' ks now3 now4 c' = (data, c')"
proof -
  define e where "e = (if cache_fresh now2 c then fst (the c) else now2 + CACHE_TIMEOUT)"
  have "getCached T api ks now1 now2 c = (data, Some (e, data))"
    by (simp add: getCached_def assms(1,2) e_def)
  then have c': "c' = Some (e, data)" "d = data" using assms(5) by simp_all
  have served: "\<forall>k \<in> set ks. \<exists>v. map_of data k = Some v \<and> T v"
    using required_keys_served [OF assms(3,4)] by blast
  have none: "missing_keys T ks now3 c' = []"
    using missing_keys_none [of ks data T now3 e] served assms(6) by (simp add: c'(1))
  have again: "cached_data now3 c' = data" using assms(6) by (simp add: cached_data_def c'(1))
  have "getCached T api' ks now3 now4 c' = (data, c')" by (simp add: getCached_def none again)
  then show ?thesis using served c'(2) by blast
qed

text \<open>
  Cached data is at most a day old: if a cache entry expires within 24 hours of the time
  the answer arrives, so does the entry that \<open>getCached\<close> leaves behind; and a failing API
  changes neither the cache nor the data served from it.
\<close>

lemma getCached_expiry:
  assumes "getCached T api ks now1 now2 c = (d, c')"
    and "\<forall>e x. c = Some (e, x) \<longrightarrow> e \<le> now2 + CACHE_TIMEOUT"
  shows "(\<forall>e x. c' = Some (e, x) \<longrightarrow> e \<le> now2 + CACHE_TIMEOUT) \<and>
    ((\<forall>ks x. \<exists>err. api ks x = Inl err) \<longrightarrow> c' = c \<and> d = cached_data now1 c)"
proof -
  have "c' = c \<and> d = cached_data now1 c" if fails: "\<forall>ks x. \<exists>err. api ks x = Inl err"
  proof -
    obtain err where "api (missing_keys T ks now1 c) (cached_data now1 c) = Inl err" using fails by blast
    then show ?thesis using assms(1) by (auto simp: getCached_def Let_def split: if_splits)
  qed
  moreover have "\<forall>e x. c' = Some (e, x) \<longrightarrow> e \<le> now2 + CACHE_TIMEOUT"
    using assms by (cases c) (auto simp: getCached_def Let_def cache_fresh_def split: if_splits sum.splits)
  ultimately show ?thesis by blast
qed

text \<open>The amounts of the transactions that are new, each counted once.\<close>

fun new_amounts :: "string list \<Rightarrow> lnd_transaction list \<Rightarrow> rat" where
  "new_amounts known [] = 0"
| "new_amounts known (tx # txs) =
     (if tx_hash tx \<in> set known then new_amounts known txs
      else of_int (tx_amount tx) + new_amounts (tx_hash tx # known) txs)"

lemma new_amounts_cong: "set k = set k' \<Longrightarrow> new_amounts k txs = new_amounts k' txs"
proof (induction txs arbitrary: k k')
  case (Cons tx txs)
  then have "set (tx_hash tx # k) = set (tx_hash tx # k')" by simp
  from Cons.IH [OF this] Cons.IH [OF Cons.prems] Cons.prems show ?case by simp
qed simp

lemma onTransaction_fields [simp]:
  "walletBalance (onTransaction tx s) =
     walletBalance s + (if tx_hash tx \<in> set (knownTxns s) then 0 else of_int (tx_amount tx))"
  "knownTxns (onTransaction tx s) =
     knownTxns s @ (if tx_hash tx \<in> set (knownTxns s) then [] else [tx_hash tx])"
  by (simp_all add: onTransaction_def start_call_def Let_def)

text \<open>
  The wallet balance counts every transaction once: after any sequence of transaction
  events it has grown by the amounts of the transactions that were not known before,
  however often each was announced.
\<close>

lemma onTransaction_counts_once:
  "walletBalance (foldl (\<lambda>s tx. onTransaction tx s) s txs) = walletBalance s + new_amounts (knownTxns s) txs"
proof (induction txs arbitrary: s)
  case (Cons tx txs)
  have "new_amounts (knownTxns s @ [tx_hash tx]) txs = new_amounts (tx_hash tx # knownTxns s) txs"
    by (rule new_amounts_cong) simp
  then show ?case by (simp add: Cons.IH)
qed simp

definition demo_aliases :: "string list \<Rightarrow> (string \<times> string) list \<Rightarrow> (string \<times> string) list api_result" where
  "demo_aliases ks data = Inr (foldl (\<lambda>d k. AList.update k ''alice'' d) data ks)"

lemma getCached_serves_again_witness:
  "getCached (\<lambda>v. v \<noteq> []) (\<lambda>_ _. Inl (AppError ''offline'')) [''02ab''] 6 7
     (snd (getCached (\<lambda>v. v \<noteq> []) demo_aliases [''02ab''] 4 5 None)) =
   ([(''02ab'', ''alice'')], Some (5 + CACHE_TIMEOUT, [(''02ab'', ''alice'')]))"
proof -
  have keys: "missing_keys (\<lambda>v. v \<noteq> []) [''02ab''] 4 None = [''02ab'']"
    by (simp add: missing_keys_def cache_fresh_def js_Set_def set_add_def)
  have first: "getCached (\<lambda>v. v \<noteq> []) demo_aliases [''02ab''] 4 5 None =
      ([(''02ab'', ''alice'')], Some (5 + CACHE_TIMEOUT, [(''02ab'', ''alice'')]))"
    by (simp add: getCached_def keys demo_aliases_def cached_data_def cache_fresh_def)
  have fresh: "cache_fresh 6 (Some (5 + CACHE_TIMEOUT, [(''02ab'', ''alice'')]))"
    by (simp add: cache_fresh_def CACHE_TIMEOUT_def)
  show ?thesis
    using getCached_serves_again [OF _ _ _ _ first fresh, of "[(''02ab'', ''alice'')]" "\<lambda>_ _. Inl (AppError ''offline'')" 7]
    by (simp add: keys first demo_aliases_def cached_data_def cache_fresh_def)
qed

lemma getCached_expiry_witness:
  "snd (getCached (\<lambda>v. v \<noteq> []) (\<lambda>_ _. Inl (AppError ''offline'')) [''02ab''] 4 5 (Some (9, [(''03'', ''bob'')])))
     = Some (9, [(''03'', ''bob'')])"
  using getCached_expiry [of "\<lambda>v. v \<noteq> []" "\<lambda>_ _. Inl (AppError ''offline'')" "[''02ab'']" 4 5
      "Some (9, [(''03'', ''bob'')])"
      "fst (getCached (\<lambda>v. v \<noteq> []) (\<lambda>_ _. Inl (AppError ''offline'')) [''02ab''] 4 5 (Some (9, [(''03'', ''bob'')])))"
      "snd (getCached (\<lambda>v. v \<noteq> []) (\<lambda>_ _. Inl (AppError ''offline'')) [''02ab''] 4 5 (Some (9, [(''03'', ''bob'')])))"]
  by (simp add: CACHE_TIMEOUT_def)

end
