(* ===== verification/Loop_Stores.thy ===== *)
theory Loop_Stores
  imports App_Node
begin

text \<open>
  \<open>app/src/store/stores/channelStore.ts\<close> and \<open>app/src/store/stores/swapStore.ts\<close>. An
  operation that waits for a daemon is a function of the daemon's reply; the arguments of
  a call it starts for itself are recorded by \<open>start_call\<close>.
\<close>

section \<open>State\<close>

record app_channels = app_node +
  channels :: "(string \<times> Channel) list"
  pendingChannels :: "(string \<times> Channel) list"
  ls_aliases :: "string cache"
  ls_feeRates :: "rat cache"

record app_loop = app_channels +
  swaps :: "(string \<times> Swap) list"
  swappedChannels :: "(string \<times> string list) list"
  dismissedSwapIds :: "string list"

section \<open>Channels\<close>

definition sort_channels :: "big_lib \<Rightarrow> BalanceMode \<Rightarrow> SortParams \<Rightarrow> (string \<times> Channel) list \<Rightarrow> Channel list" where
  "sort_channels B mode srt m =
     sort_by (Channel_compare B mode (so_field srt)) (so_descending srt) (map snd m)"

definition sortedChannels :: "big_lib \<Rightarrow> 'a app_channels_scheme \<Rightarrow> Channel list" where
  "sortedChannels B s = sort_channels B (balanceMode s) (channelSort s) (channels s)"

definition sortedPendingChannels :: "big_lib \<Rightarrow> 'a app_channels_scheme \<Rightarrow> Channel list" where
  "sortedPendingChannels B s = sort_channels B (balanceMode s) (channelSort s) (pendingChannels s)"

definition activeChannels :: "big_lib \<Rightarrow> 'a app_channels_scheme \<Rightarrow> Channel list" where
  "activeChannels B s = filter ch_active (sortedChannels B s)"

definition totalInbound :: "big_lib \<Rightarrow> 'a app_channels_scheme \<Rightarrow> Big" where
  "totalInbound B s = foldl (\<lambda>acc c. acc + remoteBalance c) 0 (sortedChannels B s)"

definition totalOutbound :: "big_lib \<Rightarrow> 'a app_channels_scheme \<Rightarrow> Big" where
  "totalOutbound B s = foldl (\<lambda>acc c. acc + localBalance c) 0 (sortedChannels B s)"

text \<open>The model for an entry of the reply: the stored one updated, or a new one.\<close>

definition channel_of :: "lnd_channel \<Rightarrow> Channel option \<Rightarrow> Channel" where
  "channel_of lndChan existing =
     (case existing of Some c \<Rightarrow> Channel_update lndChan c | None \<Rightarrow> Channel_create lndChan)"

definition refresh_channels ::
    "big_lib \<Rightarrow> BalanceMode \<Rightarrow> SortParams \<Rightarrow> lnd_channel list \<Rightarrow> (string \<times> Channel) list \<Rightarrow> (string \<times> Channel) list" where
  "refresh_channels B mode srt channelsList m =
     (let m = upsert_all lnd_chanId channel_of channelsList m;
          serverIds = map lnd_chanId channelsList;
          localIds = map chanId (sort_channels B mode srt m)
      in drop_missing localIds serverIds m)"

definition fetchChannels :: "big_lib \<Rightarrow> lnd_channel list api_result \<Rightarrow> 'a app_channels_scheme \<Rightarrow> 'a app_channels_scheme" where
  "fetchChannels B res s =
     (case res of
        Inl e \<Rightarrow> handleError e ''Unable to fetch Channels'' s
      | Inr channelsList \<Rightarrow>
          (let s = s\<lparr>channels := refresh_channels B (balanceMode s) (channelSort s) channelsList (channels s)\<rparr>;
               s = start_call FetchPendingChannels s;
               s = start_call FetchAliases s
           in start_call FetchFeeRates s))"

record pending_reply =
  pr_opening :: "lnd_pending list"
  pr_closing :: "lnd_pending list"
  pr_waitingClose :: "lnd_pending list"
  pr_forceClosing :: "lnd_pending list"

definition pending_list :: "pending_reply \<Rightarrow> (ChannelStatus \<times> lnd_pending) list" where
  "pending_list r =
     map (Pair OPENING) (pr_opening r) @ map (Pair CLOSING) (pr_closing r) @
     map (Pair WAITING_TO_CLOSE) (pr_waitingClose r) @ map (Pair FORCE_CLOSING) (pr_forceClosing r)"

definition pending_of :: "ChannelStatus \<times> lnd_pending \<Rightarrow> Channel option \<Rightarrow> Channel" where
  "pending_of p existing =
     (case existing of
        Some c \<Rightarrow> updatePending (fst p) (snd p) c
      | None \<Rightarrow> createPending (fst p) (snd p))"

definition pending_key :: "ChannelStatus \<times> lnd_pending \<Rightarrow> string" where
  "pending_key p = pend_channelPoint (snd p)"

definition refresh_pending ::
    "big_lib \<Rightarrow> BalanceMode \<Rightarrow> SortParams \<Rightarrow> (ChannelStatus \<times> lnd_pending) list \<Rightarrow> (string \<times> Channel) list \<Rightarrow>
     (string \<times> Channel) list" where
  "refresh_pending B mode srt pend m =
     (let m = upsert_all pending_key pending_of pend m;
          serverIds = map pending_key pend;
          localIds = map channelPoint (sort_channels B mode srt m)
      in drop_missing localIds serverIds m)"

definition fetchPendingChannels ::
    "big_lib \<Rightarrow> pending_reply api_result \<Rightarrow> 'a app_channels_scheme \<Rightarrow> 'a app_channels_scheme" where
  "fetchPendingChannels B res s =
     (case res of
        Inl e \<Rightarrow> handleError e ''Unable to fetch Pending Channels'' s
      | Inr r \<Rightarrow>
          s\<lparr>pendingChannels :=
             refresh_pending B (balanceMode s) (channelSort s) (pending_list r) (pendingChannels s)\<rparr>)"

text \<open>\<open>Promise.all\<close>: all answers, or a failure when one of the requests fails.\<close>

fun all_ok :: "'v api_result list \<Rightarrow> 'v list api_result" where
  "all_ok [] = Inr []"
| "all_ok (r # rs) =
     (case r of
        Inl e \<Rightarrow> Inl e
      | Inr v \<Rightarrow> (case all_ok rs of Inl e \<Rightarrow> Inl e | Inr vs \<Rightarrow> Inr (v # vs)))"

text \<open>\<open>getNodeInfo\<close> answers with the public key and alias of the node, when it knows it.\<close>

definition aliases_from_api ::
    "(string \<Rightarrow> (string \<times> string) option api_result) \<Rightarrow> string list \<Rightarrow> (string \<times> string) list \<Rightarrow>
     (string \<times> string) list api_result" where
  "aliases_from_api getNodeInfo missingKeys data =
     (case all_ok (map getNodeInfo missingKeys) of
        Inl e \<Rightarrow> Inl e
      | Inr nodeInfos \<Rightarrow>
          Inr (foldl (\<lambda>acc node. case node of Some (pk, a) \<Rightarrow> AList.update pk a acc | None \<Rightarrow> acc) data nodeInfos))"

definition set_alias :: "(string \<times> string) list \<Rightarrow> Channel \<Rightarrow> Channel" where
  "set_alias aliases c =
     (case map_of aliases (remotePubkey c) of
        Some a \<Rightarrow> if a \<noteq> [] \<and> Some a \<noteq> ch_alias c then c\<lparr>ch_alias := Some a\<rparr> else c
      | None \<Rightarrow> c)"

definition fetchAliases ::
    "(string \<Rightarrow> (string \<times> string) option api_result) \<Rightarrow> int \<Rightarrow> 'a app_channels_scheme \<Rightarrow> 'a app_channels_scheme" where
  "fetchAliases getNodeInfo now2 s =
     (case getCached (\<lambda>a. a \<noteq> []) (aliases_from_api getNodeInfo) (map (remotePubkey \<circ> snd) (channels s))
             (clock s) now2 (ls_aliases s) of
        (aliases, cache) \<Rightarrow>
          s\<lparr>ls_aliases := cache, channels := map (map_prod id (set_alias aliases)) (channels s)\<rparr>)"

record channel_info =
  ci_channelId :: string
  ci_node1Pub :: string
  ci_node1Fee :: "int option"
  ci_node2Fee :: "int option"

definition feeRates_from_api ::
    "string \<Rightarrow> (string \<Rightarrow> channel_info api_result) \<Rightarrow> string list \<Rightarrow> (string \<times> rat) list \<Rightarrow> (string \<times> rat) list api_result" where
  "feeRates_from_api localPubkey getChannelInfo missingKeys data =
     (case all_ok (map getChannelInfo missingKeys) of
        Inl e \<Rightarrow> Inl e
      | Inr chanInfos \<Rightarrow>
          Inr (foldl (\<lambda>acc info.
                 case (if ci_node1Pub info = localPubkey then ci_node2Fee info else ci_node1Fee info) of
                   Some fee \<Rightarrow> AList.update (ci_channelId info) (of_int fee) acc
                 | None \<Rightarrow> acc) data chanInfos))"

definition set_fee_rate :: "(string \<times> rat) list \<Rightarrow> Channel \<Rightarrow> Channel" where
  "set_fee_rate feeRates c =
     (case map_of feeRates (chanId c) of
        Some r \<Rightarrow> if r \<noteq> 0 \<and> remoteFeeRate c \<noteq> r then c\<lparr>remoteFeeRate := r\<rparr> else c
      | None \<Rightarrow> c)"

definition fetchFeeRates ::
    "(string \<Rightarrow> channel_info api_result) \<Rightarrow> int \<Rightarrow> 'a app_channels_scheme \<Rightarrow> 'a app_channels_scheme" where
  "fetchFeeRates getChannelInfo now2 s =
     (case getCached (\<lambda>r. r \<noteq> 0) (feeRates_from_api (pubkey s) getChannelInfo) (map (chanId \<circ> snd) (channels s))
             (clock s) now2 (ls_feeRates s) of
        (feeRates, cache) \<Rightarrow>
          s\<lparr>ls_feeRates := cache, channels := map (map_prod id (set_fee_rate feeRates)) (channels s)\<rparr>)"

text \<open>A channel point as the daemon sends it: base64 of the transaction id, and the output.\<close>

type_synonym channel_point = "string \<times> int"

definition channelPointToString :: "channel_point \<Rightarrow> string" where
  "channelPointToString p = hex (fst p) True @ '':'' @ int_to_string (snd p)"

record channel_event =
  ev_type :: int
  ev_inactiveChannel :: "channel_point option"
  ev_activeChannel :: "channel_point option"
  ev_closedChannel :: "string option"
  ev_openChannel :: "lnd_channel option"
  ev_pendingOpenChannel :: bool

definition set_active_at :: "string \<Rightarrow> bool \<Rightarrow> (string \<times> Channel) list \<Rightarrow> (string \<times> Channel) list" where
  "set_active_at point act m =
     map (map_prod id (\<lambda>c. if channelPoint c = point then c\<lparr>ch_active := act\<rparr> else c)) m"

definition onChannelEvent :: "channel_event \<Rightarrow> 'a app_channels_scheme \<Rightarrow> 'a app_channels_scheme" where
  "onChannelEvent event s =
     (if ev_type event = 3 \<and> ev_inactiveChannel event \<noteq> None then
        s\<lparr>channels := set_active_at (channelPointToString (the (ev_inactiveChannel event))) False (channels s)\<rparr>
      else if ev_type event = 2 \<and> ev_activeChannel event \<noteq> None then
        s\<lparr>channels := set_active_at (channelPointToString (the (ev_activeChannel event))) True (channels s)\<rparr>
      else if ev_type event = 1 \<and> ev_closedChannel event \<noteq> None then
        start_call FetchBalancesThrottled
          (s\<lparr>channels := AList.delete (the (ev_closedChannel event)) (channels s)\<rparr>)
      else if ev_type event = 0 \<and> ev_openChannel event \<noteq> None then
        (let channel = Channel_create (the (ev_openChannel event));
             s = s\<lparr>channels := AList.update (chanId channel) channel (channels s)\<rparr>;
             s = start_call FetchBalancesThrottled s;
             s = start_call FetchPendingChannelsThrottled s;
             s = start_call FetchAliases s
         in start_call FetchFeeRates s)
      else if ev_type event = 4 \<and> ev_pendingOpenChannel event then
        (let s = start_call FetchPendingChannelsThrottled s;
             s = start_call FetchOrdersThrottled s;
             s = start_call FetchLeasesThrottled s
         in start_call FetchLatestBatchThrottled s)
      else s)"

text \<open>
  The value of a CSV column; balances are whole satoshis and the percentage is whole, so
  rounding down does not change them.
\<close>

definition channel_csv :: "big_lib \<Rightarrow> Channel \<Rightarrow> string \<Rightarrow> js_value" where
  "channel_csv B c k =
     (if k = ''chanId'' then VStr (chanId c)
      else if k = ''remotePubkey'' then VStr (remotePubkey c)
      else if k = ''capacity'' then VBig \<lfloor>capacity c\<rfloor>
      else if k = ''localBalance'' then VBig \<lfloor>localBalance c\<rfloor>
      else if k = ''remoteBalance'' then VBig \<lfloor>remoteBalance c\<rfloor>
      else if k = ''active'' then VBool (ch_active c)
      else if k = ''uptimePercent'' then VInt \<lfloor>uptimePercent B c\<rfloor>
      else VUndefined)"

text \<open>The contents of the exported file.\<close>

definition exportChannels :: "big_lib \<Rightarrow> 'a app_channels_scheme \<Rightarrow> string" where
  "exportChannels B s = convert Channel_csvColumns (map (channel_csv B) (sortedChannels B s))"

section \<open>Swaps\<close>

definition sortedSwaps :: "'a app_loop_scheme \<Rightarrow> Swap list" where
  "sortedSwaps s =
     sort_by (Swap_compare (so_field (historySort s))) (so_descending (historySort s)) (map snd (swaps s))"

definition lastTwoSwaps :: "'a app_loop_scheme \<Rightarrow> Swap list" where
  "lastTwoSwaps s = take 2 (sortedSwaps s)"

definition processingSwaps :: "big_lib \<Rightarrow> 'a app_loop_scheme \<Rightarrow> Swap list" where
  "processingSwaps B s =
     filter (\<lambda>w. isPending w \<or> (isRecent B (clock s) w \<and> sw_id w \<notin> set (dismissedSwapIds s))) (sortedSwaps s)"

definition canFetchData :: "'a app_loop_scheme \<Rightarrow> bool" where
  "canFetchData s \<longleftrightarrow> ss_running (ss_loop s) \<and> ss_error (ss_loop s) = []"

definition dismissSwap :: "string \<Rightarrow> 'a app_loop_scheme \<Rightarrow> 'a app_loop_scheme" where
  "dismissSwap swapId s = s\<lparr>dismissedSwapIds := dismissedSwapIds s @ [swapId]\<rparr>"

definition add_swapped :: "string \<Rightarrow> string list \<Rightarrow> (string \<times> string list) list \<Rightarrow> (string \<times> string list) list" where
  "add_swapped swapId channelIds m =
     foldl (\<lambda>m c. AList.update c ((case map_of m c of Some ids \<Rightarrow> ids | None \<Rightarrow> []) @ [swapId]) m) m channelIds"

definition addSwappedChannels :: "string \<Rightarrow> string list \<Rightarrow> 'a app_loop_scheme \<Rightarrow> 'a app_loop_scheme" where
  "addSwappedChannels swapId channelIds s =
     s\<lparr>swappedChannels := add_swapped swapId channelIds (swappedChannels s)\<rparr>"

definition pending_ids :: "(string \<times> Swap) list \<Rightarrow> string list" where
  "pending_ids m = map sw_id (filter isPending (map snd m))"

definition prune_entry ::
    "string list \<Rightarrow> (string \<times> string list) list \<Rightarrow> string \<times> string list \<Rightarrow> (string \<times> string list) list" where
  "prune_entry processingIds m entry =
     (let (c, swapIds) = entry;
          pendingSwapIds = filter (\<lambda>i. i \<in> set processingIds) swapIds
      in if length swapIds \<noteq> length pendingSwapIds
         then if pendingSwapIds = [] then AList.delete c m else AList.update c pendingSwapIds m
         else m)"

definition pruneSwappedChannels :: "'a app_loop_scheme \<Rightarrow> 'a app_loop_scheme" where
  "pruneSwappedChannels s =
     s\<lparr>swappedChannels :=
        foldl (prune_entry (pending_ids (swaps s))) (swappedChannels s) (swappedChannels s)\<rparr>"

definition swap_of :: "loop_swap \<Rightarrow> Swap option \<Rightarrow> Swap" where
  "swap_of loopSwap existing = Swap_update loopSwap"

definition addOrUpdateSwap :: "loop_swap \<Rightarrow> 'a app_loop_scheme \<Rightarrow> 'a app_loop_scheme" where
  "addOrUpdateSwap loopSwap s =
     s\<lparr>swaps := AList.update (lp_id loopSwap) (swap_of loopSwap (map_of (swaps s) (lp_id loopSwap))) (swaps s)\<rparr>"

text \<open>
  \<open>own\<close> is \<open>Object.keys\<close> of the MobX map: the names of the map object's own properties,
  which are not the keys stored in the map.
\<close>

definition refresh_swaps :: "string list \<Rightarrow> loop_swap list \<Rightarrow> (string \<times> Swap) list \<Rightarrow> (string \<times> Swap) list" where
  "refresh_swaps own swapsList m =
     (let m = upsert_all lp_id swap_of swapsList m;
          serverIds = map lp_id swapsList;
          localIds = own
      in drop_missing localIds serverIds m)"

definition fetchSwaps :: "string list \<Rightarrow> loop_swap list api_result \<Rightarrow> 'a app_loop_scheme \<Rightarrow> 'a app_loop_scheme" where
  "fetchSwaps own res s =
     (case res of
        Inl e \<Rightarrow> handleError e ''Unable to fetch Swaps'' s
      | Inr swapsList \<Rightarrow> pruneSwappedChannels (s\<lparr>swaps := refresh_swaps own swapsList (swaps s)\<rparr>))"

definition onSwapUpdate :: "loop_swap \<Rightarrow> 'a app_loop_scheme \<Rightarrow> 'a app_loop_scheme" where
  "onSwapUpdate loopSwap s =
     (let s = addOrUpdateSwap loopSwap s;
          s = start_call FetchChannelsThrottled s;
          s = start_call FetchBalancesThrottled s
      in start_call PruneSwappedChannelsThrottled s)"

definition swap_csv :: "big_lib \<Rightarrow> (string \<Rightarrow> int \<Rightarrow> string) \<Rightarrow> Swap \<Rightarrow> string \<Rightarrow> js_value" where
  "swap_csv B date_text w k =
     (if k = ''id'' then VStr (sw_id w)
      else if k = ''typeName'' then VStr (typeName w)
      else if k = ''amount'' then VBig \<lfloor>sw_amount w\<rfloor>
      else if k = ''stateLabel'' then VStr (stateLabel w)
      else if k = ''createdOnLabel'' then VStr (createdOnLabel B date_text w)
      else if k = ''updatedOnLabel'' then VStr (updatedOnLabel B date_text w)
      else VUndefined)"

definition exportSwaps :: "big_lib \<Rightarrow> (string \<Rightarrow> int \<Rightarrow> string) \<Rightarrow> 'a app_loop_scheme \<Rightarrow> string" where
  "exportSwaps B date_text s = convert Swap_csvColumns (map (swap_csv B date_text) (sortedSwaps s))"

text \<open>What is kept under the key \<open>swapState\<close>, written whenever it changes and read on start.\<close>

record PersistentSwapState =
  pss_swappedChannels :: "(string \<times> string list) list"
  pss_dismissedSwapIds :: "string list"

definition swap_state_to_save :: "'a app_loop_scheme \<Rightarrow> PersistentSwapState" where
  "swap_state_to_save s =
     \<lparr>pss_swappedChannels = swappedChannels s, pss_dismissedSwapIds = dismissedSwapIds s\<rparr>"

definition swap_load :: "PersistentSwapState option \<Rightarrow> 'a app_loop_scheme \<Rightarrow> 'a app_loop_scheme" where
  "swap_load stored s =
     (case stored of
        Some p \<Rightarrow> s\<lparr>swappedChannels := pss_swappedChannels p, dismissedSwapIds := pss_dismissedSwapIds p\<rparr>
      | None \<Rightarrow> s)"

section \<open>Swaps of a channel\<close>

definition channel_processingSwaps :: "big_lib \<Rightarrow> 'a app_loop_scheme \<Rightarrow> Channel \<Rightarrow> Swap list" where
  "channel_processingSwaps B s c =
     (case map_of (swappedChannels s) (chanId c) of
        None \<Rightarrow> []
      | Some swapIds \<Rightarrow>
          if swapIds = [] then [] else filter (\<lambda>w. sw_id w \<in> set swapIds) (processingSwaps B s))"

datatype ProcessingSwapsDirection = dir_in | dir_out | dir_both | dir_none

definition processingSwapsDirection :: "big_lib \<Rightarrow> 'a app_loop_scheme \<Rightarrow> Channel \<Rightarrow> ProcessingSwapsDirection" where
  "processingSwapsDirection B s c =
     (case js_Set (map sw_type (channel_processingSwaps B s c)) of
        [] \<Rightarrow> dir_none
      | [d] \<Rightarrow> if d = LOOP_IN then dir_in else dir_out
      | _ \<Rightarrow> dir_both)"

section \<open>The stores keep the contract of a refresh\<close>

lemma list_all_True [simp]: "list_all (\<lambda>_. True) xs"
  by (induction xs) simp_all

definition channels_ok :: "(string \<times> Channel) list \<Rightarrow> bool" where
  "channels_ok m \<longleftrightarrow> distinct (map fst m) \<and> (\<forall>(k, c) \<in> set m. chanId c = k)"

definition pending_ok :: "(string \<times> Channel) list \<Rightarrow> bool" where
  "pending_ok m \<longleftrightarrow> distinct (map fst m) \<and> (\<forall>(k, c) \<in> set m. chanId c = k \<and> channelPoint c = k)"

lemma set_sort_channels [simp]: "set (sort_channels B mode srt m) = snd ` set m"
  by (simp add: sort_channels_def)

lemma chanId_channel_of [simp]: "chanId (channel_of s e) = lnd_chanId s"
  by (cases e) (simp_all add: channel_of_def Channel_update_def Channel_create_def)

lemma pending_of_ids [simp]: "chanId (pending_of p e) = pending_key p" "channelPoint (pending_of p e) = pending_key p"
  by (cases e; simp add: pending_of_def pending_key_def updatePending_def createPending_def)+

lemma channel_of_absorb: "channel_of s (Some (channel_of s' e)) = channel_of s e"
  by (cases e) (simp_all add: channel_of_def Channel_update_def Channel_create_def)

lemma pending_of_absorb: "pending_of s (Some (pending_of s' e)) = pending_of s e"
  by (cases e) (simp_all add: pending_of_def updatePending_def createPending_def)

lemma channels_ok_upsert:
  assumes "channels_ok m"
  shows "channels_ok (upsert_all lnd_chanId channel_of items m)"
proof -
  have "chanId c = k" if "(k, c) \<in> set (upsert_all lnd_chanId channel_of items m)" for k c
  proof (rule upsert_all_entries [OF _ _ that, where P = "\<lambda>k c. chanId c = k"])
    show "(k', c') \<in> set m \<Longrightarrow> chanId c' = k'" for k' c' using assms by (auto simp: channels_ok_def)
  qed simp
  then show ?thesis using assms by (auto simp: channels_ok_def distinct_upsert_all)
qed

lemma pending_ok_upsert:
  assumes "pending_ok m"
  shows "pending_ok (upsert_all pending_key pending_of items m)"
proof -
  have "chanId c = k \<and> channelPoint c = k" if "(k, c) \<in> set (upsert_all pending_key pending_of items m)" for k c
  proof (rule upsert_all_entries [OF _ _ that, where P = "\<lambda>k c. chanId c = k \<and> channelPoint c = k"])
    show "(k', c') \<in> set m \<Longrightarrow> chanId c' = k' \<and> channelPoint c' = k'" for k' c'
      using assms by (auto simp: pending_ok_def)
  qed simp
  then show ?thesis using assms by (auto simp: pending_ok_def distinct_upsert_all)
qed

lemma ids_cover:
  assumes "\<And>k c. (k, c) \<in> set m \<Longrightarrow> f c = k"
  shows "dom (map_of m) \<subseteq> f ` snd ` set m"
proof
  fix k assume "k \<in> dom (map_of m)"
  then obtain c where "(k, c) \<in> set m" by (auto dest: map_of_SomeD)
  then show "k \<in> f ` snd ` set m" using assms by (metis image_eqI snd_conv)
qed

lemma refresh_channels_lookup:
  assumes "channels_ok m"
  shows "map_of (refresh_channels B mode srt items m) k =
    (if k \<in> lnd_chanId ` set items then latest lnd_chanId channel_of items k (map_of m k) else None)"
proof (rule drop_missing_mirrors [where ids = "\<lambda>m. map chanId (sort_channels B mode srt m)"])
  show "dom (map_of (upsert_all lnd_chanId channel_of items m))
      \<subseteq> set (map chanId (sort_channels B mode srt (upsert_all lnd_chanId channel_of items m)))"
    using channels_ok_upsert [OF assms, of items] ids_cover [of "upsert_all lnd_chanId channel_of items m" chanId]
    by (auto simp: channels_ok_def)
qed (simp add: refresh_channels_def Let_def)

lemma refresh_pending_lookup:
  assumes "pending_ok m"
  shows "map_of (refresh_pending B mode srt items m) k =
    (if k \<in> pending_key ` set items then latest pending_key pending_of items k (map_of m k) else None)"
proof (rule drop_missing_mirrors [where ids = "\<lambda>m. map channelPoint (sort_channels B mode srt m)"])
  show "dom (map_of (upsert_all pending_key pending_of items m))
      \<subseteq> set (map channelPoint (sort_channels B mode srt (upsert_all pending_key pending_of items m)))"
    using pending_ok_upsert [OF assms, of items]
      ids_cover [of "upsert_all pending_key pending_of items m" channelPoint]
    by (auto simp: pending_ok_def)
qed (simp add: refresh_pending_def Let_def)

lemma channels_ok_subset: "channels_ok m \<Longrightarrow> set m' \<subseteq> set m \<Longrightarrow> distinct (map fst m') \<Longrightarrow> channels_ok m'"
  by (auto simp: channels_ok_def)

lemma pending_ok_subset: "pending_ok m \<Longrightarrow> set m' \<subseteq> set m \<Longrightarrow> distinct (map fst m') \<Longrightarrow> pending_ok m'"
  by (auto simp: pending_ok_def)

lemma refresh_channels_ok: "channels_ok m \<Longrightarrow> channels_ok (refresh_channels B mode srt items m)"
  unfolding refresh_channels_def Let_def
  by (rule channels_ok_subset [OF channels_ok_upsert set_drop_missing_subset])
    (simp_all add: channels_ok_def distinct_drop_missing distinct_upsert_all)

lemma refresh_pending_ok: "pending_ok m \<Longrightarrow> pending_ok (refresh_pending B mode srt items m)"
  unfolding refresh_pending_def Let_def
  by (rule pending_ok_subset [OF pending_ok_upsert set_drop_missing_subset])
    (simp_all add: pending_ok_def distinct_drop_missing distinct_upsert_all)

interpretation open_channels: mirroring_store lnd_chanId channel_of "\<lambda>_. True" channels_ok
    "refresh_channels B mode srt" for B mode srt
  by unfold_locales (auto simp: refresh_channels_lookup refresh_channels_ok channel_of_absorb)

interpretation pending_channels: mirroring_store pending_key pending_of "\<lambda>_. True" pending_ok
    "refresh_pending B mode srt" for B mode srt
  by unfold_locales (auto simp: refresh_pending_lookup refresh_pending_ok pending_of_absorb)

definition swaps_ok :: "string list \<Rightarrow> (string \<times> Swap) list \<Rightarrow> bool" where
  "swaps_ok own m \<longleftrightarrow> distinct (map fst m) \<and> (\<forall>(k, w) \<in> set m. sw_id w = k \<and> k \<notin> set own)"

lemma swap_id_swap_of [simp]: "sw_id (swap_of s e) = lp_id s"
  by (simp add: swap_of_def Swap_update_def)

lemma swaps_ok_upsert:
  "swaps_ok own m \<Longrightarrow> list_all (\<lambda>s. lp_id s \<notin> set own) items \<Longrightarrow> swaps_ok own (upsert_all lp_id swap_of items m)"
proof (induction items arbitrary: m)
  case (Cons s items)
  let ?m = "AList.update (lp_id s) (swap_of s (map_of m (lp_id s))) m"
  have "swaps_ok own ?m"
    using Cons.prems set_update_subset [of "lp_id s" "swap_of s (map_of m (lp_id s))" m]
    by (auto simp: swaps_ok_def distinct_update)
  then show ?case using Cons.IH [of ?m] Cons.prems(2) by (simp add: upsert_all_def)
qed (simp add: upsert_all_def)

lemma swaps_ok_absent: "swaps_ok own m \<Longrightarrow> k \<in> set own \<Longrightarrow> map_of m k = None"
  by (auto simp: swaps_ok_def map_of_eq_None_iff)

lemma refresh_swaps_lookup:
  assumes "swaps_ok own m" "list_all (\<lambda>s. lp_id s \<notin> set own) items"
  shows "map_of (refresh_swaps own items m) k = latest lp_id swap_of items k (map_of m k)"
  using swaps_ok_absent [OF swaps_ok_upsert [OF assms], of k]
  by (simp add: refresh_swaps_def Let_def omap_simps)

lemma refresh_swaps_ok:
  "swaps_ok own m \<Longrightarrow> list_all (\<lambda>s. lp_id s \<notin> set own) items \<Longrightarrow> swaps_ok own (refresh_swaps own items m)"
  using swaps_ok_upsert [of own m items]
    set_drop_missing_subset [of own "map lp_id items" "upsert_all lp_id swap_of items m"]
  by (auto simp: refresh_swaps_def Let_def swaps_ok_def distinct_drop_missing)

interpretation swap_history: accumulating_store lp_id swap_of "\<lambda>s. lp_id s \<notin> set own" "swaps_ok own"
    "refresh_swaps own" for own
  by unfold_locales (auto simp: refresh_swaps_lookup refresh_swaps_ok latest_absent swap_of_def)

section \<open>Properties of the channel store\<close>

lemma start_call_fields [simp]:
  "channels (start_call c s) = channels s" "pendingChannels (start_call c s) = pendingChannels s"
  "calls (start_call c s) = calls s @ [c]"
  by (simp_all add: start_call_def)

lemma handleError_channels [simp]:
  "channels (handleError e t s) = channels s" "pendingChannels (handleError e t s) = pendingChannels s"
  by (simp_all add: handleError_def notify_def Let_def split: app_error.split)

text \<open>
  C32. After a successful \<open>fetchChannels\<close> the store mirrors the node: its keys are exactly the
  channel ids of the reply, each channel shows the figures of its entry while it keeps
  its alias, fee rate and status, repeating the same reply changes nothing, and the
  pending channels, aliases and fee rates are requested next. A failure leaves the
  channels as they were.
\<close>

theorem fetchChannels_mirrors_node:
  assumes ok: "channels_ok (channels s)" and dist: "distinct (map lnd_chanId reply)"
    and s'_def: "s' = fetchChannels B (Inr reply) s"
  shows "dom (map_of (channels s')) = lnd_chanId ` set reply \<and>
    (\<forall>r \<in> set reply. map_of (channels s') (lnd_chanId r) = Some (channel_of r (map_of (channels s) (lnd_chanId r)))) \<and>
    map_of (channels (fetchChannels B (Inr reply) s')) = map_of (channels s') \<and>
    calls s' = calls s @ [FetchPendingChannels, FetchAliases, FetchFeeRates] \<and>
    channels (fetchChannels B (Inl e) s) = channels s"
proof -
  have s': "channels s' = refresh_channels B (balanceMode s) (channelSort s) reply (channels s)"
    "balanceMode s' = balanceMode s" "channelSort s' = channelSort s"
    by (simp_all add: s'_def fetchChannels_def start_call_def Let_def)
  have "channels (fetchChannels B (Inr reply) s') =
      refresh_channels B (balanceMode s) (channelSort s) reply (channels s')"
    by (simp add: fetchChannels_def Let_def s'(2,3))
  moreover have "calls s' = calls s @ [FetchPendingChannels, FetchAliases, FetchFeeRates]"
    by (simp add: s'_def fetchChannels_def Let_def start_call_def)
  moreover have "channels (fetchChannels B (Inl e) s) = channels s" by (simp add: fetchChannels_def)
  ultimately show ?thesis
    using open_channels.keys_mirror [OF ok, of reply] open_channels.refresh_again [OF ok, of reply]
      open_channels.entry_current_distinct [OF ok _ dist] by (simp add: s')
qed

lemma foldl_add: "foldl (\<lambda>acc c. acc + f c) (a :: rat) xs = a + sum_list (map f xs)"
  by (induction xs arbitrary: a) (simp_all add: add.assoc)

lemma sum_list_mset_cong: "mset xs = mset ys \<Longrightarrow> sum_list (map (f :: 'a \<Rightarrow> rat) xs) = sum_list (map f ys)"
  by (metis mset_map sum_mset_sum_list)

lemma totals_eq:
  "totalInbound B s = sum_list (map (remoteBalance \<circ> snd) (channels s))"
  "totalOutbound B s = sum_list (map (localBalance \<circ> snd) (channels s))"
proof -
  have m: "mset (sortedChannels B s) = mset (map snd (channels s))"
    by (simp add: sortedChannels_def sort_channels_def)
  show "totalInbound B s = sum_list (map (remoteBalance \<circ> snd) (channels s))"
    "totalOutbound B s = sum_list (map (localBalance \<circ> snd) (channels s))"
    unfolding totalInbound_def totalOutbound_def foldl_add
    using sum_list_mset_cong [OF m, of remoteBalance] sum_list_mset_cong [OF m, of localBalance] by simp_all
qed

lemma length_channels_of_reply:
  assumes "channels_ok m" "distinct (map lnd_chanId reply)"
  shows "mset (map fst (refresh_channels B mode srt reply m)) = mset (map lnd_chanId reply)"
proof -
  let ?m = "refresh_channels B mode srt reply m"
  have "distinct (map fst ?m)" using refresh_channels_ok [OF assms(1)] by (simp add: channels_ok_def)
  moreover have "set (map fst ?m) = set (map lnd_chanId reply)"
    using open_channels.keys_mirror [OF assms(1), of reply B mode srt] by (simp add: dom_map_of_conv_image_fst)
  ultimately show ?thesis using assms(2) set_eq_iff_mset_eq_distinct by blast
qed

text \<open>
  The totals shown on the Loop page are the node's totals: after a successful
  \<open>fetchChannels\<close> the inbound and outbound totals are the sums of the remote and local
  balances in the reply, whatever the sort order and whatever was stored before.
\<close>

lemma totals_follow_reply:
  assumes ok: "channels_ok (channels s)" and dist: "distinct (map lnd_chanId reply)"
  shows "totalInbound B (fetchChannels B (Inr reply) s) = of_int (sum_list (map lnd_remoteBalance reply)) \<and>
    totalOutbound B (fetchChannels B (Inr reply) s) = of_int (sum_list (map lnd_localBalance reply))"
proof -
  define m where "m = refresh_channels B (balanceMode s) (channelSort s) reply (channels s)"
  have m: "channels (fetchChannels B (Inr reply) s) = m"
    by (simp add: fetchChannels_def m_def Let_def)
  have okm: "distinct (map fst m)" using refresh_channels_ok [OF ok] by (simp add: m_def channels_ok_def)
  have entry: "map_of m (lnd_chanId r) = Some (channel_of r (map_of (channels s) (lnd_chanId r)))" if "r \<in> set reply" for r
    using open_channels.entry_current_distinct [OF ok _ dist that] by (simp add: m_def)
  have vals: "map snd m = map (\<lambda>k. the (map_of m k)) (map fst m)"
    using okm by (auto simp: map_of_eq_Some_iff intro: map_cong)
  have sums: "sum_list (map f (map snd m)) = (\<Sum>r\<leftarrow>reply. f (the (map_of m (lnd_chanId r))))" for f :: "Channel \<Rightarrow> rat"
  proof -
    have "sum_list (map f (map snd m)) = (\<Sum>k\<leftarrow>map fst m. f (the (map_of m k)))"
      by (subst vals) (simp add: comp_def)
    also have "\<dots> = (\<Sum>k\<leftarrow>map lnd_chanId reply. f (the (map_of m k)))"
      using length_channels_of_reply [OF ok dist] by (intro sum_list_mset_cong) (simp add: m_def)
    finally show ?thesis by (simp add: comp_def)
  qed
  have "remoteBalance (the (map_of m (lnd_chanId r))) = of_int (lnd_remoteBalance r)"
    "localBalance (the (map_of m (lnd_chanId r))) = of_int (lnd_localBalance r)" if "r \<in> set reply" for r
    using entry [OF that]
    by (cases "map_of (channels s) (lnd_chanId r)"; simp add: channel_of_def Channel_update_def Channel_create_def)+
  then have "(\<Sum>r\<leftarrow>reply. remoteBalance (the (map_of m (lnd_chanId r)))) = of_int (sum_list (map lnd_remoteBalance reply))"
    "(\<Sum>r\<leftarrow>reply. localBalance (the (map_of m (lnd_chanId r)))) = of_int (sum_list (map lnd_localBalance reply))"
    by (induction reply) auto
  then show ?thesis
    using sums [of remoteBalance] sums [of localBalance] by (simp add: totals_eq m comp_def)
qed

section \<open>Properties of the swap store\<close>

lemma shell_swaps [simp]:
  "swaps (handleError e title s) = swaps s" "swappedChannels (handleError e title s) = swappedChannels s"
  "swaps (start_call c s) = swaps s" "swappedChannels (start_call c s) = swappedChannels s"
  by (simp_all add: handleError_def notify_def start_call_def Let_def split: app_error.split)

lemma swaps_prune [simp]: "swaps (pruneSwappedChannels s) = swaps s"
  by (simp add: pruneSwappedChannels_def)

lemma fetchSwaps_swaps: "swaps (fetchSwaps own (Inr l) s) = refresh_swaps own l (swaps s)"
  by (simp add: fetchSwaps_def)

lemma fetchSwaps_all:
  "swaps (foldl (\<lambda>s l. fetchSwaps own (Inr l) s) s replies) = foldl (\<lambda>m l. refresh_swaps own l m) (swaps s) replies"
  by (induction replies arbitrary: s) (simp_all add: fetchSwaps_swaps)

text \<open>
  The swap list never shrinks: a swap that the daemon no longer reports stays in the
  store however often the swaps are fetched, although the code means to remove it. The
  loop that should delete it compares the reply with \<open>Object.keys\<close> of the map object,
  whose own property names are never swap ids, instead of with the keys of the map.
\<close>

lemma fetchSwaps_keeps_stale:
  assumes "swaps_ok own (swaps s)"
    and "\<forall>reply \<in> set replies. \<forall>r \<in> set reply. lp_id r \<notin> set own \<and> lp_id r \<noteq> k"
  shows "map_of (swaps (foldl (\<lambda>s reply. fetchSwaps own (Inr reply) s) s replies)) k = map_of (swaps s) k"
  unfolding fetchSwaps_all using assms
  by (intro swap_history.stale_survives) (auto simp: list_all_iff)

lemma prune_entry_lookup:
  "map_of (prune_entry ids m (c, l)) k =
     (if k = c \<and> length l \<noteq> length (filter (\<lambda>i. i \<in> set ids) l)
      then if filter (\<lambda>i. i \<in> set ids) l = [] then None else Some (filter (\<lambda>i. i \<in> set ids) l)
      else map_of m k)"
  by (simp add: prune_entry_def Let_def update_conv' delete_conv')

text \<open>What pruning leaves of a list of swap ids.\<close>

definition pruned :: "string list \<Rightarrow> string list \<Rightarrow> string list option" where
  "pruned ids l =
     (let p = filter (\<lambda>i. i \<in> set ids) l in if p = [] \<and> l \<noteq> [] then None else Some p)"

lemma filter_same_length: "length l = length (filter P l) \<Longrightarrow> filter P l = l"
  by (metis length_filter_less filter_id_conv less_irrefl)

lemma prune_fold:
  assumes "distinct (map fst es)"
  shows "map_of (foldl (prune_entry ids) m es) k =
    (case map_of es k of
       None \<Rightarrow> map_of m k
     | Some l \<Rightarrow> if length l = length (filter (\<lambda>i. i \<in> set ids) l) then map_of m k else pruned ids l)"
  using assms
proof (induction es arbitrary: m)
  case (Cons e es)
  obtain c l where e: "e = (c, l)" by (cases e)
  then have c: "c \<notin> fst ` set es" and d: "distinct (map fst es)" using Cons.prems by auto
  show ?case
  proof (cases "k = c")
    case True
    then have "map_of es k = None" using c by (simp add: map_of_eq_None_iff)
    then show ?thesis
      using Cons.IH [OF d, of "prune_entry ids m e"] True by (auto simp: e prune_entry_lookup pruned_def Let_def)
  next
    case False
    then show ?thesis
      using Cons.IH [OF d, of "prune_entry ids m e"] by (simp add: e prune_entry_lookup split: option.split)
  qed
qed simp

lemma prune_lookup:
  assumes "distinct (map fst (swappedChannels s))"
  shows "map_of (swappedChannels (pruneSwappedChannels s)) c =
    (case map_of (swappedChannels s) c of None \<Rightarrow> None | Some l \<Rightarrow> pruned (pending_ids (swaps s)) l)"
proof (cases "map_of (swappedChannels s) c")
  case None
  then show ?thesis using prune_fold [OF assms] by (simp add: pruneSwappedChannels_def)
next
  case (Some l)
  have "pruned ids l = Some l" if "length l = length (filter (\<lambda>i. i \<in> set ids) l)" for ids
    unfolding pruned_def Let_def filter_same_length [OF that] by simp
  then show ?thesis using prune_fold [OF assms] Some by (simp add: pruneSwappedChannels_def)
qed

lemma pending_ids_iff:
  "swaps_ok own m \<Longrightarrow> i \<in> set (pending_ids m) \<longleftrightarrow> (\<exists>w. map_of m i = Some w \<and> isPending w)"
proof -
  assume ok: "swaps_ok own m"
  then have d: "distinct (map fst m)" and ids: "\<And>k w. (k, w) \<in> set m \<Longrightarrow> sw_id w = k"
    by (auto simp: swaps_ok_def)
  show ?thesis
  proof
    assume "i \<in> set (pending_ids m)"
    then obtain k w where "(k, w) \<in> set m" "isPending w" "i = sw_id w" by (auto simp: pending_ids_def)
    then show "\<exists>w. map_of m i = Some w \<and> isPending w" using ids d by (auto simp: map_of_eq_Some_iff)
  next
    assume "\<exists>w. map_of m i = Some w \<and> isPending w"
    then obtain w where "(i, w) \<in> set m" "isPending w" using d by (auto simp: map_of_eq_Some_iff)
    then show "i \<in> set (pending_ids m)" using ids by (force simp: pending_ids_def)
  qed
qed

definition swap_ids_of :: "(string \<times> string list) list \<Rightarrow> string \<Rightarrow> string list" where
  "swap_ids_of m c = (case map_of m c of Some l \<Rightarrow> l | None \<Rightarrow> [])"

text \<open>
  Pruning forgets exactly the finished swaps: afterwards a swap id is recorded for a
  channel if and only if it was recorded before and the swap is in the store and still
  pending, the ids that remain keep their order, and the swaps themselves are untouched.
\<close>

lemma pruneSwappedChannels_exact:
  assumes "swaps_ok own (swaps s)" and "distinct (map fst (swappedChannels s))"
  shows "swap_ids_of (swappedChannels (pruneSwappedChannels s)) c =
      filter (\<lambda>i. \<exists>w. map_of (swaps s) i = Some w \<and> isPending w) (swap_ids_of (swappedChannels s) c) \<and>
    swaps (pruneSwappedChannels s) = swaps s"
  using assms(1)
  by (auto simp: swap_ids_of_def prune_lookup [OF assms(2)] pruned_def Let_def pending_ids_iff split: option.split)

lemma add_swapped_lookup:
  "map_of (add_swapped i cs m) c =
     (if c \<in> set cs
      then Some ((case map_of m c of Some l \<Rightarrow> l | None \<Rightarrow> []) @ replicate (count_list cs c) i)
      else map_of m c)"
proof (induction cs arbitrary: m)
  case (Cons d cs)
  let ?m = "AList.update d ((case map_of m d of Some l \<Rightarrow> l | None \<Rightarrow> []) @ [i]) m"
  have step: "add_swapped i (d # cs) m = add_swapped i cs ?m" by (simp add: add_swapped_def)
  have z: "c \<notin> set cs \<Longrightarrow> count_list cs c = 0" by (simp add: count_list_0_iff)
  show ?case
    unfolding step Cons.IH using z by (auto simp: update_conv' replicate_append_same [symmetric] split: option.split)
qed (simp add: add_swapped_def)

lemma processing_shown:
  assumes "map_of (swaps s) i = Some w" "isPending w" "sw_id w = i"
    and "map_of (swappedChannels s) (chanId c) = Some l" "i \<in> set l"
  shows "w \<in> set (channel_processingSwaps B s c)"
proof -
  have "(i, w) \<in> set (swaps s)" using assms(1) by (rule map_of_SomeD)
  then have "w \<in> set (processingSwaps B s)"
    using assms(2) by (force simp: processingSwaps_def sortedSwaps_def)
  moreover have "l \<noteq> []" using assms(5) by auto
  ultimately show ?thesis using assms(3,4,5) by (simp add: channel_processingSwaps_def)
qed

lemma distinct_add_swapped: "distinct (map fst m) \<Longrightarrow> distinct (map fst (add_swapped i cs m))"
proof (induction cs arbitrary: m)
  case (Cons c cs)
  then show ?case
    using Cons.IH [of "AList.update c ((case map_of m c of Some l \<Rightarrow> l | None \<Rightarrow> []) @ [i]) m"]
    by (simp add: add_swapped_def distinct_update)
qed (simp add: add_swapped_def)

lemma onSwapUpdate_fields [simp]:
  "swaps (onSwapUpdate r s) = AList.update (lp_id r) (Swap_update r) (swaps s)"
  "swappedChannels (onSwapUpdate r s) = swappedChannels s"
  by (simp_all add: onSwapUpdate_def addOrUpdateSwap_def start_call_def swap_of_def Let_def)

lemma addSwappedChannels_fields [simp]:
  "swaps (addSwappedChannels i cs s) = swaps s"
  "swappedChannels (addSwappedChannels i cs s) = add_swapped i cs (swappedChannels s)"
  by (simp_all add: addSwappedChannels_def)

lemma swaps_ok_update:
  assumes "swaps_ok own m" "lp_id r \<notin> set own"
  shows "swaps_ok own (AList.update (lp_id r) (Swap_update r) m)"
  using swaps_ok_upsert [OF assms(1), of "[r]"] assms(2) by (simp add: upsert_all_def swap_of_def)

text \<open>
  A running swap is shown on its channels until it ends: when a swap is recorded for
  some channels and the daemon reports it as pending, it is among the processing swaps of
  each of these channels, also after the finished swaps have been pruned; once it is
  reported as succeeded or failed, pruning removes it from every channel.
\<close>

lemma swap_shown_until_finished:
  assumes ok: "swaps_ok own (swaps s)" and own: "lp_id r \<notin> set own"
    and d: "distinct (map fst (swappedChannels s))" and c: "chanId c \<in> set chanIds"
    and t: "t = pruneSwappedChannels (onSwapUpdate r (addSwappedChannels (lp_id r) chanIds s))"
  shows "(isPending (Swap_update r) \<longrightarrow> Swap_update r \<in> set (channel_processingSwaps B t c)) \<and>
    (\<not> isPending (Swap_update r) \<longrightarrow> (\<forall>k l. map_of (swappedChannels t) k = Some l \<longrightarrow> lp_id r \<notin> set l))"
proof -
  let ?m = "AList.update (lp_id r) (Swap_update r) (swaps s)"
  let ?sc = "add_swapped (lp_id r) chanIds (swappedChannels s)"
  have look: "map_of (swappedChannels t) k = (case map_of ?sc k of None \<Rightarrow> None | Some l \<Rightarrow> pruned (pending_ids ?m) l)" for k
    unfolding t by (subst prune_lookup) (simp_all add: distinct_add_swapped [OF d] split: option.split)
  have pend: "lp_id r \<in> set (pending_ids ?m) \<longleftrightarrow> isPending (Swap_update r)"
    using pending_ids_iff [OF swaps_ok_update [OF ok own], of "lp_id r"] by (simp add: update_conv')
  have "Swap_update r \<in> set (channel_processingSwaps B t c)" if "isPending (Swap_update r)"
  proof -
    have "count_list chanIds (chanId c) \<noteq> 0" using c by (simp add: count_list_0_iff)
    then obtain n where n: "count_list chanIds (chanId c) = Suc n" using not0_implies_Suc by blast
    define l where "l = (case map_of (swappedChannels s) (chanId c) of Some l \<Rightarrow> l | None \<Rightarrow> [])"
    have l: "map_of ?sc (chanId c) = Some (l @ replicate (Suc n) (lp_id r))"
      using c by (simp only: add_swapped_lookup n l_def if_True)
    let ?p = "filter (\<lambda>i. i \<in> set (pending_ids ?m)) (l @ replicate (Suc n) (lp_id r))"
    have p: "lp_id r \<in> set ?p" using pend that by simp
    have m: "map_of (swappedChannels t) (chanId c) = Some ?p"
      using pend that by (simp add: look l pruned_def Let_def)
    have w: "map_of (swaps t) (lp_id r) = Some (Swap_update r)" by (simp add: t update_conv')
    have "sw_id (Swap_update r) = lp_id r" by (simp add: Swap_update_def)
    from processing_shown [OF w that this m p] show ?thesis .
  qed
  moreover have "lp_id r \<notin> set l" if "\<not> isPending (Swap_update r)" "map_of (swappedChannels t) k = Some l" for k l
    using that pend by (auto simp: look pruned_def Let_def split: option.splits if_splits)
  ultimately show ?thesis by blast
qed

section \<open>Every sequence of operations\<close>

text \<open>
  The operations of both stores as steps of the app. Replies are arbitrary; the ids in a
  reply about swaps are not names of the map object's own properties.
\<close>

inductive loop_step :: "big_lib \<Rightarrow> string list \<Rightarrow> 'a app_loop_scheme \<Rightarrow> 'a app_loop_scheme \<Rightarrow> bool"
  for B own where
  "loop_step B own s (fetchChannels B res s)"
| "loop_step B own s (fetchPendingChannels B pres s)"
| "loop_step B own s (fetchAliases getNodeInfo now2 s)"
| "loop_step B own s (fetchFeeRates getChannelInfo now2 s)"
| "loop_step B own s (onChannelEvent event s)"
| "(\<And>l. sres = Inr l \<Longrightarrow> list_all (\<lambda>r. lp_id r \<notin> set own) l) \<Longrightarrow> loop_step B own s (fetchSwaps own sres s)"
| "lp_id r \<notin> set own \<Longrightarrow> loop_step B own s (onSwapUpdate r s)"
| "loop_step B own s (addSwappedChannels i ids s)"
| "loop_step B own s (pruneSwappedChannels s)"
| "loop_step B own s (dismissSwap i s)"

definition loop_inv :: "string list \<Rightarrow> 'a app_loop_scheme \<Rightarrow> bool" where
  "loop_inv own s \<longleftrightarrow> channels_ok (channels s) \<and> pending_ok (pendingChannels s) \<and>
     swaps_ok own (swaps s) \<and> distinct (map fst (swappedChannels s))"

lemma channels_ok_map:
  assumes "channels_ok m" "\<And>c. chanId (f c) = chanId c"
  shows "channels_ok (map (map_prod id f) m)"
  using assms by (auto simp: channels_ok_def comp_def)

lemma chanId_setters [simp]: "chanId (set_alias a c) = chanId c" "chanId (set_fee_rate fr c) = chanId c"
  by (simp_all add: set_alias_def set_fee_rate_def split: option.split)

lemma distinct_prune_fold:
  "distinct (map fst m) \<Longrightarrow> distinct (map fst (foldl (prune_entry ids) m es))"
proof (induction es arbitrary: m)
  case (Cons e es)
  have "distinct (map fst (prune_entry ids m e))"
    using Cons.prems by (cases e) (simp add: prune_entry_def Let_def distinct_update distinct_delete)
  then show ?case using Cons.IH by simp
qed simp

lemma onChannelEvent_ok:
  assumes "channels_ok (channels s)"
  shows "channels_ok (channels (onChannelEvent event s))"
proof -
  have act: "channels_ok (set_active_at p a (channels s))" for p a
    unfolding set_active_at_def using assms by (intro channels_ok_map) auto
  have del: "channels_ok (AList.delete k (channels s))" for k
    using assms by (auto simp: channels_ok_def distinct_delete dest: set_delete_all_subset [of "[k]", simplified delete_all_def, simplified, THEN subsetD])
  have upd: "channels_ok (AList.update (chanId c) c (channels s))" for c
    using assms set_update_subset [of "chanId c" c "channels s"] by (auto simp: channels_ok_def distinct_update)
  show ?thesis using assms by (simp add: onChannelEvent_def Let_def act del upd)
qed

lemma loop_step_fields:
  "pendingChannels (onChannelEvent event s) = pendingChannels s" "swaps (onChannelEvent event s) = swaps s"
  "swappedChannels (onChannelEvent event s) = swappedChannels s"
  "swaps (fetchChannels B res s) = swaps s" "swappedChannels (fetchChannels B res s) = swappedChannels s"
  "pendingChannels (fetchChannels B res s) = pendingChannels s"
  "swaps (fetchPendingChannels B pres s) = swaps s" "swappedChannels (fetchPendingChannels B pres s) = swappedChannels s"
  "channels (fetchPendingChannels B pres s) = channels s"
  by (auto simp: onChannelEvent_def fetchChannels_def fetchPendingChannels_def start_call_def handleError_def
      notify_def Let_def split: sum.split app_error.split)

lemma loop_step_inv: "loop_step B own s t \<Longrightarrow> loop_inv own s \<Longrightarrow> loop_inv own t"
proof (induction rule: loop_step.induct)
  case (1 s res)
  then show ?case
    by (cases res) (simp_all add: loop_inv_def fetchChannels_def Let_def refresh_channels_ok)
next
  case (2 s pres)
  then show ?case
    by (cases pres) (simp_all add: loop_inv_def fetchPendingChannels_def refresh_pending_ok)
next
  case (3 s getNodeInfo now2)
  then show ?case by (auto simp: loop_inv_def fetchAliases_def channels_ok_map split: prod.split)
next
  case (4 s getChannelInfo now2)
  then show ?case by (auto simp: loop_inv_def fetchFeeRates_def channels_ok_map split: prod.split)
next
  case (5 s event)
  then show ?case by (simp add: loop_inv_def loop_step_fields onChannelEvent_ok)
next
  case (6 sres s)
  then show ?case
    by (cases sres) (auto simp: loop_inv_def fetchSwaps_def pruneSwappedChannels_def refresh_swaps_ok
        distinct_prune_fold handleError_def notify_def Let_def split: app_error.split)
next
  case (7 r s)
  then show ?case
    by (auto simp: loop_inv_def swaps_ok_update onSwapUpdate_def addOrUpdateSwap_def swap_of_def start_call_def Let_def)
qed (simp_all add: loop_inv_def addSwappedChannels_def distinct_add_swapped pruneSwappedChannels_def
    distinct_prune_fold dismissSwap_def)

text \<open>
  C24. Whatever the daemons answer and in whatever order the operations run, the collections
  stay well formed: every channel, pending channel and swap is stored once, under its own
  id, in every state that the operations of the two stores reach from empty collections.
\<close>

theorem loop_stores_stay_well_formed:
  assumes "(loop_step B own)\<^sup>*\<^sup>* s t"
    and "channels s = []" "pendingChannels s = []" "swaps s = []" "swappedChannels s = []"
  shows "loop_inv own t"
  using assms(1)
proof (induction rule: rtranclp_induct)
  case base
  then show ?case using assms(2-) by (simp add: loop_inv_def channels_ok_def pending_ok_def swaps_ok_def)
qed (rule loop_step_inv)

section \<open>The initial state and witnesses\<close>

definition running :: SubServerStatus where
  "running = \<lparr>ss_disabled = False, ss_running = True, ss_error = []\<rparr>"

definition initial_loop :: app_loop where
  "initial_loop =
     app_channels.extend
       (app_node.extend
         (app_settings.extend initial_shell
           (app_node.fields [] [] [] [] ''bitcoin'' ''mainnet'' 0 0 0 0 False running running running))
         (app_channels.fields [] [] None None))
       (app_loop.fields [] [] [])"

lemma initial_loop_simps [simp]:
  "channels initial_loop = []" "pendingChannels initial_loop = []" "swaps initial_loop = []"
  "swappedChannels initial_loop = []" "calls initial_loop = []"
  by (simp_all add: initial_loop_def initial_shell_def app_settings.extend_def app_node.fields_def
      app_node.extend_def app_channels.extend_def app_channels.fields_def app_loop.fields_def)

lemma initial_loop_ok [simp]: "channels_ok []" "pending_ok []" "swaps_ok own []"
  by (simp_all add: channels_ok_def pending_ok_def swaps_ok_def)

theorem fetchChannels_mirrors_node_witness:
  "dom (map_of (channels (fetchChannels exact_big (Inr [demo_lnd_channel ''7'', demo_lnd_channel ''9'']) initial_loop)))
     = {''7'', ''9''}"
  using fetchChannels_mirrors_node [of initial_loop "[demo_lnd_channel ''7'', demo_lnd_channel ''9'']" _ exact_big
      "AppError []", OF _ _ refl]
  by (simp add: demo_lnd_channel_def)

lemma totals_follow_reply_witness:
  "totalOutbound exact_big (fetchChannels exact_big (Inr [demo_lnd_channel ''7'', demo_lnd_channel ''9'']) initial_loop)
     = 1240000"
  using totals_follow_reply [of initial_loop "[demo_lnd_channel ''7'', demo_lnd_channel ''9'']" exact_big]
  by (simp add: demo_lnd_channel_def)

definition demo_swap :: "int \<Rightarrow> loop_swap" where
  "demo_swap st = \<lparr>lp_id = ''s1'', lp_type = LOOP_IN, lp_amt = 500000, lp_initiationTime = 1000,
     lp_lastUpdateTime = 2000, lp_state = st, lp_failureReason = 0\<rparr>"

definition map_object_names :: "string list" where
  "map_object_names = [''data_'', ''hasMap_'', ''keysAtom_'', ''enhancer_'', ''name_'']"

lemma fetchSwaps_keeps_stale_witness:
  "map_of (swaps (foldl (\<lambda>s reply. fetchSwaps map_object_names (Inr reply) s)
     (onSwapUpdate (demo_swap SUCCESS) initial_loop) [[], []])) ''s1'' = Some (Swap_update (demo_swap SUCCESS))"
proof -
  have id: "lp_id (demo_swap SUCCESS) = ''s1''" by (simp add: demo_swap_def)
  have "swaps_ok map_object_names (swaps (onSwapUpdate (demo_swap SUCCESS) initial_loop))"
    using swaps_ok_update [of map_object_names "[]" "demo_swap SUCCESS"] by (simp add: id map_object_names_def)
  from fetchSwaps_keeps_stale [OF this, of "[[], []]" "''s1''"] show ?thesis by (simp add: id)
qed

lemma pruneSwappedChannels_exact_witness:
  "swap_ids_of (swappedChannels (pruneSwappedChannels (addSwappedChannels ''s1'' [''7''] initial_loop))) ''7'' = []"
proof -
  have d: "distinct (map fst (swappedChannels (addSwappedChannels ''s1'' [''7''] initial_loop)))"
    by (simp add: distinct_add_swapped)
  show ?thesis
    using pruneSwappedChannels_exact [OF _ d, of map_object_names "''7''"] by simp
qed

lemma swap_shown_until_finished_witness:
  "Swap_update (demo_swap INITIATED) \<in> set (channel_processingSwaps exact_big
     (pruneSwappedChannels (onSwapUpdate (demo_swap INITIATED)
       (addSwappedChannels (lp_id (demo_swap INITIATED)) [''7''] initial_loop))) (new_Channel\<lparr>chanId := ''7''\<rparr>))"
proof -
  have "lp_id (demo_swap INITIATED) \<notin> set map_object_names" "isPending (Swap_update (demo_swap INITIATED))"
    by (simp_all add: demo_swap_def map_object_names_def isPending_def Swap_update_def)
  then show ?thesis
    using swap_shown_until_finished [of map_object_names initial_loop "demo_swap INITIATED"
        "new_Channel\<lparr>chanId := ''7''\<rparr>" "[''7'']", OF _ _ _ _ refl] by simp
qed

theorem loop_stores_stay_well_formed_witness:
  "loop_inv map_object_names (onSwapUpdate (demo_swap INITIATED) (fetchChannels exact_big (Inr [demo_lnd_channel ''7'']) initial_loop))"
proof -
  let ?s = "fetchChannels exact_big (Inr [demo_lnd_channel ''7'']) initial_loop"
  have "loop_step exact_big map_object_names initial_loop ?s" by (rule loop_step.intros)
  moreover have "loop_step exact_big map_object_names ?s (onSwapUpdate (demo_swap INITIATED) ?s)"
    by (rule loop_step.intros) (simp add: demo_swap_def map_object_names_def)
  ultimately have "(loop_step exact_big map_object_names)\<^sup>*\<^sup>* initial_loop (onSwapUpdate (demo_swap INITIATED) ?s)"
    by (meson rtranclp.rtrancl_refl rtranclp.rtrancl_into_rtrancl)
  then show ?thesis by (rule loop_stores_stay_well_formed) simp_all
qed

end
