(* ===== verification/Loop_Wizard.thy ===== *)
theory Loop_Wizard
  imports Loop_Stores
begin

text \<open>
  The swap wizard, \<open>app/src/store/views/buildSwapView.ts\<close>, and the requests of
  \<open>app/src/api/loop.ts\<close> it makes.

  The wizard's asynchronous work is explicit. \<open>pendingTerms\<close> counts the running calls of
  \<open>getTerms\<close>, \<open>pendingQuotes\<close> holds the running calls of \<open>getQuote\<close>, \<open>timers\<close> the swaps
  that wait for their delay to pass, and \<open>inFlight\<close> the swap requests that have been sent
  and not answered. Each can complete at any time, in any order, whatever the user does in
  the meantime. The quote is an object that the wizard and the waiting timers share and
  that \<open>cancel\<close> overwrites, so quotes live in a heap and are referred to by index.
\<close>

section \<open>Requests to the Loop daemon\<close>

datatype SwapDirection = Loop_In | Loop_Out

record Quote =
  swapFee :: Big
  minerFee :: Big
  prepayAmount :: Big

record quote_request =
  qr_amt :: Big
  qr_confTarget :: "rat option"
  qr_loopInLastHop :: "string option"

record loop_in_request =
  li_amt :: Big
  li_maxSwapFee :: Big
  li_maxMinerFee :: Big
  li_initiator :: string
  li_lastHop :: "string option"
  li_htlcConfTarget :: "rat option"

record loop_out_request =
  lo_amt :: Big
  lo_maxSwapFee :: Big
  lo_maxMinerFee :: Big
  lo_maxPrepayAmt :: Big
  lo_maxSwapRoutingFee :: Big
  lo_maxPrepayRoutingFee :: Big
  lo_outgoingChanSet :: "string list"
  lo_publicationDeadline :: int
  lo_initiator :: string
  lo_sweepConfTarget :: "rat option"
  lo_dest :: "string option"

definition LOOP_INITIATOR :: string where
  "LOOP_INITIATOR = ''lit-ui''"

text \<open>A field is set only when its argument is truthy.\<close>

definition num_arg :: "js_number option \<Rightarrow> rat option" where
  "num_arg x = (case x of Some (Finite r) \<Rightarrow> if r = 0 then None else Some r | _ \<Rightarrow> None)"

definition text_arg :: "string option \<Rightarrow> string option" where
  "text_arg x = (case x of Some t \<Rightarrow> if t = [] then None else Some t | None \<Rightarrow> None)"

definition getLoopInQuote_request :: "Big \<Rightarrow> js_number option \<Rightarrow> string option \<Rightarrow> quote_request" where
  "getLoopInQuote_request amount confTarget lastHop =
     \<lparr>qr_amt = amount, qr_confTarget = num_arg confTarget,
      qr_loopInLastHop = map_option (\<lambda>h. b64 h False) (text_arg lastHop)\<rparr>"

definition getLoopOutQuote_request :: "Big \<Rightarrow> js_number option \<Rightarrow> quote_request" where
  "getLoopOutQuote_request amount confTarget =
     \<lparr>qr_amt = amount, qr_confTarget = num_arg confTarget, qr_loopInLastHop = None\<rparr>"

definition calcRoutingFee :: "big_lib \<Rightarrow> Big \<Rightarrow> Big" where
  "calcRoutingFee B amount = big_round B (amount * (2 / 100)) 0 roundUp"

definition loopIn_request :: "Big \<Rightarrow> Quote \<Rightarrow> string option \<Rightarrow> js_number option \<Rightarrow> loop_in_request" where
  "loopIn_request amount quote lastHop confTarget =
     \<lparr>li_amt = amount, li_maxSwapFee = swapFee quote, li_maxMinerFee = minerFee quote * 250,
      li_initiator = LOOP_INITIATOR, li_lastHop = map_option (\<lambda>h. b64 h False) (text_arg lastHop),
      li_htlcConfTarget = num_arg confTarget\<rparr>"

definition loopOut_request ::
    "big_lib \<Rightarrow> Big \<Rightarrow> Quote \<Rightarrow> string list \<Rightarrow> int \<Rightarrow> js_number option \<Rightarrow> string option \<Rightarrow> loop_out_request" where
  "loopOut_request B amount quote chanIds deadline confTarget destAddress =
     \<lparr>lo_amt = amount, lo_maxSwapFee = swapFee quote, lo_maxMinerFee = minerFee quote * 250,
      lo_maxPrepayAmt = prepayAmount quote, lo_maxSwapRoutingFee = calcRoutingFee B amount,
      lo_maxPrepayRoutingFee = calcRoutingFee B (prepayAmount quote), lo_outgoingChanSet = chanIds,
      lo_publicationDeadline = deadline, lo_initiator = LOOP_INITIATOR,
      lo_sweepConfTarget = num_arg confTarget, lo_dest = text_arg destAddress\<rparr>"

datatype swap_request = LoopIn loop_in_request | LoopOut loop_out_request

section \<open>State\<close>

record terms_in =
  t_min :: Big
  t_max :: Big

record SwapTerms =
  tm_in_min :: Big
  tm_in_max :: Big
  tm_out_min :: Big
  tm_out_max :: Big
  tm_minCltv :: "int option"
  tm_maxCltv :: "int option"

abbreviation (input) Closed :: int where "Closed \<equiv> 0"
abbreviation (input) SelectDirection :: int where "SelectDirection \<equiv> 1"
abbreviation (input) ChooseAmount :: int where "ChooseAmount \<equiv> 2"
abbreviation (input) ReviewQuote :: int where "ReviewQuote \<equiv> 3"
abbreviation (input) Processing :: int where "Processing \<equiv> 4"

text \<open>What the closure given to \<open>setTimeout\<close> captures.\<close>

record captured =
  cp_amount :: Big
  cp_direction :: SwapDirection
  cp_quote :: nat

record app_wizard = app_loop +
  currentStep :: int
  direction :: SwapDirection
  selectedChanIds :: "string list"
  amount :: Big
  addlOptionsVisible :: bool
  confTarget :: "js_number option"
  loopOutAddress :: "string option"
  swap_terms :: SwapTerms
  quote_heap :: "Quote list"
  quote_ref :: nat
  processingTimeout :: "nat option"
  timers :: "(nat \<times> captured) list"
  next_timer :: nat
  inFlight :: "captured list"
  pendingTerms :: nat
  pendingQuotes :: "(SwapDirection \<times> quote_request) list"
  sent :: "swap_request list"

definition AMOUNT_INCREMENT :: rat where
  "AMOUNT_INCREMENT = 10000"

definition no_fees :: Quote where
  "no_fees = \<lparr>swapFee = 0, minerFee = 0, prepayAmount = 0\<rparr>"

definition quote :: "'a app_wizard_scheme \<Rightarrow> Quote" where
  "quote s = quote_heap s ! quote_ref s"

section \<open>Computed properties\<close>

definition wizard_channels :: "big_lib \<Rightarrow> 'a app_wizard_scheme \<Rightarrow> Channel list" where
  "wizard_channels B s = (if currentStep s = Closed then sortedChannels B s else activeChannels B s)"

definition showActions :: "'a app_wizard_scheme \<Rightarrow> bool" where
  "showActions s \<longleftrightarrow> currentStep s = SelectDirection"

definition showWizard :: "'a app_wizard_scheme \<Rightarrow> bool" where
  "showWizard s \<longleftrightarrow> currentStep s \<in> {ChooseAmount, ReviewQuote, Processing}"

definition listEditable :: "'a app_wizard_scheme \<Rightarrow> bool" where
  "listEditable s \<longleftrightarrow> currentStep s \<noteq> Closed"

text \<open>The balance of the selected channels, or of all channels when none is selected.\<close>

definition selected_balance :: "big_lib \<Rightarrow> 'a app_wizard_scheme \<Rightarrow> SwapDirection \<Rightarrow> Big" where
  "selected_balance B s dir =
     (let balanceSelector = (case dir of Loop_In \<Rightarrow> remoteBalance | Loop_Out \<Rightarrow> localBalance);
          totalBalance = (case dir of Loop_In \<Rightarrow> totalInbound B s | Loop_Out \<Rightarrow> totalOutbound B s)
      in if selectedChanIds s \<noteq> []
         then foldl (\<lambda>acc b. acc + b) 0
                (map balanceSelector
                   (filter (\<lambda>c. chanId c \<in> set (selectedChanIds s)) (wizard_channels B s)))
         else totalBalance)"

definition getTermsForDirection :: "big_lib \<Rightarrow> 'a app_wizard_scheme \<Rightarrow> SwapDirection \<Rightarrow> terms_in" where
  "getTermsForDirection B s dir =
     (let terms = (case dir of
                     Loop_In \<Rightarrow> \<lparr>t_min = tm_in_min (swap_terms s), t_max = tm_in_max (swap_terms s)\<rparr>
                   | Loop_Out \<Rightarrow> \<lparr>t_min = tm_out_min (swap_terms s), t_max = tm_out_max (swap_terms s)\<rparr>);
          spendable = selected_balance B s dir * (99 / 100)
      in if t_max terms > spendable
         then terms\<lparr>t_max := big_round B (big_div B spendable AMOUNT_INCREMENT) 0 roundDown * AMOUNT_INCREMENT\<rparr>
         else terms)"

definition termsForDirection :: "big_lib \<Rightarrow> 'a app_wizard_scheme \<Rightarrow> terms_in" where
  "termsForDirection B s = getTermsForDirection B s (direction s)"

definition amountForSelected :: "big_lib \<Rightarrow> 'a app_wizard_scheme \<Rightarrow> Big" where
  "amountForSelected B s =
     (let t = termsForDirection B s in
      if amount s = 0 then big_round B (big_div B (t_min t + t_max t) 2) 0 roundHalfUp
      else if amount s < t_min t then t_min t
      else if amount s > t_max t then t_max t
      else amount s)"

definition fee :: "'a app_wizard_scheme \<Rightarrow> Big" where
  "fee s = swapFee (quote s) + minerFee (quote s)"

text \<open>The fee and the percentage that make up the label.\<close>

definition feesLabel :: "big_lib \<Rightarrow> number_format \<Rightarrow> 'a app_wizard_scheme \<Rightarrow> string \<times> rat" where
  "feesLabel B fmt s =
     (formatSats B fmt (fee s) \<lparr>fo_unit = Some (unit s), fo_withSuffix = None, fo_lang = None\<rparr>,
      percentage B (fee s) (amount s) 2)"

definition invoiceTotal :: "'a app_wizard_scheme \<Rightarrow> Big" where
  "invoiceTotal s = amount s + fee s"

text \<open>The mean of no percentages is \<open>NaN\<close>, which is not below 50.\<close>

definition inferredDirection :: "big_lib \<Rightarrow> 'a app_wizard_scheme \<Rightarrow> SwapDirection option" where
  "inferredDirection B s =
     (case balanceMode s of
        routing \<Rightarrow>
          if selectedChanIds s = [] then None
          else
            (let percents = map (localPercent B)
                   (filter (\<lambda>c. chanId c \<in> set (selectedChanIds s)) (map snd (channels s)))
             in if percents \<noteq> [] \<and> sum_list percents / of_nat (length percents) < 50
                then Some Loop_In else Some Loop_Out)
      | send \<Rightarrow> Some Loop_In
      | receive \<Rightarrow> Some Loop_Out)"

definition loopInLastHop :: "'a app_wizard_scheme \<Rightarrow> string option" where
  "loopInLastHop s =
     (let chans = List.map_filter (\<lambda>i. map_of (channels s) i) (selectedChanIds s);
          peers = js_Set (map remotePubkey chans)
      in case peers of [p] \<Rightarrow> Some p | _ \<Rightarrow> None)"

definition hasValidLoopInPeers :: "'a app_wizard_scheme \<Rightarrow> bool" where
  "hasValidLoopInPeers s \<longleftrightarrow> (if selectedChanIds s \<noteq> [] then loopInLastHop s \<noteq> None else True)"

definition isLoopInMinimumMet :: "big_lib \<Rightarrow> 'a app_wizard_scheme \<Rightarrow> bool" where
  "isLoopInMinimumMet B s \<longleftrightarrow>
     (let t = getTermsForDirection B s Loop_In in
      if \<not> t_max t \<ge> t_min t then False
      else if selectedChanIds s \<noteq> [] then loopInLastHop s \<noteq> None else True)"

definition isLoopOutMinimumMet :: "big_lib \<Rightarrow> 'a app_wizard_scheme \<Rightarrow> bool" where
  "isLoopOutMinimumMet B s \<longleftrightarrow>
     (let t = getTermsForDirection B s Loop_Out in t_max t \<ge> t_min t)"

section \<open>Actions\<close>

definition cancel :: "'a app_wizard_scheme \<Rightarrow> 'a app_wizard_scheme" where
  "cancel s =
     s\<lparr>currentStep := Closed, selectedChanIds := [], amount := 0, addlOptionsVisible := False,
       confTarget := None, loopOutAddress := None,
       quote_heap := (quote_heap s)[quote_ref s := (quote s)\<lparr>swapFee := 0, minerFee := 0, prepayAmount := 0\<rparr>]\<rparr>"

definition abortSwap :: "'a app_wizard_scheme \<Rightarrow> 'a app_wizard_scheme" where
  "abortSwap s =
     (case processingTimeout s of
        None \<Rightarrow> s
      | Some t \<Rightarrow> s\<lparr>timers := filter (\<lambda>(i, _). i \<noteq> t) (timers s), processingTimeout := None\<rparr>)"

definition goToPrevStep :: "'a app_wizard_scheme \<Rightarrow> 'a app_wizard_scheme" where
  "goToPrevStep s =
     (let s = (if currentStep s = Processing then abortSwap s else s)
      in s\<lparr>currentStep := currentStep s - 1\<rparr>)"

text \<open>The part of \<open>getTerms\<close> before the replies, and the part after them.\<close>

definition getTerms :: "'a app_wizard_scheme \<Rightarrow> 'a app_wizard_scheme" where
  "getTerms s = s\<lparr>pendingTerms := pendingTerms s + 1\<rparr>"

record in_terms_reply =
  it_min :: int
  it_max :: int

record out_terms_reply =
  ot_min :: int
  ot_max :: int
  ot_minCltvDelta :: int
  ot_maxCltvDelta :: int

definition getTerms_done ::
    "(in_terms_reply \<times> out_terms_reply) api_result \<Rightarrow> 'a app_wizard_scheme \<Rightarrow> 'a app_wizard_scheme" where
  "getTerms_done res s =
     (let s = s\<lparr>pendingTerms := pendingTerms s - 1\<rparr> in
      case res of
        Inr (i, t) \<Rightarrow>
          s\<lparr>swap_terms := \<lparr>tm_in_min = of_int (it_min i), tm_in_max = of_int (it_max i),
                          tm_out_min = of_int (ot_min t), tm_out_max = of_int (ot_max t),
                          tm_minCltv = Some (ot_minCltvDelta t), tm_maxCltv = Some (ot_maxCltvDelta t)\<rparr>\<rparr>
      | Inl e \<Rightarrow> goToPrevStep (handleError e ''Unable to fetch Loop Terms'' s))"

text \<open>\<open>getQuote\<close>: the arguments of the request are evaluated when it is called.\<close>

definition getQuote :: "'a app_wizard_scheme \<Rightarrow> 'a app_wizard_scheme" where
  "getQuote s =
     (let req = (case direction s of
                   Loop_In \<Rightarrow> getLoopInQuote_request (amount s) (confTarget s) (loopInLastHop s)
                 | Loop_Out \<Rightarrow> getLoopOutQuote_request (amount s) (confTarget s))
      in s\<lparr>pendingQuotes := pendingQuotes s @ [(direction s, req)]\<rparr>)"

text \<open>The reply: swap fee, on-chain fee and, for Loop Out, the prepayment.\<close>

record quote_reply =
  rp_swapFeeSat :: int
  rp_chainFeeSat :: int
  rp_prepayAmtSat :: int

definition getQuote_done :: "nat \<Rightarrow> quote_reply api_result \<Rightarrow> 'a app_wizard_scheme \<Rightarrow> 'a app_wizard_scheme" where
  "getQuote_done n res s =
     (let dir = fst (pendingQuotes s ! n);
          s = s\<lparr>pendingQuotes := take n (pendingQuotes s) @ drop (Suc n) (pendingQuotes s)\<rparr>
      in case res of
           Inr r \<Rightarrow>
             s\<lparr>quote_heap := quote_heap s @
                 [\<lparr>swapFee = of_int (rp_swapFeeSat r), minerFee = of_int (rp_chainFeeSat r),
                   prepayAmount = (case dir of Loop_In \<Rightarrow> 0 | Loop_Out \<Rightarrow> of_int (rp_prepayAmtSat r))\<rparr>],
               quote_ref := length (quote_heap s)\<rparr>
         | Inl e \<Rightarrow> goToPrevStep (handleError e ''Unable to fetch Quote'' s))"

definition requestSwap :: "'a app_wizard_scheme \<Rightarrow> 'a app_wizard_scheme" where
  "requestSwap s =
     (let t = next_timer s in
      s\<lparr>timers := timers s @ [(t, \<lparr>cp_amount = amount s, cp_direction = direction s, cp_quote = quote_ref s\<rparr>)],
        next_timer := t + 1, processingTimeout := Some t\<rparr>)"

definition goToNextStep :: "big_lib \<Rightarrow> 'a app_wizard_scheme \<Rightarrow> 'a app_wizard_scheme" where
  "goToNextStep B s =
     (let s = (if currentStep s = ChooseAmount then
                 (let s = getQuote (s\<lparr>amount := amountForSelected B s\<rparr>) in
                  if \<not> addlOptionsVisible s then s\<lparr>confTarget := None, loopOutAddress := None\<rparr> else s)
               else if currentStep s = ReviewQuote then requestSwap s
               else s);
          s = s\<lparr>currentStep := currentStep s + 1\<rparr>
      in tourGoToNext s)"

definition startSwap :: "big_lib \<Rightarrow> 'a app_wizard_scheme \<Rightarrow> 'a app_wizard_scheme" where
  "startSwap B s =
     (if activeChannels B s = []
      then notify (Translated ''stores.buildSwapView.noChannelsMsg'') None ErrorAlert s
      else getTerms ((tourGoToNext s)\<lparr>currentStep := SelectDirection\<rparr>))"

definition autoSelectPeerChannels :: "big_lib \<Rightarrow> 'a app_wizard_scheme \<Rightarrow> 'a app_wizard_scheme" where
  "autoSelectPeerChannels B s =
     (let chans = wizard_channels B s;
          peers = js_Set (map remotePubkey (filter (\<lambda>c. chanId c \<in> set (selectedChanIds s)) chans));
          peerChannels = map chanId (filter (\<lambda>c. remotePubkey c \<in> set peers) chans)
      in s\<lparr>selectedChanIds := peerChannels\<rparr>)"

definition setDirection :: "big_lib \<Rightarrow> SwapDirection \<Rightarrow> 'a app_wizard_scheme \<Rightarrow> 'a app_wizard_scheme" where
  "setDirection B dir s =
     (let s = s\<lparr>direction := dir\<rparr>;
          s = (if dir = Loop_In then autoSelectPeerChannels B s else s)
      in goToNextStep B s)"

definition toggleSelectedChannel :: "string \<Rightarrow> 'a app_wizard_scheme \<Rightarrow> 'a app_wizard_scheme" where
  "toggleSelectedChannel channelId s =
     (if channelId \<in> set (selectedChanIds s)
      then s\<lparr>selectedChanIds := filter (\<lambda>i. i \<noteq> channelId) (selectedChanIds s)\<rparr>
      else s\<lparr>selectedChanIds := selectedChanIds s @ [channelId]\<rparr>)"

definition setAmount :: "Big \<Rightarrow> 'a app_wizard_scheme \<Rightarrow> 'a app_wizard_scheme" where
  "setAmount a s = s\<lparr>amount := a\<rparr>"

definition toggleAddlOptions :: "'a app_wizard_scheme \<Rightarrow> 'a app_wizard_scheme" where
  "toggleAddlOptions s = s\<lparr>addlOptionsVisible := \<not> addlOptionsVisible s\<rparr>"

definition out_of_range :: "int option \<Rightarrow> int option \<Rightarrow> js_number \<Rightarrow> bool" where
  "out_of_range lo hi target =
     (case (lo, hi) of
        (Some l, Some h) \<Rightarrow> l \<noteq> 0 \<and> h \<noteq> 0 \<and>
          (case target of NonFinite \<Rightarrow> True | Finite r \<Rightarrow> of_int l > r \<or> of_int h < r)
      | _ \<Rightarrow> False)"

definition setConfTarget :: "js_number option \<Rightarrow> 'a app_wizard_scheme \<Rightarrow> 'a app_wizard_scheme result" where
  "setConfTarget target s =
     (if direction s = Loop_Out \<and> target \<noteq> None \<and>
         out_of_range (tm_minCltv (swap_terms s)) (tm_maxCltv (swap_terms s)) (the target)
      then Inl (Error (''Confirmation target must be between '' @
             int_to_string (the (tm_minCltv (swap_terms s))) @ '' and '' @
             int_to_string (the (tm_maxCltv (swap_terms s))) @ ''.''))
      else Inr (s\<lparr>confTarget := target\<rparr>))"

definition setLoopOutAddress :: "string \<Rightarrow> 'a app_wizard_scheme \<Rightarrow> 'a app_wizard_scheme" where
  "setLoopOutAddress address s = s\<lparr>loopOutAddress := Some address\<rparr>"

text \<open>The delay of timer \<open>n\<close> has passed: the request is built from the captured amount,
  direction and quote object and from the wizard's present state, and is sent.\<close>

definition swap_request_for :: "big_lib \<Rightarrow> captured \<Rightarrow> 'a app_wizard_scheme \<Rightarrow> swap_request" where
  "swap_request_for B cp s =
     (let q = quote_heap s ! cp_quote cp in
      case cp_direction cp of
        Loop_In \<Rightarrow> LoopIn (loopIn_request (cp_amount cp) q (loopInLastHop s) (confTarget s))
      | Loop_Out \<Rightarrow>
          (let deadline = (if network s = ''regtest'' then 0 else clock s + 30 * 60 * 1000)
           in LoopOut (loopOut_request B (cp_amount cp) q (selectedChanIds s)
                (js_round (of_int deadline / 1000)) (confTarget s) (loopOutAddress s))))"

definition timer_fires :: "big_lib \<Rightarrow> nat \<Rightarrow> 'a app_wizard_scheme \<Rightarrow> 'a app_wizard_scheme" where
  "timer_fires B n s =
     (let cp = snd (timers s ! n) in
      s\<lparr>timers := take n (timers s) @ drop (Suc n) (timers s), inFlight := inFlight s @ [cp],
        sent := sent s @ [swap_request_for B cp s]\<rparr>)"

text \<open>The daemon's answer to request \<open>n\<close> in flight: the id of the swap, or an error.\<close>

definition direction_text :: "SwapDirection \<Rightarrow> string" where
  "direction_text d = (case d of Loop_In \<Rightarrow> ''Loop In'' | Loop_Out \<Rightarrow> ''Loop Out'')"

definition swap_done :: "nat \<Rightarrow> string api_result \<Rightarrow> 'a app_wizard_scheme \<Rightarrow> 'a app_wizard_scheme" where
  "swap_done n res s =
     (let cp = inFlight s ! n;
          s = s\<lparr>inFlight := take n (inFlight s) @ drop (Suc n) (inFlight s)\<rparr>
      in case res of
           Inr swapId \<Rightarrow>
             tourGoToNext (toggleProcessingSwaps (cancel (addSwappedChannels swapId (selectedChanIds s) s)))
         | Inl e \<Rightarrow> goToPrevStep (handleError e (''Unable to Perform '' @ direction_text (cp_direction cp)) s))"

definition showTour :: "'a app_wizard_scheme \<Rightarrow> 'a app_wizard_scheme" where
  "showTour s = cancel (s\<lparr>tourVisible := True, tourActiveStep := 0\<rparr>)"

section \<open>The wizard as the user drives it\<close>

text \<open>
  The handler of the configuration page: with the advanced options shown it first stores
  the confirmation target and the address, and an invalid target is reported.
\<close>

definition config_next ::
    "big_lib \<Rightarrow> js_number option \<Rightarrow> string \<Rightarrow> 'a app_wizard_scheme \<Rightarrow> 'a app_wizard_scheme" where
  "config_next B target destAddress s =
     (if addlOptionsVisible s then
        (case setConfTarget target s of
           Inl (Error m) \<Rightarrow> notify (Plain m) None ErrorAlert s
         | Inr s' \<Rightarrow> goToNextStep B (setLoopOutAddress destAddress s'))
      else goToNextStep B s)"

datatype wizard_event =
    StartSwap
  | ChooseDirection SwapDirection
  | ToggleChannel string
  | EnterAmount Big
  | ToggleOptions
  | SubmitConfig "js_number option" string
  | ConfirmReview
  | Back
  | Cancel
  | ShowTour
  | TermsReply "(in_terms_reply \<times> out_terms_reply) api_result"
  | QuoteReply nat "quote_reply api_result"
  | TimerFires nat
  | SwapReply nat "string api_result"
  | ChannelsReply "lnd_channel list api_result"
  | ClockTick int

text \<open>When the pages offer an action, and which completions are due.\<close>

definition wizard_enabled :: "big_lib \<Rightarrow> wizard_event \<Rightarrow> 'a app_wizard_scheme \<Rightarrow> bool" where
  "wizard_enabled B e s =
     (case e of
        StartSwap \<Rightarrow> \<not> showActions s \<and> \<not> showWizard s
      | ChooseDirection d \<Rightarrow>
          showActions s \<and>
          (case d of
             Loop_In \<Rightarrow> hasValidLoopInPeers s \<and> isLoopInMinimumMet B s
           | Loop_Out \<Rightarrow> isLoopOutMinimumMet B s)
      | ToggleChannel _ \<Rightarrow> listEditable s \<and> \<not> showWizard s
      | EnterAmount _ \<Rightarrow> currentStep s = ChooseAmount
      | ToggleOptions \<Rightarrow> currentStep s = ChooseAmount
      | SubmitConfig _ _ \<Rightarrow> currentStep s = ChooseAmount
      | ConfirmReview \<Rightarrow> currentStep s = ReviewQuote
      | Back \<Rightarrow> showWizard s
      | Cancel \<Rightarrow> currentStep s \<in> {SelectDirection, ChooseAmount, ReviewQuote}
      | ShowTour \<Rightarrow> True
      | TermsReply _ \<Rightarrow> 0 < pendingTerms s
      | QuoteReply n _ \<Rightarrow> n < length (pendingQuotes s)
      | TimerFires n \<Rightarrow> n < length (timers s)
      | SwapReply n _ \<Rightarrow> n < length (inFlight s)
      | ChannelsReply _ \<Rightarrow> True
      | ClockTick t \<Rightarrow> clock s \<le> t)"

definition wizard_apply :: "big_lib \<Rightarrow> wizard_event \<Rightarrow> 'a app_wizard_scheme \<Rightarrow> 'a app_wizard_scheme" where
  "wizard_apply B e s =
     (case e of
        StartSwap \<Rightarrow> startSwap B s
      | ChooseDirection d \<Rightarrow> setDirection B d s
      | ToggleChannel i \<Rightarrow> toggleSelectedChannel i s
      | EnterAmount a \<Rightarrow> setAmount a s
      | ToggleOptions \<Rightarrow> toggleAddlOptions s
      | SubmitConfig t a \<Rightarrow> config_next B t a s
      | ConfirmReview \<Rightarrow> goToNextStep B s
      | Back \<Rightarrow> goToPrevStep s
      | Cancel \<Rightarrow> cancel s
      | ShowTour \<Rightarrow> showTour s
      | TermsReply r \<Rightarrow> getTerms_done r s
      | QuoteReply n r \<Rightarrow> getQuote_done n r s
      | TimerFires n \<Rightarrow> timer_fires B n s
      | SwapReply n r \<Rightarrow> swap_done n r s
      | ChannelsReply r \<Rightarrow> fetchChannels B r s
      | ClockTick t \<Rightarrow> s\<lparr>clock := t\<rparr>)"

inductive wizard_run ::
    "big_lib \<Rightarrow> 'a app_wizard_scheme \<Rightarrow> wizard_event list \<Rightarrow> 'a app_wizard_scheme \<Rightarrow> bool" for B s where
  wizard_start: "wizard_run B s [] s"
| wizard_step: "wizard_run B s es t \<Longrightarrow> wizard_enabled B e t \<Longrightarrow> wizard_run B s (es @ [e]) (wizard_apply B e t)"

definition initial_wizard :: app_wizard where
  "initial_wizard =
     app_loop.extend initial_loop
       (app_wizard.fields Closed Loop_In [] 0 False None None
          \<lparr>tm_in_min = 0, tm_in_max = 0, tm_out_min = 0, tm_out_max = 0, tm_minCltv = None, tm_maxCltv = None\<rparr>
          [no_fees] 0 None [] 0 [] 0 [] [])"

section \<open>Amounts and fees\<close>

definition whole :: "rat \<Rightarrow> bool" where
  "whole x \<longleftrightarrow> (\<exists>i :: int. x = of_int i)"

definition whole_balances :: "'a app_wizard_scheme \<Rightarrow> bool" where
  "whole_balances s \<longleftrightarrow>
     (\<forall>(k, c) \<in> set (channels s). whole (localBalance c) \<and> 0 \<le> localBalance c \<and>
                                whole (remoteBalance c) \<and> 0 \<le> remoteBalance c)"

lemma whole_intros [intro]: "whole 0" "whole x \<Longrightarrow> whole y \<Longrightarrow> whole (x + y)"
  unfolding whole_def by (metis of_int_0) (metis of_int_add)

lemma whole_sum: "(\<And>x. x \<in> set xs \<Longrightarrow> whole (f x) \<and> 0 \<le> f x) \<Longrightarrow> whole (sum_list (map f xs)) \<and> 0 \<le> sum_list (map f xs)"
  by (induction xs) auto

lemma selected_balance_whole:
  assumes "whole_balances s"
  shows "whole (selected_balance B s dir) \<and> 0 \<le> selected_balance B s dir"
proof -
  have b: "whole ((case dir of Loop_In \<Rightarrow> remoteBalance | Loop_Out \<Rightarrow> localBalance) c) \<and>
      0 \<le> (case dir of Loop_In \<Rightarrow> remoteBalance | Loop_Out \<Rightarrow> localBalance) c" if "c \<in> snd ` set (channels s)" for c
    using assms that by (cases dir) (auto simp: whole_balances_def)
  have sub: "set (wizard_channels B s) \<subseteq> snd ` set (channels s)"
    by (auto simp: wizard_channels_def activeChannels_def sortedChannels_def)
  have "whole (sum_list (map (case dir of Loop_In \<Rightarrow> remoteBalance | Loop_Out \<Rightarrow> localBalance) cs)) \<and>
      0 \<le> sum_list (map (case dir of Loop_In \<Rightarrow> remoteBalance | Loop_Out \<Rightarrow> localBalance) cs)"
    if "set cs \<subseteq> snd ` set (channels s)" for cs
    using subsetD [OF that] by (intro whole_sum b)
  from this [of "filter (\<lambda>c. chanId c \<in> set (selectedChanIds s)) (wizard_channels B s)"]
    this [of "map snd (channels s)"] sub
  show ?thesis
    using foldl_add [of id "0 :: rat"]
    by (cases dir) (auto simp: selected_balance_def totals_eq Let_def)
qed

lemma round_to_increment:
  assumes "big_law B" "whole x" "0 \<le> x"
  shows "big_round B (big_div B (x * (99 / 100)) AMOUNT_INCREMENT) 0 roundDown * AMOUNT_INCREMENT =
    10000 * of_int \<lfloor>x * (99 / 100) / 10000\<rfloor>"
proof -
  obtain i :: int where i: "x = of_int i" using assms(2) by (auto simp: whole_def)
  define y where "y = x * (99 / 100) / 10000"
  have "y * 10 ^ 20 = of_int (i * 99 * 10 ^ 14)" by (simp add: y_def i)
  then have "round_dec 20 roundHalfUp y = y" by (rule round_dec_exact)
  then have "big_div B (x * (99 / 100)) AMOUNT_INCREMENT = y"
    using big_div_eq [OF assms(1), of 10000 "x * (99 / 100)"] by (simp add: AMOUNT_INCREMENT_def y_def)
  moreover have "0 \<le> y" using assms(3) by (simp add: y_def)
  ultimately have "big_round B (big_div B (x * (99 / 100)) AMOUNT_INCREMENT) 0 roundDown = of_int \<lfloor>y\<rfloor>"
    by (simp only: big_round_eq [OF assms(1)] round_dec_down)
  then show ?thesis by (simp only: AMOUNT_INCREMENT_def y_def mult.commute)
qed

definition server_terms :: "'a app_wizard_scheme \<Rightarrow> SwapDirection \<Rightarrow> terms_in" where
  "server_terms s dir =
     (case dir of
        Loop_In \<Rightarrow> \<lparr>t_min = tm_in_min (swap_terms s), t_max = tm_in_max (swap_terms s)\<rparr>
      | Loop_Out \<Rightarrow> \<lparr>t_min = tm_out_min (swap_terms s), t_max = tm_out_max (swap_terms s)\<rparr>)"

lemma getTerms_cases:
  assumes "big_law B" "whole_balances s"
  shows "getTermsForDirection B s dir =
    (if t_max (server_terms s dir) > selected_balance B s dir * (99 / 100)
     then (server_terms s dir)\<lparr>t_max := 10000 * of_int \<lfloor>selected_balance B s dir * (99 / 100) / 10000\<rfloor>\<rparr>
     else server_terms s dir)"
  using round_to_increment [OF assms(1), of "selected_balance B s dir"] selected_balance_whole [OF assms(2), of B dir]
  by (simp add: getTermsForDirection_def server_terms_def Let_def)

text \<open>
  C21. The wizard never offers more than the node can pay: the minimum is the server's, the
  maximum is the server's when 99 percent of the balance of the channels in question
  covers it, and otherwise the largest multiple of 10000 satoshis that this share covers.
\<close>

theorem terms_respect_balance:
  assumes "big_law B" and "whole_balances s"
  shows "t_min (getTermsForDirection B s dir) = t_min (server_terms s dir) \<and>
    t_max (getTermsForDirection B s dir) \<le> t_max (server_terms s dir) \<and>
    t_max (getTermsForDirection B s dir) \<le> selected_balance B s dir * (99 / 100) \<and>
    (t_max (getTermsForDirection B s dir) \<noteq> t_max (server_terms s dir) \<longrightarrow>
      (\<exists>k. t_max (getTermsForDirection B s dir) = 10000 * of_int k) \<and>
      selected_balance B s dir * (99 / 100) < t_max (getTermsForDirection B s dir) + 10000)"
proof -
  let ?x = "selected_balance B s dir * (99 / 100)"
  have f: "10000 * of_int \<lfloor>?x / 10000\<rfloor> \<le> ?x" "?x < 10000 * of_int \<lfloor>?x / 10000\<rfloor> + 10000"
    by linarith+
  show ?thesis
  proof (cases "t_max (server_terms s dir) > ?x")
    case True
    then have t: "getTermsForDirection B s dir = (server_terms s dir)\<lparr>t_max := 10000 * of_int \<lfloor>?x / 10000\<rfloor>\<rparr>"
      using getTerms_cases [OF assms, of dir] by simp
    show ?thesis unfolding t using f True by auto
  next
    case False
    then show ?thesis using getTerms_cases [OF assms, of dir] by simp
  qed
qed

text \<open>
  The amount that goes into the quote and the swap lies within the terms: whenever the
  terms leave a choice and are whole satoshis, \<open>amountForSelected\<close> is between the minimum
  and the maximum, it is the chosen amount if that one is allowed, and leaving the amount
  step stores it and asks for a quote for exactly that amount.
\<close>

lemma amount_within_terms:
  assumes "big_law B" and "t = termsForDirection B s" and "whole (t_min t)" "whole (t_max t)"
    and "0 \<le> t_min t" "t_min t \<le> t_max t"
  shows "t_min t \<le> amountForSelected B s \<and> amountForSelected B s \<le> t_max t \<and>
    (amount s \<noteq> 0 \<and> t_min t \<le> amount s \<and> amount s \<le> t_max t \<longrightarrow> amountForSelected B s = amount s) \<and>
    (currentStep s = ChooseAmount \<longrightarrow>
      amount (goToNextStep B s) = amountForSelected B s \<and>
      qr_amt (snd (last (pendingQuotes (goToNextStep B s)))) = amountForSelected B s)"
proof -
  obtain a b :: int where ab: "t_min t = of_int a" "t_max t = of_int b" using assms(3,4) by (auto simp: whole_def)
  have ab': "0 \<le> a" "a \<le> b" using assms(5,6) by (simp_all add: ab)
  have half: "(t_min t + t_max t) / 2 * 10 ^ 20 = of_int ((a + b) * (5 * 10 ^ 19))" by (simp add: ab algebra_simps)
  have "big_round B (big_div B (t_min t + t_max t) 2) 0 roundHalfUp = of_int \<lfloor>(t_min t + t_max t) / 2 + 1 / 2\<rfloor>"
    using assms(1,5,6) by (simp add: big_div_eq big_round_eq round_dec_exact [OF half] round_dec_nonneg round_nat_def)
  moreover have "a \<le> \<lfloor>(t_min t + t_max t) / 2 + 1 / 2\<rfloor>" "\<lfloor>(t_min t + t_max t) / 2 + 1 / 2\<rfloor> \<le> b"
  proof -
    have "(of_int a :: rat) \<le> of_int b" using ab' by simp
    moreover have "x \<le> (x + y) / 2 + 1 / 2 \<and> (x + y) / 2 + 1 / 2 < y + 1" if "x \<le> y" for x y :: rat
      using that by (simp add: field_simps)
    ultimately have "of_int a \<le> (of_int a + of_int b) / 2 + (1 / 2 :: rat)" "(of_int a + of_int b) / 2 + (1 / 2 :: rat) < of_int b + 1"
      by blast+
    then show "a \<le> \<lfloor>(t_min t + t_max t) / 2 + 1 / 2\<rfloor>" "\<lfloor>(t_min t + t_max t) / 2 + 1 / 2\<rfloor> \<le> b"
      unfolding ab le_floor_iff floor_le_iff .
  qed
  ultimately have mid: "t_min t \<le> big_round B (big_div B (t_min t + t_max t) 2) 0 roundHalfUp"
    "big_round B (big_div B (t_min t + t_max t) 2) 0 roundHalfUp \<le> t_max t"
    by (simp_all add: ab)
  then show ?thesis
    using assms(2,6)
    by (auto simp: amountForSelected_def Let_def goToNextStep_def getQuote_def tourGoToNext_def
        getLoopInQuote_request_def getLoopOutQuote_request_def split: SwapDirection.split)
qed

text \<open>
  Every swap request carries the fee limits the user was shown: the swap fee and the
  prepayment are those of the quote, the miner fee is allowed to rise to 250 times the
  quoted one, and the routing fees of a Loop Out are two percent rounded up, so at least
  two percent and less than one satoshi more.
\<close>

lemma swap_requests_limit_fees:
  assumes "big_law B" and "0 \<le> a" and "0 \<le> prepayAmount q"
  shows "li_maxSwapFee (loopIn_request a q hop ct) = swapFee q \<and>
    li_maxMinerFee (loopIn_request a q hop ct) = 250 * minerFee q \<and>
    lo_maxSwapFee (loopOut_request B a q ids dl ct dest) = swapFee q \<and>
    lo_maxMinerFee (loopOut_request B a q ids dl ct dest) = 250 * minerFee q \<and>
    lo_maxPrepayAmt (loopOut_request B a q ids dl ct dest) = prepayAmount q \<and>
    a / 50 \<le> lo_maxSwapRoutingFee (loopOut_request B a q ids dl ct dest) \<and>
    lo_maxSwapRoutingFee (loopOut_request B a q ids dl ct dest) < a / 50 + 1 \<and>
    prepayAmount q / 50 \<le> lo_maxPrepayRoutingFee (loopOut_request B a q ids dl ct dest) \<and>
    lo_maxPrepayRoutingFee (loopOut_request B a q ids dl ct dest) < prepayAmount q / 50 + 1"
proof -
  have fee: "x / 50 \<le> calcRoutingFee B x \<and> calcRoutingFee B x < x / 50 + 1" if "0 \<le> x" for x
  proof -
    have "calcRoutingFee B x = of_int \<lceil>x / 50\<rceil>"
      using assms(1) that by (simp add: calcRoutingFee_def big_round_eq round_dec_up)
    then show ?thesis by (simp add: ceiling_correct) linarith
  qed
  show ?thesis using fee [OF assms(2)] fee [OF assms(3)] by (simp add: loopIn_request_def loopOut_request_def)
qed

section \<open>Runs of the wizard\<close>

text \<open>What the operations of the other stores leave alone.\<close>

lemma handleError_wizard [simp]:
  "sent (handleError e title s) = sent s" "timers (handleError e title s) = timers s"
  "currentStep (handleError e title s) = currentStep s" "inFlight (handleError e title s) = inFlight s"
  "processingTimeout (handleError e title s) = processingTimeout s"
  by (simp_all add: handleError_def notify_def Let_def split: app_error.split)

lemma notify_wizard [simp]:
  "sent (notify msg title ty s) = sent s" "timers (notify msg title ty s) = timers s"
  "currentStep (notify msg title ty s) = currentStep s"
  by (simp_all add: notify_def Let_def)

lemma tour_wizard [simp]:
  "sent (tourGoToNext s) = sent s" "timers (tourGoToNext s) = timers s" "currentStep (tourGoToNext s) = currentStep s"
  "sent (toggleProcessingSwaps s) = sent s" "timers (toggleProcessingSwaps s) = timers s"
  "currentStep (toggleProcessingSwaps s) = currentStep s"
  by (simp_all add: tourGoToNext_def toggleProcessingSwaps_def Let_def)

lemma stores_wizard [simp]:
  "sent (addSwappedChannels i ids s) = sent s" "timers (addSwappedChannels i ids s) = timers s"
  "currentStep (addSwappedChannels i ids s) = currentStep s"
  "sent (fetchChannels B r s) = sent s" "timers (fetchChannels B r s) = timers s"
  "currentStep (fetchChannels B r s) = currentStep s"
  by (simp_all add: addSwappedChannels_def fetchChannels_def start_call_def Let_def split: sum.split)

lemma cancel_wizard [simp]:
  "sent (cancel s) = sent s" "timers (cancel s) = timers s" "currentStep (cancel s) = Closed"
  by (simp_all add: cancel_def)

text \<open>Swaps that have been sent or are about to be.\<close>

definition swaps_released :: "'a app_wizard_scheme \<Rightarrow> nat" where
  "swaps_released s = length (sent s) + length (timers s)"

lemma released_goToPrevStep: "swaps_released (goToPrevStep s) \<le> swaps_released s"
  by (auto simp: swaps_released_def goToPrevStep_def abortSwap_def Let_def split: option.split)

lemma step_goToPrevStep [simp]: "currentStep (goToPrevStep s) = currentStep s - 1"
  by (auto simp: goToPrevStep_def abortSwap_def Let_def split: option.split)

lemma released_goToNextStep:
  "swaps_released (goToNextStep B s) = swaps_released s + (if currentStep s = ReviewQuote then 1 else 0)"
  by (simp add: swaps_released_def goToNextStep_def getQuote_def requestSwap_def Let_def)

lemma step_goToNextStep [simp]: "currentStep (goToNextStep B s) = currentStep s + 1"
  by (simp add: goToNextStep_def getQuote_def requestSwap_def Let_def)

lemma config_next_cases:
  assumes "currentStep s = ChooseAmount"
  shows "swaps_released (config_next B t a s) = swaps_released s \<and>
    currentStep (config_next B t a s) \<in> {ChooseAmount, ReviewQuote}"
  using assms
  by (auto simp: config_next_def setConfTarget_def setLoopOutAddress_def released_goToNextStep
      swaps_released_def [of "s\<lparr>confTarget := _, loopOutAddress := _\<rparr>"] swaps_released_def [of "notify _ _ _ s"]
      swaps_released_def [of s] split: sum.split js_error.split)

lemma released_timer_fires: "n < length (timers s) \<Longrightarrow> swaps_released (timer_fires B n s) = swaps_released s"
  by (simp add: swaps_released_def timer_fires_def Let_def)

lemma setDirection_wizard:
  "currentStep s = SelectDirection \<Longrightarrow> swaps_released (setDirection B d s) = swaps_released s"
  "currentStep (setDirection B d s) = currentStep s + 1"
proof -
  let ?s = "if d = Loop_In then autoSelectPeerChannels B (s\<lparr>direction := d\<rparr>) else s\<lparr>direction := d\<rparr>"
  have f: "sent ?s = sent s" "timers ?s = timers s" "currentStep ?s = currentStep s"
    by (simp_all add: autoSelectPeerChannels_def Let_def)
  have d: "setDirection B d s = goToNextStep B ?s" by (simp add: setDirection_def Let_def)
  show "currentStep s = SelectDirection \<Longrightarrow> swaps_released (setDirection B d s) = swaps_released s"
    "currentStep (setDirection B d s) = currentStep s + 1"
    unfolding d released_goToNextStep step_goToNextStep f by (simp_all add: swaps_released_def f)
qed

lemma wizard_apply_released:
  assumes "wizard_enabled B e s"
  shows "swaps_released (wizard_apply B e s) \<le> swaps_released s + (if e = ConfirmReview then 1 else 0)"
proof (cases e)
  case (TermsReply r)
  then show ?thesis
    using released_goToPrevStep [of "handleError _ _ (s\<lparr>pendingTerms := _\<rparr>)"]
    by (cases r) (auto simp: wizard_apply_def getTerms_done_def swaps_released_def Let_def split: prod.split)
next
  case (QuoteReply n r)
  then show ?thesis
    using released_goToPrevStep [of "handleError _ _ (s\<lparr>pendingQuotes := _\<rparr>)"]
    by (cases r) (auto simp: wizard_apply_def getQuote_done_def swaps_released_def Let_def)
next
  case (SwapReply n r)
  then show ?thesis
    using released_goToPrevStep [of "handleError _ _ (s\<lparr>inFlight := _\<rparr>)"]
    by (cases r) (auto simp: wizard_apply_def swap_done_def swaps_released_def Let_def)
next
  case (TimerFires n)
  then show ?thesis using assms by (simp add: wizard_apply_def wizard_enabled_def released_timer_fires)
next
  case (SubmitConfig t a)
  then show ?thesis using assms config_next_cases [of s] by (simp add: wizard_apply_def wizard_enabled_def)
next
  case (ChooseDirection d)
  then show ?thesis
    using assms setDirection_wizard(1) [of s] by (simp add: wizard_apply_def wizard_enabled_def showActions_def)
next
  case Back
  then show ?thesis using released_goToPrevStep by (simp add: wizard_apply_def)
next
  case ConfirmReview
  then show ?thesis by (simp add: wizard_apply_def released_goToNextStep)
next
  case StartSwap
  then show ?thesis by (simp add: wizard_apply_def startSwap_def getTerms_def swaps_released_def)
qed (simp_all add: wizard_apply_def swaps_released_def toggleSelectedChannel_def setAmount_def
    toggleAddlOptions_def showTour_def)

definition confirmations :: "wizard_event list \<Rightarrow> nat" where
  "confirmations es = length (filter (\<lambda>e. e = ConfirmReview) es)"

text \<open>
  C6. No swap without consent: in every run of the wizard, however the replies, timers and
  clicks interleave, the number of swap requests sent to the daemon is at most the number
  of times the user has confirmed the review.
\<close>

theorem swaps_sent_only_when_confirmed:
  assumes "wizard_run B s es t" and "sent s = []" "timers s = []"
  shows "length (sent t) \<le> confirmations es \<and> length (sent t) + length (timers t) \<le> confirmations es"
proof -
  have "swaps_released t \<le> confirmations es"
    using assms(1)
  proof (induction rule: wizard_run.induct)
    case wizard_start
    then show ?case using assms(2,3) by (simp add: swaps_released_def)
  next
    case (wizard_step es t e)
    then show ?case using wizard_apply_released [of B e t] by (auto simp: confirmations_def split: if_splits)
  qed
  then show ?thesis by (simp add: swaps_released_def)
qed

definition failing :: "wizard_event \<Rightarrow> bool" where
  "failing e =
     (case e of
        TermsReply r \<Rightarrow> isl r | QuoteReply _ r \<Rightarrow> isl r | SwapReply _ r \<Rightarrow> isl r | _ \<Rightarrow> False)"

lemma wizard_apply_step_range:
  assumes "wizard_enabled B e s" "\<not> failing e" "currentStep s \<in> {Closed..Processing}"
  shows "currentStep (wizard_apply B e s) \<in> {Closed..Processing}"
proof (cases e)
  case (TermsReply r)
  then show ?thesis using assms
    by (cases r) (auto simp: wizard_apply_def failing_def getTerms_done_def Let_def split: prod.split)
next
  case (QuoteReply n r)
  then show ?thesis using assms
    by (cases r) (auto simp: wizard_apply_def failing_def getQuote_done_def Let_def)
next
  case (SwapReply n r)
  then show ?thesis using assms
    by (cases r) (auto simp: wizard_apply_def failing_def swap_done_def Let_def)
next
  case (SubmitConfig t a)
  then have "currentStep s = ChooseAmount" using assms by (simp add: wizard_enabled_def)
  from config_next_cases [OF this, of B t a] show ?thesis by (auto simp: SubmitConfig wizard_apply_def)
next
  case (ChooseDirection d)
  then show ?thesis
    using assms setDirection_wizard(2) [of B d s] by (simp add: wizard_apply_def wizard_enabled_def showActions_def)
next
  case Back
  then show ?thesis using assms by (auto simp: wizard_apply_def wizard_enabled_def showWizard_def)
next
  case ConfirmReview
  then show ?thesis using assms by (simp add: wizard_apply_def wizard_enabled_def)
next
  case StartSwap
  then show ?thesis using assms by (simp add: wizard_apply_def startSwap_def getTerms_def)
qed (use assms in \<open>simp_all add: wizard_apply_def toggleSelectedChannel_def setAmount_def toggleAddlOptions_def
    showTour_def timer_fires_def Let_def\<close>)

text \<open>
  As long as the daemon does not fail, the wizard shows one of its five pages: in every
  run without a failing reply that starts on one of them, the step stays between
  \<open>Closed\<close> and \<open>Processing\<close>.
\<close>

lemma wizard_steps_stay_in_range:
  assumes "wizard_run B s es t" and "\<not> list_ex failing es" and "currentStep s \<in> {Closed..Processing}"
  shows "currentStep t \<in> {Closed..Processing}"
  using assms(1,2)
proof (induction rule: wizard_run.induct)
  case wizard_start
  then show ?case using assms(3) by simp
next
  case (wizard_step es t e)
  then show ?case using wizard_apply_step_range [of B e t] by simp
qed

text \<open>
  A failure that arrives late takes the wizard off its pages: when the user opens the
  wizard, closes it while the terms are still being fetched, and that request then fails,
  the step becomes -1, which is none of the values of \<open>BuildSwapSteps\<close>. The handler of
  the failure steps back from wherever the wizard is by then.
\<close>

lemma late_failure_leaves_the_steps:
  assumes "currentStep s = Closed" and "activeChannels B s \<noteq> []"
  shows "wizard_run B s [StartSwap, Cancel, TermsReply (Inl e)]
      (wizard_apply B (TermsReply (Inl e)) (cancel (startSwap B s))) \<and>
    currentStep (wizard_apply B (TermsReply (Inl e)) (cancel (startSwap B s))) = - 1"
proof -
  have open_: "currentStep (startSwap B s) = SelectDirection" "pendingTerms (startSwap B s) > 0"
    using assms(2) by (simp_all add: startSwap_def getTerms_def)
  have 1: "wizard_run B s [StartSwap] (startSwap B s)"
    using wizard_step [OF wizard_start, of B StartSwap s] assms(1)
    by (simp add: wizard_enabled_def wizard_apply_def showActions_def showWizard_def)
  have 2: "wizard_run B s [StartSwap, Cancel] (cancel (startSwap B s))"
    using wizard_step [OF 1, of Cancel] open_ by (simp add: wizard_enabled_def wizard_apply_def)
  have "wizard_enabled B (TermsReply (Inl e)) (cancel (startSwap B s))"
    using open_(2) by (simp add: wizard_enabled_def cancel_def)
  from wizard_step [OF 2 this] show ?thesis
    by (simp add: wizard_apply_def getTerms_done_def Let_def cancel_def)
qed

section \<open>Aborting, cancelling and completing a swap\<close>

definition timer_ids :: "'a app_wizard_scheme \<Rightarrow> nat set" where
  "timer_ids s = fst ` set (timers s)"

text \<open>A step keeps the waiting timers or removes some of them; a new one gets a new number.\<close>

definition timers_grow :: "'a app_wizard_scheme \<Rightarrow> 'a app_wizard_scheme \<Rightarrow> bool" where
  "timers_grow s t \<longleftrightarrow> next_timer s \<le> next_timer t \<and> timer_ids t \<subseteq> timer_ids s \<union> {next_timer s..<next_timer t}"

lemma timers_grow_same: "timers t = timers s \<Longrightarrow> next_timer t = next_timer s \<Longrightarrow> timers_grow s t"
  by (simp add: timers_grow_def timer_ids_def)

lemma timers_grow_via:
  "timers_grow s' t \<Longrightarrow> timers s' = timers s \<Longrightarrow> next_timer s' = next_timer s \<Longrightarrow> timers_grow s t"
  by (simp add: timers_grow_def timer_ids_def)

lemma next_timer_others [simp]:
  "next_timer (handleError e title s) = next_timer s" "next_timer (notify msg ti ty s) = next_timer s"
  "next_timer (tourGoToNext s) = next_timer s" "next_timer (toggleProcessingSwaps s) = next_timer s"
  "next_timer (addSwappedChannels i ids s) = next_timer s" "next_timer (fetchChannels B r s) = next_timer s"
  "next_timer (cancel s) = next_timer s" "next_timer (goToPrevStep s) = next_timer s"
  by (auto simp: handleError_def notify_def tourGoToNext_def toggleProcessingSwaps_def addSwappedChannels_def
      fetchChannels_def start_call_def cancel_def goToPrevStep_def abortSwap_def Let_def
      split: app_error.split sum.split option.split)

lemma timers_grow_prev: "timers_grow s (goToPrevStep s)"
  by (auto simp: timers_grow_def timer_ids_def goToPrevStep_def abortSwap_def Let_def split: option.split)

lemma timers_grow_next: "timers_grow s (goToNextStep B s)"
  by (auto simp: timers_grow_def timer_ids_def goToNextStep_def getQuote_def requestSwap_def Let_def)

lemmas timers_grow_prev' = timers_grow_via [OF timers_grow_prev]
lemmas timers_grow_next' = timers_grow_via [OF timers_grow_next]

lemma timers_grow_apply: "wizard_enabled B e s \<Longrightarrow> timers_grow s (wizard_apply B e s)"
proof (cases e)
  case (TermsReply r)
  then show ?thesis
    by (cases r) (auto simp: wizard_apply_def getTerms_done_def Let_def
        intro!: timers_grow_prev' intro: timers_grow_same split: prod.split)
next
  case (QuoteReply n r)
  then show ?thesis
    by (cases r) (auto simp: wizard_apply_def getQuote_done_def Let_def
        intro!: timers_grow_prev' intro: timers_grow_same)
next
  case (SwapReply n r)
  then show ?thesis
    by (cases r) (auto simp: wizard_apply_def swap_done_def Let_def
        intro!: timers_grow_prev' intro: timers_grow_same)
next
  case (TimerFires n)
  then show ?thesis
    by (auto simp: wizard_apply_def timer_fires_def timers_grow_def timer_ids_def Let_def
        dest: in_set_takeD in_set_dropD)
next
  case (SubmitConfig t a)
  then show ?thesis
    by (auto simp: wizard_apply_def config_next_def setConfTarget_def setLoopOutAddress_def
        intro!: timers_grow_next' intro: timers_grow_same)
next
  case (ChooseDirection d)
  then show ?thesis
    by (auto simp: wizard_apply_def setDirection_def autoSelectPeerChannels_def Let_def intro!: timers_grow_next')
next
  case StartSwap
  then show ?thesis by (auto simp: wizard_apply_def startSwap_def getTerms_def intro: timers_grow_same)
qed (auto simp: wizard_apply_def timers_grow_prev timers_grow_next toggleSelectedChannel_def setAmount_def
    toggleAddlOptions_def showTour_def intro: timers_grow_same)

text \<open>
  C25. Going back in time stops the swap: when the user goes back from the processing page
  while the delay is running, the waiting swap is removed, and in no later state of any run
  is it waiting again, so it is never sent; the wizard is back on the review page.
\<close>

theorem back_aborts_the_swap:
  assumes "currentStep s = Processing" and "processingTimeout s = Some i" and "i < next_timer s"
    and "wizard_run B (goToPrevStep s) es t"
  shows "i \<notin> timer_ids t \<and> currentStep (goToPrevStep s) = ReviewQuote"
proof -
  have start: "i \<notin> timer_ids (goToPrevStep s)" "i < next_timer (goToPrevStep s)"
    using assms(1-3) by (auto simp: goToPrevStep_def abortSwap_def timer_ids_def)
  have "i \<notin> timer_ids t \<and> i < next_timer t"
    using assms(4) start
  proof (induction rule: wizard_run.induct)
    case (wizard_step es t e)
    then show ?case using timers_grow_apply [of B e t] by (auto simp: timers_grow_def)
  qed simp
  then show ?thesis using assms(1) by simp
qed


text \<open>
  Hidden options influence the quote but not the swap: when the advanced options are hidden
  on leaving the amount page while a confirmation target is still stored, the quote is
  requested for that target, and the target is dropped right afterwards, so the swap itself
  is requested without it.
\<close>

lemma hidden_target_is_quoted:
  assumes "currentStep s = ChooseAmount" and "\<not> addlOptionsVisible s" and "confTarget s = Some (Finite r)" "r \<noteq> 0"
  shows "qr_confTarget (snd (last (pendingQuotes (goToNextStep B s)))) = Some r \<and>
    confTarget (goToNextStep B s) = None \<and> loopOutAddress (goToNextStep B s) = None"
  using assms
  by (auto simp: goToNextStep_def getQuote_def tourGoToNext_def num_arg_def Let_def
      getLoopInQuote_request_def getLoopOutQuote_request_def split: SwapDirection.split)

text \<open>
  C18. A confirmed swap runs to completion: from the review page, with nothing else under way,
  confirming, letting the delay pass and a positive answer of the daemon send exactly one
  request, for the amount on the page and with the limits of the quote on the page, close
  the wizard and record the swap for each selected channel.
\<close>

theorem confirmed_swap_completes:
  assumes "currentStep s = ReviewQuote" and "timers s = []" "inFlight s = []" and "quote_ref s < length (quote_heap s)"
    and "t = wizard_apply B (SwapReply 0 (Inr i)) (wizard_apply B (TimerFires 0) (goToNextStep B s))"
  shows "wizard_run B s [ConfirmReview, TimerFires 0, SwapReply 0 (Inr i)] t \<and> currentStep t = Closed \<and>
    sent t = sent s @ [swap_request_for B \<lparr>cp_amount = amount s, cp_direction = direction s, cp_quote = quote_ref s\<rparr> s] \<and>
    timers t = [] \<and> inFlight t = [] \<and>
    (\<forall>c \<in> set (selectedChanIds s). i \<in> set (swap_ids_of (swappedChannels t) c))"
proof -
  let ?cp = "\<lparr>cp_amount = amount s, cp_direction = direction s, cp_quote = quote_ref s\<rparr>"
  let ?u = "goToNextStep B s" and ?v = "wizard_apply B (TimerFires 0) (goToNextStep B s)"
  have u: "timers ?u = [(next_timer s, ?cp)]" "quote_heap ?u = quote_heap s" "sent ?u = sent s" "inFlight ?u = []"
    "selectedChanIds ?u = selectedChanIds s" "channels ?u = channels s" "confTarget ?u = confTarget s"
    "loopOutAddress ?u = loopOutAddress s" "network ?u = network s" "clock ?u = clock s"
    "swappedChannels ?u = swappedChannels s"
    using assms(1-3) by (simp_all add: goToNextStep_def requestSwap_def tourGoToNext_def Let_def)
  have req: "swap_request_for B ?cp ?u = swap_request_for B ?cp s"
    by (cases "direction s") (simp_all add: swap_request_for_def u loopInLastHop_def Let_def)
  have v: "timers ?v = []" "inFlight ?v = [?cp]" "sent ?v = sent s @ [swap_request_for B ?cp s]"
    "selectedChanIds ?v = selectedChanIds s" "swappedChannels ?v = swappedChannels s"
    by (simp_all add: wizard_apply_def timer_fires_def u req Let_def)
  have 1: "wizard_run B s [ConfirmReview] ?u"
    using wizard_step [OF wizard_start, of B ConfirmReview s] assms(1)
    by (simp add: wizard_enabled_def wizard_apply_def)
  have 2: "wizard_run B s [ConfirmReview, TimerFires 0] ?v"
    using wizard_step [OF 1, of "TimerFires 0"] u(1) by (simp add: wizard_enabled_def)
  have 3: "wizard_run B s [ConfirmReview, TimerFires 0, SwapReply 0 (Inr i)] t"
    using wizard_step [OF 2, of "SwapReply 0 (Inr i)"] v(2) assms(5) by (simp add: wizard_enabled_def)
  have t: "t = tourGoToNext (toggleProcessingSwaps (cancel (addSwappedChannels i (selectedChanIds s) (?v\<lparr>inFlight := []\<rparr>))))"
    unfolding assms(5) by (simp add: wizard_apply_def [of B "SwapReply 0 (Inr i)"] swap_done_def v Let_def)
  have sc: "swappedChannels t = add_swapped i (selectedChanIds s) (swappedChannels s)" "inFlight t = []"
    unfolding t by (simp_all add: tourGoToNext_def toggleProcessingSwaps_def cancel_def addSwappedChannels_def v Let_def)
  have "i \<in> set (swap_ids_of (swappedChannels t) c)" if "c \<in> set (selectedChanIds s)" for c
  proof -
    have "count_list (selectedChanIds s) c \<noteq> 0" using that by (simp add: count_list_0_iff)
    then show ?thesis using that by (simp add: swap_ids_of_def sc add_swapped_lookup)
  qed
  then show ?thesis using 3 v sc by (simp add: t)
qed

section \<open>Witnesses\<close>

lemmas initial_wizard_defs = initial_wizard_def initial_loop_def initial_shell_def app_loop.extend_def
  app_wizard.fields_def app_settings.extend_def app_node.fields_def app_node.extend_def app_channels.extend_def
  app_channels.fields_def app_loop.fields_def

lemma initial_wizard_simps [simp]:
  "currentStep initial_wizard = Closed" "timers initial_wizard = []" "sent initial_wizard = []"
  "inFlight initial_wizard = []" "quote_ref initial_wizard = 0" "quote_heap initial_wizard = [no_fees]"
  "next_timer initial_wizard = 0" "selectedChanIds initial_wizard = []" "direction initial_wizard = Loop_In"
  "addlOptionsVisible initial_wizard = False" "amount initial_wizard = 0" "pendingTerms initial_wizard = 0"
  by (simp_all add: initial_wizard_defs)

text \<open>A node with one channel, and the terms of a server.\<close>

definition demo_wizard :: "int \<Rightarrow> app_wizard" where
  "demo_wizard step =
     initial_wizard\<lparr>channels := [(''7'', Channel_create (demo_lnd_channel ''7''))], currentStep := step,
       swap_terms := \<lparr>tm_in_min = 250000, tm_in_max = 10000000, tm_out_min = 250000, tm_out_max = 10000000,
                      tm_minCltv = Some 10, tm_maxCltv = Some 100\<rparr>\<rparr>"

lemma demo_wizard_simps [simp]:
  "currentStep (demo_wizard step) = step" "timers (demo_wizard step) = []" "sent (demo_wizard step) = []"
  "inFlight (demo_wizard step) = []" "quote_ref (demo_wizard step) = 0" "quote_heap (demo_wizard step) = [no_fees]"
  "direction (demo_wizard step) = Loop_In" "selectedChanIds (demo_wizard step) = []"
  "channels (demo_wizard step) = [(''7'', Channel_create (demo_lnd_channel ''7''))]"
  "addlOptionsVisible (demo_wizard step) = False" "amount (demo_wizard step) = 0"
  by (simp_all add: demo_wizard_def)

lemma demo_channel_simps [simp]:
  "localBalance (Channel_create (demo_lnd_channel i)) = 620000"
  "remoteBalance (Channel_create (demo_lnd_channel i)) = 370000"
  "ch_active (Channel_create (demo_lnd_channel i))"
  by (simp_all add: Channel_create_def Channel_update_def demo_lnd_channel_def)

lemma demo_whole: "whole_balances (demo_wizard step)"
proof -
  have "whole 620000" "whole 370000"
    unfolding whole_def by (rule exI [of _ 620000], simp) (rule exI [of _ 370000], simp)
  then show ?thesis by (simp add: whole_balances_def)
qed

lemma demo_balance: "selected_balance B (demo_wizard step) Loop_In = 370000"
  by (simp add: selected_balance_def totals_eq)

lemma demo_terms:
  "t_min (termsForDirection exact_big (demo_wizard step)) = 250000"
  "t_max (termsForDirection exact_big (demo_wizard step)) = 360000"
proof -
  have fl: "\<lfloor>(3663 / 100) :: rat\<rfloor> = 36" by (simp add: floor_eq_iff)
  have sv: "server_terms (demo_wizard step) Loop_In = \<lparr>t_min = 250000, t_max = 10000000\<rparr>"
    by (simp add: server_terms_def demo_wizard_def)
  show "t_min (termsForDirection exact_big (demo_wizard step)) = 250000"
    "t_max (termsForDirection exact_big (demo_wizard step)) = 360000"
    using getTerms_cases [OF exact_big_law demo_whole, of step Loop_In] fl
    by (simp_all add: termsForDirection_def demo_balance sv)
qed

lemma demo_active: "activeChannels B (demo_wizard step) \<noteq> []"
  by (simp add: activeChannels_def sortedChannels_def sort_channels_def sort_by_def js_sort_def Let_def)

theorem terms_respect_balance_witness:
  "t_max (getTermsForDirection exact_big (demo_wizard 1) Loop_In) \<le> 370000 * (99 / 100)"
  using terms_respect_balance [OF exact_big_law demo_whole, of 1 Loop_In] by (simp add: demo_balance)

lemma amount_within_terms_witness:
  "250000 \<le> amountForSelected exact_big (demo_wizard 2) \<and> amountForSelected exact_big (demo_wizard 2) \<le> 360000"
proof -
  have "whole 250000" "whole 360000"
    unfolding whole_def by (rule exI [of _ 250000], simp) (rule exI [of _ 360000], simp)
  then show ?thesis
    using amount_within_terms [OF exact_big_law refl, of "demo_wizard 2"] by (simp add: demo_terms)
qed

lemma swap_requests_limit_fees_witness:
  "lo_maxSwapRoutingFee (loopOut_request exact_big 500000 no_fees [] 0 None None) < 10001"
  using swap_requests_limit_fees [OF exact_big_law, of 500000 no_fees None None "[]" 0 None]
  by (simp add: no_fees_def)

theorem swaps_sent_only_when_confirmed_witness:
  "length (sent (goToNextStep exact_big (demo_wizard 3))) \<le> 1"
proof -
  have "wizard_run exact_big (demo_wizard 3) [ConfirmReview] (goToNextStep exact_big (demo_wizard 3))"
    using wizard_step [OF wizard_start, of exact_big ConfirmReview "demo_wizard 3"]
    by (simp add: wizard_enabled_def wizard_apply_def)
  from swaps_sent_only_when_confirmed [OF this] show ?thesis by (simp add: confirmations_def)
qed

lemma wizard_steps_stay_in_range_witness:
  "currentStep (goToNextStep exact_big (demo_wizard 3)) \<in> {Closed..Processing}"
proof -
  have "wizard_run exact_big (demo_wizard 3) [ConfirmReview] (goToNextStep exact_big (demo_wizard 3))"
    using wizard_step [OF wizard_start, of exact_big ConfirmReview "demo_wizard 3"]
    by (simp add: wizard_enabled_def wizard_apply_def)
  from wizard_steps_stay_in_range [OF this] show ?thesis by (simp add: failing_def)
qed

lemma late_failure_leaves_the_steps_witness:
  "currentStep (wizard_apply exact_big (TermsReply (Inl (AppError ''loop is down'')))
     (cancel (startSwap exact_big (demo_wizard 0)))) = - 1"
  using late_failure_leaves_the_steps [of "demo_wizard 0" exact_big "AppError ''loop is down''"] demo_active
  by simp

theorem back_aborts_the_swap_witness:
  "0 \<notin> timer_ids (goToPrevStep (goToNextStep exact_big (demo_wizard 3)))"
proof -
  have "processingTimeout (goToNextStep exact_big (demo_wizard 3)) = Some 0"
    "next_timer (goToNextStep exact_big (demo_wizard 3)) = 1"
    by (simp_all add: goToNextStep_def requestSwap_def tourGoToNext_def demo_wizard_def initial_wizard_defs Let_def)
  then show ?thesis
    using back_aborts_the_swap [OF _ _ _ wizard_start, of "goToNextStep exact_big (demo_wizard 3)" 0] by simp
qed


lemma hidden_target_is_quoted_witness:
  "qr_confTarget (snd (last (pendingQuotes (goToNextStep exact_big
     ((demo_wizard 2)\<lparr>confTarget := Some (Finite 3)\<rparr>))))) = Some 3"
  using hidden_target_is_quoted [of "(demo_wizard 2)\<lparr>confTarget := Some (Finite 3)\<rparr>" 3 exact_big] by simp

theorem confirmed_swap_completes_witness:
  "currentStep (wizard_apply exact_big (SwapReply 0 (Inr ''s1''))
     (wizard_apply exact_big (TimerFires 0) (goToNextStep exact_big (demo_wizard 3)))) = Closed"
  using confirmed_swap_completes [of "demo_wizard 3", OF _ _ _ _ refl, of exact_big "''s1''"] by simp

end
