(* ===== verification/Loop_Tour.thy ===== *)
theory Loop_Tour
  imports Loop_Wizard
begin

text \<open>
  The rest of the guided tour of \<open>app/src/store/views/appView.ts\<close> (\<open>showTour\<close> is in
  \<open>Loop_Wizard\<close>), which replaces the data of the stores by sample data and back. The client of LND may be one over Lightning Node Connect, which has no
  gRPC client behind it: reading its setting throws.
\<close>

record app_tour = app_wizard +
  lnd_over_lnc :: bool
  useSampleData :: bool

definition closeTour :: "'a app_tour_scheme \<Rightarrow> js_error option \<times> 'a app_tour_scheme" where
  "closeTour s =
     (let s = s\<lparr>tourVisible := False\<rparr> in
      if lnd_over_lnc s then (Some (Error ''Cannot read properties of undefined''), s)
      else if useSampleData s
      then (None, start_call SubscribeToStreams (start_call ConnectToStreams (start_call FetchAllData
             (s\<lparr>useSampleData := False, channels := [], swaps := []\<rparr>))))
      else (None, s))"

definition first_swap :: "(Swap \<Rightarrow> Swap) \<Rightarrow> 'a app_tour_scheme \<Rightarrow> js_error option \<times> 'a app_tour_scheme" where
  "first_swap f s =
     (case sortedSwaps s of
        [] \<Rightarrow> (Some (Error ''Cannot set properties of undefined''), s)
      | x # _ \<Rightarrow> (None, s\<lparr>swaps := map (\<lambda>(k, y). (k, if y = x then f y else y)) (swaps s)\<rparr>))"

text \<open>
  The second assignment of the fourth step sorts the swaps again, so that it may change another
  one: the state is part of no order but that by state.
\<close>

definition setTourActiveStep :: "int \<Rightarrow> 'a app_tour_scheme \<Rightarrow> js_error option \<times> 'a app_tour_scheme" where
  "setTourActiveStep step s =
     (let s = s\<lparr>tourActiveStep := step\<rparr> in
      if step = 2
      then (let s = s\<lparr>sidebarVisible := True\<rparr> in
            if lnd_over_lnc s then (Some (Error ''Cannot set properties of undefined''), s)
            else (None, start_call FetchAllData (start_call UnsubscribeFromStreams
                   (s\<lparr>useSampleData := True, channels := [], swaps := []\<rparr>))))
      else if step = 3 then (None, if autoCollapse s then s\<lparr>sidebarVisible := False\<rparr> else s)
      else if step = 4
      then (case first_swap (\<lambda>x. x\<lparr>sw_state := INITIATED\<rparr>) s of
              (Some e, s) \<Rightarrow> (Some e, s)
            | (None, s) \<Rightarrow>
                (let tomorrow = clock s + 24 * 60 * 60 * 1000
                 in first_swap (\<lambda>x. x\<lparr>lastUpdateTime := of_int (tomorrow * 1000 * 1000)\<rparr>) s))
      else if step = 22 then first_swap (\<lambda>x. x\<lparr>sw_state := SUCCESS\<rparr>) s
      else if step = 23 then (None, s\<lparr>processingSwapsVisible := False\<rparr>)
      else (None, s))"

section \<open>The tour gives the real data back\<close>

inductive tour_step :: "'a app_tour_scheme \<Rightarrow> 'a app_tour_scheme \<Rightarrow> bool" where
  "tour_step s (snd (setTourActiveStep n s))"
| "tour_step s (tourGoToNext s)"
| "tour_step s (toggleProcessingSwaps s)"

lemma first_swap_keeps [simp]:
  "lnd_over_lnc (snd (first_swap f s)) = lnd_over_lnc s" "useSampleData (snd (first_swap f s)) = useSampleData s"
  by (simp_all add: first_swap_def split: list.split)

lemma tour_operations_keep [simp]:
  "lnd_over_lnc (snd (setTourActiveStep n s)) = lnd_over_lnc s" "useSampleData s \<Longrightarrow> useSampleData (snd (setTourActiveStep n s))"
  "lnd_over_lnc (tourGoToNext s) = lnd_over_lnc s" "useSampleData (tourGoToNext s) = useSampleData s"
  "lnd_over_lnc (toggleProcessingSwaps s) = lnd_over_lnc s" "useSampleData (toggleProcessingSwaps s) = useSampleData s"
  by (simp_all add: setTourActiveStep_def tourGoToNext_def toggleProcessingSwaps_def Let_def start_call_def split_beta split: option.split)

lemma step_view: "tour_step s t \<Longrightarrow> lnd_over_lnc t = lnd_over_lnc s \<and> (useSampleData s \<longrightarrow> useSampleData t)"
  by (induction rule: tour_step.induct) simp_all

lemma tour_gives_data_back:
  assumes "\<not> lnd_over_lnc s" "tour_step\<^sup>*\<^sup>* (snd (setTourActiveStep 2 s)) t"
  shows "fst (closeTour t) = None \<and> \<not> useSampleData (snd (closeTour t)) \<and> channels (snd (closeTour t)) = [] \<and>
    swaps (snd (closeTour t)) = [] \<and>
    calls (snd (closeTour t)) = calls t @ [FetchAllData, ConnectToStreams, SubscribeToStreams]"
proof -
  have "\<not> lnd_over_lnc t \<and> useSampleData t"
    using assms(2)
  proof (induction rule: rtranclp_induct)
    case base
    then show ?case using assms(1) by (simp add: setTourActiveStep_def start_call_def Let_def)
  qed (use step_view in blast)
  then show ?thesis by (simp add: closeTour_def start_call_def Let_def)
qed

text \<open>Over Lightning Node Connect the tour cannot be closed without an error.\<close>

lemma tour_fails_over_lnc: "lnd_over_lnc s \<Longrightarrow> fst (closeTour s) \<noteq> None \<and> fst (setTourActiveStep 2 s) \<noteq> None"
  by (simp add: closeTour_def setTourActiveStep_def Let_def)

end
