(* ===== verification/Js_RegExp_Run.thy ===== *)
theory Js_RegExp_Run
  imports Js_RegExp
begin

text \<open>
  Global matching (\<open>String.prototype.split\<close> and \<open>replace\<close> with a global pattern) and rules
  that run the matcher on texts of a known shape: literal characters are consumed one by
  one, and a greedy run of characters of a class takes all of them when what follows the
  run in the pattern cannot start inside it.
\<close>

definition re_star :: "regex \<Rightarrow> regex" where
  "re_star r = Opt (Plus r)"

definition re_times :: "nat \<Rightarrow> regex \<Rightarrow> regex" where
  "re_times n r = Seq (replicate n r)"

section \<open>Global matching\<close>

text \<open>
  The matches from left to right, each with the text since the previous one, and the
  text after the last one. The patterns of the sources consume at least one character,
  which is what keeps the search going; one that matched the empty string would end it.
\<close>

function re_pieces :: "re_flags \<Rightarrow> regex \<Rightarrow> string \<Rightarrow> string \<Rightarrow> (string \<times> re_result) list \<times> string" where
  "re_pieces fl r prior s =
     (case re_search fl r prior s of
        None \<Rightarrow> ([], s)
      | Some m \<Rightarrow>
          if length (rr_after m) < length s \<and> rr_text m \<noteq> [] then
            (let (ms, rest) = re_pieces fl r (rev (rr_before m @ rr_text m)) (rr_after m)
             in ((drop (length prior) (rr_before m), m) # ms, rest))
          else ([], s))"
  by pat_completeness auto
termination
  by (relation "measure (\<lambda>(fl, r, prior, s). length s)") auto

declare re_pieces.simps [simp del]

definition re_split :: "re_flags \<Rightarrow> regex \<Rightarrow> string \<Rightarrow> string list" where
  "re_split fl r s = (case re_pieces fl r [] s of (ms, rest) \<Rightarrow> map fst ms @ [rest])"

definition re_replace_all :: "re_flags \<Rightarrow> regex \<Rightarrow> template list \<Rightarrow> string \<Rightarrow> string" where
  "re_replace_all fl r ts s =
     (case re_pieces fl r [] s of (ms, rest) \<Rightarrow> concat (map (\<lambda>(t, m). t @ expand m ts) ms) @ rest)"

section \<open>Running the matcher\<close>

named_theorems re_run \<open>steps of the matcher on texts of a known shape\<close>

definition adv :: "string \<Rightarrow> string \<Rightarrow> re_state \<Rightarrow> re_state" where
  "adv xs ys st = st\<lparr>rs_prev := Some (last xs), rs_rest := ys\<rparr>"

lemma adv_simps [simp]:
  "rs_rest (adv xs ys st) = ys" "rs_caps (adv xs ys st) = rs_caps st" "rs_prev (adv xs ys st) = Some (last xs)"
  by (simp_all add: adv_def)

lemma re_group_simps [simp]:
  "rs_rest (re_group i p st) = rs_rest st" "rs_prev (re_group i p st) = rs_prev st"
  by (simp_all add: re_group_def)

lemma re_Seq_append:
  "re_match fl (Seq (rs @ rs')) st = concat (map (re_match fl (Seq rs')) (re_match fl (Seq rs) st))"
proof (induction rs arbitrary: st)
  case (Cons r rs)
  have c: "concat (map f (concat (map g xs))) = concat (map (\<lambda>x. concat (map f (g x))) xs)"
    for f :: "re_state \<Rightarrow> re_state list" and g :: "re_state \<Rightarrow> re_state list" and xs
    by (induction xs) simp_all
  have "re_match fl (Seq (rs @ rs')) = (\<lambda>st. concat (map (re_match fl (Seq rs')) (re_match fl (Seq rs) st)))"
    using Cons.IH by (rule ext)
  then show ?case by (simp add: c)
qed simp

lemma re_Chr [re_run]:
  "rs_rest st = c # s \<Longrightarrow> re_match fl (Chr d) st = (if re_canon fl c = re_canon fl d then [adv [c] s st] else [])"
  "rs_rest st = [] \<Longrightarrow> re_match fl (Chr d) st = []"
  by (simp_all add: re_char_def adv_def)

lemma re_chars_run:
  assumes "rs_rest st = p @ s" "p \<noteq> []"
  shows "re_match fl (chars p) st = [adv p s st]"
  using assms unfolding chars_def
proof (induction p arbitrary: st)
  case (Cons c p)
  then have h: "re_match fl (Chr c) st = [adv [c] (p @ s) st]" by (simp add: re_char_def adv_def)
  show ?case
  proof (cases p)
    case Nil
    then show ?thesis using h by simp
  next
    case (Cons d q)
    then show ?thesis
      using h Cons.IH [of "adv [c] (p @ s) st"] by (simp add: adv_def)
  qed
qed simp

lemma re_repeat_run:
  assumes "rs_rest st = xs @ ys" "length xs \<le> n" "list_all P xs"
    and "ys = [] \<or> \<not> P (hd ys)"
    and "\<And>s. rs_rest s \<noteq> [] \<Longrightarrow> P (hd (rs_rest s)) \<Longrightarrow> K s = []"
  shows "concat (map K (re_repeat n (re_char P) st)) = K (if xs = [] then st else adv xs ys st)"
  using assms(1-3)
proof (induction xs arbitrary: st n)
  case Nil
  then have "re_char P st = []" using assms(4) by (auto simp: re_char_def split: list.splits)
  then show ?case by (cases n) simp_all
next
  case (Cons x xs)
  then obtain m where m: "n = Suc m" by (cases n) auto
  let ?st = "adv [x] (xs @ ys) st"
  have one: "re_char P st = [?st]" using Cons.prems by (simp add: re_char_def adv_def)
  have "K st = []" using assms(5) Cons.prems by simp
  moreover have "concat (map K (re_repeat m (re_char P) ?st)) = K (if xs = [] then ?st else adv xs ys ?st)"
    using Cons.IH [of ?st m] Cons.prems m by simp
  moreover have "(if xs = [] then ?st else adv xs ys ?st) = adv (x # xs) ys st" by (simp add: adv_def)
  ultimately show ?case using Cons.prems m one by simp
qed

text \<open>A greedy run of a character class, in front of any continuation.\<close>

lemma re_Plus_run:
  assumes "rs_rest st = xs @ ys" "xs \<noteq> []" "list_all P xs" "ys = [] \<or> \<not> P (hd ys)"
    and "\<And>s. rs_rest s \<noteq> [] \<Longrightarrow> P (hd (rs_rest s)) \<Longrightarrow> K s = []"
    and "\<And>s. re_match fl r s = re_char P s"
  shows "concat (map K (re_match fl (Plus r) st)) = K (adv xs ys st)"
proof -
  obtain x xs' where x: "xs = x # xs'" using assms(2) by (cases xs) auto
  let ?st = "adv [x] (xs' @ ys) st"
  have one: "re_match fl r st = [?st]" using assms(1,3,6) x by (simp add: re_char_def adv_def)
  have r: "re_match fl r = re_char P" using assms(6) by auto
  have "concat (map K (re_repeat (length (rs_rest ?st)) (re_char P) ?st)) = K (if xs' = [] then ?st else adv xs' ys ?st)"
    by (rule re_repeat_run [where P = P]) (use assms x in auto)
  moreover have "(if xs' = [] then ?st else adv xs' ys ?st) = adv xs ys st" using x by (simp add: adv_def)
  ultimately show ?thesis using one r by simp
qed

lemma re_Plus_none:
  assumes "rs_rest st = [] \<or> \<not> P (hd (rs_rest st))" "\<And>s. re_match fl r s = re_char P s"
  shows "re_match fl (Plus r) st = []"
proof -
  have "re_match fl r st = []" using assms by (auto simp: re_char_def split: list.splits)
  then show ?thesis by simp
qed

lemma re_star_run:
  assumes "rs_rest st = xs @ ys" "list_all P xs" "ys = [] \<or> \<not> P (hd ys)"
    and "\<And>s. rs_rest s \<noteq> [] \<Longrightarrow> P (hd (rs_rest s)) \<Longrightarrow> K s = []"
    and "\<And>s. re_match fl r s = re_char P s"
  shows "concat (map K (re_match fl (re_star r) st)) = K (if xs = [] then st else adv xs ys st)"
proof (cases "xs = []")
  case True
  then have "re_match fl (Plus r) st = []" using assms by (intro re_Plus_none [where P = P]) auto
  then show ?thesis using True by (simp add: re_star_def del: re_match.simps(9))
next
  case False
  then have "K st = []" using assms(1,2,4) by (cases xs) auto
  moreover have "concat (map K (re_match fl (Plus r) st)) = K (adv xs ys st)"
    by (rule re_Plus_run [where P = P]) (use assms False in auto)
  ultimately show ?thesis using False by (simp add: re_star_def del: re_match.simps(9))
qed

text \<open>The next item of a sequence; the rules below replace the definition of the matcher.\<close>

lemma re_Seq_Group:
  "re_match fl (Seq (Group i r # rs)) st = concat (map (\<lambda>s. re_match fl (Seq rs) (re_group i st s)) (re_match fl r st))"
  by (simp add: comp_def)

lemma re_Seq_chars [re_run]:
  "rs_rest st = p @ s \<Longrightarrow> p \<noteq> [] \<Longrightarrow> re_match fl (Seq (chars p # rs)) st = re_match fl (Seq rs) (adv p s st)"
  using re_chars_run [of st p s fl] by simp

lemma re_Seq_chars_fail:
  "rs_rest st = [] \<or> re_canon fl (hd (rs_rest st)) \<noteq> re_canon fl (hd p) \<Longrightarrow> p \<noteq> [] \<Longrightarrow>
   re_match fl (Seq (chars p # rs)) st = []"
  by (cases p; cases "rs_rest st") (simp_all add: chars_def re_char_def)

lemma re_Seq_Chr [re_run]:
  "rs_rest st = c # s \<Longrightarrow> re_canon fl c = re_canon fl d \<Longrightarrow>
   re_match fl (Seq (Chr d # rs)) st = re_match fl (Seq rs) (adv [c] s st)"
  by (simp add: re_char_def adv_def)

lemma re_Seq_Chr_fail:
  "rs_rest st = [] \<or> re_canon fl (hd (rs_rest st)) \<noteq> re_canon fl d \<Longrightarrow> re_match fl (Seq (Chr d # rs)) st = []"
  by (cases "rs_rest st") (simp_all add: re_char_def)

lemma re_Seq_ends [re_run]:
  "re_match fl (Seq []) st = [st]"
  "rs_rest st = [] \<Longrightarrow> re_match fl (Seq (Eol # rs)) st = re_match fl (Seq rs) st"
  "rs_prev st = None \<Longrightarrow> re_match fl (Seq (Bol # rs)) st = re_match fl (Seq rs) st"
  by simp_all

lemma re_Seq_star_run:
  assumes "rs_rest st = xs @ ys" "list_all (re_class fl cs) xs" "ys = [] \<or> \<not> re_class fl cs (hd ys)"
    and "\<And>s. rs_rest s \<noteq> [] \<Longrightarrow> re_class fl cs (hd (rs_rest s)) \<Longrightarrow> re_match fl (Seq rs) s = []"
  shows "re_match fl (Seq (re_star (AnyOf cs) # rs)) st = re_match fl (Seq rs) (if xs = [] then st else adv xs ys st)"
  using re_star_run [where P = "re_class fl cs" and K = "re_match fl (Seq rs)", OF assms] by simp

lemma re_Seq_Plus_run:
  assumes "rs_rest st = xs @ ys" "xs \<noteq> []" "list_all (re_class fl cs) xs" "ys = [] \<or> \<not> re_class fl cs (hd ys)"
    and "\<And>s. rs_rest s \<noteq> [] \<Longrightarrow> re_class fl cs (hd (rs_rest s)) \<Longrightarrow> re_match fl (Seq rs) s = []"
  shows "re_match fl (Seq (Plus (AnyOf cs) # rs)) st = re_match fl (Seq rs) (adv xs ys st)"
  using re_Plus_run [where P = "re_class fl cs" and K = "re_match fl (Seq rs)", OF assms] by simp

lemma re_Seq_Group_none_of:
  assumes "rs_rest st = xs @ ys" "xs \<noteq> []" "list_all (\<lambda>c. \<not> re_class fl cs c) xs" "ys = [] \<or> re_class fl cs (hd ys)"
    and "\<And>s. rs_rest s \<noteq> [] \<Longrightarrow> \<not> re_class fl cs (hd (rs_rest s)) \<Longrightarrow> re_match fl (Seq rs) s = []"
  shows "re_match fl (Seq (Group i (Plus (NoneOf cs)) # rs)) st = re_match fl (Seq rs) (re_group i st (adv xs ys st))"
  unfolding re_Seq_Group
  by (rule re_Plus_run [where P = "\<lambda>c. \<not> re_class fl cs c"]) (use assms in auto)

lemma re_group_adv [simp]:
  "rs_rest st = xs @ ys \<Longrightarrow> rs_caps (re_group i st (adv zs ys st')) = AList.update i xs (rs_caps st')"
  by (simp add: re_group_def)

lemma re_times_run:
  assumes "rs_rest st = xs @ ys" "list_all (re_class fl cs) xs" "xs \<noteq> []"
  shows "re_match fl (re_times (length xs) (AnyOf cs)) st = [adv xs ys st]"
  using assms unfolding re_times_def
proof (induction xs arbitrary: st)
  case (Cons x xs)
  then have one: "re_char (re_class fl cs) st = [adv [x] (xs @ ys) st]" by (simp add: re_char_def adv_def)
  show ?case
  proof (cases xs)
    case Nil
    then show ?thesis using one by simp
  next
    case (Cons y zs)
    then show ?thesis using one Cons.IH [of "adv [x] (xs @ ys) st"] Cons.prems by (simp add: adv_def)
  qed
qed simp

text \<open>Positions where the pattern fails are passed over.\<close>

lemma re_search_step:
  "re_match fl r \<lparr>rs_prev = (if prior = [] then None else Some (hd prior)), rs_rest = c # s, rs_caps = []\<rparr> = [] \<Longrightarrow>
   re_search fl r prior (c # s) = re_search fl r (c # prior) s"
  by simp

lemma re_search_skip:
  assumes "\<And>st. rs_rest st \<noteq> [] \<Longrightarrow> hd (rs_rest st) \<in> set xs \<Longrightarrow> re_match fl r st = []"
  shows "re_search fl r prior (xs @ ys) = re_search fl r (rev xs @ prior) ys"
  using assms
proof (induction xs arbitrary: prior)
  case (Cons c xs)
  have "re_search fl r prior (c # (xs @ ys)) = re_search fl r (c # prior) (xs @ ys)"
    by (rule re_search_step, rule Cons.prems) simp_all
  also have "\<dots> = re_search fl r (rev xs @ (c # prior)) ys" using Cons.prems by (intro Cons.IH) auto
  finally show ?case by simp
qed simp

declare re_search.simps [simp del]

end
