(* ===== verification/Js_Json.thy ===== *)
theory Js_Json
  imports Lit_Prelude
begin

text \<open>
  JSON values and \<open>JSON.parse\<close>, as the paywall uses them on the replies of the Lightning
  node and on request bodies. Every recursive call of the parser is guarded by the
  length of the remaining input, which is also what makes it terminate. Numbers are
  exact; those beyond the range of a double become \<open>NonFinite\<close>. An escape of a code
  unit above U+00FF is outside the string model and fails to parse.
\<close>

datatype json =
    JNull
  | JBool bool
  | JNum js_number
  | JStr string
  | JArr "json list"
  | JObj "(string \<times> json) list"

definition json_ws :: "char \<Rightarrow> bool" where
  "json_ws c \<longleftrightarrow> of_char c \<in> set [9, 10, 13, 32 :: nat]"

definition skip_ws :: "string \<Rightarrow> string" where
  "skip_ws s = dropWhile json_ws s"

definition hex4 :: "char \<Rightarrow> char \<Rightarrow> char \<Rightarrow> char \<Rightarrow> nat" where
  "hex4 a b c d = 4096 * hex_val a + 256 * hex_val b + 16 * hex_val c + hex_val d"

text \<open>The characters of a string literal after its opening quote.\<close>

fun parse_chars :: "string \<Rightarrow> (string \<times> string) option" where
  "parse_chars [] = None"
| "parse_chars (c # s) =
     (if c = CHR 0x22 then Some ([], s)
      else if c = CHR 0x5C then
        (case s of
           [] \<Rightarrow> None
         | e # s' \<Rightarrow>
             (let plain = (\<lambda>ch. map_option (map_prod ((#) ch) id) (parse_chars s')) in
              if e = CHR 0x22 \<or> e = CHR 0x5C \<or> e = CHR ''/'' then plain e
              else if e = CHR ''b'' then plain (CHR 0x08)
              else if e = CHR ''f'' then plain (CHR 0x0C)
              else if e = CHR ''n'' then plain (CHR 0x0A)
              else if e = CHR ''r'' then plain (CHR 0x0D)
              else if e = CHR ''t'' then plain (CHR 0x09)
              else if e = CHR ''u'' then
                (case s' of
                   h1 # h2 # h3 # h4 # s'' \<Rightarrow>
                     if list_all is_hex_char [h1, h2, h3, h4] \<and> hex4 h1 h2 h3 h4 < 256
                     then map_option (map_prod ((#) (char_of (hex4 h1 h2 h3 h4))) id) (parse_chars s'')
                     else None
                 | _ \<Rightarrow> None)
              else None))
      else if of_char c < (32 :: nat) then None
      else map_option (map_prod ((#) c) id) (parse_chars s))"

text \<open>Numbers: sign, integer part without leading zeros, fraction, exponent.\<close>

definition MAX_DOUBLE_BOUND :: rat where
  "MAX_DOUBLE_BOUND = 2 ^ 1024 - 2 ^ 970"

definition mk_number :: "rat \<Rightarrow> js_number" where
  "mk_number r = (if \<bar>r\<bar> < MAX_DOUBLE_BOUND then Finite r else NonFinite)"

text \<open>Small numbers need no comparison with the bound of a double when the parser is run.\<close>

lemma mk_number_code [code]:
  "mk_number r = (if \<bar>r\<bar> < 4294967296 then Finite r
                  else if \<bar>r\<bar> < MAX_DOUBLE_BOUND then Finite r else NonFinite)"
proof -
  have "(4294967296 :: rat) < MAX_DOUBLE_BOUND" by (simp add: MAX_DOUBLE_BOUND_def)
  then show ?thesis by (auto simp: mk_number_def)
qed

definition parse_exponent :: "string \<Rightarrow> (int \<times> string) option" where
  "parse_exponent s =
     (case s of
        c # s' \<Rightarrow>
          if c = CHR ''e'' \<or> c = CHR ''E'' then
            (let neg = (case s' of d # _ \<Rightarrow> d = CHR ''-'' | [] \<Rightarrow> False);
                 s' = (case s' of d # r \<Rightarrow> if d = CHR ''-'' \<or> d = CHR ''+'' then r else s' | [] \<Rightarrow> []);
                 ds = takeWhile is_digit_char s'
             in if ds = [] then None
                else Some ((if neg then - int (digits_to_nat ds) else int (digits_to_nat ds)),
                           dropWhile is_digit_char s'))
          else Some (0, s)
      | [] \<Rightarrow> Some (0, s))"

definition parse_fraction :: "string \<Rightarrow> (rat \<times> string) option" where
  "parse_fraction s =
     (case s of
        c # s' \<Rightarrow>
          if c = CHR ''.'' then
            (let ds = takeWhile is_digit_char s' in
             if ds = [] then None
             else Some (of_nat (digits_to_nat ds) / 10 ^ length ds, dropWhile is_digit_char s'))
          else Some (0, s)
      | [] \<Rightarrow> Some (0, s))"

definition scale10 :: "rat \<Rightarrow> int \<Rightarrow> rat" where
  "scale10 r e = (if 0 \<le> e then r * 10 ^ nat e else r / 10 ^ nat (- e))"

definition parse_number :: "string \<Rightarrow> (js_number \<times> string) option" where
  "parse_number s =
     (let neg = (case s of c # _ \<Rightarrow> c = CHR ''-'' | [] \<Rightarrow> False);
          s = (if neg then tl s else s);
          ds = takeWhile is_digit_char s
      in if ds = [] \<or> (length ds > 1 \<and> hd ds = CHR ''0'') then None
         else case parse_fraction (dropWhile is_digit_char s) of
           None \<Rightarrow> None
         | Some (fr, s) \<Rightarrow>
             (case parse_exponent s of
                None \<Rightarrow> None
              | Some (e, s) \<Rightarrow>
                  (let r = scale10 (of_nat (digits_to_nat ds) + fr) e
                   in Some (mk_number (if neg then - r else r), s))))"

definition parse_word :: "string \<Rightarrow> json \<Rightarrow> string \<Rightarrow> (json \<times> string) option" where
  "parse_word w v s = (if starts_with w s then Some (v, drop (length w) s) else None)"

function parse_value :: "string \<Rightarrow> (json \<times> string) option"
  and parse_elems :: "json list \<Rightarrow> string \<Rightarrow> (json \<times> string) option"
  and parse_members :: "(string \<times> json) list \<Rightarrow> string \<Rightarrow> (json \<times> string) option" where
  "parse_value s =
     (case skip_ws s of
        [] \<Rightarrow> None
      | c # r \<Rightarrow>
          if c = CHR 0x22 then map_option (map_prod JStr id) (parse_chars r)
          else if c = CHR ''['' then
            (let r' = skip_ws r in
             if starts_with '']'' r' then Some (JArr [], tl r')
             else if length r' < length s then parse_elems [] r' else None)
          else if c = CHR ''{'' then
            (let r' = skip_ws r in
             if starts_with ''}'' r' then Some (JObj [], tl r')
             else if length r' < length s then parse_members [] r' else None)
          else if c = CHR ''n'' then parse_word ''null'' JNull (c # r)
          else if c = CHR ''t'' then parse_word ''true'' (JBool True) (c # r)
          else if c = CHR ''f'' then parse_word ''false'' (JBool False) (c # r)
          else map_option (map_prod JNum id) (parse_number (c # r)))"
| "parse_elems acc s =
     (case parse_value s of
        None \<Rightarrow> None
      | Some (v, r) \<Rightarrow>
          (case skip_ws r of
             [] \<Rightarrow> None
           | c # r' \<Rightarrow>
               if c = CHR '']'' then Some (JArr (rev (v # acc)), r')
               else if c = CHR '','' \<and> length r' < length s then parse_elems (v # acc) r'
               else None))"
| "parse_members acc s =
     (case skip_ws s of
        q # s' \<Rightarrow>
          if q \<noteq> CHR 0x22 then None
          else (case parse_chars s' of
                  None \<Rightarrow> None
                | Some (k, r) \<Rightarrow>
                    (case skip_ws r of
                       c # r' \<Rightarrow>
                         if c = CHR '':'' \<and> length r' < length s then
                           (case parse_value r' of
                              None \<Rightarrow> None
                            | Some (v, r'') \<Rightarrow>
                                (case skip_ws r'' of
                                   [] \<Rightarrow> None
                                 | d # t \<Rightarrow>
                                     if d = CHR ''}'' then Some (JObj (AList.update k v acc), t)
                                     else if d = CHR '','' \<and> length t < length s
                                       then parse_members (AList.update k v acc) t
                                     else None))
                         else None
                     | [] \<Rightarrow> None))
      | [] \<Rightarrow> None)"
  by pat_completeness auto
termination
  by (relation "measure (case_sum (\<lambda>s. 2 * length s)
        (case_sum (\<lambda>(acc, s). 2 * length s + 1) (\<lambda>(acc, s). 2 * length s + 1)))") auto

declare parse_value.simps [simp del] parse_elems.simps [simp del] parse_members.simps [simp del]

text \<open>\<open>JSON.parse\<close>: one value and nothing but white space after it.\<close>

definition JSON_parse :: "string \<Rightarrow> json result" where
  "JSON_parse s =
     (case parse_value s of
        Some (v, r) \<Rightarrow> if skip_ws r = [] then Inr v else Inl (Error ''Unexpected token in JSON'')
      | None \<Rightarrow> Inl (Error ''Unexpected token in JSON''))"

definition json_prop :: "string \<Rightarrow> json \<Rightarrow> json option" where
  "json_prop k v = (case v of JObj ps \<Rightarrow> map_of ps k | _ \<Rightarrow> None)"

definition json_string :: "string \<Rightarrow> json \<Rightarrow> string option" where
  "json_string k v = (case json_prop k v of Some (JStr s) \<Rightarrow> Some s | _ \<Rightarrow> None)"

end
