(* ===== verification/Paywall_Store.thy ===== *)
theory Paywall_Store
  imports Js_Json
begin

text \<open>
  The data of the skill paywall (\<open>src/paywall-web\<close>): the types of \<open>lib/types.ts\<close>, the
  three tables of its database and the access to it (\<open>lib/db.ts\<close>), the environment
  variables, and the outcome of a call to another service. A database query either
  throws (\<open>w_query_error\<close>) or runs on the tables; \<open>withTransaction\<close> restores the tables
  of its start when its body throws.
\<close>

type_synonym env = "string \<Rightarrow> string option"

record PublishedSkillVersion =
  psv_skillId :: string
  psv_title :: string
  psv_summary :: string
  psv_priceSats :: js_number
  psv_contentSha256 :: string
  psv_blobPath :: string
  psv_isActive :: bool
  psv_createdAt :: "nat option"

record SkillManifest =
  sm_skill_id :: string
  sm_title :: string
  sm_summary :: string
  sm_purchase_model :: string
  sm_price_sats :: js_number
  sm_content_sha256 :: string
  sm_manifest_url :: string
  sm_paid_url :: string
  sm_content_type :: string

record PublishSkillInput =
  psi_skillId :: string
  psi_title :: string
  psi_summary :: string
  psi_priceSats :: js_number
  psi_content :: string

record L402Challenge =
  lc_invoice :: string
  lc_macaroonB64 :: string
  lc_paymentHash :: string
  lc_headers :: "string list"

record L402Verification =
  lv_valid :: bool
  lv_reason :: "string option"
  lv_paymentHash :: "string option"
  lv_skillId :: "string option"
  lv_contentSha256 :: "string option"

section \<open>Tables\<close>

record skill_row =
  sk_skill_id :: string
  sk_content_sha256 :: string
  sk_title :: string
  sk_summary :: string
  sk_price_sats :: int
  sk_blob_path :: string
  sk_is_active :: bool
  sk_created_at :: nat

record challenge_row =
  ch_skill_id :: string
  ch_content_sha256 :: string
  ch_price_sats :: int
  ch_invoice :: string
  ch_created_at :: nat

record receipt_row =
  rc_skill_id :: string
  rc_content_sha256 :: string
  rc_first_verified_at :: nat
  rc_settled_at :: "nat option"

record paywall_db =
  skill_versions :: "skill_row list"
  l402_challenges :: "(string \<times> challenge_row) list"
  l402_receipts :: "(string \<times> receipt_row) list"

text \<open>
  The world a request runs in: tables, whether queries fail, the clock (\<open>now()\<close>), the
  edge configuration (\<open>None\<close>: the lookup throws) and the stored blobs.
\<close>

record world =
  w_db :: paywall_db
  w_query_error :: "js_error option"
  w_now :: nat
  w_edge :: "(string \<times> PublishedSkillVersion) list option"
  w_blobs :: "(string \<times> string) list"

section \<open>Access to the database\<close>

definition shouldUseSSL :: "string \<Rightarrow> bool" where
  "shouldUseSSL connectionString \<longleftrightarrow>
     \<not> (str_includes ''localhost'' connectionString \<or> str_includes ''127.0.0.1'' connectionString
        \<or> str_includes ''sslmode=disable'' connectionString)"

record pool_config =
  pc_connectionString :: string
  pc_max :: nat
  pc_ssl_rejectUnauthorized :: "bool option"

definition createPool :: "string \<Rightarrow> pool_config" where
  "createPool connectionString =
     \<lparr>pc_connectionString = connectionString, pc_max = 4,
      pc_ssl_rejectUnauthorized = (if shouldUseSSL connectionString then Some False else None)\<rparr>"

text \<open>
  The pool is created once and kept; a later call returns the one that exists, whatever
  the variable holds then. The first component is the value of the global before the
  call.
\<close>

definition getOptionalDb :: "pool_config option \<Rightarrow> env \<Rightarrow> pool_config option \<times> pool_config option" where
  "getOptionalDb global env =
     (case env ''DATABASE_URL'' of
        None \<Rightarrow> (None, global)
      | Some connectionString \<Rightarrow>
          if connectionString = [] then (None, global)
          else let pool = (case global of None \<Rightarrow> createPool connectionString | Some p \<Rightarrow> p)
               in (Some pool, Some pool))"

definition has_db :: "env \<Rightarrow> bool" where
  "has_db env \<longleftrightarrow> fst (getOptionalDb None env) \<noteq> None"

definition getRequiredDb :: "env \<Rightarrow> unit result" where
  "getRequiredDb env = (if has_db env then Inr () else Inl (Error ''DATABASE_URL is required''))"

definition db_query :: "(paywall_db \<Rightarrow> 'a result \<times> paywall_db) \<Rightarrow> world \<Rightarrow> 'a result \<times> world" where
  "db_query q w =
     (case w_query_error w of
        Some e \<Rightarrow> (Inl e, w)
      | None \<Rightarrow> (let (r, db) = q (w_db w) in (r, w\<lparr>w_db := db\<rparr>)))"

text \<open>\<open>begin\<close>, the body, then \<open>commit\<close>; a throw in between rolls the tables back.\<close>

definition withTransaction :: "env \<Rightarrow> (world \<Rightarrow> 'a result \<times> world) \<Rightarrow> world \<Rightarrow> 'a result \<times> world" where
  "withTransaction env fn w =
     (case getRequiredDb env of
        Inl e \<Rightarrow> (Inl e, w)
      | Inr _ \<Rightarrow>
          (case w_query_error w of
             Some e \<Rightarrow> (Inl e, w)
           | None \<Rightarrow>
               (case fn w of
                  (Inr x, w') \<Rightarrow> (Inr x, w')
                | (Inl e, w') \<Rightarrow> (Inl e, w'\<lparr>w_db := w_db w\<rparr>))))"

text \<open>A JavaScript number stored in a \<open>bigint\<close> column.\<close>

definition to_bigint :: "js_number \<Rightarrow> int result" where
  "to_bigint x =
     (case x of
        Finite r \<Rightarrow>
          if isInteger x \<and> - (2 ^ 63) \<le> r \<and> r < 2 ^ 63 then Inr \<lfloor>r\<rfloor>
          else Inl (Error ''invalid input syntax for type bigint'')
      | NonFinite \<Rightarrow> Inl (Error ''invalid input syntax for type bigint''))"

lemma withTransaction_atomic:
  "withTransaction env fn w = (Inl e, w') \<Longrightarrow> w_db w' = w_db w"
  by (auto simp: withTransaction_def split: sum.splits option.splits prod.splits)

lemma isInteger_Finite: "isInteger (Finite r) \<longleftrightarrow> of_int \<lfloor>r\<rfloor> = r"
proof -
  have "snd (quotient_of r) = 1 \<longleftrightarrow> r \<in> \<int>"
  proof
    assume "snd (quotient_of r) = 1"
    then obtain a where "quotient_of r = (a, 1)" by (metis prod.collapse)
    then have "r = of_int a" using quotient_of_div by fastforce
    then show "r \<in> \<int>" by (metis Ints_of_int)
  next
    assume "r \<in> \<int>"
    then obtain k where "r = of_int k" by (auto elim: Ints_cases)
    then show "snd (quotient_of r) = 1" by simp
  qed
  then show ?thesis
    by (auto simp: isInteger_def elim!: Ints_cases simp: Ints_def)
qed

end
