(* ===== verification/Js_Stringify.thy ===== *)
theory Js_Stringify
  imports Js_Json Paywall_Store
begin

text \<open>
  \<open>JSON.stringify\<close>, with and without indentation, and \<open>Number.prototype.toString\<close> for the
  exact decimal numbers of \<open>Js_Json\<close>. What \<open>JSON.stringify\<close> prints for a value whose
  numbers are integers below \<open>10\<^sup>2\<^sup>1\<close> and whose objects have no repeated key is read
  back by \<open>JSON.parse\<close> as the same value (\<open>parse_stringify\<close>).
\<close>

section \<open>Numbers as text\<close>

text \<open>
  The least power of ten that makes the number an integer: a double has at most 1074
  digits after the point, so 1100 rounds are enough.
\<close>

fun scale_up :: "nat \<Rightarrow> rat \<Rightarrow> nat \<Rightarrow> int \<times> nat" where
  "scale_up fuel r k =
     (if of_int \<lfloor>r\<rfloor> = r \<or> fuel = 0 then (\<lfloor>r\<rfloor>, k) else scale_up (fuel - 1) (r * 10) (k + 1))"

declare scale_up.simps [simp del]

definition strip_zeros :: "string \<Rightarrow> string" where
  "strip_zeros s = rev (dropWhile (\<lambda>c. c = CHR ''0'') (rev s))"

text \<open>The four layouts of \<open>Number::toString\<close>: \<open>n\<close> is the position of the decimal point.\<close>

definition decimal_text :: "string \<Rightarrow> int \<Rightarrow> string" where
  "decimal_text digits n =
     (let k = int (length digits) in
      if k \<le> n \<and> n \<le> 21 then digits @ replicate (nat (n - k)) (CHR ''0'')
      else if 0 < n \<and> n \<le> 21 then take (nat n) digits @ ''.'' @ drop (nat n) digits
      else if - 6 < n \<and> n \<le> 0 then ''0.'' @ replicate (nat (- n)) (CHR ''0'') @ digits
      else (if k = 1 then digits else take 1 digits @ ''.'' @ drop 1 digits)
           @ ''e'' @ (if n > 0 then ''+'' else ''-'') @ nat_to_string (nat \<bar>n - 1\<bar>))"

definition positive_text :: "rat \<Rightarrow> string" where
  "positive_text r =
     (case scale_up 1100 r 0 of
        (m, k) \<Rightarrow>
          (let ds = nat_to_string (nat m)
           in decimal_text (strip_zeros ds) (int (length ds) - int k)))"

definition number_text :: "rat \<Rightarrow> string" where
  "number_text r =
     (if r = 0 then ''0'' else if r < 0 then CHR ''-'' # positive_text (- r) else positive_text r)"

section \<open>Strings and structures as text\<close>

definition escape_char :: "char \<Rightarrow> string" where
  "escape_char c =
     (if c = CHR 0x22 then [CHR 0x5C, CHR 0x22]
      else if c = CHR 0x5C then [CHR 0x5C, CHR 0x5C]
      else if c = CHR 0x08 then [CHR 0x5C, CHR ''b'']
      else if c = CHR 0x0C then [CHR 0x5C, CHR ''f'']
      else if c = CHR 0x0A then [CHR 0x5C, CHR ''n'']
      else if c = CHR 0x0D then [CHR 0x5C, CHR ''r'']
      else if c = CHR 0x09 then [CHR 0x5C, CHR ''t'']
      else if of_char c < (32 :: nat)
        then [CHR 0x5C, CHR ''u'', CHR ''0'', CHR ''0'', hex_digit (of_char c div 16), hex_digit (of_char c mod 16)]
      else [c])"

definition quote_text :: "string \<Rightarrow> string" where
  "quote_text s = [CHR 0x22] @ concat (map escape_char s) @ [CHR 0x22]"

definition enclosed :: "char \<Rightarrow> char \<Rightarrow> string \<Rightarrow> string \<Rightarrow> string list \<Rightarrow> string" where
  "enclosed l r gap indent parts =
     (if parts = [] then [l, r]
      else if gap = [] then [l] @ join '','' parts @ [r]
      else [l] @ [CHR 0x0A] @ indent @ gap @ join ([CHR '','', CHR 0x0A] @ indent @ gap) parts
           @ [CHR 0x0A] @ indent @ [r])"

text \<open>\<open>gap\<close> is the unit of indentation, empty for the compact form.\<close>

fun stringify :: "string \<Rightarrow> string \<Rightarrow> json \<Rightarrow> string" where
  "stringify gap indent JNull = ''null''"
| "stringify gap indent (JBool b) = (if b then ''true'' else ''false'')"
| "stringify gap indent (JNum x) = (case x of Finite r \<Rightarrow> number_text r | NonFinite \<Rightarrow> ''null'')"
| "stringify gap indent (JStr s) = quote_text s"
| "stringify gap indent (JArr vs) = enclosed (CHR ''['') (CHR '']'') gap indent (map (stringify gap (indent @ gap)) vs)"
| "stringify gap indent (JObj ps) =
     enclosed (CHR ''{'') (CHR ''}'') gap indent
       (map (\<lambda>(k, v). quote_text k @ '':'' @ (if gap = [] then [] else '' '') @ stringify gap (indent @ gap) v) ps)"

definition JSON_stringify :: "json \<Rightarrow> string" where
  "JSON_stringify v = stringify [] [] v"

text \<open>\<open>JSON.stringify(v, null, 2)\<close>.\<close>

definition JSON_stringify_2 :: "json \<Rightarrow> string" where
  "JSON_stringify_2 v = stringify ''  '' [] v"

section \<open>Reading back what was printed\<close>

lemma hex_digit_code: "n < 10 \<Longrightarrow> hex_digit n = char_of (48 + n)" "10 \<le> n \<Longrightarrow> hex_digit n = char_of (87 + n)"
  by (simp_all add: hex_digit_def)

lemma parse_escape: "parse_chars (escape_char c @ s) = map_option (map_prod ((#) c) id) (parse_chars s)"
proof (cases "c \<in> {CHR 0x22, CHR 0x5C, CHR 0x08, CHR 0x0C, CHR 0x0A, CHR 0x0D, CHR 0x09}")
  case True
  then show ?thesis by (auto simp: escape_char_def)
next
  case other: False
  show ?thesis
  proof (cases "of_char c < (32 :: nat)")
    case True
    let ?n = "of_char c :: nat"
    have d: "?n div 16 < 16" "?n mod 16 < 16" using True by auto
    have z: "is_hex_char (CHR ''0'')" "hex_val (CHR ''0'') = 0" by (simp_all add: is_hex_char_def hex_val_def)
    have v: "hex4 (CHR ''0'') (CHR ''0'') (hex_digit (?n div 16)) (hex_digit (?n mod 16)) = ?n"
      using z hex_digit_props [OF d(1)] hex_digit_props [OF d(2)] by (simp add: hex4_def)
    show ?thesis
      using other True z hex_digit_props [OF d(1)] hex_digit_props [OF d(2)]
      by (simp add: escape_char_def v)
  next
    case False
    then show ?thesis using other by (auto simp: escape_char_def)
  qed
qed

lemma parse_quoted: "parse_chars (concat (map escape_char s) @ CHR 0x22 # rest) = Some (s, rest)"
  by (induction s) (simp_all add: parse_escape)

lemma nat_to_string_props:
  "list_all is_digit_char (nat_to_string n) \<and> nat_to_string n \<noteq> [] \<and> digits_to_nat (nat_to_string n) = n \<and>
   (10 \<le> n \<longrightarrow> hd (nat_to_string n) \<noteq> CHR ''0'') \<and> (0 < n \<longrightarrow> hd (nat_to_string n) \<noteq> CHR ''0'')"
proof (induction n rule: nat_to_string.induct)
  case (1 n)
  have digit: "is_digit_char (char_of (48 + d)) \<and> digit_val (char_of (48 + d)) = d \<and>
      (char_of (48 + d) = CHR ''0'' \<longleftrightarrow> d = 0)" if "d < 10" for d :: nat
  proof -
    have "d \<in> {0, 1, 2, 3, 4, 5, 6, 7, 8, 9}" using that by auto
    then show ?thesis by (elim insertE emptyE) (simp_all add: is_digit_char_def digit_val_def char_of_def bit_Suc_0_iff)
  qed
  show ?case
  proof (cases "n < 10")
    case True
    then show ?thesis using digit [of n] by (simp add: nat_to_string.simps [of n] digits_to_nat_def)
  next
    case False
    then have pos: "0 < n div 10" by simp
    from False 1 digit [of "n mod 10"] pos show ?thesis
      by (simp add: nat_to_string.simps [of n] digits_to_nat_def)
  qed
qed

lemma nat_to_string_length: "n < 10 ^ k \<Longrightarrow> 0 < k \<Longrightarrow> length (nat_to_string n) \<le> k"
proof (induction n arbitrary: k rule: nat_to_string.induct)
  case (1 n)
  show ?case
  proof (cases "n < 10")
    case False
    have "k \<noteq> 1" using False "1.prems" by auto
    then obtain k' where k: "k = Suc k'" "0 < k'" using "1.prems" by (cases k) auto
    with False "1.prems" "1.IH" [of k'] show ?thesis by (simp add: nat_to_string.simps [of n] div_less_iff_less_mult)
  qed (use "1.prems" in \<open>simp add: nat_to_string.simps [of n]\<close>)
qed

lemma strip_zeros_pad:
  "length (strip_zeros s) \<le> length s \<and>
   strip_zeros s @ replicate (length s - length (strip_zeros s)) (CHR ''0'') = s"
proof (induction s rule: rev_induct)
  case (snoc c s)
  then show ?case
    by (cases "c = CHR ''0''") (auto simp: strip_zeros_def Suc_diff_le replicate_append_same [symmetric])
qed (simp add: strip_zeros_def)

definition plain_number :: "js_number \<Rightarrow> bool" where
  "plain_number x = (case x of Finite r \<Rightarrow> of_int \<lfloor>r\<rfloor> = r \<and> \<bar>r\<bar> < 10 ^ 21 | NonFinite \<Rightarrow> False)"

lemma positive_text_int:
  assumes "0 < n" "n < 10 ^ 21"
  shows "positive_text (of_int n) = nat_to_string (nat n)"
proof -
  let ?s = "nat_to_string (nat n)"
  have "nat n < 10 ^ 21" using assms by (simp add: nat_less_iff)
  then have len: "length ?s \<le> 21" by (rule nat_to_string_length) simp
  have pad: "length (strip_zeros ?s) \<le> length ?s"
    "strip_zeros ?s @ replicate (length ?s - length (strip_zeros ?s)) (CHR ''0'') = ?s"
    using strip_zeros_pad [of ?s] by auto
  have "nat (int (length ?s) - int (length (strip_zeros ?s))) = length ?s - length (strip_zeros ?s)" by simp
  then show ?thesis using len pad by (simp add: positive_text_def scale_up.simps [of 1100] decimal_text_def Let_def)
qed

lemma number_text_int:
  assumes "\<bar>n\<bar> < 10 ^ 21"
  shows "number_text (of_int n) = int_to_string n"
proof -
  consider "n = 0" | "0 < n" | "n < 0" by linarith
  then show ?thesis
  proof cases
    case 1
    then show ?thesis by (simp add: number_text_def int_to_string_def nat_to_string.simps char_of_def bit_Suc_0_iff)
  next
    case 2
    then show ?thesis using assms by (simp add: number_text_def int_to_string_def positive_text_int)
  next
    case 3
    then show ?thesis
      using assms positive_text_int [of "- n"] by (simp add: number_text_def int_to_string_def nat_to_string.simps char_of_def bit_Suc_0_iff)
  qed
qed

text \<open>What may follow a number.\<close>

definition stops :: "string \<Rightarrow> bool" where
  "stops s = (case s of [] \<Rightarrow> True
     | c # _ \<Rightarrow> \<not> is_digit_char c \<and> c \<noteq> CHR ''.'' \<and> c \<noteq> CHR ''e'' \<and> c \<noteq> CHR ''E'')"

lemma takeWhile_digits:
  assumes "list_all is_digit_char ds" "stops rest"
  shows "takeWhile is_digit_char (ds @ rest) = ds" "dropWhile is_digit_char (ds @ rest) = rest"
  using assms by (induction ds) (auto simp: stops_def split: list.splits)

lemma parse_after_digits:
  "stops rest \<Longrightarrow> parse_fraction rest = Some (0, rest)" "stops rest \<Longrightarrow> parse_exponent rest = Some (0, rest)"
  by (auto simp: stops_def parse_fraction_def parse_exponent_def split: list.splits)

lemma small_number: "\<bar>r\<bar> < 10 ^ 21 \<Longrightarrow> mk_number r = Finite r"
proof -
  have "(10 :: rat) ^ 21 < MAX_DOUBLE_BOUND" by (simp add: MAX_DOUBLE_BOUND_def)
  then show "\<bar>r\<bar> < 10 ^ 21 \<Longrightarrow> mk_number r = Finite r" by (simp add: mk_number_def)
qed

lemma digits_no_sign: "list_all is_digit_char ds \<Longrightarrow> ds \<noteq> [] \<Longrightarrow> hd ds \<noteq> CHR ''-''"
  by (cases ds) (auto simp: is_digit_char_def)

lemma parse_number_digits:
  assumes "list_all is_digit_char ds" "ds \<noteq> []" "\<not> (length ds > 1 \<and> hd ds = CHR ''0'')" "stops rest"
  shows "parse_number (ds @ rest) = Some (mk_number (of_nat (digits_to_nat ds)), rest)"
    and "parse_number (CHR ''-'' # ds @ rest) = Some (mk_number (- of_nat (digits_to_nat ds)), rest)"
proof -
  have "(case ds @ rest of [] \<Rightarrow> False | c # _ \<Rightarrow> c = CHR ''-'') = False"
    using digits_no_sign [OF assms(1,2)] assms(2) by (cases ds) auto
  then show "parse_number (ds @ rest) = Some (mk_number (of_nat (digits_to_nat ds)), rest)"
    using assms by (simp add: parse_number_def Let_def takeWhile_digits parse_after_digits scale10_def)
  show "parse_number (CHR ''-'' # ds @ rest) = Some (mk_number (- of_nat (digits_to_nat ds)), rest)"
    using assms by (simp add: parse_number_def Let_def takeWhile_digits parse_after_digits scale10_def)
qed

lemma parse_number_text:
  assumes "\<bar>n\<bar> < 10 ^ 21" "stops rest"
  shows "parse_number (int_to_string n @ rest) = Some (Finite (of_int n), rest)"
proof -
  define m where "m = nat \<bar>n\<bar>"
  have ds: "list_all is_digit_char (nat_to_string m)" "nat_to_string m \<noteq> []" "digits_to_nat (nat_to_string m) = m"
    "\<not> (length (nat_to_string m) > 1 \<and> hd (nat_to_string m) = CHR ''0'')"
    using nat_to_string_props [of m] by (auto simp: nat_to_string.simps [of m] split: if_splits)
  have small: "mk_number (of_int n) = Finite (of_int n)"
    using assms(1) by (intro small_number) (metis of_int_abs of_int_less_iff of_int_numeral of_int_power)
  show ?thesis
  proof (cases "n < 0")
    case True
    then have "int_to_string n = CHR ''-'' # nat_to_string m" "of_int n = - rat_of_nat m"
      by (simp_all add: int_to_string_def m_def)
    then show ?thesis using parse_number_digits(2) [OF ds(1,2,4) assms(2)] ds(3) small by simp
  next
    case False
    then have "int_to_string n = nat_to_string m" "of_int n = rat_of_nat m"
      by (simp_all add: int_to_string_def m_def)
    then show ?thesis using parse_number_digits(1) [OF ds(1,2,4) assms(2)] ds(3) small by simp
  qed
qed

section \<open>Structures are read back\<close>

lemma skip_ws_append [simp]: "list_all json_ws w \<Longrightarrow> skip_ws (w @ s) = skip_ws s"
  by (induction w) (auto simp: skip_ws_def)

lemma skip_ws_solid [simp]: "\<not> json_ws c \<Longrightarrow> skip_ws (c # s) = c # s"
  by (simp add: skip_ws_def)

lemma parse_value_ws:
  assumes "list_all json_ws w" "parse_value s = Some x"
  shows "parse_value (w @ s) = Some x"
proof -
  have "length s \<le> length (w @ s)" by simp
  then show ?thesis
    using assms unfolding parse_value.simps [of s] parse_value.simps [of "w @ s"]
    by (auto simp: Let_def split: list.splits if_splits)
qed

fun plain_json :: "json \<Rightarrow> bool" where
  "plain_json (JNum x) \<longleftrightarrow> plain_number x"
| "plain_json (JArr vs) \<longleftrightarrow> list_all plain_json vs"
| "plain_json (JObj ps) \<longleftrightarrow> distinct (map fst ps) \<and> list_all (\<lambda>(_, v). plain_json v) ps"
| "plain_json _ \<longleftrightarrow> True"

text \<open>The printer and the parser agree on a value, wherever it stands.\<close>

definition reads_back :: "json \<Rightarrow> string \<Rightarrow> bool" where
  "reads_back v text \<longleftrightarrow> (\<forall>rest. stops rest \<longrightarrow> parse_value (text @ rest) = Some (v, rest))"

lemma reads_backD: "reads_back v text \<Longrightarrow> stops rest \<Longrightarrow> list_all json_ws w \<Longrightarrow> parse_value (w @ text @ rest) = Some (v, rest)"
  using parse_value_ws by (auto simp: reads_back_def)

lemma join_Cons: "join sep (x # y # l) = x @ sep @ join sep (y # l)" "join sep [x] = x"
  by (simp_all add: join_def)

lemma stops_ws: "json_ws c \<Longrightarrow> stops (c # s)" "stops (CHR '','' # s)" "stops (CHR '']'' # s)" "stops (CHR ''}'' # s)"
  by (auto simp: json_ws_def stops_def is_digit_char_def)

lemma stops_post: "list_all json_ws post \<Longrightarrow> stops (c # s) \<Longrightarrow> stops (post @ c # s)"
  by (cases post) (auto simp: stops_ws)

lemma ws_solid [simp]:
  "\<not> json_ws (CHR '','')" "\<not> json_ws (CHR '']'')" "\<not> json_ws (CHR ''}'')" "\<not> json_ws (CHR '':'')"
  "\<not> json_ws (CHR 0x22)" "\<not> json_ws (CHR ''['')" "\<not> json_ws (CHR ''{'')"
  by (simp_all add: json_ws_def)

lemma parse_elems_text:
  assumes "list_all2 reads_back vs texts" "vs \<noteq> []"
    and "list_all json_ws w" "list_all json_ws sep" "list_all json_ws post"
  shows "parse_elems acc (w @ join (CHR '','' # sep) texts @ post @ CHR '']'' # rest) = Some (JArr (rev acc @ vs), rest)"
  using assms
proof (induction vs arbitrary: texts acc w)
  case (Cons v vs)
  from Cons.prems(1) obtain t ts where ts: "texts = t # ts" "reads_back v t" "list_all2 reads_back vs ts"
    by (auto simp: list_all2_Cons1)
  show ?case
  proof (cases vs)
    case Nil
    then have "parse_value (w @ t @ post @ CHR '']'' # rest) = Some (v, post @ CHR '']'' # rest)"
      using ts reads_backD [OF ts(2) stops_post [OF Cons.prems(5) stops_ws(3)] Cons.prems(3)] by simp
    then show ?thesis
      using Nil ts Cons.prems(5) by (simp add: join_Cons parse_elems.simps [of acc])
  next
    case (Cons v' vs')
    with ts(3) obtain t' ts' where ts2: "ts = t' # ts'" by (auto simp: list_all2_Cons1)
    let ?tail = "sep @ join (CHR '','' # sep) ts @ post @ CHR '']'' # rest"
    have "parse_value (w @ t @ CHR '','' # ?tail) = Some (v, CHR '','' # ?tail)"
      using reads_backD [OF ts(2) stops_ws(2) Cons.prems(3)] by simp
    moreover have "parse_elems (v # acc) ?tail = Some (JArr (rev (v # acc) @ vs), rest)"
      using Cons Cons.IH [OF ts(3), of sep] Cons.prems by simp
    ultimately show ?thesis
      using ts ts2 by (simp add: join_Cons parse_elems.simps [of acc])
  qed
qed simp

lemma update_new: "k \<notin> fst ` set acc \<Longrightarrow> AList.update k v acc = acc @ [(k, v)]"
  by (induction acc) auto

lemma parse_members_text:
  assumes "list_all2 (\<lambda>(k, v) t. \<exists>u w'. t = quote_text k @ CHR '':'' # w' @ u \<and> list_all json_ws w' \<and> reads_back v u) ps texts"
    and "ps \<noteq> []" "distinct (map fst (acc @ ps))"
    and "list_all json_ws w" "list_all json_ws sep" "list_all json_ws post"
  shows "parse_members acc (w @ join (CHR '','' # sep) texts @ post @ CHR ''}'' # rest) = Some (JObj (acc @ ps), rest)"
  using assms
proof (induction ps arbitrary: texts acc w)
  case (Cons p ps)
  obtain k v where p: "p = (k, v)" by (cases p)
  from Cons.prems(1) p obtain u w' ts where ts: "texts = (quote_text k @ CHR '':'' # w' @ u) # ts"
      "list_all json_ws w'" "reads_back v u" and
      rest_ts: "list_all2 (\<lambda>(k, v) t. \<exists>u w'. t = quote_text k @ CHR '':'' # w' @ u \<and> list_all json_ws w' \<and> reads_back v u) ps ts"
    by (auto simp: list_all2_Cons1)
  have fresh: "AList.update k v acc = acc @ [(k, v)]"
    using Cons.prems(3) p by (simp add: update_new)
  show ?case
  proof (cases ps)
    case Nil
    have "parse_value (w' @ u @ post @ CHR ''}'' # rest) = Some (v, post @ CHR ''}'' # rest)"
      using reads_backD [OF ts(3) stops_post [OF Cons.prems(6) stops_ws(4)] ts(2)] by simp
    then show ?thesis
      using Nil ts rest_ts p fresh Cons.prems(4,6)
      by (simp add: join_Cons parse_members.simps [of acc] quote_text_def parse_quoted)
  next
    case (Cons p' ps')
    with rest_ts obtain t' ts' where ts2: "ts = t' # ts'" by (auto simp: list_all2_Cons1)
    let ?tail = "sep @ join (CHR '','' # sep) ts @ post @ CHR ''}'' # rest"
    have "parse_value (w' @ u @ CHR '','' # ?tail) = Some (v, CHR '','' # ?tail)"
      using reads_backD [OF ts(3) stops_ws(2) ts(2)] by simp
    moreover have "parse_members (acc @ [(k, v)]) ?tail = Some (JObj ((acc @ [(k, v)]) @ ps), rest)"
      using Cons Cons.IH [OF rest_ts, of "acc @ [(k, v)]" sep] Cons.prems p by simp
    ultimately show ?thesis
      using ts ts2 p fresh Cons.prems(4)
      by (simp add: join_Cons parse_members.simps [of acc] quote_text_def parse_quoted)
  qed
qed simp

lemma reads_back_word:
  "reads_back JNull ''null''" "reads_back (JBool True) ''true''" "reads_back (JBool False) ''false''"
  "reads_back (JStr s) (quote_text s)"
  by (auto simp: reads_back_def parse_value.simps parse_word_def starts_with_def json_ws_def quote_text_def parse_quoted)

lemma number_head:
  obtains c cs where "int_to_string n = c # cs" "is_digit_char c \<or> c = CHR ''-''"
  using nat_to_string_props [of "nat n"] nat_to_string_props [of "nat (- n)"]
  by (cases "int_to_string n") (auto simp: int_to_string_def split: if_splits)

lemma plain_number_text:
  assumes "plain_number x"
  obtains n where "x = Finite (of_int n)" "\<bar>n\<bar> < 10 ^ 21"
    "(case x of Finite r \<Rightarrow> number_text r | NonFinite \<Rightarrow> ''null'') = int_to_string n"
proof (cases x)
  case (Finite r)
  with assms have r: "r = of_int \<lfloor>r\<rfloor>" "\<bar>r\<bar> < 10 ^ 21" by (auto simp: plain_number_def)
  define n where "n = \<lfloor>r\<rfloor>"
  from r have n: "r = of_int n" by (simp add: n_def)
  with r(2) have "\<bar>n\<bar> < 10 ^ 21" by (metis of_int_abs of_int_less_iff of_int_numeral of_int_power)
  then show thesis using that [of n] n Finite number_text_int [of n] by simp
qed (use assms in \<open>simp add: plain_number_def\<close>)

lemma reads_back_number:
  assumes "plain_number x"
  shows "reads_back (JNum x) (case x of Finite r \<Rightarrow> number_text r | NonFinite \<Rightarrow> ''null'')"
proof -
  obtain n where n: "x = Finite (of_int n)" "\<bar>n\<bar> < 10 ^ 21"
    "(case x of Finite r \<Rightarrow> number_text r | NonFinite \<Rightarrow> ''null'') = int_to_string n"
    using plain_number_text [OF assms] .
  obtain c cs where c: "int_to_string n = c # cs" "is_digit_char c \<or> c = CHR ''-''" by (rule number_head)
  have nows: "\<not> json_ws c" "c \<noteq> CHR 0x22" "c \<noteq> CHR ''[''" "c \<noteq> CHR ''{''" "c \<noteq> CHR ''n''" "c \<noteq> CHR ''t''" "c \<noteq> CHR ''f''"
    using c(2) by (auto simp: json_ws_def is_digit_char_def)
  have "parse_value (c # cs @ rest) = Some (JNum x, rest)" if "stops rest" for rest
    using nows parse_number_text [OF n(2) that] c(1) n(1) by (simp add: parse_value.simps)
  then show ?thesis unfolding n(3) by (simp add: reads_back_def c(1))
qed

definition solid_text :: "string \<Rightarrow> bool" where
  "solid_text t = (case t of [] \<Rightarrow> False | c # _ \<Rightarrow> \<not> json_ws c \<and> c \<noteq> CHR '']'' \<and> c \<noteq> CHR ''}'')"

lemma stringify_head: "plain_json v \<Longrightarrow> solid_text (stringify gap indent v)"
proof (cases v)
  case (JNum x)
  moreover assume "plain_json v"
  ultimately obtain n where "stringify gap indent v = int_to_string n" by (auto elim: plain_number_text)
  moreover obtain c cs where "int_to_string n = c # cs" "is_digit_char c \<or> c = CHR ''-''" by (rule number_head)
  ultimately show ?thesis by (auto simp: json_ws_def is_digit_char_def solid_text_def)
qed (auto simp: json_ws_def enclosed_def quote_text_def solid_text_def)

text \<open>A bracketed list is its opening bracket, white space, the parts and the closing bracket.\<close>

lemma enclosed_parts:
  assumes "texts \<noteq> []" "list_all json_ws gap" "list_all json_ws indent"
  obtains w post where "list_all json_ws w" "list_all json_ws post"
    "\<And>rest. enclosed l r gap indent texts @ rest = l # w @ join (CHR '','' # w) texts @ post @ r # rest"
proof -
  have "list_all json_ws (CHR 0x0A # indent @ gap)" "list_all json_ws (CHR 0x0A # indent)"
    using assms(2,3) by (simp_all add: json_ws_def)
  then show thesis
    using that [of "if gap = [] then [] else CHR 0x0A # indent @ gap" "if gap = [] then [] else CHR 0x0A # indent"]
      assms(1) by (auto simp: enclosed_def)
qed

lemma solid_join: "solid_text t \<Longrightarrow> list_all json_ws w \<Longrightarrow>
    skip_ws (w @ join sep (t # ts) @ s) = join sep (t # ts) @ s \<and>
    \<not> starts_with '']'' (join sep (t # ts) @ s) \<and> \<not> starts_with ''}'' (join sep (t # ts) @ s)"
  by (cases t) (auto simp: solid_text_def join_def starts_with_def)

lemma reads_back_array:
  assumes "list_all2 reads_back vs texts" "list_all json_ws gap" "list_all json_ws indent" "list_all solid_text texts"
  shows "reads_back (JArr vs) (enclosed (CHR ''['') (CHR '']'') gap indent texts)"
proof (cases texts)
  case Nil
  then show ?thesis using assms(1) by (simp add: reads_back_def enclosed_def parse_value.simps starts_with_def)
next
  case (Cons t ts)
  then obtain w post where wp: "list_all json_ws w" "list_all json_ws post"
    "\<And>rest. enclosed (CHR ''['') (CHR '']'') gap indent texts @ rest
       = CHR ''['' # w @ join (CHR '','' # w) texts @ post @ CHR '']'' # rest"
    using enclosed_parts [OF _ assms(2,3), of texts "CHR ''[''" "CHR '']''"] by blast
  have vs: "vs \<noteq> []" using assms(1) Cons by auto
  have "solid_text t" using assms(4) Cons by simp
  note solid = solid_join [OF this wp(1), of "CHR '','' # w" ts, folded Cons]
  show ?thesis
    unfolding reads_back_def wp(3)
    using parse_elems_text [OF assms(1) vs _ wp(1,2), of "[]" "[]"] solid
    by (auto simp: parse_value.simps Let_def)
qed

lemma reads_back_object:
  assumes "list_all2 (\<lambda>(k, v) t. \<exists>u w'. t = quote_text k @ CHR '':'' # w' @ u \<and> list_all json_ws w' \<and> reads_back v u) ps texts"
    and "distinct (map fst ps)" "list_all json_ws gap" "list_all json_ws indent"
  shows "reads_back (JObj ps) (enclosed (CHR ''{'') (CHR ''}'') gap indent texts)"
proof (cases texts)
  case Nil
  then show ?thesis using assms(1) by (simp add: reads_back_def enclosed_def parse_value.simps starts_with_def)
next
  case (Cons t ts)
  then obtain w post where wp: "list_all json_ws w" "list_all json_ws post"
    "\<And>rest. enclosed (CHR ''{'') (CHR ''}'') gap indent texts @ rest
       = CHR ''{'' # w @ join (CHR '','' # w) texts @ post @ CHR ''}'' # rest"
    using enclosed_parts [OF _ assms(3,4), of texts "CHR ''{''" "CHR ''}''"] by blast
  have ps: "ps \<noteq> []" using assms(1) Cons by auto
  have "solid_text t"
    using assms(1) Cons by (auto simp: list_all2_Cons2 solid_text_def quote_text_def split: prod.splits)
  note solid = solid_join [OF this wp(1), of "CHR '','' # w" ts, folded Cons]
  show ?thesis
    unfolding reads_back_def wp(3)
    using parse_members_text [OF assms(1) ps _ _ wp(1,2), of "[]" "[]"] assms(2) solid
    by (auto simp: parse_value.simps Let_def)
qed

lemma stringify_reads_back:
  assumes "list_all json_ws gap" "list_all json_ws indent" "plain_json v"
  shows "reads_back v (stringify gap indent v)"
  using assms
proof (induction gap indent v rule: stringify.induct)
  case (5 gap indent vs)
  have "list_all2 reads_back vs (map (stringify gap (indent @ gap)) vs)"
    using 5 by (auto simp: list_all2_map2 list_all_iff list_all2_same)
  then show ?case
    using 5 reads_back_array [of vs _ gap indent] by (simp add: list_all_iff stringify_head)
next
  case (6 gap indent ps)
  have "list_all2 (\<lambda>(k, v) t. \<exists>u w'. t = quote_text k @ CHR '':'' # w' @ u \<and> list_all json_ws w' \<and> reads_back v u) ps
     (map (\<lambda>(k, v). quote_text k @ '':'' @ (if gap = [] then [] else '' '') @ stringify gap (indent @ gap) v) ps)"
    unfolding list_all2_map2
  proof (rule list_all2_same [THEN iffD2], rule ballI)
    fix p assume p: "p \<in> set ps"
    obtain k v where kv: "p = (k, v)" by (cases p)
    have "reads_back v (stringify gap (indent @ gap) v)"
      using "6.IH" [OF p kv [symmetric]] "6.prems" p kv by (fastforce simp: list_all_iff)
    moreover have "list_all json_ws (if gap = [] then [] else '' '')" by (simp add: json_ws_def)
    ultimately show "(case p of (k, v) \<Rightarrow> \<lambda>t. \<exists>u w'. t = quote_text k @ CHR '':'' # w' @ u \<and> list_all json_ws w' \<and> reads_back v u)
        (case p of (k, v) \<Rightarrow> quote_text k @ '':'' @ (if gap = [] then [] else '' '') @ stringify gap (indent @ gap) v)"
      unfolding kv prod.case by (metis append_Cons append_Nil append.assoc)
  qed
  then show ?case
    using 6 reads_back_object [of ps _ gap indent] by simp
qed (auto simp: reads_back_word reads_back_number split: if_splits)

lemma JSON_parse_reads_back:
  assumes "reads_back v text" "list_all json_ws tail"
  shows "JSON_parse (text @ tail) = Inr v"
proof -
  have "stops tail" using assms(2) by (cases tail) (auto simp: stops_def [of "[]"] stops_ws)
  then have "parse_value (text @ tail) = Some (v, tail)" using assms(1) by (simp add: reads_back_def)
  moreover have "skip_ws tail = []" using skip_ws_append [OF assms(2), of "[]"] by (simp add: skip_ws_def)
  ultimately show ?thesis by (simp add: JSON_parse_def)
qed

lemma parse_stringify: "plain_json v \<Longrightarrow> JSON_parse (JSON_stringify v) = Inr v"
  using JSON_parse_reads_back [of v _ "[]"] by (simp add: JSON_stringify_def stringify_reads_back)

lemma parse_stringify_2: "plain_json v \<Longrightarrow> JSON_parse (JSON_stringify_2 v @ [CHR 0x0A]) = Inr v"
  using JSON_parse_reads_back [of v _ "[CHR 0x0A]"]
  by (simp add: JSON_stringify_2_def stringify_reads_back json_ws_def)

end
