(* ===== verification/Walk_Client.thy ===== *)
theory Walk_Client
  imports Js_RegExp_Run Js_Stringify
begin

text \<open>
  The data side of the command line client \<open>src/scripts/l402_walkthrough.mjs\<close>: checks of
  typed values, the challenge header of a 402 reply, challenge bundles with their
  normalization, and the challenge file. \<open>Walk_Flows\<close> adds the dialogue.

  Parameter of the model: the URL parser of the platform (\<open>url_api\<close>, \<open>None\<close> where
  \<open>new URL\<close> throws). Objects that the client builds or reads from JSON are \<open>json\<close> values.
\<close>

abbreviation DEFAULT_BASE_URL :: string where "DEFAULT_BASE_URL \<equiv> ''https://l402.lightningnode.app''"
abbreviation DEFAULT_SKILL_ID :: string where "DEFAULT_SKILL_ID \<equiv> ''lightning-desktop-live-local-lnd''"
abbreviation DEFAULT_PRICE_SATS :: int where "DEFAULT_PRICE_SATS \<equiv> 21"
abbreviation MAX_PREVIEW_LINES :: nat where "MAX_PREVIEW_LINES \<equiv> 24"
abbreviation QUOTE :: char where "QUOTE \<equiv> CHR 0x22"

section \<open>Patterns\<close>

definition digit_chars :: string where "digit_chars = ''0123456789''"
definition letter_chars :: string where "letter_chars = ''abcdefghijklmnopqrstuvwxyz''"
definition upper_chars :: string where "upper_chars = ''ABCDEFGHIJKLMNOPQRSTUVWXYZ''"
definition space_chars :: string where "space_chars = map char_of [9, 10, 11, 12, 13, 32, 160 :: nat]"

definition no_flags :: re_flags where "no_flags = \<lparr>ignoreCase = False, multiline = False\<rparr>"
definition i_flag :: re_flags where "i_flag = \<lparr>ignoreCase = True, multiline = False\<rparr>"
definition m_flag :: re_flags where "m_flag = \<lparr>ignoreCase = False, multiline = True\<rparr>"

abbreviation spaces :: regex where "spaces \<equiv> AnyOf space_chars"

text \<open>\<open>.\<close> matches everything but a line terminator.\<close>

definition re_dot :: regex where "re_dot = NoneOf [CHR 0x0A, CHR 0x0D]"

definition trimTrailingSlash :: "string \<Rightarrow> string" where
  "trimTrailingSlash url = (if ends_with ''/'' url then butlast url else url)"

definition isPositiveIntegerString :: "string \<Rightarrow> bool" where
  "isPositiveIntegerString v =
     re_test no_flags (Seq [Bol, AnyOf ''123456789'', re_star (AnyOf digit_chars), Eol]) v"

definition isHex64 :: "string \<Rightarrow> bool" where
  "isHex64 v = re_test i_flag (Seq [Bol, re_times 64 (AnyOf (digit_chars @ ''abcdef'')), Eol]) v"

definition isLikelyBolt11Invoice :: "string \<Rightarrow> bool" where
  "isLikelyBolt11Invoice v =
     re_test i_flag (Seq [Bol, chars ''ln'', Plus (AnyOf (letter_chars @ digit_chars)), Eol]) v"

definition sanitizeFileComponent :: "string \<Rightarrow> string" where
  "sanitizeFileComponent v =
     (let t = re_replace_all no_flags (Plus (NoneOf (letter_chars @ digit_chars @ ''._-''))) [Lit ''-''] (toLowerCase v);
          u = re_replace_all no_flags (Alt [Seq [Bol, Plus (Chr (CHR ''-''))], Seq [Plus (Chr (CHR ''-'')), Eol]]) [Lit []] t
      in if u = [] then ''challenge'' else u)"

text \<open>The date enters as its ISO text.\<close>

definition timestampForFile :: "string \<Rightarrow> string" where
  "timestampForFile isoText =
     re_replace i_flag (Seq [Chr (CHR ''.''), re_times 3 (AnyOf digit_chars), Chr (CHR ''z''), Eol]) [Lit ''z'']
       (re_replace_all no_flags (Chr (CHR '':'')) [Lit ''-''] isoText)"

section \<open>Paid URLs\<close>

record url_parts =
  url_href :: string
  url_protocol :: string
  url_origin :: string
  url_pathname :: string
  url_search :: string

type_synonym url_api = "string \<Rightarrow> url_parts option"

definition new_URL :: "url_api \<Rightarrow> string \<Rightarrow> url_parts result" where
  "new_URL api s = (case api s of None \<Rightarrow> Inl (Error ''Invalid URL'') | Some u \<Rightarrow> Inr u)"

definition paid_url_re :: regex where
  "paid_url_re =
     Seq [Bol, chars ''/.well-known/l402/skills/'', Group 1 (Plus (NoneOf ''/'')), chars ''/v/'',
          Group 2 (re_times 64 (AnyOf (digit_chars @ ''abcdef''))), chars ''/content'',
          Opt (Seq [Chr (CHR ''?''), re_star re_dot]), Eol]"

text \<open>The skill id and the hash of the content, where the path has them.\<close>

definition extractChallengeMetadataFromPaidUrl :: "string \<Rightarrow> string option \<times> string option" where
  "extractChallengeMetadataFromPaidUrl paidUrl =
     (case re_exec i_flag paid_url_re paidUrl of
        None \<Rightarrow> (None, None)
      | Some m \<Rightarrow> (map_of (rr_caps m) 1, map_option toLowerCase (map_of (rr_caps m) 2)))"

definition normalizePaidUrl :: "url_api \<Rightarrow> string \<Rightarrow> string \<Rightarrow> string result" where
  "normalizePaidUrl api v baseUrl =
     (let input = js_trim v in
      if input = [] then Inl (Error ''Paid URL is required.'')
      else if starts_with ''/'' input then Inr input
      else
        then_res (new_URL api input) (\<lambda>parsed.
        then_res (new_URL api baseUrl) (\<lambda>base.
        if url_origin parsed \<noteq> url_origin base
        then Inl (Error (''Paid URL must use the same origin as '' @ url_origin base @ ''.''))
        else Inr (url_pathname parsed @ url_search parsed))))"

section \<open>Challenge bundles\<close>

record challenge_bundle =
  bu_baseUrl :: string
  bu_skillId :: string
  bu_title :: "string option"
  bu_priceSats :: "js_number option"
  bu_contentSha256 :: "string option"
  bu_paidUrl :: string
  bu_invoice :: string
  bu_macaroon :: string
  bu_scheme :: string
  bu_capturedAt :: "string option"
  bu_sourceFile :: "string option"

text \<open>The first alternative of a chain of \<open>typeof\<close> tests that is present.\<close>

fun first_some :: "'a option list \<Rightarrow> 'a option" where
  "first_some [] = None"
| "first_some (x # xs) = (case x of Some v \<Rightarrow> Some v | None \<Rightarrow> first_some xs)"

definition json_number :: "string \<Rightarrow> json \<Rightarrow> js_number option" where
  "json_number k v = (case json_prop k v of Some (JNum n) \<Rightarrow> Some n | _ \<Rightarrow> None)"

definition or_empty :: "string option \<Rightarrow> string" where
  "or_empty x = (case x of None \<Rightarrow> [] | Some s \<Rightarrow> s)"

definition or_null :: "string option \<Rightarrow> string option" where
  "or_null x = (case x of Some s \<Rightarrow> if s = [] then None else Some s | None \<Rightarrow> None)"

definition is_object :: "json \<Rightarrow> bool" where
  "is_object v = (case v of JObj _ \<Rightarrow> True | _ \<Rightarrow> False)"

definition scheme_of :: "string \<Rightarrow> string" where
  "scheme_of raw =
     (if re_test i_flag (Seq [Bol, Group 1 (Alt [chars ''LSAT'', chars ''L402'']), Eol]) raw
      then toUpperCase raw else ''L402'')"

text \<open>The fields of a bundle, each from its chain of tests on the input and the defaults.\<close>

definition bundle_base :: "json \<Rightarrow> json \<Rightarrow> string" where
  "bundle_base input defaults =
     (case first_some [json_string ''baseUrl'' input, json_string ''baseUrl'' defaults] of
        Some u \<Rightarrow> u | None \<Rightarrow> DEFAULT_BASE_URL)"

definition bundle_paid :: "json \<Rightarrow> json \<Rightarrow> string" where
  "bundle_paid input defaults =
     or_empty (first_some [json_string ''paidUrl'' input, json_string ''paid_url'' input, json_string ''paidUrl'' defaults])"

definition bundle_skill :: "json \<Rightarrow> json \<Rightarrow> string \<Rightarrow> string" where
  "bundle_skill input defaults paidUrl =
     or_empty (first_some [map_option js_trim (json_string ''skillId'' input),
                           map_option js_trim (json_string ''skill_id'' input),
                           json_string ''skillId'' defaults, fst (extractChallengeMetadataFromPaidUrl paidUrl)])"

definition bundle_invoice :: "json \<Rightarrow> json \<Rightarrow> string" where
  "bundle_invoice input defaults =
     or_empty (first_some [map_option js_trim (json_string ''invoice'' input), json_string ''invoice'' defaults])"

definition bundle_macaroon :: "json \<Rightarrow> json \<Rightarrow> string" where
  "bundle_macaroon input defaults =
     or_empty (first_some [map_option js_trim (json_string ''macaroon'' input),
                           map_option js_trim (json_string ''macaroonB64'' input),
                           map_option js_trim (json_string ''macaroon_b64'' input),
                           json_string ''macaroon'' defaults])"

definition bundle_scheme :: "json \<Rightarrow> json \<Rightarrow> string" where
  "bundle_scheme input defaults =
     scheme_of (case first_some [json_string ''scheme'' input, json_string ''scheme'' defaults] of
                  Some s \<Rightarrow> s | None \<Rightarrow> ''L402'')"

definition bundle_sha :: "json \<Rightarrow> json \<Rightarrow> string \<Rightarrow> string option" where
  "bundle_sha input defaults paidUrl =
     or_null (first_some [map_option toLowerCase (json_string ''contentSha256'' input),
                          map_option toLowerCase (json_string ''content_sha256'' input),
                          json_string ''contentSha256'' defaults, snd (extractChallengeMetadataFromPaidUrl paidUrl)])"

definition bundle_price :: "json \<Rightarrow> json \<Rightarrow> js_number option" where
  "bundle_price input defaults =
     (case first_some [json_number ''priceSats'' input, json_number ''price_sats'' input,
                       json_number ''priceSats'' defaults] of
        Some p \<Rightarrow> if isInteger p then Some p else None
      | None \<Rightarrow> None)"

definition normalizeChallengeBundle :: "url_api \<Rightarrow> json \<Rightarrow> json \<Rightarrow> challenge_bundle result" where
  "normalizeChallengeBundle api input defaults =
     (if \<not> is_object input then Inl (Error ''Challenge details must be a JSON object.'')
      else
        then_res (new_URL api (bundle_base input defaults)) (\<lambda>parsedBaseUrl.
        let baseUrl = trimTrailingSlash (url_href parsedBaseUrl) in
        then_res (normalizePaidUrl api (bundle_paid input defaults) baseUrl) (\<lambda>paidUrl.
        if bundle_skill input defaults paidUrl = []
        then Inl (Error ''Skill ID is required or must be derivable from the paid URL.'')
        else if \<not> isLikelyBolt11Invoice (bundle_invoice input defaults)
        then Inl (Error ''Invoice must be a BOLT11 invoice beginning with ln.'')
        else if bundle_macaroon input defaults = [] then Inl (Error ''Macaroon is required.'')
        else Inr \<lparr>bu_baseUrl = baseUrl, bu_skillId = bundle_skill input defaults paidUrl,
                  bu_title = first_some [json_string ''title'' input, json_string ''title'' defaults],
                  bu_priceSats = bundle_price input defaults, bu_contentSha256 = bundle_sha input defaults paidUrl,
                  bu_paidUrl = paidUrl, bu_invoice = bundle_invoice input defaults,
                  bu_macaroon = bundle_macaroon input defaults, bu_scheme = bundle_scheme input defaults,
                  bu_capturedAt = first_some [json_string ''capturedAt'' input, json_string ''savedAt'' input,
                                              json_string ''capturedAt'' defaults],
                  bu_sourceFile = json_string ''sourceFile'' defaults\<rparr>)))"

section \<open>Challenge files\<close>

definition opt_str :: "string option \<Rightarrow> json" where
  "opt_str x = (case x of None \<Rightarrow> JNull | Some s \<Rightarrow> JStr s)"

text \<open>The object that \<open>saveChallengeBundle\<close> writes; \<open>isoText\<close> is the current time.\<close>

definition challenge_payload :: "string \<Rightarrow> challenge_bundle \<Rightarrow> json" where
  "challenge_payload isoText b =
     JObj [(''baseUrl'', JStr (bu_baseUrl b)), (''skillId'', JStr (bu_skillId b)), (''title'', opt_str (bu_title b)),
           (''priceSats'', (case bu_priceSats b of None \<Rightarrow> JNull | Some p \<Rightarrow> JNum p)),
           (''contentSha256'', opt_str (bu_contentSha256 b)), (''paidUrl'', JStr (bu_paidUrl b)),
           (''invoice'', JStr (bu_invoice b)), (''macaroon'', JStr (bu_macaroon b)), (''scheme'', JStr (bu_scheme b)),
           (''capturedAt'', JStr (case bu_capturedAt b of Some t \<Rightarrow> t | None \<Rightarrow> isoText)),
           (''savedAt'', JStr isoText)]"

definition challenge_file_text :: "string \<Rightarrow> challenge_bundle \<Rightarrow> string" where
  "challenge_file_text isoText b = JSON_stringify_2 (challenge_payload isoText b) @ [CHR 0x0A]"

text \<open>\<open>parseJson\<close>: \<open>null\<close> where the text does not parse.\<close>

definition parseJson :: "string \<Rightarrow> json" where
  "parseJson text = (case JSON_parse text of Inr v \<Rightarrow> v | Inl _ \<Rightarrow> JNull)"

definition json_truthy :: "json \<Rightarrow> bool" where
  "json_truthy v =
     (case v of JNull \<Rightarrow> False | JBool b \<Rightarrow> b | JStr s \<Rightarrow> s \<noteq> [] | JNum (Finite r) \<Rightarrow> r \<noteq> 0 | _ \<Rightarrow> True)"

text \<open>\<open>\<lparr>...defaults, sourceFile: filePath\<rparr>\<close>.\<close>

definition with_source :: "json \<Rightarrow> string \<Rightarrow> json" where
  "with_source defaults filePath =
     (case defaults of JObj ps \<Rightarrow> JObj (AList.update ''sourceFile'' (JStr filePath) ps)
      | _ \<Rightarrow> JObj [(''sourceFile'', JStr filePath)])"

definition bundle_of_file :: "url_api \<Rightarrow> json \<Rightarrow> string \<Rightarrow> string \<Rightarrow> challenge_bundle result" where
  "bundle_of_file api defaults filePath raw =
     (let parsed = parseJson raw in
      if \<not> json_truthy parsed then Inl (Error ''Challenge file does not contain valid JSON.'')
      else normalizeChallengeBundle api parsed (with_source defaults filePath))"

section \<open>The challenge header\<close>

text \<open>A header of the reply: missing, one value (repeated ones joined by Node), or several.\<close>

datatype header_value = Undefined | One string | Many "string list"

definition challenge_sep_re :: regex where
  "challenge_sep_re =
     Seq [Chr (CHR '',''), Ahead (Seq [re_star spaces, Alt [chars ''LSAT'', chars ''L402''], Plus spaces, chars ''macaroon=''])]"

definition splitAuthenticateHeader :: "header_value \<Rightarrow> string list" where
  "splitAuthenticateHeader v =
     (let raw = (case v of Undefined \<Rightarrow> [] | One s \<Rightarrow> if s = [] then [] else [s] | Many ss \<Rightarrow> ss)
      in concat (map (\<lambda>line. filter (\<lambda>p. p \<noteq> []) (map js_trim (re_split i_flag challenge_sep_re line))) raw))"

record parsed_challenge =
  pc_scheme :: string
  pc_macaroon :: string
  pc_invoice :: string

definition challenge_re :: regex where
  "challenge_re =
     Seq [Bol, Group 1 (Alt [chars ''LSAT'', chars ''L402'']), Plus spaces, chars (''macaroon='' @ [QUOTE]),
          Group 2 (Plus (NoneOf [QUOTE])), Chr QUOTE, re_star spaces, Chr (CHR '',''), re_star spaces,
          chars (''invoice='' @ [QUOTE]), Group 3 (Plus (NoneOf [QUOTE])), Chr QUOTE, Eol]"

definition parse_challenge :: "string \<Rightarrow> parsed_challenge option" where
  "parse_challenge line =
     map_option (\<lambda>m. \<lparr>pc_scheme = toUpperCase (re_cap m 1), pc_macaroon = re_cap m 2, pc_invoice = re_cap m 3\<rparr>)
       (re_exec i_flag challenge_re line)"

definition parseChallenges :: "header_value \<Rightarrow> parsed_challenge list" where
  "parseChallenges v = List.map_filter parse_challenge (splitAuthenticateHeader v)"

section \<open>Reading a run of a class\<close>

lemma eq_char_of: "n < 256 \<Longrightarrow> c = char_of n \<longleftrightarrow> of_char c = (n :: nat)"
  by (metis char_of_char of_char_of mod_less)

lemma space_class: "re_class i_flag space_chars c \<longleftrightarrow> js_whitespace c"
proof -
  have "re_class i_flag space_chars c \<longleftrightarrow> upper_char c \<in> set (map char_of [9, 10, 11, 12, 13, 32, 160 :: nat])"
    by (simp add: re_class_def re_canon_def i_flag_def space_chars_def upper_char_def)
  also have "\<dots> \<longleftrightarrow> of_char (upper_char c) \<in> set [9, 10, 11, 12, 13, 32, 160 :: nat]"
    by (simp only: set_map set_simps image_insert image_empty insert_iff empty_iff) (simp add: eq_char_of)
  also have "\<dots> \<longleftrightarrow> js_whitespace c"
    by (auto simp: upper_char_def js_whitespace_def Let_def)
  finally show ?thesis .
qed

lemma canon_i [simp]: "re_canon i_flag c = upper_char c"
  by (simp add: re_canon_def i_flag_def)

text \<open>Characters that are not lower-case letters stand for themselves.\<close>

lemma upper_char_eq:
  assumes "d = upper_char d" "\<not> (65 \<le> (of_char d :: nat) \<and> of_char d \<le> (90 :: nat))"
  shows "upper_char c = d \<longleftrightarrow> c = d"
proof
  assume u: "upper_char c = d"
  show "c = d"
  proof (cases "97 \<le> (of_char c :: nat) \<and> of_char c \<le> (122 :: nat)")
    case True
    then have "(of_char c - 32 :: nat) < 256" by linarith
    with True have "of_char (upper_char c) = (of_char c - 32 :: nat)" by (simp add: upper_char_def)
    with u True assms(2) show ?thesis by auto
  qed (use u in \<open>auto simp: upper_char_def Let_def\<close>)
qed (use assms(1) in simp)

lemma upper_quote: "upper_char c = QUOTE \<longleftrightarrow> c = QUOTE" "upper_char c = CHR '','' \<longleftrightarrow> c = CHR '',''"
  "upper_char c = CHR ''/'' \<longleftrightarrow> c = CHR ''/''"
  by (rule upper_char_eq; simp add: upper_char_def)+

lemma upper_self [simp]: "upper_char QUOTE = QUOTE" "upper_char (CHR '','') = CHR '',''" "upper_char (CHR ''/'') = CHR ''/''"
  by (simp_all add: upper_char_def)

lemma one_char_class:
  "re_class i_flag [QUOTE] c \<longleftrightarrow> c = QUOTE" "re_class i_flag ''/'' c \<longleftrightarrow> c = CHR ''/''"
proof -
  have "re_class i_flag [QUOTE] c \<longleftrightarrow> upper_char c = upper_char QUOTE"
    "re_class i_flag ''/'' c \<longleftrightarrow> upper_char c = upper_char (CHR ''/'')"
    by (simp_all add: re_class_def del: upper_self)
  then show "re_class i_flag [QUOTE] c \<longleftrightarrow> c = QUOTE" "re_class i_flag ''/'' c \<longleftrightarrow> c = CHR ''/''"
    using upper_quote upper_self by metis+
qed

lemma space_not:
  "js_whitespace c \<Longrightarrow> upper_char c \<noteq> upper_char (CHR ''m'')" "js_whitespace c \<Longrightarrow> upper_char c \<noteq> upper_char (CHR ''i'')"
  "js_whitespace c \<Longrightarrow> upper_char c \<noteq> CHR '',''" "js_whitespace c \<Longrightarrow> upper_char c \<noteq> upper_char (CHR ''L'')"
  by (auto simp: js_whitespace_def upper_char_def Let_def)

section \<open>A challenge header is read back\<close>

definition header_text :: "string \<Rightarrow> string \<Rightarrow> string \<Rightarrow> string" where
  "header_text scheme macaroon invoice =
     scheme @ '' '' @ (''macaroon='' @ [QUOTE]) @ macaroon @ [QUOTE] @ '','' @ '' '' @ (''invoice='' @ [QUOTE]) @ invoice @ [QUOTE]"

abbreviation L402_schemes :: "string set" where "L402_schemes \<equiv> {''LSAT'', ''L402''}"

definition quotable :: "string \<Rightarrow> bool" where
  "quotable s \<longleftrightarrow> s \<noteq> [] \<and> QUOTE \<notin> set s \<and> CHR '','' \<notin> set s"

lemma scheme_alt:
  assumes "scheme \<in> L402_schemes" "rs_rest st = scheme @ s"
  shows "re_match i_flag (Alt [chars ''LSAT'', chars ''L402'']) st = [adv scheme s st]"
  using assms by (auto simp: chars_def re_char_def adv_def upper_char_def)

lemma single_space [simp]: "js_whitespace (CHR '' '')" "\<not> js_whitespace (CHR ''m'')"
  "\<not> js_whitespace (CHR ''i'')" "\<not> js_whitespace (CHR '','')" "\<not> js_whitespace (CHR ''L'')"
  by (simp_all add: js_whitespace_def)

lemma challenge_re_run:
  assumes scheme: "scheme \<in> L402_schemes" and m: "quotable macaroon" and i: "quotable invoice"
    and st: "rs_rest st = header_text scheme macaroon invoice" "rs_prev st = None" "rs_caps st = []"
  obtains st' where "re_match i_flag challenge_re st = [st']" "rs_rest st' = []"
    "rs_caps st' = [(1, scheme), (2, macaroon), (3, invoice)]"
proof -
  let ?t3 = "[QUOTE]" let ?t2 = "(''invoice='' @ [QUOTE]) @ invoice @ ?t3"
  let ?t1 = "(''macaroon='' @ [QUOTE]) @ macaroon @ [QUOTE] @ '','' @ '' '' @ ?t2"
  define s1 where "s1 = re_group 1 st (adv scheme ('' '' @ ?t1) st)"
  define s2 where "s2 = adv (''macaroon='' @ [QUOTE]) (macaroon @ [QUOTE] @ '','' @ '' '' @ ?t2) (adv '' '' ?t1 s1)"
  define s3 where "s3 = re_group 2 s2 (adv macaroon ([QUOTE] @ '','' @ '' '' @ ?t2) s2)"
  define s4 where "s4 = adv (''invoice='' @ [QUOTE]) (invoice @ ?t3) (adv '' '' ?t2 (adv '','' ('' '' @ ?t2) (adv [QUOTE] ('','' @ '' '' @ ?t2) s3)))"
  define s5 where "s5 = adv [QUOTE] [] (re_group 3 s4 (adv invoice ?t3 s4))"
  have q: "list_all (\<lambda>c. \<not> re_class i_flag [QUOTE] c) macaroon" "list_all (\<lambda>c. \<not> re_class i_flag [QUOTE] c) invoice"
    "macaroon \<noteq> []" "invoice \<noteq> []"
    using m i by (auto simp: one_char_class list_all_iff quotable_def)
  let ?r6 = "[Group 3 (Plus (NoneOf [QUOTE])), Chr QUOTE, Eol]"
  let ?r5 = "chars (''invoice='' @ [QUOTE]) # ?r6"
  let ?r4 = "re_star spaces # Chr (CHR '','') # re_star spaces # ?r5"
  let ?r3 = "Group 2 (Plus (NoneOf [QUOTE])) # Chr QUOTE # ?r4"
  let ?r2 = "chars (''macaroon='' @ [QUOTE]) # ?r3"
  have "re_match i_flag challenge_re st = re_match i_flag (Seq (Plus spaces # ?r2)) s1"
    unfolding challenge_re_def re_Seq_ends(3) [OF st(2)] re_Seq_Group
    using scheme_alt [OF scheme, of st] st(1) by (simp add: header_text_def s1_def del: re_match.simps)
  also have "\<dots> = re_match i_flag (Seq ?r2) (adv '' '' ?t1 s1)"
    by (rule re_Seq_Plus_run) (simp_all add: s1_def space_class space_not re_Seq_chars_fail del: re_match.simps)
  also have "\<dots> = re_match i_flag (Seq ?r3) s2"
    unfolding s2_def by (rule re_Seq_chars) simp_all
  also have "\<dots> = re_match i_flag (Seq (Chr QUOTE # ?r4)) s3"
    unfolding s3_def by (rule re_Seq_Group_none_of)
      (use q in \<open>simp_all add: s2_def one_char_class upper_quote re_Seq_Chr_fail del: re_match.simps\<close>)
  also have "\<dots> = re_match i_flag (Seq ?r4) (adv [QUOTE] ('','' @ '' '' @ ?t2) s3)"
    by (rule re_Seq_Chr) (simp_all add: s3_def)
  also have "\<dots> = re_match i_flag (Seq (Chr (CHR '','') # re_star spaces # ?r5)) (adv [QUOTE] ('','' @ '' '' @ ?t2) s3)"
    by (subst re_Seq_star_run [of _ "[]" "'','' @ '' '' @ ?t2"]) (simp_all add: space_class space_not re_Seq_Chr_fail del: re_match.simps)
  also have "\<dots> = re_match i_flag (Seq (re_star spaces # ?r5)) (adv '','' ('' '' @ ?t2) (adv [QUOTE] ('','' @ '' '' @ ?t2) s3))"
    by (rule re_Seq_Chr) simp_all
  also have "\<dots> = re_match i_flag (Seq ?r5) (adv '' '' ?t2 (adv '','' ('' '' @ ?t2) (adv [QUOTE] ('','' @ '' '' @ ?t2) s3)))"
    by (subst re_Seq_star_run [of _ "'' ''" ?t2]) (simp_all add: space_class space_not re_Seq_chars_fail del: re_match.simps)
  also have "\<dots> = re_match i_flag (Seq ?r6) s4"
    unfolding s4_def by (rule re_Seq_chars) simp_all
  also have "\<dots> = re_match i_flag (Seq [Chr QUOTE, Eol]) (re_group 3 s4 (adv invoice ?t3 s4))"
    by (rule re_Seq_Group_none_of)
      (use q in \<open>simp_all add: s4_def one_char_class upper_quote re_Seq_Chr_fail del: re_match.simps\<close>)
  also have "\<dots> = re_match i_flag (Seq [Eol]) s5"
    unfolding s5_def by (rule re_Seq_Chr) simp_all
  also have "\<dots> = [s5]" by (simp add: s5_def)
  finally have run: "re_match i_flag challenge_re st = [s5]" .
  have c1: "rs_caps s1 = [(1, scheme)]"
    unfolding s1_def using st by (subst re_group_adv [where xs = scheme]) (simp_all add: header_text_def)
  have c2: "rs_caps s3 = [(1, scheme), (2, macaroon)]"
    unfolding s3_def by (subst re_group_adv [where xs = macaroon]) (simp_all add: s2_def c1)
  have c3: "rs_caps s5 = [(1, scheme), (2, macaroon), (3, invoice)]"
    unfolding s5_def adv_simps by (subst re_group_adv [where xs = invoice]) (simp_all add: s4_def c2)
  show thesis using that [OF run _ c3] by (simp add: s5_def)
qed

lemma parse_challenge_header:
  assumes "scheme \<in> L402_schemes" "quotable macaroon" "quotable invoice"
  shows "parse_challenge (header_text scheme macaroon invoice)
    = Some \<lparr>pc_scheme = scheme, pc_macaroon = macaroon, pc_invoice = invoice\<rparr>"
proof -
  obtain st' where "re_match i_flag challenge_re \<lparr>rs_prev = None, rs_rest = header_text scheme macaroon invoice, rs_caps = []\<rparr> = [st']"
    "rs_rest st' = []" "rs_caps st' = [(1, scheme), (2, macaroon), (3, invoice)]"
    using challenge_re_run [OF assms, of "\<lparr>rs_prev = None, rs_rest = header_text scheme macaroon invoice, rs_caps = []\<rparr>"] by auto
  then have "re_exec i_flag challenge_re (header_text scheme macaroon invoice)
    = Some \<lparr>rr_before = [], rr_text = header_text scheme macaroon invoice, rr_after = [],
            rr_caps = [(1, scheme), (2, macaroon), (3, invoice)]\<rparr>"
    by (simp add: re_exec_def re_search.simps del: re_match.simps)
  moreover have "toUpperCase scheme = scheme" using assms(1) by (auto simp: toUpperCase_def upper_char_def)
  ultimately show ?thesis by (simp add: parse_challenge_def re_cap_def)
qed

text \<open>The separator between two challenges, and the comma inside one that is not a separator.\<close>

lemma sep_not_comma:
  "rs_rest st \<noteq> [] \<Longrightarrow> hd (rs_rest st) \<noteq> CHR '','' \<Longrightarrow> re_match i_flag challenge_sep_re st = []"
  unfolding challenge_sep_re_def by (rule re_Seq_Chr_fail) (simp add: upper_quote)

lemma scheme_alt_fail:
  assumes "rs_rest st = [] \<or> upper_char (hd (rs_rest st)) \<noteq> CHR ''L''"
  shows "re_match i_flag (Seq (Alt [chars ''LSAT'', chars ''L402''] # rs)) st = []"
  using assms by (cases "rs_rest st") (simp_all add: chars_def re_char_def upper_char_def [of "CHR ''L''"])

lemma sep_run:
  assumes "rs_rest st = CHR '','' # CHR '' '' # s" "s \<noteq> []" "\<not> js_whitespace (hd s)"
  shows "re_match i_flag challenge_sep_re st =
    (case re_match i_flag (Seq [Alt [chars ''LSAT'', chars ''L402''], Plus spaces, chars ''macaroon=''])
            (adv '' '' s (adv '','' (CHR '' '' # s) st)) of
       [] \<Rightarrow> [] | t # _ \<Rightarrow> [(adv '','' (CHR '' '' # s) st)\<lparr>rs_caps := rs_caps t\<rparr>])"
proof -
  have "re_match i_flag (Seq [re_star spaces, Alt [chars ''LSAT'', chars ''L402''], Plus spaces, chars ''macaroon=''])
      (adv '','' (CHR '' '' # s) st)
    = re_match i_flag (Seq [Alt [chars ''LSAT'', chars ''L402''], Plus spaces, chars ''macaroon=''])
      (adv '' '' s (adv '','' (CHR '' '' # s) st))"
    using assms by (subst re_Seq_star_run [of _ "'' ''" s])
      (simp_all add: space_class scheme_alt_fail space_not(4) [simplified upper_char_def [of "CHR ''L''"], simplified] del: re_match.simps)
  moreover have "re_match i_flag challenge_sep_re st =
    re_match i_flag (Seq [Ahead (Seq [re_star spaces, Alt [chars ''LSAT'', chars ''L402''], Plus spaces, chars ''macaroon=''])])
      (adv '','' (CHR '' '' # s) st)"
    unfolding challenge_sep_re_def by (rule re_Seq_Chr) (use assms in simp_all)
  ultimately show ?thesis
    by (simp only: re_match.simps(4,5,13)) (simp split: list.split)
qed

lemma sep_not_invoice:
  assumes "rs_rest st = '', invoice='' @ s"
  shows "re_match i_flag challenge_sep_re st = []"
proof -
  have "upper_char (CHR ''i'') \<noteq> CHR ''L''" by (simp add: upper_char_def char_of_def bit_Suc_0_iff)
  then have "re_match i_flag (Seq (Alt [chars ''LSAT'', chars ''L402''] # rs)) (adv xs (''invoice='' @ s) t) = []" for rs xs t
    by (intro scheme_alt_fail) simp
  then show ?thesis using sep_run [of st "''invoice='' @ s"] assms by (simp del: re_match.simps)
qed

lemma sep_between:
  assumes "rs_rest st = '', '' @ header_text scheme macaroon invoice" "scheme \<in> L402_schemes"
  shows "re_match i_flag challenge_sep_re st = [adv '','' ('' '' @ header_text scheme macaroon invoice) st]"
proof -
  let ?h = "header_text scheme macaroon invoice"
  let ?tail = "QUOTE # macaroon @ [QUOTE] @ '','' @ '' '' @ (''invoice='' @ [QUOTE]) @ invoice @ [QUOTE]"
  have h: "?h = scheme @ '' macaroon='' @ ?tail" by (simp add: header_text_def)
  let ?st = "adv '' '' ?h (adv '','' ('' '' @ ?h) st)"
  have "re_match i_flag (Seq [Alt [chars ''LSAT'', chars ''L402''], Plus spaces, chars ''macaroon='']) ?st
    = re_match i_flag (Seq [Plus spaces, chars ''macaroon='']) (adv scheme ('' macaroon='' @ ?tail) ?st)"
    using scheme_alt [OF assms(2), of ?st "'' macaroon='' @ ?tail"] by (simp only: re_match.simps(5) h adv_simps) simp
  also have "\<dots> = re_match i_flag (Seq [chars ''macaroon='']) (adv '' '' (''macaroon='' @ ?tail) (adv scheme ('' macaroon='' @ ?tail) ?st))"
    by (rule re_Seq_Plus_run) (simp_all add: space_class space_not re_Seq_chars_fail del: re_match.simps)
  also have "\<dots> = re_match i_flag (Seq []) (adv ''macaroon='' ?tail (adv '' '' (''macaroon='' @ ?tail) (adv scheme ('' macaroon='' @ ?tail) ?st)))"
    by (rule re_Seq_chars) simp_all
  finally have "re_match i_flag (Seq [Alt [chars ''LSAT'', chars ''L402''], Plus spaces, chars ''macaroon='']) ?st
    = [adv ''macaroon='' ?tail (adv '' '' (''macaroon='' @ ?tail) (adv scheme ('' macaroon='' @ ?tail) ?st))]"
    by simp
  moreover have "?h \<noteq> []" "\<not> js_whitespace (hd ?h)" using assms(2) by (auto simp: header_text_def)
  ultimately show ?thesis using assms(1) by (subst sep_run [of _ ?h]) (simp_all del: re_match.simps)
qed

section \<open>The header of a reply\<close>

lemma search_no_comma:
  "CHR '','' \<notin> set xs \<Longrightarrow>
   re_search i_flag challenge_sep_re prior (xs @ ys) = re_search i_flag challenge_sep_re (rev xs @ prior) ys"
  by (rule re_search_skip) (auto intro: sep_not_comma)

lemma search_end: "re_search i_flag challenge_sep_re prior [] = None"
  by (simp add: re_search.simps challenge_sep_re_def re_char_def)

lemma search_header:
  assumes "scheme \<in> L402_schemes" "quotable macaroon" "quotable invoice"
  shows "re_search i_flag challenge_sep_re prior (header_text scheme macaroon invoice @ ys)
    = re_search i_flag challenge_sep_re (rev (header_text scheme macaroon invoice) @ prior) ys"
proof -
  let ?a = "scheme @ '' macaroon='' @ [QUOTE] @ macaroon @ [QUOTE]"
  let ?b = "'' invoice='' @ [QUOTE] @ invoice @ [QUOTE]"
  have h: "header_text scheme macaroon invoice = ?a @ CHR '','' # ?b" by (simp add: header_text_def)
  have a: "CHR '','' \<notin> set ?a" "CHR '','' \<notin> set ?b" using assms by (auto simp: quotable_def)
  have "re_search i_flag challenge_sep_re (rev ?a @ prior) (CHR '','' # ?b @ ys)
      = re_search i_flag challenge_sep_re (CHR '','' # rev ?a @ prior) (?b @ ys)"
    by (rule re_search_step, rule sep_not_invoice) simp
  then show ?thesis
    unfolding h using search_no_comma [OF a(1), of prior "CHR '','' # ?b @ ys"]
      search_no_comma [OF a(2), of "CHR '','' # rev ?a @ prior" ys] by simp
qed

lemma split_one:
  assumes "scheme \<in> L402_schemes" "quotable macaroon" "quotable invoice" and w: "CHR '','' \<notin> set w"
  shows "re_pieces i_flag challenge_sep_re prior (w @ header_text scheme macaroon invoice)
    = ([], w @ header_text scheme macaroon invoice)"
  using search_no_comma [OF w, of prior "header_text scheme macaroon invoice"]
    search_header [OF assms(1-3), of "rev w @ prior" "[]"] search_end
  by (simp add: re_pieces.simps)

lemma trim_header: "scheme \<in> L402_schemes \<Longrightarrow> js_trim (header_text scheme macaroon invoice) = header_text scheme macaroon invoice"
  by (intro js_trim_id) (auto simp: header_text_def js_whitespace_def)

lemma trim_space: "js_trim (CHR '' '' # s) = js_trim s"
  by (simp add: js_trim_def)

text \<open>The two challenges of a reply, joined the way Node joins repeated headers.\<close>

lemma split_two_headers:
  assumes "s1 \<in> L402_schemes" "s2 \<in> L402_schemes" "quotable macaroon" "quotable invoice"
  shows "splitAuthenticateHeader (One (header_text s1 macaroon invoice @ '', '' @ header_text s2 macaroon invoice))
    = [header_text s1 macaroon invoice, header_text s2 macaroon invoice]"
proof -
  let ?h1 = "header_text s1 macaroon invoice" and ?h2 = "header_text s2 macaroon invoice"
  let ?m = "\<lparr>rr_before = ?h1, rr_text = '','', rr_after = '' '' @ ?h2, rr_caps = []\<rparr>"
  have "re_search i_flag challenge_sep_re (rev ?h1) ('', '' @ ?h2) = Some ?m"
    using sep_between [OF _ assms(2), of "\<lparr>rs_prev = (if rev ?h1 = [] then None else Some (hd (rev ?h1))), rs_rest = '', '' @ ?h2, rs_caps = []\<rparr>" macaroon invoice]
    by (simp add: re_search.simps del: re_match.simps)
  then have "re_search i_flag challenge_sep_re [] (?h1 @ '', '' @ ?h2) = Some ?m"
    using search_header [OF assms(1,3,4), of "[]" "'', '' @ ?h2"] by simp
  moreover have "re_pieces i_flag challenge_sep_re prior ('' '' @ ?h2) = ([], '' '' @ ?h2)" for prior
    by (rule split_one [OF assms(2-4)]) simp
  ultimately have "re_split i_flag challenge_sep_re (?h1 @ '', '' @ ?h2) = [?h1, '' '' @ ?h2]"
    by (simp add: re_split_def re_pieces.simps [of _ _ "[]"])
  moreover have "?h1 \<noteq> []" "?h2 \<noteq> []" using assms(1,2) by (auto simp: header_text_def)
  ultimately show ?thesis
    by (simp add: splitAuthenticateHeader_def trim_header [OF assms(1)] trim_header [OF assms(2)] trim_space)
qed

lemma parseChallenges_both:
  assumes "quotable macaroon" "quotable invoice"
  shows "parseChallenges (One (header_text ''LSAT'' macaroon invoice @ '', '' @ header_text ''L402'' macaroon invoice))
    = [\<lparr>pc_scheme = ''LSAT'', pc_macaroon = macaroon, pc_invoice = invoice\<rparr>,
       \<lparr>pc_scheme = ''L402'', pc_macaroon = macaroon, pc_invoice = invoice\<rparr>]"
  using assms split_two_headers [of "''LSAT''" "''L402''" macaroon invoice]
    parse_challenge_header [of "''LSAT''" macaroon invoice] parse_challenge_header [of "''L402''" macaroon invoice]
  by (simp add: parseChallenges_def map_filter_simps)

section \<open>The two hexadecimal checks agree\<close>

lemma char_eq_code: "c = d \<longleftrightarrow> of_char c = (of_char d :: nat)"
  by (metis char_of_char)

lemma i_flag_fields [simp]: "ignoreCase i_flag" "\<not> multiline i_flag"
  by (simp_all add: i_flag_def)

lemma of_char_upper:
  "of_char (upper_char c) = (if (97 :: nat) \<le> of_char c \<and> of_char c \<le> (122 :: nat) then of_char c - 32 else (of_char c :: nat))"
proof (cases "(97 :: nat) \<le> of_char c \<and> of_char c \<le> (122 :: nat)")
  case True
  then have "(of_char c - 32 :: nat) < 256" by linarith
  then show ?thesis using True by (simp add: upper_char_def)
qed (auto simp: upper_char_def Let_def)

lemma upper_eq_code: "upper_char c = upper_char d \<longleftrightarrow> of_char (upper_char c) = (of_char (upper_char d) :: nat)"
  by (rule char_eq_code)

definition hex_code :: "nat \<Rightarrow> bool" where
  "hex_code n \<longleftrightarrow> 48 \<le> n \<and> n \<le> 57 \<or> 65 \<le> n \<and> n \<le> 70"

lemma hex_codes: "n \<in> set [48, 49, 50, 51, 52, 53, 54, 55, 56, 57, 65, 66, 67, 68, 69, 70] \<longleftrightarrow> hex_code n"
  unfolding hex_code_def set_simps insert_iff empty_iff by presburger

lemma hex_class: "re_class i_flag (digit_chars @ ''abcdef'') c \<longleftrightarrow> is_hex_char c"
proof -
  have "re_class i_flag (digit_chars @ ''abcdef'') c \<longleftrightarrow> (\<exists>d \<in> set (digit_chars @ ''abcdef''). upper_char c = upper_char d)"
    by (auto simp: re_class_def)
  also have "\<dots> \<longleftrightarrow> of_char (upper_char c) \<in> set [48, 49, 50, 51, 52, 53, 54, 55, 56, 57, 65, 66, 67, 68, 69, 70 :: nat]"
    unfolding upper_eq_code digit_chars_def by (simp add: of_char_upper [of "Char _ _ _ _ _ _ _ _"] del: of_char_eq_iff)
  also have "\<dots> \<longleftrightarrow> hex_code (of_char (upper_char c))" by (rule hex_codes)
  also have "\<dots> \<longleftrightarrow> is_hex_char c"
    by (simp add: of_char_upper is_hex_char_def hex_code_def Let_def) linarith
  finally show ?thesis .
qed

lemma re_times_any:
  "re_match fl (re_times n (AnyOf cs)) st =
     (if n \<le> length (rs_rest st) \<and> list_all (re_class fl cs) (take n (rs_rest st))
      then [if n = 0 then st else adv (take n (rs_rest st)) (drop n (rs_rest st)) st] else [])"
proof (unfold re_times_def, induction n arbitrary: st)
  case (Suc n)
  show ?case
  proof (cases "rs_rest st")
    case (Cons c s)
    then show ?thesis by (auto simp: re_char_def Suc.IH adv_def take_Suc_Cons)
  qed (simp add: re_char_def)
qed simp

lemma anchored_search: "prior \<noteq> [] \<Longrightarrow> re_search i_flag (Seq (Bol # rs)) prior s = None"
proof (induction s arbitrary: prior)
  case Nil
  then show ?case by (simp add: re_search.simps [of i_flag])
next
  case (Cons c s)
  then show ?case by (simp add: re_search.simps [of i_flag _ prior])
qed

lemma anchored_test: "re_test i_flag (Seq (Bol # rs)) v \<longleftrightarrow>
    re_match i_flag (Seq rs) \<lparr>rs_prev = None, rs_rest = v, rs_caps = []\<rparr> \<noteq> []"
proof -
  have "re_search i_flag (Seq (Bol # rs)) [] v \<noteq> None \<longleftrightarrow>
      re_match i_flag (Seq rs) \<lparr>rs_prev = None, rs_rest = v, rs_caps = []\<rparr> \<noteq> []"
    using anchored_search by (cases v) (auto simp: re_search.simps [of i_flag _ "[]"] split: list.splits)
  then show ?thesis by (simp add: re_test_def re_exec_def)
qed

lemma isHex64_iff: "isHex64 v \<longleftrightarrow> is_hex64 v"
proof -
  have "isHex64 v \<longleftrightarrow> 64 \<le> length v \<and> list_all is_hex_char (take 64 v) \<and> drop 64 v = []"
    unfolding isHex64_def anchored_test
    by (auto simp: re_times_any hex_class [abs_def] adv_def split: list.splits)
  also have "\<dots> \<longleftrightarrow> is_hex64 v" by (auto simp: is_hex64_def)
  finally show ?thesis .
qed

section \<open>What a paid URL says\<close>

lemma extract_metadata:
  assumes "skillId \<noteq> []" "CHR ''/'' \<notin> set skillId" "is_hex64 sha"
  shows "extractChallengeMetadataFromPaidUrl (''/.well-known/l402/skills/'' @ skillId @ ''/v/'' @ sha @ ''/content'')
    = (Some skillId, Some (toLowerCase sha))"
proof -
  let ?url = "''/.well-known/l402/skills/'' @ skillId @ ''/v/'' @ sha @ ''/content''"
  define st where "st = \<lparr>rs_prev = None, rs_rest = ?url, rs_caps = []\<rparr>"
  define s1 where "s1 = adv ''/.well-known/l402/skills/'' (skillId @ ''/v/'' @ sha @ ''/content'') st"
  define s2 where "s2 = re_group 1 s1 (adv skillId (''/v/'' @ sha @ ''/content'') s1)"
  define s3 where "s3 = adv ''/v/'' (sha @ ''/content'') s2"
  define s4 where "s4 = re_group 2 s3 (adv sha ''/content'' s3)"
  define s5 where "s5 = adv ''/content'' [] s4"
  have q: "list_all (\<lambda>c. \<not> re_class i_flag ''/'' c) skillId"
    using assms(2) by (auto simp: one_char_class list_all_iff)
  let ?e = "[Opt (Seq [Chr (CHR ''?''), re_star re_dot]), Eol]"
  let ?r3 = "Group 2 (re_times 64 (AnyOf (digit_chars @ ''abcdef''))) # chars ''/content'' # ?e"
  let ?r1 = "Group 1 (Plus (NoneOf ''/'')) # chars ''/v/'' # ?r3"
  have "re_match i_flag paid_url_re st = re_match i_flag (Seq ?r1) s1"
    unfolding paid_url_re_def s1_def by (subst re_Seq_ends(3)) (simp_all add: st_def re_Seq_chars del: re_match.simps)
  also have "\<dots> = re_match i_flag (Seq (chars ''/v/'' # ?r3)) s2"
    unfolding s2_def
    by (rule re_Seq_Group_none_of)
      (use assms(1) q in \<open>simp_all add: s1_def one_char_class upper_quote re_Seq_chars_fail del: re_match.simps\<close>)
  also have "\<dots> = re_match i_flag (Seq ?r3) s3"
    unfolding s3_def by (rule re_Seq_chars) (simp_all add: s2_def)
  also have "\<dots> = re_match i_flag (Seq (chars ''/content'' # ?e)) s4"
  proof -
    have "re_match i_flag (re_times 64 (AnyOf (digit_chars @ ''abcdef''))) s3 = [adv sha ''/content'' s3]"
      using assms(3) by (auto simp: re_times_any hex_class [abs_def] s3_def is_hex64_def)
    then show ?thesis unfolding re_Seq_Group s4_def by (simp del: re_match.simps)
  qed
  also have "\<dots> = re_match i_flag (Seq ?e) s5"
    unfolding s5_def by (rule re_Seq_chars) (simp_all add: s4_def)
  also have "\<dots> = [s5]" by (simp add: s5_def re_char_def)
  finally have run: "re_match i_flag paid_url_re st = [s5]" .
  have c1: "rs_caps s2 = [(1, skillId)]"
    unfolding s2_def by (subst re_group_adv [where xs = skillId]) (simp_all add: s1_def st_def)
  have c2: "rs_caps s4 = [(1, skillId), (2, sha)]"
    unfolding s4_def by (subst re_group_adv [where xs = sha]) (simp_all add: s3_def c1)
  have "re_exec i_flag paid_url_re ?url = Some \<lparr>rr_before = [], rr_text = ?url, rr_after = [], rr_caps = [(1, skillId), (2, sha)]\<rparr>"
    using run c2 by (simp add: re_exec_def re_search.simps st_def s5_def del: re_match.simps)
  then show ?thesis by (simp add: extractChallengeMetadataFromPaidUrl_def)
qed

section \<open>Challenge files are read back\<close>

lemma js_trim_trim [simp]: "js_trim (js_trim s) = js_trim s"
proof (cases "js_trim s = []")
  case True
  then show ?thesis by (simp only: True) (simp add: js_trim_def)
next
  case False
  let ?d = "dropWhile js_whitespace s"
  have e: "js_trim s = rev (dropWhile js_whitespace (rev ?d))" by (simp add: js_trim_def)
  have "\<not> js_whitespace (last (js_trim s))"
    using False hd_dropWhile [of js_whitespace "rev ?d"] unfolding e by (auto simp: last_rev)
  moreover have "\<not> js_whitespace (hd (js_trim s))"
  proof -
    obtain t where t: "rev ?d = t @ dropWhile js_whitespace (rev ?d)" by (metis takeWhile_dropWhile_id)
    then have "?d = js_trim s @ rev t" by (metis e rev_append rev_rev_ident)
    then have "hd ?d = hd (js_trim s)" "?d \<noteq> []" using False by (metis hd_append2, simp)
    then show ?thesis using hd_dropWhile [of js_whitespace s] by simp
  qed
  ultimately show ?thesis using False by (intro js_trim_id) auto
qed

lemma toLowerCase_twice [simp]: "toLowerCase (toLowerCase s) = toLowerCase s"
proof -
  have "lower_char (lower_char c) = lower_char c" for c
  proof (cases "(65 :: nat) \<le> of_char c \<and> of_char c \<le> (90 :: nat)")
    case True
    then have "(of_char c + 32 :: nat) < 256" by linarith
    then show ?thesis using True by (simp add: lower_char_def)
  qed (auto simp: lower_char_def Let_def)
  then show ?thesis by (simp add: toLowerCase_def)
qed

lemma toUpperCase_twice [simp]: "toUpperCase (toUpperCase s) = toUpperCase s"
proof -
  have "upper_char (upper_char c) = upper_char c" for c
    by (rule char_eq_code [THEN iffD2], simp add: of_char_upper) linarith
  then show ?thesis by (simp add: toUpperCase_def)
qed

lemma re_chars_any:
  "p \<noteq> [] \<Longrightarrow> re_match fl (chars p) st =
     (if length p \<le> length (rs_rest st) \<and> map (re_canon fl) (take (length p) (rs_rest st)) = map (re_canon fl) p
      then [adv (take (length p) (rs_rest st)) (drop (length p) (rs_rest st)) st] else [])"
proof (unfold chars_def, induction p arbitrary: st)
  case (Cons c p)
  show ?case
  proof (cases "rs_rest st")
    case (Cons d s)
    then show ?thesis using Cons.IH by (cases "p = []") (auto simp: re_char_def adv_def)
  qed (simp add: re_char_def)
qed simp

lemma scheme_of_props: "scheme_of raw \<in> L402_schemes" "scheme \<in> L402_schemes \<Longrightarrow> scheme_of scheme = scheme"
proof -
  have "toUpperCase raw \<in> L402_schemes"
    if "re_test i_flag (Seq [Bol, Group 1 (Alt [chars ''LSAT'', chars ''L402'']), Eol]) raw"
  proof -
    define st where "st = \<lparr>rs_prev = None, rs_rest = raw, rs_caps = []\<rparr>"
    have lit: "map upper_char ''LSAT'' = ''LSAT''" "map upper_char ''L402'' = ''L402''" by (simp_all add: upper_char_def)
    from that obtain p t where p: "p \<in> L402_schemes" "t \<in> set (re_match i_flag (chars p) st)" "rs_rest t = []"
      unfolding anchored_test st_def [symmetric] by (auto split: list.splits simp del: re_match.simps(5) simp: re_match.simps(5) [of _ "Group _ _"] re_match.simps(5) [of _ Eol])
        (metis list.exhaust)+
    then have "length raw = length p" "map upper_char raw = map upper_char p"
      by (auto simp: re_chars_any st_def split: if_splits)
    then show ?thesis using p(1) lit by (auto simp: toUpperCase_def)
  qed
  then show "scheme_of raw \<in> L402_schemes" by (simp add: scheme_of_def)
  show "scheme \<in> L402_schemes \<Longrightarrow> scheme_of scheme = scheme"
  proof -
    assume s: "scheme \<in> L402_schemes"
    have "re_match i_flag (Seq [Group 1 (Alt [chars ''LSAT'', chars ''L402'']), Eol]) \<lparr>rs_prev = None, rs_rest = scheme, rs_caps = []\<rparr> \<noteq> []"
      using scheme_alt [OF s, of "\<lparr>rs_prev = None, rs_rest = scheme, rs_caps = []\<rparr>" "[]"]
      unfolding re_Seq_Group by (simp del: re_match.simps(6,7))
    moreover have "toUpperCase scheme = scheme" using s by (auto simp: toUpperCase_def upper_char_def)
    ultimately show ?thesis unfolding scheme_of_def anchored_test by simp
  qed
qed

lemma first_some_simps [simp]: "first_some (None # xs) = first_some xs" "first_some (Some v # xs) = Some v"
  by simp_all

lemma or_null_idem [simp]: "or_null (or_null x) = or_null x"
  by (simp add: or_null_def split: option.split)

lemma no_defaults [simp]: "json_string k (JObj []) = None" "json_number k (JObj []) = None" "json_prop k (JObj []) = None"
  by (simp_all add: json_string_def json_number_def json_prop_def)

text \<open>What the checks of \<open>normalizeChallengeBundle\<close> leave in a bundle.\<close>

lemma normalized_bundle:
  assumes "normalizeChallengeBundle api input (JObj []) = Inr b"
  shows "bu_skillId b \<noteq> []" "isLikelyBolt11Invoice (bu_invoice b)" "js_trim (bu_invoice b) = bu_invoice b"
    "bu_macaroon b \<noteq> []" "js_trim (bu_macaroon b) = bu_macaroon b" "bu_scheme b \<in> L402_schemes"
    "map_option toLowerCase (bu_contentSha256 b) = bu_contentSha256 b" "bu_contentSha256 b \<noteq> Some []"
    "pred_option isInteger (bu_priceSats b)" "bu_sourceFile b = None"
proof -
  from assms obtain paidUrl where b: "bu_skillId b \<noteq> []" "isLikelyBolt11Invoice (bu_invoice b)" "bu_macaroon b \<noteq> []"
    "bu_sourceFile b = None" "bu_invoice b = bundle_invoice input (JObj [])" "bu_macaroon b = bundle_macaroon input (JObj [])"
    "bu_scheme b = bundle_scheme input (JObj [])" "bu_contentSha256 b = bundle_sha input (JObj []) paidUrl"
    "bu_priceSats b = bundle_price input (JObj [])"
    by (auto simp: normalizeChallengeBundle_def Let_def then_res_Inr split: if_splits)
  show "bu_skillId b \<noteq> []" "isLikelyBolt11Invoice (bu_invoice b)" "bu_macaroon b \<noteq> []" "bu_sourceFile b = None"
    by (rule b)+
  have empty: "js_trim [] = []" by (simp add: js_trim_def)
  show "js_trim (bu_invoice b) = bu_invoice b" "js_trim (bu_macaroon b) = bu_macaroon b"
    unfolding b(5,6) by (simp_all add: bundle_invoice_def bundle_macaroon_def or_empty_def empty split: option.split)
  show "bu_scheme b \<in> L402_schemes" unfolding b(7) bundle_scheme_def by (rule scheme_of_props)
  have url: "map_option toLowerCase (snd (extractChallengeMetadataFromPaidUrl u)) = snd (extractChallengeMetadataFromPaidUrl u)" for u
    by (simp add: extractChallengeMetadataFromPaidUrl_def option.map_comp comp_def split: option.split)
  show "map_option toLowerCase (bu_contentSha256 b) = bu_contentSha256 b"
    unfolding b(8) bundle_sha_def using url [of paidUrl]
    by (cases "json_string ''contentSha256'' input"; cases "json_string ''content_sha256'' input";
        cases "snd (extractChallengeMetadataFromPaidUrl paidUrl)") (auto simp: or_null_def)
  show "bu_contentSha256 b \<noteq> Some []" unfolding b(8) by (simp add: bundle_sha_def or_null_def split: option.split)
  show "pred_option isInteger (bu_priceSats b)" unfolding b(9) by (simp add: bundle_price_def split: option.split)
qed

text \<open>
  What a bundle needs beyond the checks to survive a file: an address that the URL parser
  leaves alone, a path as paid URL, a skill id without outer spaces, a price below
  \<open>10\<^sup>2\<^sup>1\<close>, and the hash of the content wherever the paid URL shows one.
\<close>

definition storable :: "url_api \<Rightarrow> challenge_bundle \<Rightarrow> bool" where
  "storable api b \<longleftrightarrow>
     (case api (bu_baseUrl b) of None \<Rightarrow> False | Some u \<Rightarrow> trimTrailingSlash (url_href u) = bu_baseUrl b) \<and>
     starts_with ''/'' (bu_paidUrl b) \<and> js_trim (bu_paidUrl b) = bu_paidUrl b \<and>
     js_trim (bu_skillId b) = bu_skillId b \<and> pred_option plain_number (bu_priceSats b) \<and>
     (bu_contentSha256 b \<noteq> None \<or> snd (extractChallengeMetadataFromPaidUrl (bu_paidUrl b)) = None)"

lemma plain_payload: "pred_option plain_number (bu_priceSats b) \<Longrightarrow> plain_json (challenge_payload t b)"
  by (cases "bu_priceSats b"; cases "bu_title b"; cases "bu_contentSha256 b") (simp_all add: challenge_payload_def opt_str_def)

lemma payload_fields:
  "json_string ''baseUrl'' (challenge_payload t b) = Some (bu_baseUrl b)"
  "json_string ''skillId'' (challenge_payload t b) = Some (bu_skillId b)"
  "json_string ''title'' (challenge_payload t b) = bu_title b"
  "json_number ''priceSats'' (challenge_payload t b) = bu_priceSats b"
  "json_number ''price_sats'' (challenge_payload t b) = None"
  "json_string ''contentSha256'' (challenge_payload t b) = bu_contentSha256 b"
  "json_string ''content_sha256'' (challenge_payload t b) = None"
  "json_string ''paidUrl'' (challenge_payload t b) = Some (bu_paidUrl b)"
  "json_string ''invoice'' (challenge_payload t b) = Some (bu_invoice b)"
  "json_string ''macaroon'' (challenge_payload t b) = Some (bu_macaroon b)"
  "json_string ''scheme'' (challenge_payload t b) = Some (bu_scheme b)"
  "json_string ''capturedAt'' (challenge_payload t b) = Some (case bu_capturedAt b of Some c \<Rightarrow> c | None \<Rightarrow> t)"
  "is_object (challenge_payload t b)" "json_truthy (challenge_payload t b)"
  by (simp_all add: challenge_payload_def json_string_def json_number_def json_prop_def opt_str_def is_object_def
      json_truthy_def split: option.split)

lemma source_only:
  "json_string k (with_source (JObj []) path) = (if k = ''sourceFile'' then Some path else None)"
  "json_number k (with_source (JObj []) path) = None"
  by (simp_all add: with_source_def json_string_def json_number_def json_prop_def)

text \<open>
  A saved challenge is the same challenge: writing a bundle to a challenge file and
  loading the file gives back the bundle with its invoice, macaroon, paid URL and all
  other fields, now with the time of capture and the name of the file filled in.
\<close>

lemma challenge_file_roundtrip:
  assumes "normalizeChallengeBundle api input (JObj []) = Inr b" and "storable api b"
  shows "bundle_of_file api (JObj []) path (challenge_file_text isoText b)
    = Inr (b\<lparr>bu_capturedAt := Some (case bu_capturedAt b of Some c \<Rightarrow> c | None \<Rightarrow> isoText),
            bu_sourceFile := Some path\<rparr>)"
proof -
  note nb = normalized_bundle [OF assms(1)]
  from assms(2) obtain u where u: "api (bu_baseUrl b) = Some u" "trimTrailingSlash (url_href u) = bu_baseUrl b"
    and paid: "starts_with ''/'' (bu_paidUrl b)" "js_trim (bu_paidUrl b) = bu_paidUrl b"
    and skill: "js_trim (bu_skillId b) = bu_skillId b" and price: "pred_option plain_number (bu_priceSats b)"
    and sha: "bu_contentSha256 b \<noteq> None \<or> snd (extractChallengeMetadataFromPaidUrl (bu_paidUrl b)) = None"
    by (auto simp: storable_def split: option.splits)
  have p: "normalizePaidUrl api (bu_paidUrl b) (bu_baseUrl b) = Inr (bu_paidUrl b)"
    using paid by (cases "bu_paidUrl b") (simp_all add: normalizePaidUrl_def starts_with_def)
  have parsed: "parseJson (challenge_file_text isoText b) = challenge_payload isoText b"
    by (simp add: parseJson_def challenge_file_text_def parse_stringify_2 [OF plain_payload [OF price]])
  have sha': "bundle_sha (challenge_payload isoText b) (with_source (JObj []) path) (bu_paidUrl b) = bu_contentSha256 b"
    using sha nb(7,8) by (cases "bu_contentSha256 b") (auto simp: bundle_sha_def payload_fields source_only or_null_def)
  have price': "bundle_price (challenge_payload isoText b) (with_source (JObj []) path) = bu_priceSats b"
    using nb(9) by (cases "bu_priceSats b") (simp_all add: bundle_price_def payload_fields source_only)
  show ?thesis
    using nb skill u
    by (simp add: bundle_of_file_def parsed normalizeChallengeBundle_def payload_fields source_only new_URL_def
        bundle_base_def bundle_paid_def bundle_skill_def bundle_invoice_def bundle_macaroon_def bundle_scheme_def
        or_empty_def scheme_of_props p sha' price')
       (cases "bu_title b"; simp)
qed

section \<open>Invoices are plain text\<close>

lemma re_char_step: "s \<in> set (re_char P st) \<Longrightarrow> \<exists>c. rs_rest st = c # rs_rest s \<and> P c"
  by (cases "rs_rest st") (auto simp: re_char_def split: if_splits)

lemma re_repeat_class:
  "st' \<in> set (re_repeat n (re_char P) st) \<Longrightarrow> \<exists>xs. rs_rest st = xs @ rs_rest st' \<and> list_all P xs"
proof (induction n arbitrary: st)
  case (Suc n)
  show ?case
  proof (cases "st' = st")
    case False
    then obtain s where s: "s \<in> set (re_char P st)" "st' \<in> set (re_repeat n (re_char P) s)"
      using Suc.prems by auto
    then obtain xs where "rs_rest s = xs @ rs_rest st'" "list_all P xs" using Suc.IH by blast
    moreover obtain c where "rs_rest st = c # rs_rest s" "P c"
      using re_char_step [OF s(1)] by blast
    ultimately show ?thesis by (intro exI [of _ "c # xs"]) simp
  qed (auto intro: exI [of _ "[]"])
qed (auto intro: exI [of _ "[]"])

lemma re_Plus_class:
  assumes "st' \<in> set (re_match fl (Plus (AnyOf cs)) st)"
  shows "\<exists>xs. rs_rest st = xs @ rs_rest st' \<and> list_all (re_class fl cs) xs"
proof -
  have "re_match fl (AnyOf cs) = re_char (re_class fl cs)" by (rule ext) simp
  then obtain s where s: "s \<in> set (re_char (re_class fl cs) st)"
    "st' \<in> set (re_repeat (length (rs_rest s)) (re_char (re_class fl cs)) s)"
    using assms by auto
  then obtain xs where "rs_rest s = xs @ rs_rest st'" "list_all (re_class fl cs) xs" using re_repeat_class by blast
  moreover obtain c where "rs_rest st = c # rs_rest s" "re_class fl cs c"
    using re_char_step [OF s(1)] by blast
  ultimately show ?thesis by (intro exI [of _ "c # xs"]) simp
qed

lemma whitespace_mem: "js_whitespace c \<longleftrightarrow> c \<in> set space_chars"
  unfolding space_chars_def js_whitespace_def
  by (simp only: set_map set_simps image_insert image_empty insert_iff empty_iff) (simp add: eq_char_of)

lemma alnum_plain:
  assumes "re_class i_flag (letter_chars @ digit_chars) c"
  shows "\<not> js_whitespace c \<and> c \<noteq> QUOTE \<and> c \<noteq> CHR '',''"
proof -
  have "list_all (\<lambda>c. \<not> re_class i_flag (letter_chars @ digit_chars) c) (QUOTE # CHR '','' # space_chars)"
    by code_simp
  then show ?thesis using assms by (auto simp: whitespace_mem list_all_iff)
qed

lemma bolt11_chars:
  assumes "isLikelyBolt11Invoice v" "c \<in> set v"
  shows "re_class i_flag (letter_chars @ digit_chars) c"
proof -
  let ?P = "Plus (AnyOf (letter_chars @ digit_chars))" let ?st = "\<lparr>rs_prev = None, rs_rest = v, rs_caps = []\<rparr>"
  from assms(1) obtain s t where s: "s \<in> set (re_match i_flag (chars ''ln'') ?st)" "t \<in> set (re_match i_flag ?P s)" "rs_rest t = []"
    unfolding isLikelyBolt11Invoice_def anchored_test
    by (auto split: list.splits simp del: re_match.simps(9)) (metis list.exhaust)
  have two: "map upper_char (take 2 v) = map upper_char ''ln''" "rs_rest s = drop 2 v"
    using s(1) by (auto simp: re_chars_any numeral_2_eq_2 split: if_splits)
  obtain xs where xs: "drop 2 v = xs" "list_all (re_class i_flag (letter_chars @ digit_chars)) xs"
    using re_Plus_class [OF s(2)] s(3) two(2) by auto
  have ln: "re_class i_flag (letter_chars @ digit_chars) x" if "x \<in> set (take 2 v)" for x
  proof -
    have "upper_char x \<in> set (map upper_char ''ln'')" using that two(1) by (metis image_eqI set_map)
    moreover have "set (map upper_char ''ln'') \<subseteq> set (map (re_canon i_flag) (letter_chars @ digit_chars))"
      by (auto simp: letter_chars_def)
    ultimately show ?thesis by (auto simp: re_class_def)
  qed
  have "set v = set (take 2 v) \<union> set (drop 2 v)" by (metis append_take_drop_id set_append)
  then show ?thesis using assms(2) ln xs by (auto simp: list_all_iff)
qed

lemma bolt11_plain:
  assumes "isLikelyBolt11Invoice v"
  shows "quotable v" "js_trim v = v"
proof -
  have "v \<noteq> []"
  proof
    assume "v = []"
    moreover have "\<not> isLikelyBolt11Invoice []" by code_simp
    ultimately show False using assms by simp
  qed
  then show "quotable v" using bolt11_chars [OF assms] alnum_plain by (auto simp: quotable_def)
  show "js_trim v = v"
    using bolt11_chars [OF assms] alnum_plain \<open>v \<noteq> []\<close> by (intro js_trim_id) auto
qed

end
