(* ===== verification/Walk_Flows.thy ===== *)
theory Walk_Flows
  imports Walk_Client
begin

text \<open>
  The dialogue of \<open>src/scripts/l402_walkthrough.mjs\<close> as programs over an explicit state: the
  lines still to be typed, what has been printed, the files and the remote side. A program
  ends with a value, with an exception, or \<open>Blocked\<close> on input that never comes. Printed are
  the lines that report data or an outcome and the numbered options; the fixed sentences
  of explanation are left out.

  Parameters: \<open>cf_url\<close> (the URL parser), the HTTP client \<open>req\<close> on a remote state of any
  type, and which paths can be written (\<open>cf_writable\<close>).
\<close>

section \<open>Programs\<close>

datatype 'a outcome = Value 'a | Thrown js_error | Blocked

record stored_file =
  f_text :: string
  f_mtime :: nat

record 'w cli =
  cl_lines :: "string list"
  cl_out :: "string list"
  cl_files :: "(string \<times> stored_file) list"
  cl_now :: string
  cl_ms :: nat
  cl_world :: 'w

record cli_config =
  cf_interactive :: bool
  cf_home :: string
  cf_cwd :: string
  cf_url :: url_api
  cf_writable :: "string \<Rightarrow> bool"

type_synonym ('w, 'a) prog = "'w cli \<Rightarrow> 'a outcome \<times> 'w cli"

definition give :: "'a \<Rightarrow> ('w, 'a) prog" where
  "give x s = (Value x, s)"

definition throw :: "string \<Rightarrow> ('w, 'a) prog" where
  "throw msg s = (Thrown (Error msg), s)"

definition and_then :: "('w, 'a) prog \<Rightarrow> ('a \<Rightarrow> ('w, 'b) prog) \<Rightarrow> ('w, 'b) prog" where
  "and_then p f s =
     (case p s of
        (Value x, s) \<Rightarrow> f x s
      | (Thrown e, s) \<Rightarrow> (Thrown e, s)
      | (Blocked, s) \<Rightarrow> (Blocked, s))"

definition lift_result :: "'a result \<Rightarrow> ('w, 'a) prog" where
  "lift_result r s = (case r of Inl e \<Rightarrow> (Thrown e, s) | Inr x \<Rightarrow> (Value x, s))"

definition say :: "string list \<Rightarrow> ('w, unit) prog" where
  "say texts s = (Value (), s\<lparr>cl_out := cl_out s @ texts\<rparr>)"

text \<open>\<open>new Date().toISOString()\<close>.\<close>

definition with_now :: "(string \<Rightarrow> ('w, 'a) prog) \<Rightarrow> ('w, 'a) prog" where
  "with_now f s = f (cl_now s) s"

section \<open>Printing\<close>

abbreviation ESC :: string where "ESC \<equiv> [CHR 0x1B]"
abbreviation ansi_bold :: string where "ansi_bold \<equiv> ESC @ ''[1m''"
abbreviation ansi_green :: string where "ansi_green \<equiv> ESC @ ''[32m''"
abbreviation ansi_yellow :: string where "ansi_yellow \<equiv> ESC @ ''[33m''"
abbreviation ansi_red :: string where "ansi_red \<equiv> ESC @ ''[31m''"
abbreviation ansi_cyan :: string where "ansi_cyan \<equiv> ESC @ ''[36m''"

definition style :: "cli_config \<Rightarrow> string \<Rightarrow> string \<Rightarrow> string" where
  "style cf text color = (if \<not> cf_interactive cf then text else color @ text @ ESC @ ''[0m'')"

definition heading :: "cli_config \<Rightarrow> string \<Rightarrow> string" where "heading cf text = style cf text ansi_bold"
definition subheading :: "cli_config \<Rightarrow> string \<Rightarrow> string" where "subheading cf text = style cf text ansi_cyan"
definition success :: "cli_config \<Rightarrow> string \<Rightarrow> string" where "success cf text = style cf text ansi_green"
definition warning :: "cli_config \<Rightarrow> string \<Rightarrow> string" where "warning cf text = style cf text ansi_yellow"
definition danger :: "cli_config \<Rightarrow> string \<Rightarrow> string" where "danger cf text = style cf text ansi_red"

definition printList :: "string list \<Rightarrow> ('w, unit) prog" where
  "printList items = say (map (\<lambda>i. ''- '' @ i) items)"

text \<open>A JSON value in a template literal; \<open>None\<close> is a missing property.\<close>

fun json_text :: "json \<Rightarrow> string" where
  "json_text JNull = ''null''"
| "json_text (JBool b) = (if b then ''true'' else ''false'')"
| "json_text (JNum x) = (case x of Finite r \<Rightarrow> number_text r | NonFinite \<Rightarrow> ''Infinity'')"
| "json_text (JStr s) = s"
| "json_text (JArr vs) = join '','' (map (\<lambda>v. if v = JNull then [] else json_text v) vs)"
| "json_text (JObj ps) = ''[object Object]''"

definition prop_text :: "string \<Rightarrow> json \<Rightarrow> string" where
  "prop_text k v = (case json_prop k v of None \<Rightarrow> ''undefined'' | Some x \<Rightarrow> json_text x)"

section \<open>Questions\<close>

text \<open>
  Lines are answered one by one; a refused answer is reported and the question is asked
  again. The result is the value (\<open>None\<close>: no more lines), the lines left and what was
  printed.
\<close>

fun ask_value ::
    "cli_config \<Rightarrow> string \<Rightarrow> (string \<Rightarrow> string) \<Rightarrow> (string \<Rightarrow> string option) \<Rightarrow> string list
     \<Rightarrow> string option \<times> string list \<times> string list" where
  "ask_value cf prompt value_of validate [] = (None, [], [prompt])"
| "ask_value cf prompt value_of validate (l # ls) =
     (let v = value_of l;
          again = (\<lambda>msg. case ask_value cf prompt value_of validate ls of
                          (r, ls, out) \<Rightarrow> (r, ls, prompt # danger cf msg # out))
      in if v = [] then again ''This value is required.''
         else case validate v of
           Some error \<Rightarrow> again error
         | None \<Rightarrow> (Some v, ls, [prompt]))"

definition run_question ::
    "(string list \<Rightarrow> 'a option \<times> string list \<times> string list) \<Rightarrow> ('w, 'a) prog" where
  "run_question q s =
     (case q (cl_lines s) of
        (r, ls, out) \<Rightarrow>
          ((case r of None \<Rightarrow> Blocked | Some v \<Rightarrow> Value v), s\<lparr>cl_lines := ls, cl_out := cl_out s @ out\<rparr>))"

definition promptInput ::
    "cli_config \<Rightarrow> string \<Rightarrow> string option \<Rightarrow> (string \<Rightarrow> string option) \<Rightarrow> ('w, string) prog" where
  "promptInput cf label defaultValue validate =
     and_then (say [[], heading cf label]) (\<lambda>_.
       let suffix = (case defaultValue of None \<Rightarrow> [] | Some d \<Rightarrow> '' ['' @ d @ '']'')
       in run_question (ask_value cf (''> '' @ label @ suffix @ '': '')
            (\<lambda>l. case defaultValue of Some d \<Rightarrow> if js_trim l = [] then d else js_trim l | None \<Rightarrow> js_trim l)
            validate))"

text \<open>
  Hidden input: in a terminal the characters of the line arrive one by one, with
  Control-C, Backspace and Enter treated specially.
\<close>

fun hidden_chars :: "string \<Rightarrow> string \<Rightarrow> string result" where
  "hidden_chars v [] = Inr v"
| "hidden_chars v (c # cs) =
     (if c = CHR 0x03 then Inl (Error ''Cancelled'')
      else if c = CHR 0x0D \<or> c = CHR 0x0A then Inr v
      else if c = CHR 0x7F then hidden_chars (butlast v) cs
      else hidden_chars (v @ [c]) cs)"

fun ask_secret ::
    "cli_config \<Rightarrow> string \<Rightarrow> (string \<Rightarrow> string option) \<Rightarrow> string list
     \<Rightarrow> string result option \<times> string list \<times> string list" where
  "ask_secret cf prompt validate [] = (None, [], [prompt])"
| "ask_secret cf prompt validate (l # ls) =
     (case (if cf_interactive cf then hidden_chars [] l else Inr l) of
        Inl e \<Rightarrow> (Some (Inl e), ls, [prompt])
      | Inr raw \<Rightarrow>
          (let v = js_trim raw;
               again = (\<lambda>msg. case ask_secret cf prompt validate ls of
                               (r, ls, out) \<Rightarrow> (r, ls, prompt # danger cf msg # out))
           in if v = [] then again ''This value is required.''
              else case validate v of
                Some error \<Rightarrow> again error
              | None \<Rightarrow> (Some (Inr v), ls, [prompt])))"

definition promptSecret :: "cli_config \<Rightarrow> string \<Rightarrow> (string \<Rightarrow> string option) \<Rightarrow> ('w, string) prog" where
  "promptSecret cf label validate =
     and_then (say [[], heading cf label]) (\<lambda>_.
     and_then (run_question (ask_secret cf (''> '' @ label @ '': '') validate)) lift_result)"

record 'a choice =
  ch_label :: string
  ch_recommended :: bool
  ch_value :: 'a

abbreviation opt :: "string \<Rightarrow> 'a \<Rightarrow> 'a choice" where
  "opt label v \<equiv> \<lparr>ch_label = label, ch_recommended = False, ch_value = v\<rparr>"

abbreviation best :: "string \<Rightarrow> 'a \<Rightarrow> 'a choice" where
  "best label v \<equiv> \<lparr>ch_label = label, ch_recommended = True, ch_value = v\<rparr>"

fun ask_choice :: "cli_config \<Rightarrow> 'a choice list \<Rightarrow> string list \<Rightarrow> 'a option \<times> string list \<times> string list" where
  "ask_choice cf options [] = (None, [], [''> Select an option: ''])"
| "ask_choice cf options (l # ls) =
     (let again = (case ask_choice cf options ls of
                     (r, ls, out) \<Rightarrow>
                       (r, ls, ''> Select an option: '' #
                          danger cf (''Please enter a number between 1 and '' @ nat_to_string (length options) @ ''.'') # out))
      in case parseInt10 (js_trim l) of
           None \<Rightarrow> again
         | Some n \<Rightarrow>
             if 1 \<le> n \<and> n \<le> int (length options)
             then (Some (ch_value (options ! nat (n - 1))), ls, [''> Select an option: ''])
             else again)"

definition option_lines :: "cli_config \<Rightarrow> 'a choice list \<Rightarrow> string list" where
  "option_lines cf options =
     map (\<lambda>(i, c). nat_to_string (i + 1) @ ''. '' @ ch_label c @
            (if ch_recommended c then '' '' @ style cf ''(Recommended)'' ansi_green else []))
       (enumerate 0 options)"

definition promptChoice :: "cli_config \<Rightarrow> string \<Rightarrow> 'a choice list \<Rightarrow> ('w, 'a) prog" where
  "promptChoice cf label options =
     and_then (say ([[], heading cf label] @ option_lines cf options)) (\<lambda>_.
       run_question (ask_choice cf options))"

definition promptEnterToContinue :: "('w, unit) prog" where
  "promptEnterToContinue =
     and_then (say [[]]) (\<lambda>_. run_question (\<lambda>ls. case ls of [] \<Rightarrow> (None, [], []) | _ # ls \<Rightarrow> (Some (), ls, [])))"

section \<open>Paths\<close>

text \<open>\<open>node:path\<close> on absolute POSIX paths, by segments.\<close>

fun split_on :: "char \<Rightarrow> string \<Rightarrow> string list" where
  "split_on d [] = [[]]"
| "split_on d (c # s) =
     (if c = d then [] # split_on d s
      else case split_on d s of w # ws \<Rightarrow> (c # w) # ws | [] \<Rightarrow> [[c]])"

fun norm_segments :: "string list \<Rightarrow> string list \<Rightarrow> string list" where
  "norm_segments acc [] = acc"
| "norm_segments acc (p # ps) =
     (if p = [] \<or> p = ''.'' then norm_segments acc ps
      else if p = ''..'' then norm_segments (butlast acc) ps
      else norm_segments (acc @ [p]) ps)"

definition path_segments :: "string \<Rightarrow> string list" where
  "path_segments p = norm_segments [] (split_on (CHR ''/'') p)"

definition path_join :: "string list \<Rightarrow> string" where
  "path_join parts = ''/'' @ join ''/'' (path_segments (join ''/'' parts))"

definition path_resolve :: "string \<Rightarrow> string \<Rightarrow> string" where
  "path_resolve cwd p = (if starts_with ''/'' p then path_join [p] else path_join [cwd, p])"

fun relative_segments :: "string list \<Rightarrow> string list \<Rightarrow> string list" where
  "relative_segments (a # as) (b # bs) = (if a = b then relative_segments as bs else map (\<lambda>_. ''..'') (a # as) @ b # bs)"
| "relative_segments as bs = map (\<lambda>_. ''..'') as @ bs"

definition path_relative :: "string \<Rightarrow> string \<Rightarrow> string" where
  "path_relative a b = join ''/'' (relative_segments (path_segments a) (path_segments b))"

text \<open>\<open>path.basename(path.dirname(p))\<close>: the directory a file lies in.\<close>

definition parent_name :: "string \<Rightarrow> string" where
  "parent_name p = (case rev (filter (\<lambda>w. w \<noteq> []) (split_on (CHR ''/'') p)) of
     _ # d # _ \<Rightarrow> d | [_] \<Rightarrow> (if starts_with ''/'' p then [] else ''.'') | [] \<Rightarrow> [])"

definition formatPathForDisplay :: "cli_config \<Rightarrow> string \<Rightarrow> string" where
  "formatPathForDisplay cf filePath =
     (if starts_with (cf_home cf @ ''/'') filePath then ''~/'' @ path_relative (cf_home cf) filePath else filePath)"

definition DEFAULT_CHALLENGE_DIR :: "cli_config \<Rightarrow> string" where
  "DEFAULT_CHALLENGE_DIR cf = path_join [cf_home cf, ''.l402-walkthrough'', ''challenges'']"

definition suggestedChallengeFilePath :: "cli_config \<Rightarrow> string \<Rightarrow> challenge_bundle \<Rightarrow> string" where
  "suggestedChallengeFilePath cf isoText b =
     (let skill = sanitizeFileComponent (bu_skillId b);
          sha = sanitizeFileComponent (take 12 (case bu_contentSha256 b of Some h \<Rightarrow> if h = [] then ''challenge'' else h
                                                | None \<Rightarrow> ''challenge''))
      in path_join [DEFAULT_CHALLENGE_DIR cf, skill @ ''-'' @ sha @ ''-'' @ timestampForFile isoText @ ''.json''])"

section \<open>Files\<close>

definition readFile :: "string \<Rightarrow> ('w, string) prog" where
  "readFile path s =
     (case map_of (cl_files s) path of
        None \<Rightarrow> (Thrown (Error (''ENOENT: no such file or directory, open '' @ path)), s)
      | Some f \<Rightarrow> (Value (f_text f), s))"

definition writeFile :: "cli_config \<Rightarrow> string \<Rightarrow> string \<Rightarrow> ('w, unit) prog" where
  "writeFile cf path text s =
     (if \<not> cf_writable cf path then (Thrown (Error (''EACCES: permission denied, open '' @ path)), s)
      else (Value (), s\<lparr>cl_files := AList.update path \<lparr>f_text = text, f_mtime = cl_ms s\<rparr> (cl_files s)\<rparr>))"

text \<open>The files directly below a directory, by the rest of their path.\<close>

definition entries_of :: "string \<Rightarrow> (string \<times> stored_file) list \<Rightarrow> (string \<times> stored_file) list" where
  "entries_of dir files =
     filter (\<lambda>(p, f). starts_with (dir @ ''/'') p \<and> CHR ''/'' \<notin> set (drop (length dir + 1) p)) files"

definition discoverSavedChallengeFiles :: "cli_config \<Rightarrow> ('w, string list) prog" where
  "discoverSavedChallengeFiles cf s =
     (Value (map fst (sort_key (\<lambda>(p, f). - int (f_mtime f))
        (filter (\<lambda>(p, f). ends_with ''.json'' p) (entries_of (DEFAULT_CHALLENGE_DIR cf) (cl_files s))))), s)"

section \<open>The remote side\<close>

record net_request =
  nr_url :: string
  nr_method :: string
  nr_headers :: "(string \<times> string) list"
  nr_body :: "string option"

record net_response =
  ns_status :: nat
  ns_headers :: "(string \<times> string) list"
  ns_body :: string

type_synonym 'w http_client = "net_request \<Rightarrow> 'w \<Rightarrow> net_response result \<times> 'w"

definition ns_json :: "net_response \<Rightarrow> json" where
  "ns_json r = parseJson (ns_body r)"

definition requestRaw ::
    "cli_config \<Rightarrow> 'w http_client \<Rightarrow> string \<Rightarrow> string \<Rightarrow> (string \<times> string) list \<Rightarrow> string option
     \<Rightarrow> ('w, net_response) prog" where
  "requestRaw cf req url verb headers body =
     and_then (lift_result (new_URL (cf_url cf) url)) (\<lambda>u s.
       case req \<lparr>nr_url = url_href u, nr_method = verb, nr_headers = headers, nr_body = body\<rparr> (cl_world s) of
         (Inl e, w) \<Rightarrow> (Thrown e, s\<lparr>cl_world := w\<rparr>)
       | (Inr r, w) \<Rightarrow> (Value r, s\<lparr>cl_world := w\<rparr>))"

definition fetchManifest :: "cli_config \<Rightarrow> 'w http_client \<Rightarrow> string \<Rightarrow> string \<Rightarrow> ('w, net_response) prog" where
  "fetchManifest cf req baseUrl skillId =
     requestRaw cf req (trimTrailingSlash baseUrl @ ''/.well-known/l402/skills/'' @ skillId) ''GET'' [] None"

definition fetchChallenge :: "cli_config \<Rightarrow> 'w http_client \<Rightarrow> string \<Rightarrow> string \<Rightarrow> ('w, net_response) prog" where
  "fetchChallenge cf req baseUrl paidUrl = requestRaw cf req (trimTrailingSlash baseUrl @ paidUrl) ''GET'' [] None"

definition fetchAuthorizedContent ::
    "cli_config \<Rightarrow> 'w http_client \<Rightarrow> string \<Rightarrow> string \<Rightarrow> string \<Rightarrow> ('w, net_response) prog" where
  "fetchAuthorizedContent cf req baseUrl paidUrl authorization =
     requestRaw cf req (trimTrailingSlash baseUrl @ paidUrl) ''GET'' [(''Authorization'', authorization)] None"

definition publishSkill :: "cli_config \<Rightarrow> 'w http_client \<Rightarrow> string \<Rightarrow> string \<Rightarrow> json \<Rightarrow> ('w, net_response) prog" where
  "publishSkill cf req baseUrl adminToken payload =
     requestRaw cf req (trimTrailingSlash baseUrl @ ''/api/admin/publish-skill'') ''POST''
       [(''Authorization'', ''Bearer '' @ adminToken), (''Content-Type'', ''application/json'')]
       (Some (JSON_stringify payload))"

definition header_of :: "string \<Rightarrow> net_response \<Rightarrow> header_value" where
  "header_of name r = (case map_of (ns_headers r) name of None \<Rightarrow> Undefined | Some v \<Rightarrow> One v)"

definition header_or_missing :: "string \<Rightarrow> net_response \<Rightarrow> string" where
  "header_or_missing name r = (case map_of (ns_headers r) name of None \<Rightarrow> ''<missing>'' | Some v \<Rightarrow> v)"

definition body_or_empty :: "net_response \<Rightarrow> string" where
  "body_or_empty r = (if ns_body r = [] then ''<empty>'' else ns_body r)"

section \<open>Challenges in the dialogue\<close>

definition summarizeManifest :: "cli_config \<Rightarrow> json \<Rightarrow> ('w, unit) prog" where
  "summarizeManifest cf manifest =
     and_then (say [[], subheading cf ''Live manifest'']) (\<lambda>_. printList
       [''skill_id: '' @ prop_text ''skill_id'' manifest, ''title: '' @ prop_text ''title'' manifest,
        ''price_sats: '' @ prop_text ''price_sats'' manifest,
        ''content_sha256: '' @ prop_text ''content_sha256'' manifest,
        ''purchase_model: '' @ prop_text ''purchase_model'' manifest,
        ''paid_url: '' @ prop_text ''paid_url'' manifest])"

definition summarizeChallenge :: "cli_config \<Rightarrow> net_response \<Rightarrow> parsed_challenge \<Rightarrow> ('w, unit) prog" where
  "summarizeChallenge cf response challenge =
     and_then (say [[], subheading cf ''Payment challenge'']) (\<lambda>_. printList
       [''HTTP status: '' @ nat_to_string (ns_status response), ''scheme: '' @ pc_scheme challenge,
        ''invoice: '' @ pc_invoice challenge,
        ''macaroon length: '' @ nat_to_string (length (pc_macaroon challenge)) @ '' characters''])"

definition previewContent :: "string \<Rightarrow> string" where
  "previewContent body = join [CHR 0x0A] (take MAX_PREVIEW_LINES (split_on (CHR 0x0A) body))"

definition printChallengeBundle :: "cli_config \<Rightarrow> challenge_bundle \<Rightarrow> string \<Rightarrow> ('w, unit) prog" where
  "printChallengeBundle cf b headingText =
     and_then (say [[], subheading cf headingText]) (\<lambda>_.
     and_then (printList
       ([''base URL: '' @ bu_baseUrl b, ''skill ID: '' @ bu_skillId b, ''paid URL: '' @ bu_baseUrl b @ bu_paidUrl b]
        @ (case bu_contentSha256 b of Some h \<Rightarrow> if h = [] then [] else [''content_sha256: '' @ h] | None \<Rightarrow> [])
        @ (case bu_priceSats b of Some p \<Rightarrow> [''price_sats: '' @ json_text (JNum p)] | None \<Rightarrow> [])
        @ (case bu_sourceFile b of Some f \<Rightarrow> if f = [] then [] else [''challenge file: '' @ formatPathForDisplay cf f]
           | None \<Rightarrow> []))) (\<lambda>_.
     say [''Invoice: '' @ bu_invoice b, ''Macaroon: '' @ bu_macaroon b]))"

definition saveChallengeBundle :: "cli_config \<Rightarrow> challenge_bundle \<Rightarrow> string \<Rightarrow> ('w, unit) prog" where
  "saveChallengeBundle cf b outputPath = with_now (\<lambda>now. writeFile cf outputPath (challenge_file_text now b))"

definition accept_all :: "string \<Rightarrow> string option" where
  "accept_all v = None"

definition offerChallengeSave :: "cli_config \<Rightarrow> challenge_bundle \<Rightarrow> ('w, unit) prog" where
  "offerChallengeSave cf b =
     and_then (promptChoice cf ''What do you want to do with this challenge?''
       [best ''Save challenge to a file'' True, opt ''Return to the main menu'' False]) (\<lambda>save.
     if \<not> save then give ()
     else with_now (\<lambda>now.
       and_then (promptInput cf ''Challenge file path'' (Some (suggestedChallengeFilePath cf now b)) accept_all)
         (\<lambda>outputPath.
       and_then (saveChallengeBundle cf b outputPath) (\<lambda>_.
       say [[], success cf (''Saved challenge file to '' @ outputPath)]))))"

definition pauseChallengeForLater :: "cli_config \<Rightarrow> challenge_bundle \<Rightarrow> string \<Rightarrow> ('w, unit) prog" where
  "pauseChallengeForLater cf b message =
     and_then (say [[], success cf message]) (\<lambda>_.
     and_then (printChallengeBundle cf b ''Keep these challenge details together'') (\<lambda>_.
     offerChallengeSave cf b))"

datatype file_choice = Saved string | Custom | Back

definition loadSavedChallengeBundle :: "cli_config \<Rightarrow> json \<Rightarrow> ('w, challenge_bundle option) prog" where
  "loadSavedChallengeBundle cf defaults =
     and_then (discoverSavedChallengeFiles cf) (\<lambda>savedFiles.
     and_then (if savedFiles = [] then give Custom
               else promptChoice cf ''Which saved challenge do you want to load?''
                 (map (\<lambda>(i, f). \<lparr>ch_label = formatPathForDisplay cf f, ch_recommended = (i = 0), ch_value = Saved f\<rparr>)
                    (enumerate 0 (take 6 savedFiles))
                  @ [opt ''Enter another challenge file path'' Custom, opt ''Return to the previous menu'' Back]))
       (\<lambda>fileChoice.
     if fileChoice = Back then give None
     else
       and_then (case fileChoice of Saved f \<Rightarrow> give f
                 | _ \<Rightarrow> promptInput cf ''Challenge file path'' None accept_all) (\<lambda>filePath.
       and_then (readFile filePath) (\<lambda>raw.
       and_then (lift_result (bundle_of_file (cf_url cf) defaults filePath raw)) (\<lambda>b.
       and_then (say [[], success cf (''Loaded challenge file '' @ formatPathForDisplay cf filePath)]) (\<lambda>_.
       give (Some b)))))))"

definition validate_http :: "cli_config \<Rightarrow> string \<Rightarrow> string option" where
  "validate_http cf v =
     (case cf_url cf v of
        None \<Rightarrow> Some ''Please enter a valid URL.''
      | Some u \<Rightarrow> if url_protocol u = ''http:'' \<or> url_protocol u = ''https:'' then None
                  else Some ''Use an http or https URL.'')"

definition validate_url :: "cli_config \<Rightarrow> string \<Rightarrow> string option" where
  "validate_url cf v = (if cf_url cf v = None then Some ''Please enter a valid URL.'' else None)"

definition validate_paid :: "cli_config \<Rightarrow> string \<Rightarrow> string \<Rightarrow> string option" where
  "validate_paid cf baseUrl v =
     (case normalizePaidUrl (cf_url cf) v baseUrl of Inr _ \<Rightarrow> None | Inl (Error msg) \<Rightarrow> Some msg)"

definition validate_invoice :: "string \<Rightarrow> string option" where
  "validate_invoice v =
     (if isLikelyBolt11Invoice v then None else Some ''Invoice must be a BOLT11 invoice beginning with ln.'')"

definition opt_json :: "json option \<Rightarrow> json" where
  "opt_json x = (case x of None \<Rightarrow> JNull | Some v \<Rightarrow> v)"

definition promptManualChallengeBundle :: "cli_config \<Rightarrow> json \<Rightarrow> ('w, challenge_bundle) prog" where
  "promptManualChallengeBundle cf defaults =
     and_then (say [[], subheading cf ''Paste earlier challenge details'']) (\<lambda>_.
     and_then (promptInput cf ''Base URL''
       (Some (case json_string ''baseUrl'' defaults of Some u \<Rightarrow> u | None \<Rightarrow> DEFAULT_BASE_URL)) (validate_http cf)) (\<lambda>typedBase.
     let baseUrl = trimTrailingSlash typedBase in
     and_then (promptInput cf ''Paid URL'' (json_string ''paidUrl'' defaults) (validate_paid cf baseUrl)) (\<lambda>typedPaid.
     and_then (lift_result (normalizePaidUrl (cf_url cf) typedPaid baseUrl)) (\<lambda>paidUrl.
     let (urlSkillId, urlSha) = extractChallengeMetadataFromPaidUrl paidUrl;
         known = (if or_empty urlSkillId \<noteq> [] then or_empty urlSkillId else or_empty (json_string ''skillId'' defaults)) in
     and_then (if known \<noteq> [] then give known else promptInput cf ''Skill ID'' (Some DEFAULT_SKILL_ID) accept_all) (\<lambda>skillId.
     and_then (promptInput cf ''Invoice'' None validate_invoice) (\<lambda>invoice.
     and_then (promptInput cf ''Macaroon'' None accept_all) (\<lambda>macaroon.
     lift_result (normalizeChallengeBundle (cf_url cf)
       (JObj [(''baseUrl'', JStr baseUrl), (''skillId'', JStr skillId),
              (''title'', opt_json (json_prop ''title'' defaults)),
              (''priceSats'', opt_json (json_prop ''priceSats'' defaults)),
              (''contentSha256'', (case json_prop ''contentSha256'' defaults of
                  None \<Rightarrow> opt_str urlSha | Some JNull \<Rightarrow> opt_str urlSha | Some v \<Rightarrow> v)),
              (''paidUrl'', JStr paidUrl), (''invoice'', JStr invoice), (''macaroon'', JStr macaroon),
              (''scheme'', JStr ''L402'')])
       defaults))))))))"

section \<open>Workflows\<close>

datatype unlock_action = EnterPreimage | SaveChallenge | BackToMenu
datatype paid_action = SaveContent | PrintContent | DoneWithContent

definition validate_preimage :: "string \<Rightarrow> string option" where
  "validate_preimage v = (if isHex64 v then None else Some ''The preimage must be a 64-character hex string.'')"

definition find_L402 :: "net_response \<Rightarrow> parsed_challenge option" where
  "find_L402 r = List.find (\<lambda>c. pc_scheme c = ''L402'') (parseChallenges (header_of ''www-authenticate'' r))"

definition report_refusal :: "cli_config \<Rightarrow> challenge_bundle \<Rightarrow> net_response \<Rightarrow> ('w, unit) prog" where
  "report_refusal cf b r =
     and_then (say [danger cf ''The authorized request did not succeed.'', body_or_empty r]) (\<lambda>_.
     if ns_status r = 402 then
       (case find_L402 r of
          None \<Rightarrow> give ()
        | Some newChallenge \<Rightarrow>
            and_then (say [[], warning cf ''The server returned a new payment challenge.'']) (\<lambda>_.
            printList [''Submitted invoice: '' @ bu_invoice b, ''Returned invoice: '' @ pc_invoice newChallenge]))
     else give ())"

definition deliver_content :: "cli_config \<Rightarrow> challenge_bundle \<Rightarrow> net_response \<Rightarrow> ('w, unit) prog" where
  "deliver_content cf b r =
     and_then (say [[], success cf ''Paid content unlocked successfully.'', previewContent (ns_body r)]) (\<lambda>_.
     and_then (promptChoice cf ''What do you want to do with the paid markdown?''
       [best ''Save it to a file'' SaveContent, opt ''Print the full markdown in the terminal'' PrintContent,
        opt ''Return to the main menu'' DoneWithContent]) (\<lambda>afterSuccess.
     case afterSuccess of
       PrintContent \<Rightarrow> say [[], ns_body r]
     | SaveContent \<Rightarrow>
         and_then (promptInput cf ''Output file path'' (Some (path_resolve (cf_cwd cf) (bu_skillId b @ ''.md''))) accept_all)
           (\<lambda>outputPath.
         and_then (writeFile cf outputPath (ns_body r)) (\<lambda>_.
         say [[], success cf (''Saved paid markdown to '' @ outputPath)]))
     | DoneWithContent \<Rightarrow> give ()))"

definition unlockPaidContent :: "cli_config \<Rightarrow> 'w http_client \<Rightarrow> challenge_bundle \<Rightarrow> ('w, unit) prog" where
  "unlockPaidContent cf req b =
     and_then (printChallengeBundle cf b ''Challenge you are using'') (\<lambda>_.
     and_then (promptChoice cf ''What do you want to do next?''
       (best ''Enter the payment preimage now'' EnterPreimage #
        (if or_empty (bu_sourceFile b) \<noteq> [] then [opt ''Return to the main menu'' BackToMenu]
         else [opt ''Save this challenge for later'' SaveChallenge,
               opt ''Return to the main menu without saving'' BackToMenu]))) (\<lambda>nextAction.
     case nextAction of
       SaveChallenge \<Rightarrow> offerChallengeSave cf b
     | BackToMenu \<Rightarrow> give ()
     | EnterPreimage \<Rightarrow>
         and_then (promptSecret cf ''Payment preimage'' validate_preimage) (\<lambda>typed.
         let preimage = toLowerCase typed;
             authorization = bu_scheme b @ '' '' @ bu_macaroon b @ '':'' @ preimage in
         and_then (fetchAuthorizedContent cf req (bu_baseUrl b) (bu_paidUrl b) authorization) (\<lambda>r.
         and_then (say [[], subheading cf ''Authorized content request'']) (\<lambda>_.
         and_then (printList
           [''HTTP status: '' @ nat_to_string (ns_status r), ''content-type: '' @ header_or_missing ''content-type'' r,
            ''etag: '' @ header_or_missing ''etag'' r, ''x-skill-version: '' @ header_or_missing ''x-skill-version'' r]) (\<lambda>_.
         if ns_status r \<noteq> 200 then report_refusal cf b r else deliver_content cf b r))))))"

datatype resume_source = FromFile | FromKeyboard | NoSource

definition resumeChallengeFlow :: "cli_config \<Rightarrow> 'w http_client \<Rightarrow> json \<Rightarrow> ('w, unit) prog" where
  "resumeChallengeFlow cf req defaults =
     and_then (say [[], subheading cf ''Resume a saved invoice or prior challenge'']) (\<lambda>_.
     and_then (promptChoice cf ''Where do you want to load the challenge from?''
       [best ''Load a saved challenge file'' FromFile, opt ''Paste the earlier challenge details manually'' FromKeyboard,
        opt ''Return to the main menu'' NoSource]) (\<lambda>source.
     case source of
       NoSource \<Rightarrow> give ()
     | FromFile \<Rightarrow>
         and_then (loadSavedChallengeBundle cf defaults) (\<lambda>bundle.
         case bundle of None \<Rightarrow> give () | Some b \<Rightarrow> unlockPaidContent cf req b)
     | FromKeyboard \<Rightarrow> and_then (promptManualChallengeBundle cf defaults) (unlockPaidContent cf req)))"

datatype access_step = RequestChallenge | ResumeEarlier | LeaveAccess
datatype payment_method = PayLncli | PayWallet | SaveLater | OperatorShortcut

text \<open>The object \<open>accessFlow\<close> hands to \<open>normalizeChallengeBundle\<close>: absent properties are left out.\<close>

definition present :: "string \<Rightarrow> json option \<Rightarrow> (string \<times> json) list" where
  "present k x = (case x of None \<Rightarrow> [] | Some v \<Rightarrow> [(k, v)])"

definition manifest_fields :: "string \<Rightarrow> string \<Rightarrow> json \<Rightarrow> (string \<times> json) list" where
  "manifest_fields baseUrl skillId manifest =
     [(''baseUrl'', JStr baseUrl), (''skillId'', JStr skillId)]
     @ present ''title'' (json_prop ''title'' manifest) @ present ''priceSats'' (json_prop ''price_sats'' manifest)
     @ present ''contentSha256'' (json_prop ''content_sha256'' manifest)
     @ present ''paidUrl'' (json_prop ''paid_url'' manifest)"

definition challenge_step :: "cli_config \<Rightarrow> 'w http_client \<Rightarrow> string \<Rightarrow> string \<Rightarrow> json \<Rightarrow> ('w, unit) prog" where
  "challenge_step cf req baseUrl skillId manifest =
     and_then (fetchChallenge cf req baseUrl (prop_text ''paid_url'' manifest)) (\<lambda>r.
     and_then (say [[], subheading cf ''Protected route response'']) (\<lambda>_.
     and_then (printList [''HTTP status: '' @ nat_to_string (ns_status r), ''Body: '' @ body_or_empty r]) (\<lambda>_.
     case find_L402 r of
       None \<Rightarrow> say [danger cf ''The protected route did not return the expected L402 challenge. Check the response above.'']
     | Some c \<Rightarrow>
         if ns_status r \<noteq> 402
         then say [danger cf ''The protected route did not return the expected L402 challenge. Check the response above.'']
         else
           and_then (summarizeChallenge cf r c) (\<lambda>_. with_now (\<lambda>now.
           and_then (lift_result (normalizeChallengeBundle (cf_url cf)
             (JObj (manifest_fields baseUrl skillId manifest
                    @ [(''invoice'', JStr (pc_invoice c)), (''macaroon'', JStr (pc_macaroon c)),
                       (''scheme'', JStr (pc_scheme c)), (''capturedAt'', JStr now)])) (JObj []))) (\<lambda>b.
           and_then (promptChoice cf ''How do you want to get the payment preimage?''
             [best ''Pay with lncli and paste the preimage'' PayLncli,
              opt ''Pay with another wallet that exposes the preimage'' PayWallet,
              opt ''Save this challenge for later'' SaveLater,
              opt ''Show operator-only QA shortcut instructions'' OperatorShortcut]) (\<lambda>how.
           if how = SaveLater then pauseChallengeForLater cf b ''Challenge captured successfully.''
           else
             and_then (say (case how of
                 PayLncli \<Rightarrow> [''PAYMENT_JSON=$(lncli payinvoice --force --json '' @ [QUOTE] @ pc_invoice c @ [QUOTE] @ '')'']
               | PayWallet \<Rightarrow> [''Invoice to pay: '' @ pc_invoice c]
               | _ \<Rightarrow> [])) (\<lambda>_.
             unlockPaidContent cf req b))))))))"

definition accessFlow :: "cli_config \<Rightarrow> 'w http_client \<Rightarrow> string \<Rightarrow> string \<Rightarrow> ('w, unit) prog" where
  "accessFlow cf req baseUrl skillId =
     and_then (say [[], subheading cf ''Access a live paid skill'']) (\<lambda>_.
     and_then (promptInput cf ''Base URL'' (Some baseUrl) (validate_http cf)) (\<lambda>typedBase.
     let resolvedBaseUrl = trimTrailingSlash typedBase in
     and_then (promptChoice cf ''Which skill do you want to access?''
       [best (''Use '' @ DEFAULT_SKILL_ID) (Some DEFAULT_SKILL_ID), opt ''Enter another skill ID'' None]) (\<lambda>skillChoice.
     and_then (case skillChoice of Some i \<Rightarrow> give i | None \<Rightarrow> promptInput cf ''Skill ID'' (Some skillId) accept_all)
       (\<lambda>resolvedSkillId.
     and_then (fetchManifest cf req resolvedBaseUrl resolvedSkillId) (\<lambda>r.
     if ns_status r \<noteq> 200 \<or> \<not> json_truthy (ns_json r) then
       and_then (say [[], danger cf ''Unable to fetch the public manifest.'']) (\<lambda>_.
       printList [''HTTP status: '' @ nat_to_string (ns_status r), ''Response body: '' @ body_or_empty r])
     else
       let manifest = ns_json r in
       and_then (summarizeManifest cf manifest) (\<lambda>_.
       and_then (promptChoice cf ''What do you want to do next?''
         [best ''Request the payment challenge'' RequestChallenge,
          opt ''Resume a previous invoice or challenge for this skill'' ResumeEarlier,
          opt ''Return to the main menu'' LeaveAccess]) (\<lambda>nextStep.
       case nextStep of
         LeaveAccess \<Rightarrow> give ()
       | ResumeEarlier \<Rightarrow> resumeChallengeFlow cf req (JObj (manifest_fields resolvedBaseUrl resolvedSkillId manifest))
       | RequestChallenge \<Rightarrow> challenge_step cf req resolvedBaseUrl resolvedSkillId manifest)))))))"

section \<open>Publishing and inspecting\<close>

text \<open>The text before the first occurrence of a mark, which is where a lazy pattern stops.\<close>

fun before_mark :: "string \<Rightarrow> string \<Rightarrow> string option" where
  "before_mark mark [] = (if mark = [] then Some [] else None)"
| "before_mark mark (c # s) =
     (if starts_with mark (c # s) then Some [] else map_option ((#) c) (before_mark mark s))"

definition frontmatter_re :: regex where
  "frontmatter_re =
     Seq [Bol, Group 1 (Plus (AnyOf (upper_chars @ letter_chars @ digit_chars @ ''_-''))), Chr (CHR '':''),
          re_star spaces, Group 2 (Plus re_dot), Eol]"

definition add_frontmatter :: "(string \<times> string) list \<Rightarrow> string \<Rightarrow> (string \<times> string) list" where
  "add_frontmatter fm line =
     (case re_exec no_flags frontmatter_re line of
        None \<Rightarrow> fm
      | Some kv \<Rightarrow> AList.update (re_cap kv 1) (js_trim (re_cap kv 2)) fm)"

definition parseFrontmatter :: "string \<Rightarrow> (string \<times> string) list" where
  "parseFrontmatter content =
     (if \<not> starts_with (''---'' @ [CHR 0x0A]) content then []
      else case before_mark (CHR 0x0A # ''---'') (drop 4 content) of
        None \<Rightarrow> []
      | Some body \<Rightarrow> foldl add_frontmatter [] (split_on (CHR 0x0A) body))"

definition firstMarkdownHeading :: "string \<Rightarrow> string" where
  "firstMarkdownHeading content =
     (case re_exec m_flag (Seq [Bol, Chr (CHR ''#''), Plus spaces, Group 1 (Plus re_dot), Eol]) content of
        None \<Rightarrow> []
      | Some m \<Rightarrow> js_trim (re_cap m 1))"

text \<open>\<open>sort()\<close> of strings: by code units.\<close>

fun text_le :: "string \<Rightarrow> string \<Rightarrow> bool" where
  "text_le [] t \<longleftrightarrow> True"
| "text_le (c # s) [] \<longleftrightarrow> False"
| "text_le (c # s) (d # t) \<longleftrightarrow> (if c = d then text_le s t else (of_char c :: nat) < of_char d)"

fun text_insert :: "string \<Rightarrow> string list \<Rightarrow> string list" where
  "text_insert x [] = [x]"
| "text_insert x (y # ys) = (if text_le x y then x # y # ys else y # text_insert x ys)"

definition discoverSkillFiles :: "string \<Rightarrow> ('w, string list) prog" where
  "discoverSkillFiles repoRoot s =
     (let skillsDir = path_join [repoRoot, ''skills''] @ ''/'';
          is_skill = (\<lambda>p. starts_with skillsDir p \<and> ends_with ''/SKILL.md'' p \<and>
                        CHR ''/'' \<notin> set (take (length p - length skillsDir - 9) (drop (length skillsDir) p)) \<and>
                        length skillsDir + 9 < length p)
      in (Value (foldr text_insert (filter is_skill (map fst (cl_files s))) []), s))"

datatype markdown_source = MarkdownFile string | CustomFile | Paste

definition chooseMarkdownSource :: "cli_config \<Rightarrow> string \<Rightarrow> ('w, markdown_source) prog" where
  "chooseMarkdownSource cf repoRoot =
     and_then (discoverSkillFiles repoRoot) (\<lambda>discovered.
     promptChoice cf ''Where should the markdown come from?''
       (map (\<lambda>f. \<lparr>ch_label = ''Use '' @ path_relative repoRoot f,
                  ch_recommended = ends_with (DEFAULT_SKILL_ID @ ''/SKILL.md'') f, ch_value = MarkdownFile f\<rparr>)
          (take 6 discovered)
        @ [opt ''Enter another markdown file path'' CustomFile, opt ''Paste markdown directly'' Paste]))"

fun pasted_lines :: "string list \<Rightarrow> string list option \<times> string list \<times> string list" where
  "pasted_lines [] = (None, [], [])"
| "pasted_lines (l # ls) =
     (if l = ''END'' then (Some [], ls, [])
      else case pasted_lines ls of (r, rest, out) \<Rightarrow> (map_option ((#) l) r, rest, out))"

definition readPastedMarkdown :: "cli_config \<Rightarrow> ('w, string) prog" where
  "readPastedMarkdown cf =
     and_then (say [[], heading cf ''Paste markdown content'']) (\<lambda>_.
     and_then (run_question pasted_lines) (\<lambda>lines. give (join [CHR 0x0A] lines)))"

definition validate_price :: "string \<Rightarrow> string option" where
  "validate_price v =
     (if \<not> isPositiveIntegerString v then Some ''Enter a positive integer.''
      else case parseInt10 v of
        None \<Rightarrow> None
      | Some parsed \<Rightarrow> if parsed < 1 \<or> parsed > 100000 then Some ''The current configured range is 1 to 100000 sats.'' else None)"

text \<open>\<open>a || b\<close> on an optional string.\<close>

definition or_else :: "string option \<Rightarrow> string \<Rightarrow> string" where
  "or_else x d = (case x of None \<Rightarrow> d | Some v \<Rightarrow> if v = [] then d else v)"

definition publish_payload :: "string \<Rightarrow> string \<Rightarrow> string \<Rightarrow> int \<Rightarrow> string \<Rightarrow> json" where
  "publish_payload skillId title summary priceSats content =
     JObj [(''skillId'', JStr skillId), (''title'', JStr title), (''summary'', JStr summary),
           (''priceSats'', JNum (Finite (of_int priceSats))), (''content'', JStr content)]"

text \<open>What a markdown file says about itself, shown when it says anything.\<close>

definition markdown_hints :: "(string \<times> string) list \<Rightarrow> string \<Rightarrow> string list" where
  "markdown_hints fm titleHint =
     (let shown = (\<lambda>k. case map_of fm k of None \<Rightarrow> ''<missing>'' | Some v \<Rightarrow> v) in
      if or_else (map_of fm ''name'') [] \<noteq> [] \<or> or_else (map_of fm ''description'') [] \<noteq> [] \<or> titleHint \<noteq> []
      then [''frontmatter name: '' @ shown ''name'', ''frontmatter description: '' @ shown ''description'',
            ''first heading: '' @ (if titleHint \<noteq> [] then titleHint else ''<missing>'')]
      else [])"

text \<open>The file the markdown comes from (empty: pasted) and its text.\<close>

definition read_markdown :: "cli_config \<Rightarrow> string \<Rightarrow> ('w, string \<times> string) prog" where
  "read_markdown cf repoRoot =
     and_then (chooseMarkdownSource cf repoRoot) (\<lambda>source.
     and_then (case source of
         MarkdownFile f \<Rightarrow> give f
       | CustomFile \<Rightarrow> promptInput cf ''Markdown file path'' None accept_all
       | Paste \<Rightarrow> give []) (\<lambda>filePath.
     if filePath \<noteq> [] then and_then (readFile filePath) (\<lambda>content.
         and_then (say [[], success cf (''Loaded '' @ filePath)]) (\<lambda>_.
         and_then (printList (markdown_hints (parseFrontmatter content) (firstMarkdownHeading content))) (\<lambda>_.
         give (filePath, content))))
     else and_then (readPastedMarkdown cf) (\<lambda>content. give ([], content))))"

definition send_publication ::
    "cli_config \<Rightarrow> 'w http_client \<Rightarrow> string \<Rightarrow> string \<Rightarrow> json \<Rightarrow> ('w, unit) prog" where
  "send_publication cf req baseUrl adminToken payload =
     and_then (publishSkill cf req baseUrl adminToken payload) (\<lambda>r.
     and_then (say [[], subheading cf ''Publish response'']) (\<lambda>_.
     and_then (printList [''HTTP status: '' @ nat_to_string (ns_status r), ''Body: '' @ body_or_empty r]) (\<lambda>_.
     if ns_status r \<noteq> 200 \<or> \<not> json_truthy (ns_json r)
     then say [danger cf ''Publish failed. Check the response body above.'']
     else
       and_then (summarizeManifest cf (ns_json r)) (\<lambda>_.
       and_then (promptChoice cf ''What do you want to do next?''
         [best ''Continue into the paid-access test for this skill'' True, opt ''Return to the main menu'' False]) (\<lambda>test.
       if test then accessFlow cf req baseUrl
         (case json_prop ''skill_id'' (ns_json r) of None \<Rightarrow> DEFAULT_SKILL_ID | Some v \<Rightarrow> json_text v) else give ())))))"

definition publishFlow :: "cli_config \<Rightarrow> 'w http_client \<Rightarrow> string \<Rightarrow> ('w, unit) prog" where
  "publishFlow cf req repoRoot =
     and_then (say [[], subheading cf ''Operator-only publish flow'']) (\<lambda>_.
     and_then (promptInput cf ''Base URL'' (Some DEFAULT_BASE_URL) (validate_url cf)) (\<lambda>typedBase.
     and_then (promptSecret cf ''ADMIN_PUBLISH_TOKEN'' accept_all) (\<lambda>adminToken.
     and_then (read_markdown cf repoRoot) (\<lambda>(filePath, content).
     let baseUrl = trimTrailingSlash typedBase; fm = parseFrontmatter content;
         fallbackSkillId = or_else (map_of fm ''name'') (if filePath \<noteq> [] then parent_name filePath else DEFAULT_SKILL_ID);
         fallbackTitle = (if firstMarkdownHeading content \<noteq> [] then firstMarkdownHeading content else fallbackSkillId);
         fallbackSummary = or_else (map_of fm ''description'') ''Short public description of the paid skill.'' in
     and_then (promptInput cf ''Skill ID'' (Some fallbackSkillId) accept_all) (\<lambda>skillId.
     and_then (promptInput cf ''Title'' (Some fallbackTitle) accept_all) (\<lambda>title.
     and_then (promptInput cf ''Summary'' (Some fallbackSummary) accept_all) (\<lambda>summary.
     and_then (promptInput cf ''Price in sats'' (Some (int_to_string DEFAULT_PRICE_SATS)) validate_price) (\<lambda>price.
     let priceSats = (case parseInt10 price of Some p \<Rightarrow> p | None \<Rightarrow> 0) in
     and_then (say [[], subheading cf ''Publish summary'']) (\<lambda>_.
     and_then (printList
       [''base URL: '' @ baseUrl, ''skill ID: '' @ skillId, ''title: '' @ title, ''summary: '' @ summary,
        ''price: '' @ int_to_string priceSats @ '' sats'',
        ''content length: '' @ nat_to_string (length content) @ '' characters'']) (\<lambda>_.
     and_then (promptChoice cf ''Publish this skill version now?''
       [best ''Yes, publish it'' True, opt ''No, cancel this publish flow'' False]) (\<lambda>confirm.
     if \<not> confirm then give ()
     else send_publication cf req baseUrl adminToken (publish_payload skillId title summary priceSats content))))))))))))"

datatype inspection = HomepageAndManifest | ManifestOnly | NoInspection

definition inspectFlow :: "cli_config \<Rightarrow> 'w http_client \<Rightarrow> ('w, unit) prog" where
  "inspectFlow cf req =
     and_then (say [[], subheading cf ''Inspect the live service'']) (\<lambda>_.
     and_then (promptInput cf ''Base URL'' (Some DEFAULT_BASE_URL) (validate_url cf)) (\<lambda>typedBase.
     let baseUrl = trimTrailingSlash typedBase in
     and_then (promptChoice cf ''What do you want to inspect?''
       [best ''Check the homepage and the current live manifest'' HomepageAndManifest,
        opt ''Fetch only the current live manifest'' ManifestOnly, opt ''Return to the main menu'' NoInspection]) (\<lambda>action.
     if action = NoInspection then give ()
     else
       and_then (if action = HomepageAndManifest then
           and_then (requestRaw cf req baseUrl ''GET'' [] None) (\<lambda>homepage.
           and_then (say [[], subheading cf ''Homepage check'']) (\<lambda>_.
           printList [''HTTP status: '' @ nat_to_string (ns_status homepage),
                      ''content-type: '' @ header_or_missing ''content-type'' homepage]))
         else give ()) (\<lambda>_.
       and_then (fetchManifest cf req baseUrl DEFAULT_SKILL_ID) (\<lambda>manifest.
       and_then (say [[], subheading cf ''Current live manifest'']) (\<lambda>_.
       printList [''HTTP status: '' @ nat_to_string (ns_status manifest), ''Body: '' @ body_or_empty manifest]))))))"

section \<open>The main menu\<close>

datatype menu_action = Access | Resume | Publish | Inspect | Exit

definition run_action :: "cli_config \<Rightarrow> 'w http_client \<Rightarrow> menu_action \<Rightarrow> ('w, unit) prog" where
  "run_action cf req action =
     (case action of
        Access \<Rightarrow> accessFlow cf req DEFAULT_BASE_URL DEFAULT_SKILL_ID
      | Resume \<Rightarrow> resumeChallengeFlow cf req (JObj [])
      | Publish \<Rightarrow> publishFlow cf req (cf_cwd cf)
      | Inspect \<Rightarrow> inspectFlow cf req
      | Exit \<Rightarrow> say [[], success cf ''Goodbye.''])"

text \<open>The \<open>catch\<close> around a workflow: an exception is printed and the menu goes on.\<close>

definition catch_error :: "cli_config \<Rightarrow> ('w, unit) prog \<Rightarrow> ('w, unit) prog" where
  "catch_error cf p s =
     (case p s of
        (Thrown (Error msg), s) \<Rightarrow> say [[], danger cf (''Error: '' @ msg)] s
      | r \<Rightarrow> r)"

definition menu_round :: "cli_config \<Rightarrow> 'w http_client \<Rightarrow> ('w, bool) prog" where
  "menu_round cf req =
     and_then (promptChoice cf ''Choose a workflow''
       [best ''Access a live paid skill'' Access, opt ''Resume a saved invoice or prior challenge'' Resume,
        opt ''Operator only: publish a skill'' Publish, opt ''Inspect the live service'' Inspect, opt ''Exit'' Exit])
       (\<lambda>action.
     and_then (catch_error cf (run_action cf req action)) (\<lambda>_.
     if action = Exit then give False
     else and_then promptEnterToContinue (\<lambda>_. give True)))"

text \<open>
  The loop of \<open>main\<close>, with fuel: every round reads a line, so one more round than there are
  lines is enough (\<open>main_loop_ends\<close>); \<open>None\<close> would mean that it was not.
\<close>

fun main_loop :: "nat \<Rightarrow> cli_config \<Rightarrow> 'w http_client \<Rightarrow> 'w cli \<Rightarrow> (unit outcome \<times> 'w cli) option" where
  "main_loop 0 cf req s = None"
| "main_loop (Suc n) cf req s =
     (case menu_round cf req s of
        (Value True, s) \<Rightarrow> main_loop n cf req s
      | (Value False, s) \<Rightarrow> Some (Value (), s)
      | (Thrown e, s) \<Rightarrow> Some (Thrown e, s)
      | (Blocked, s) \<Rightarrow> Some (Blocked, s))"

definition walkthrough :: "cli_config \<Rightarrow> 'w http_client \<Rightarrow> 'w cli \<Rightarrow> (unit outcome \<times> 'w cli) option" where
  "walkthrough cf req s =
     main_loop (Suc (length (cl_lines s))) cf req
       (s\<lparr>cl_out := cl_out s @ [[], heading cf ''Lightning L402 Walkthrough CLI'']\<rparr>)"

section \<open>Every program only uses up input\<close>

named_theorems tame_rules \<open>programs that never put lines back and wait only when none is left\<close>

definition tame :: "('w, 'a) prog \<Rightarrow> bool" where
  "tame p \<longleftrightarrow> (\<forall>s. length (cl_lines (snd (p s))) \<le> length (cl_lines s) \<and>
     (fst (p s) = Blocked \<longrightarrow> cl_lines (snd (p s)) = []))"

text \<open>A question has used up a line by the time it has an answer.\<close>

definition eager :: "('w, 'a) prog \<Rightarrow> bool" where
  "eager p \<longleftrightarrow> tame p \<and>
     (\<forall>s x. fst (p s) = Value x \<longrightarrow> length (cl_lines (snd (p s))) < length (cl_lines s))"

lemma tameD: "tame p \<Longrightarrow> p s = (r, t) \<Longrightarrow> length (cl_lines t) \<le> length (cl_lines s)"
  by (metis snd_conv tame_def)

lemma tame_blocked: "tame p \<Longrightarrow> p s = (Blocked, t) \<Longrightarrow> cl_lines t = []"
  by (metis fst_conv snd_conv tame_def)

lemma tame_and_then [tame_rules]:
  assumes p: "tame p" and f: "\<And>x. tame (f x)"
  shows "tame (and_then p f)"
  unfolding tame_def
proof (intro allI)
  fix s
  obtain r t where pt: "p s = (r, t)" by (cases "p s")
  show "length (cl_lines (snd (and_then p f s))) \<le> length (cl_lines s) \<and>
    (fst (and_then p f s) = Blocked \<longrightarrow> cl_lines (snd (and_then p f s)) = [])"
  proof (cases r)
    case (Value x)
    have "length (cl_lines (snd (f x t))) \<le> length (cl_lines t)" "fst (f x t) = Blocked \<longrightarrow> cl_lines (snd (f x t)) = []"
      using f [of x] by (auto simp: tame_def)
    then show ?thesis using Value pt tameD [OF p pt] by (simp add: and_then_def)
  qed (use pt tameD [OF p pt] tame_blocked [OF p] in \<open>auto simp: and_then_def\<close>)
qed

lemma eager_and_then: "eager p \<Longrightarrow> (\<And>x. tame (f x)) \<Longrightarrow> eager (and_then p f)"
  unfolding eager_def
proof (intro conjI allI impI)
  fix s x
  assume p: "tame p \<and> (\<forall>s x. fst (p s) = Value x \<longrightarrow> length (cl_lines (snd (p s))) < length (cl_lines s))"
    and f: "\<And>x. tame (f x)" and v: "fst (and_then p f s) = Value x"
  from v obtain y t where "p s = (Value y, t)" by (auto simp: and_then_def split: outcome.splits prod.splits)
  moreover from this have "length (cl_lines t) < length (cl_lines s)" using p by (metis fst_conv snd_conv)
  ultimately show "length (cl_lines (snd (and_then p f s))) < length (cl_lines s)"
    using f [of y] by (simp add: and_then_def tame_def) (meson le_less_trans)
qed (auto intro: tame_and_then)

lemma tame_basic [tame_rules]:
  "tame (give x)" "tame (throw msg)" "tame (lift_result r)" "tame (say texts)" "tame (printList items)"
  "tame (readFile path)" "tame (writeFile cf path text)" "tame (discoverSavedChallengeFiles cf)"
  "tame (discoverSkillFiles dir)"
  by (simp_all add: tame_def give_def throw_def lift_result_def say_def printList_def readFile_def writeFile_def
      discoverSavedChallengeFiles_def discoverSkillFiles_def Let_def split: sum.split option.split)

lemma tame_if [tame_rules]: "(b \<Longrightarrow> tame p) \<Longrightarrow> (\<not> b \<Longrightarrow> tame q) \<Longrightarrow> tame (if b then p else q)"
  by simp

lemma tame_with_now [tame_rules]: "(\<And>now. tame (f now)) \<Longrightarrow> tame (with_now f)"
  by (simp add: tame_def with_now_def)

text \<open>Case distinctions inside a program.\<close>

lemma tame_cases [tame_rules]:
  "tame p \<Longrightarrow> (\<And>v. tame (f v)) \<Longrightarrow> tame (case_option p f x)"
  "(\<And>v w. tame (g v w)) \<Longrightarrow> tame (case_prod g y)"
  "tame p \<Longrightarrow> tame q \<Longrightarrow> tame r \<Longrightarrow> tame (case_paid_action p q r pa)"
  "tame p \<Longrightarrow> tame q \<Longrightarrow> tame r \<Longrightarrow> tame (case_unlock_action p q r ua)"
  "tame p \<Longrightarrow> tame q \<Longrightarrow> tame r \<Longrightarrow> tame (case_resume_source p q r rs)"
  "tame p \<Longrightarrow> tame q \<Longrightarrow> tame r \<Longrightarrow> tame (case_access_step p q r ac)"
  "(\<And>t. tame (h t)) \<Longrightarrow> tame q \<Longrightarrow> tame r \<Longrightarrow> tame (case_file_choice h q r fc)"
  "(\<And>t. tame (h t)) \<Longrightarrow> tame q \<Longrightarrow> tame r \<Longrightarrow> tame (case_markdown_source h q r ms)"
  by (auto split: option.split prod.split paid_action.split unlock_action.split resume_source.split access_step.split
      file_choice.split markdown_source.split)

lemma tame_question:
  assumes "\<And>ls r rest out. q ls = (r, rest, out) \<Longrightarrow> length rest \<le> length ls \<and> (r = None \<longrightarrow> rest = [])"
  shows "tame (run_question q)"
  using assms by (fastforce simp: tame_def run_question_def split: prod.split option.split)

lemma eager_question:
  assumes "\<And>ls r rest out. q ls = (r, rest, out) \<Longrightarrow>
    length rest \<le> length ls \<and> (if r = None then rest = [] else length rest < length ls)"
  shows "eager (run_question q)"
proof -
  have "tame (run_question q)" using assms by (intro tame_question) (metis if_P)
  then show ?thesis using assms by (auto simp: eager_def run_question_def split: prod.splits option.splits)
qed

lemma ask_value_shrinks:
  "ask_value cf p f v ls = (r, rest, out) \<Longrightarrow> length rest \<le> length ls \<and> (if r = None then rest = [] else length rest < length ls)"
  by (induction ls arbitrary: r rest out) (fastforce simp: Let_def split: if_splits option.splits prod.splits)+

lemma ask_secret_shrinks:
  "ask_secret cf p v ls = (r, rest, out) \<Longrightarrow> length rest \<le> length ls \<and> (if r = None then rest = [] else length rest < length ls)"
  by (induction ls arbitrary: r rest out) (fastforce simp: Let_def split: if_splits option.splits prod.splits sum.splits)+

lemma ask_choice_shrinks:
  "ask_choice cf opts ls = (r, rest, out) \<Longrightarrow> length rest \<le> length ls \<and> (if r = None then rest = [] else length rest < length ls)"
  by (induction ls arbitrary: r rest out) (fastforce simp: Let_def split: if_splits option.splits prod.splits)+

lemma pasted_lines_shrinks: "pasted_lines ls = (r, rest, out) \<Longrightarrow> length rest \<le> length ls \<and> (r = None \<longrightarrow> rest = [])"
  by (induction ls arbitrary: r rest out) (fastforce split: if_splits prod.splits)+

lemma eager_after: "tame p \<Longrightarrow> (\<And>x. eager (f x)) \<Longrightarrow> eager (and_then p f)"
  unfolding eager_def
proof (intro conjI allI impI)
  fix s x
  assume p: "tame p" and f: "\<And>x. tame (f x) \<and>
      (\<forall>s y. fst (f x s) = Value y \<longrightarrow> length (cl_lines (snd (f x s))) < length (cl_lines s))"
    and v: "fst (and_then p f s) = Value x"
  from v obtain y t where y: "p s = (Value y, t)" by (auto simp: and_then_def split: outcome.splits prod.splits)
  then have "length (cl_lines t) \<le> length (cl_lines s)" using p by (rule tameD [rotated])
  moreover have "length (cl_lines (snd (f y t))) < length (cl_lines t)"
    using f [of y] v y by (auto simp: and_then_def)
  ultimately show "length (cl_lines (snd (and_then p f s))) < length (cl_lines s)"
    using y by (simp add: and_then_def)
qed (auto intro: tame_and_then)

lemma eager_promptChoice: "eager (promptChoice cf label opts)"
  unfolding promptChoice_def
  by (intro eager_after tame_basic eager_question) (rule ask_choice_shrinks)

lemma tame_questions [tame_rules]:
  "tame (promptChoice cf label opts)" "tame (promptInput cf label d v)" "tame (promptSecret cf label v)"
  "tame (readPastedMarkdown cf)" "tame promptEnterToContinue"
proof -
  show "tame (promptChoice cf label opts)" using eager_promptChoice by (auto simp: eager_def)
  show "tame (promptInput cf label d v)"
    unfolding promptInput_def Let_def
    by (intro tame_rules tame_question) (drule ask_value_shrinks, auto split: if_splits)
  show "tame (promptSecret cf label v)"
    unfolding promptSecret_def by (intro tame_rules tame_question) (drule ask_secret_shrinks, auto split: if_splits)
  show "tame (readPastedMarkdown cf)"
    unfolding readPastedMarkdown_def by (intro tame_rules tame_question) (rule pasted_lines_shrinks)
  show "tame promptEnterToContinue"
    unfolding promptEnterToContinue_def by (intro tame_rules tame_question) (auto split: list.splits)
qed

lemma tame_requests [tame_rules]:
  "tame (requestRaw cf req url verb headers body)" "tame (fetchManifest cf req base i)" "tame (fetchChallenge cf req base u)"
  "tame (fetchAuthorizedContent cf req base u a)" "tame (publishSkill cf req base t payload)"
proof -
  show raw: "tame (requestRaw cf req url verb headers body)" for url verb headers body
    unfolding requestRaw_def
    by (intro tame_and_then tame_basic) (auto simp: tame_def split: prod.split sum.split)
  show "tame (fetchManifest cf req base i)" "tame (fetchChallenge cf req base u)"
    "tame (fetchAuthorizedContent cf req base u a)" "tame (publishSkill cf req base t payload)"
    by (simp_all add: fetchManifest_def fetchChallenge_def fetchAuthorizedContent_def publishSkill_def raw)
qed

lemma tame_prints [tame_rules]:
  "tame (summarizeManifest cf m)" "tame (summarizeChallenge cf r c)" "tame (printChallengeBundle cf b h)"
  "tame (saveChallengeBundle cf b path)" "tame (report_refusal cf b r)"
proof -
  show "tame (saveChallengeBundle cf b path)"
    unfolding saveChallengeBundle_def by (intro tame_rules)
  show "tame (report_refusal cf b r)"
    unfolding report_refusal_def by (intro tame_rules)
qed (unfold summarizeManifest_def summarizeChallenge_def printChallengeBundle_def, (intro tame_rules)+)

lemma tame_save [tame_rules]: "tame (offerChallengeSave cf b)" "tame (pauseChallengeForLater cf b m)"
proof -
  show *: "tame (offerChallengeSave cf b)"
    unfolding offerChallengeSave_def by (intro tame_rules)
  show "tame (pauseChallengeForLater cf b m)"
    unfolding pauseChallengeForLater_def by (intro tame_rules *)
qed

lemma tame_unlock [tame_rules]: "tame (deliver_content cf b r)" "tame (unlockPaidContent cf req b)"
proof -
  have deliver: "tame (deliver_content cf b r)" for r
    unfolding deliver_content_def by (intro tame_rules)
  show "tame (deliver_content cf b r)" by (rule deliver)
  show "tame (unlockPaidContent cf req b)"
    unfolding unlockPaidContent_def Let_def by (intro tame_rules deliver)
qed

lemma tame_load [tame_rules]: "tame (loadSavedChallengeBundle cf d)" "tame (promptManualChallengeBundle cf d)"
  unfolding loadSavedChallengeBundle_def promptManualChallengeBundle_def Let_def
  by (intro tame_rules)+

lemma tame_resume [tame_rules]: "tame (resumeChallengeFlow cf req d)"
  unfolding resumeChallengeFlow_def by (intro tame_rules)

lemma tame_challenge [tame_rules]: "tame (challenge_step cf req base i m)"
  unfolding challenge_step_def by (intro tame_rules)

lemma tame_access [tame_rules]: "tame (accessFlow cf req base i)"
  unfolding accessFlow_def Let_def by (intro tame_rules)

lemma tame_publish [tame_rules]:
  "tame (chooseMarkdownSource cf dir)" "tame (read_markdown cf dir)" "tame (send_publication cf req base t p)"
  "tame (publishFlow cf req dir)" "tame (inspectFlow cf req)"
proof -
  show choose: "tame (chooseMarkdownSource cf dir)" unfolding chooseMarkdownSource_def by (intro tame_rules)
  show read: "tame (read_markdown cf dir)" unfolding read_markdown_def by (intro tame_rules choose)
  show send: "tame (send_publication cf req base t p)" for base t p
    unfolding send_publication_def by (intro tame_rules)
  show "tame (publishFlow cf req dir)" unfolding publishFlow_def Let_def by (intro tame_rules read send)
  show "tame (inspectFlow cf req)" unfolding inspectFlow_def Let_def by (intro tame_rules)
qed

lemma tame_action: "tame (run_action cf req a)" "tame (catch_error cf (run_action cf req a))"
proof -
  show *: "tame (run_action cf req a)" by (cases a) (auto simp: run_action_def intro: tame_rules)
  show "tame (catch_error cf (run_action cf req a))"
    unfolding tame_def catch_error_def
    using * by (auto dest: tameD tame_blocked simp: say_def split: prod.split outcome.split js_error.split)
qed

lemma eager_menu: "eager (menu_round cf req)"
  unfolding menu_round_def by (intro eager_and_then eager_promptChoice tame_rules tame_action)

text \<open>Exceptions of the workflows end at the menu.\<close>

lemma question_no_throw [simp]: "fst (run_question k s) \<noteq> Thrown e"
  by (auto simp: run_question_def split: prod.split option.split)

lemma choice_no_throw [simp]: "fst (promptChoice cf l opts s) \<noteq> Thrown e"
  by (simp add: promptChoice_def and_then_def say_def)

lemma chain_no_throw:
  "(\<And>s. fst (p s) \<noteq> Thrown e) \<Longrightarrow> (\<And>x s. fst (f x s) \<noteq> Thrown e) \<Longrightarrow> fst (and_then p f s) \<noteq> Thrown e"
  by (auto simp: and_then_def split: prod.split outcome.split) (metis fst_conv)

lemma menu_never_throws: "fst (menu_round cf req s) \<noteq> Thrown e"
proof -
  have caught: "fst (catch_error cf p s) \<noteq> Thrown e" for p s
    by (auto simp: catch_error_def say_def split: prod.split outcome.split js_error.split)
  have enter: "fst (promptEnterToContinue s) \<noteq> Thrown e" for s
    by (simp add: promptEnterToContinue_def and_then_def say_def)
  show ?thesis
    unfolding menu_round_def by (intro chain_no_throw choice_no_throw caught) (simp_all add: give_def enter and_then_def split: prod.split outcome.split, metis enter fst_conv)
qed

lemma main_loop_ends:
  "length (cl_lines s) < n \<Longrightarrow>
   \<exists>t. main_loop n cf req s = Some (Value (), t) \<or> main_loop n cf req s = Some (Blocked, t) \<and> cl_lines t = []"
proof (induction n arbitrary: s)
  case (Suc n)
  obtain r t where m: "menu_round cf req s = (r, t)" by (cases "menu_round cf req s")
  show ?case
  proof (cases r)
    case (Value go_on)
    then have "length (cl_lines t) < length (cl_lines s)"
      using eager_menu [of cf req] m by (auto simp: eager_def) (metis fst_conv snd_conv)
    then show ?thesis using Suc m Value by (cases go_on) auto
  next
    case (Thrown e)
    then show ?thesis using menu_never_throws [of cf req s e] m by simp
  next
    case Blocked
    then show ?thesis using tame_blocked [of "menu_round cf req"] eager_menu [of cf req] m by (auto simp: eager_def)
  qed
qed simp

text \<open>
  C8. The dialogue always comes to rest: whatever is typed and whatever the server, the
  files and the URL parser do, the client either leaves by the exit of its menu or waits
  for input after having read every line; no exception of a workflow ends it.
\<close>

theorem walkthrough_ends:
  "\<exists>t. walkthrough cf req s = Some (Value (), t) \<or> walkthrough cf req s = Some (Blocked, t) \<and> cl_lines t = []"
  unfolding walkthrough_def by (rule main_loop_ends) simp

section \<open>Answers\<close>

lemma ask_value_valid: "ask_value cf p f v ls = (Some x, rest, out) \<Longrightarrow> x \<noteq> [] \<and> v x = None"
  by (induction ls arbitrary: rest out) (auto simp: Let_def split: if_splits option.splits prod.splits)

lemma ask_secret_valid: "ask_secret cf p v ls = (Some (Inr x), rest, out) \<Longrightarrow> x \<noteq> [] \<and> v x = None"
  by (induction ls arbitrary: rest out) (auto simp: Let_def split: if_splits option.splits prod.splits sum.splits)

lemma ask_choice_offered: "ask_choice cf opts ls = (Some x, rest, out) \<Longrightarrow> x \<in> ch_value ` set opts"
proof (induction ls arbitrary: rest out)
  case (Cons l ls)
  have "ch_value (opts ! nat (n - 1)) \<in> ch_value ` set opts" if "1 \<le> n" "n \<le> int (length opts)" for n
    using that by (intro imageI nth_mem) linarith
  then show ?case using Cons by (fastforce simp: Let_def split: if_splits option.splits prod.splits)
qed simp

lemma question_value: "run_question q s = (Value x, t) \<Longrightarrow> \<exists>rest out. q (cl_lines s) = (Some x, rest, out)"
  by (auto simp: run_question_def split: prod.splits option.splits)

lemma after_say: "and_then (say texts) f s = f () (s\<lparr>cl_out := cl_out s @ texts\<rparr>)"
  by (simp add: and_then_def say_def)



end
