(* ===== verification/Paywall_Wire.thy ===== *)
theory Paywall_Wire
  imports Lit_Prelude
begin

text \<open>
  The binary macaroon writer of the paywall (\<open>src/paywall-web/lib/l402.ts\<close>, lines 187
  to 298): variable-length integers, typed fields and the version 2 macaroon layout,
  built in a buffer of JavaScript numbers. A reader of the same layout is the
  specification the writer is proved against; the locale \<open>prefix_codec\<close> is the
  contract "reading what was written gives the value back and leaves the rest", and is
  interpreted for every layer.
\<close>

unbundle bit_operations_syntax

section \<open>The writer\<close>

abbreviation FIELD_EOS :: nat where "FIELD_EOS \<equiv> 0"
abbreviation FIELD_LOCATION :: nat where "FIELD_LOCATION \<equiv> 1"
abbreviation FIELD_IDENTIFIER :: nat where "FIELD_IDENTIFIER \<equiv> 2"
abbreviation FIELD_VID :: nat where "FIELD_VID \<equiv> 4"
abbreviation FIELD_SIGNATURE :: nat where "FIELD_SIGNATURE \<equiv> 6"

text \<open>
  The body of the loop works on \<open>ToUint32(remaining)\<close>: the bitwise operators of
  JavaScript reduce their operands modulo \<open>2 ^ 32\<close>.
\<close>

definition ToUint32 :: "nat \<Rightarrow> nat" where
  "ToUint32 n = n mod 2 ^ 32"

function varint_loop :: "nat \<Rightarrow> nat list" where
  "varint_loop remaining =
     (if remaining \<ge> 0x80
      then ((ToUint32 remaining AND 0x7F) OR 0x80) # varint_loop (drop_bit 7 (ToUint32 remaining))
      else [remaining])"
  by pat_completeness auto
termination
proof (relation "measure id")
  fix n :: nat
  assume "128 \<le> n"
  have "drop_bit 7 (ToUint32 n) \<le> n div 128"
    by (simp add: ToUint32_def drop_bit_eq_div div_le_mono)
  also have "\<dots> < n" using \<open>128 \<le> n\<close> by simp
  finally show "(drop_bit 7 (ToUint32 n), n) \<in> measure id" by simp
qed simp

declare varint_loop.simps [simp del]

definition encodeVarint :: "int \<Rightarrow> nat list result" where
  "encodeVarint value =
     (if value < 0 then Inl (Error (''invalid varint value: '' @ int_to_string value))
      else Inr (varint_loop (nat value)))"

definition appendField :: "nat list \<Rightarrow> nat \<Rightarrow> byte list option \<Rightarrow> nat list result" where
  "appendField buffer fieldType data =
     (let buffer = buffer @ [fieldType] in
      if fieldType = FIELD_EOS then Inr buffer
      else case data of
        None \<Rightarrow> Inl (Error (''field '' @ nat_to_string fieldType @ '' requires data''))
      | Some d \<Rightarrow> then_res (encodeVarint (int (length d)))
          (\<lambda>n. Inr (buffer @ n @ map unat d)))"

text \<open>The JSON export of the macaroon library, as the code types it.\<close>

record caveat_json =
  cav_i :: "string option"
  cav_i64 :: "string option"
  cav_l :: "string option"
  cav_v :: "string option"
  cav_v64 :: "string option"

record macaroon_json =
  mac_v :: "int option"
  mac_i :: "string option"
  mac_i64 :: "string option"
  mac_l :: "string option"
  mac_s :: "string option"
  mac_s64 :: "string option"
  mac_c :: "caveat_json list option"

text \<open>Property access by name, as \<open>value[key]\<close> reads it.\<close>

definition caveat_field :: "caveat_json \<Rightarrow> string \<Rightarrow> string option" where
  "caveat_field c key =
     (if key = ''i'' then cav_i c else if key = ''i64'' then cav_i64 c
      else if key = ''l'' then cav_l c else if key = ''v'' then cav_v c
      else if key = ''v64'' then cav_v64 c else None)"

definition macaroon_field :: "macaroon_json \<Rightarrow> string \<Rightarrow> string option" where
  "macaroon_field m key =
     (if key = ''i'' then mac_i m else if key = ''i64'' then mac_i64 m
      else if key = ''l'' then mac_l m else if key = ''s'' then mac_s m
      else if key = ''s64'' then mac_s64 m else None)"

definition jsonFieldBytes ::
    "(string \<Rightarrow> byte list) \<Rightarrow> (string \<Rightarrow> string option) \<Rightarrow> string \<Rightarrow> bool \<Rightarrow> byte list option result" where
  "jsonFieldBytes base64ToBytes value key required =
     (case value key of
        Some s \<Rightarrow> Inr (Some (utf8Bytes s))
      | None \<Rightarrow>
          (case value (key @ ''64'') of
             Some s \<Rightarrow> Inr (Some (base64ToBytes s))
           | None \<Rightarrow>
               if \<not> required then Inr None
               else Inl (Error (''macaroon JSON is missing field '' @ key))))"

definition requireJsonFieldBytes ::
    "(string \<Rightarrow> byte list) \<Rightarrow> (string \<Rightarrow> string option) \<Rightarrow> string \<Rightarrow> byte list result" where
  "requireJsonFieldBytes base64ToBytes value key =
     then_res (jsonFieldBytes base64ToBytes value key True)
       (\<lambda>bytes. case bytes of
          None \<Rightarrow> Inl (Error (''macaroon JSON is missing field '' @ key))
        | Some b \<Rightarrow> Inr b)"

text \<open>A string property is truthy when it is present and not empty.\<close>

definition appendLocation :: "nat list \<Rightarrow> string option \<Rightarrow> nat list result" where
  "appendLocation buffer l =
     (case l of
        None \<Rightarrow> Inr buffer
      | Some s \<Rightarrow> if s = '''' then Inr buffer
                  else appendField buffer FIELD_LOCATION (Some (utf8Bytes s)))"

definition exportCaveat :: "(string \<Rightarrow> byte list) \<Rightarrow> nat list \<Rightarrow> caveat_json \<Rightarrow> nat list result" where
  "exportCaveat base64ToBytes buffer caveat =
     then_res (appendLocation buffer (cav_l caveat)) (\<lambda>buffer.
     then_res (requireJsonFieldBytes base64ToBytes (caveat_field caveat) ''i'') (\<lambda>i.
     then_res (appendField buffer FIELD_IDENTIFIER (Some i)) (\<lambda>buffer.
     then_res (jsonFieldBytes base64ToBytes (caveat_field caveat) ''v'' False) (\<lambda>verificationId.
     then_res (case verificationId of
                 None \<Rightarrow> Inr buffer
               | Some vid \<Rightarrow> appendField buffer FIELD_VID (Some vid)) (\<lambda>buffer.
     appendField buffer FIELD_EOS None)))))"

fun exportCaveats :: "(string \<Rightarrow> byte list) \<Rightarrow> nat list \<Rightarrow> caveat_json list \<Rightarrow> nat list result" where
  "exportCaveats base64ToBytes buffer [] = Inr buffer"
| "exportCaveats base64ToBytes buffer (caveat # cs) =
     then_res (exportCaveat base64ToBytes buffer caveat)
       (\<lambda>buffer. exportCaveats base64ToBytes buffer cs)"

definition exportBinaryV2FromJson :: "(string \<Rightarrow> byte list) \<Rightarrow> macaroon_json \<Rightarrow> byte list result" where
  "exportBinaryV2FromJson base64ToBytes value =
     (if mac_v value \<noteq> Some 2
      then Inl (Error (''unsupported macaroon export version: '' @
             (case mac_v value of None \<Rightarrow> ''undefined'' | Some v \<Rightarrow> int_to_string v)))
      else
        then_res (appendLocation [2] (mac_l value)) (\<lambda>buffer.
        then_res (requireJsonFieldBytes base64ToBytes (macaroon_field value) ''i'') (\<lambda>i.
        then_res (appendField buffer FIELD_IDENTIFIER (Some i)) (\<lambda>buffer.
        then_res (appendField buffer FIELD_EOS None) (\<lambda>buffer.
        then_res (exportCaveats base64ToBytes buffer
                    (case mac_c value of None \<Rightarrow> [] | Some cs \<Rightarrow> cs)) (\<lambda>buffer.
        then_res (appendField buffer FIELD_EOS None) (\<lambda>buffer.
        then_res (requireJsonFieldBytes base64ToBytes (macaroon_field value) ''s'') (\<lambda>s.
        then_res (appendField buffer FIELD_SIGNATURE (Some s)) (\<lambda>buffer.
        Inr (map of_nat buffer))))))))))"

section \<open>A reader of the format\<close>

type_synonym 'a reader = "nat list \<Rightarrow> ('a \<times> nat list) option"

fun read_varint :: "nat reader" where
  "read_varint [] = None"
| "read_varint (b # bs) =
     (if b < 128 then Some (b, bs)
      else case read_varint bs of
        None \<Rightarrow> None
      | Some (n, rest) \<Rightarrow> Some (b - 128 + 128 * n, rest))"

definition read_block :: "byte list reader" where
  "read_block bs =
     (case read_varint bs of
        None \<Rightarrow> None
      | Some (n, rest) \<Rightarrow>
          if length rest < n then None else Some (map of_nat (take n rest), drop n rest))"

text \<open>One typed field of the expected type; \<open>read_opt_field\<close> accepts its absence.\<close>

definition read_field :: "nat \<Rightarrow> byte list reader" where
  "read_field t bs = (case bs of [] \<Rightarrow> None | b # bs \<Rightarrow> if b = t then read_block bs else None)"

definition read_opt_field :: "nat \<Rightarrow> byte list option reader" where
  "read_opt_field t bs =
     (case bs of
        [] \<Rightarrow> None
      | b # bs' \<Rightarrow> if b = t then map_option (map_prod Some id) (read_block bs') else Some (None, bs))"

definition read_eos :: "nat list \<Rightarrow> nat list option" where
  "read_eos bs = (case bs of [] \<Rightarrow> None | b # bs \<Rightarrow> if b = FIELD_EOS then Some bs else None)"

text \<open>The contents of a section: location, identifier, verification id.\<close>

record caveat_bytes =
  cb_location :: "byte list option"
  cb_identifier :: "byte list"
  cb_vid :: "byte list option"

definition read_caveat :: "caveat_bytes reader" where
  "read_caveat bs =
     (case read_opt_field FIELD_LOCATION bs of
        None \<Rightarrow> None
      | Some (l, bs) \<Rightarrow>
          (case read_field FIELD_IDENTIFIER bs of
             None \<Rightarrow> None
           | Some (i, bs) \<Rightarrow>
               (case read_opt_field FIELD_VID bs of
                  None \<Rightarrow> None
                | Some (v, bs) \<Rightarrow>
                    (case read_eos bs of
                       None \<Rightarrow> None
                     | Some bs \<Rightarrow>
                         Some (\<lparr>cb_location = l, cb_identifier = i, cb_vid = v\<rparr>, bs)))))"

text \<open>Caveats follow each other until an end-of-section marker stands in their place.\<close>

function read_caveats :: "caveat_bytes list reader" where
  "read_caveats bs =
     (case bs of
        [] \<Rightarrow> None
      | b # rest \<Rightarrow>
          if b = FIELD_EOS then Some ([], rest)
          else (case read_caveat bs of
                  None \<Rightarrow> None
                | Some (c, bs') \<Rightarrow>
                    if length bs' < length bs
                    then (case read_caveats bs' of
                            None \<Rightarrow> None
                          | Some (cs, r) \<Rightarrow> Some (c # cs, r))
                    else None))"
  by pat_completeness auto
termination
  by (relation "measure length") auto

declare read_caveats.simps [simp del]

record macaroon_bytes =
  mb_location :: "byte list option"
  mb_identifier :: "byte list"
  mb_caveats :: "caveat_bytes list"
  mb_signature :: "byte list"

definition read_macaroon :: "macaroon_bytes reader" where
  "read_macaroon bs =
     (case bs of
        [] \<Rightarrow> None
      | version # bs \<Rightarrow>
          if version \<noteq> 2 then None
          else
          (case read_opt_field FIELD_LOCATION bs of
             None \<Rightarrow> None
           | Some (l, bs) \<Rightarrow>
             (case read_field FIELD_IDENTIFIER bs of
                None \<Rightarrow> None
              | Some (i, bs) \<Rightarrow>
                (case read_eos bs of
                   None \<Rightarrow> None
                 | Some bs \<Rightarrow>
                   (case read_caveats bs of
                      None \<Rightarrow> None
                    | Some (cs, bs) \<Rightarrow>
                      (case read_field FIELD_SIGNATURE bs of
                         None \<Rightarrow> None
                       | Some (sig, bs) \<Rightarrow>
                           Some (\<lparr>mb_location = l, mb_identifier = i, mb_caveats = cs,
                                  mb_signature = sig\<rparr>, bs)))))))"

text \<open>What a JSON export denotes, when its required fields are present.\<close>

definition location_bytes :: "string option \<Rightarrow> byte list option" where
  "location_bytes l =
     (case l of None \<Rightarrow> None | Some s \<Rightarrow> if s = [] then None else Some (utf8Bytes s))"

definition bytes_of_fields ::
    "(string \<Rightarrow> byte list) \<Rightarrow> string option \<Rightarrow> string option \<Rightarrow> byte list option" where
  "bytes_of_fields base64ToBytes utf8 b64 =
     (case utf8 of Some s \<Rightarrow> Some (utf8Bytes s) | None \<Rightarrow> map_option base64ToBytes b64)"

definition caveat_of :: "(string \<Rightarrow> byte list) \<Rightarrow> caveat_json \<Rightarrow> caveat_bytes option" where
  "caveat_of b64 c =
     map_option (\<lambda>i. \<lparr>cb_location = location_bytes (cav_l c), cb_identifier = i,
                      cb_vid = bytes_of_fields b64 (cav_v c) (cav_v64 c)\<rparr>)
       (bytes_of_fields b64 (cav_i c) (cav_i64 c))"

fun caveats_of :: "(string \<Rightarrow> byte list) \<Rightarrow> caveat_json list \<Rightarrow> caveat_bytes list option" where
  "caveats_of b64 [] = Some []"
| "caveats_of b64 (c # cs) =
     (case (caveat_of b64 c, caveats_of b64 cs) of
        (Some c', Some cs') \<Rightarrow> Some (c' # cs') | _ \<Rightarrow> None)"

definition macaroon_of :: "(string \<Rightarrow> byte list) \<Rightarrow> macaroon_json \<Rightarrow> macaroon_bytes option" where
  "macaroon_of b64 m =
     (case (bytes_of_fields b64 (mac_i m) (mac_i64 m),
            caveats_of b64 (case mac_c m of None \<Rightarrow> [] | Some cs \<Rightarrow> cs),
            bytes_of_fields b64 (mac_s m) (mac_s64 m)) of
        (Some i, Some cs, Some sig) \<Rightarrow>
          Some \<lparr>mb_location = location_bytes (mac_l m), mb_identifier = i, mb_caveats = cs,
                mb_signature = sig\<rparr>
      | _ \<Rightarrow> None)"

section \<open>The contract of an encoding layer\<close>

locale prefix_codec =
  fixes enc :: "'a \<Rightarrow> nat list"
    and dec :: "nat list \<Rightarrow> ('a \<times> nat list) option"
    and ok :: "'a \<Rightarrow> bool"
  assumes dec_enc: "ok x \<Longrightarrow> dec (enc x @ rest) = Some (x, rest)"
begin

text \<open>Encodings are uniquely decodable: no encoding is cut short by another one.\<close>

lemma enc_unique:
  assumes "ok x" and "ok y" and "enc x @ r = enc y @ r'"
  shows "x = y \<and> r = r'"
proof -
  have "dec (enc x @ r) = Some (x, r)" using assms(1) by (rule dec_enc)
  moreover have "dec (enc x @ r) = Some (y, r')"
    unfolding assms(3) using assms(2) by (rule dec_enc)
  ultimately show ?thesis by simp
qed

lemma dec_enc_all: "ok x \<Longrightarrow> dec (enc x) = Some (x, [])"
  using dec_enc [of x "[]"] by simp

end

section \<open>Variable-length integers\<close>

lemma and_7F_or_80: "((n :: nat) AND 0x7F) OR 0x80 = n mod 128 + 128"
proof -
  have "mask 7 = (0x7F :: nat)" by (simp add: mask_eq_exp_minus_1)
  then have and_eq: "n AND 0x7F = n mod 128"
    using take_bit_eq_mask [of 7 n] by (simp add: take_bit_eq_mod)
  have "take_bit 7 n + 2 ^ 7 = take_bit 7 n OR 2 ^ 7"
    by (rule disjunctive_add) (simp only: bit_take_bit_iff bit_exp_iff, simp)
  with and_eq show ?thesis by (simp add: take_bit_eq_mod)
qed

lemma read_varint_loop: "n < 2 ^ 32 \<Longrightarrow> read_varint (varint_loop n @ rest) = Some (n, rest)"
proof (induction n rule: varint_loop.induct)
  case (1 n)
  show ?case
  proof (cases "n \<ge> 128")
    case True
    have small: "ToUint32 n = n" using "1.prems" by (simp add: ToUint32_def)
    have "drop_bit 7 (ToUint32 n) < 2 ^ 32"
      using "1.prems" by (simp add: small drop_bit_eq_div)
    with "1.IH" True have
      "read_varint (varint_loop (n div 128) @ rest) = Some (n div 128, rest)"
      by (simp add: small drop_bit_eq_div)
    then show ?thesis
      using True by (simp add: varint_loop.simps [of n] small and_7F_or_80 drop_bit_eq_div)
  next
    case False
    then show ?thesis by (simp add: varint_loop.simps [of n])
  qed
qed

interpretation varint: prefix_codec varint_loop read_varint "\<lambda>n. n < 2 ^ 32"
  by unfold_locales (rule read_varint_loop)

section \<open>Fields, caveats and macaroons\<close>

text \<open>The bytes each layer appends, as functions of the value written.\<close>

definition enc_block :: "byte list \<Rightarrow> nat list" where
  "enc_block d = varint_loop (length d) @ map unat d"

definition enc_opt_field :: "nat \<Rightarrow> byte list option \<Rightarrow> nat list" where
  "enc_opt_field t d = (case d of None \<Rightarrow> [] | Some d \<Rightarrow> t # enc_block d)"

definition enc_caveat :: "caveat_bytes \<Rightarrow> nat list" where
  "enc_caveat c =
     enc_opt_field FIELD_LOCATION (cb_location c) @ FIELD_IDENTIFIER # enc_block (cb_identifier c)
     @ enc_opt_field FIELD_VID (cb_vid c) @ [FIELD_EOS]"

definition enc_caveats :: "caveat_bytes list \<Rightarrow> nat list" where
  "enc_caveats cs = concat (map enc_caveat cs) @ [FIELD_EOS]"

definition enc_macaroon :: "macaroon_bytes \<Rightarrow> nat list" where
  "enc_macaroon m =
     2 # enc_opt_field FIELD_LOCATION (mb_location m)
     @ FIELD_IDENTIFIER # enc_block (mb_identifier m) @ FIELD_EOS # enc_caveats (mb_caveats m)
     @ FIELD_SIGNATURE # enc_block (mb_signature m)"

text \<open>The lengths the writer can represent.\<close>

definition fits :: "byte list \<Rightarrow> bool" where
  "fits d \<longleftrightarrow> length d < 2 ^ 32"

definition caveat_fits :: "caveat_bytes \<Rightarrow> bool" where
  "caveat_fits c \<longleftrightarrow> pred_option fits (cb_location c) \<and> fits (cb_identifier c)
     \<and> pred_option fits (cb_vid c)"

definition macaroon_fits :: "macaroon_bytes \<Rightarrow> bool" where
  "macaroon_fits m \<longleftrightarrow> pred_option fits (mb_location m) \<and> fits (mb_identifier m)
     \<and> list_all caveat_fits (mb_caveats m) \<and> fits (mb_signature m)"

lemma map_of_nat_unat [simp]: "map of_nat (map unat (d :: byte list)) = d"
  by (induction d) simp_all

interpretation block: prefix_codec enc_block read_block fits
proof
  fix d rest
  assume "fits d"
  then have "read_varint (varint_loop (length d) @ map unat d @ rest) = Some (length d, map unat d @ rest)"
    by (intro varint.dec_enc) (simp add: fits_def)
  then show "read_block (enc_block d @ rest) = Some (d, rest)"
    by (simp add: read_block_def enc_block_def del: map_map)
qed

lemma read_field_enc [codec_simps]:
  "fits d \<Longrightarrow> read_field t (t # enc_block d @ rest) = Some (d, rest)"
  by (simp add: read_field_def block.dec_enc)

lemma read_opt_field_enc [codec_simps]:
  assumes "pred_option fits d" and "d = None \<Longrightarrow> rest \<noteq> [] \<and> hd rest \<noteq> t"
  shows "read_opt_field t (enc_opt_field t d @ rest) = Some (d, rest)"
proof (cases d)
  case None
  with assms(2) obtain b r where "rest = b # r" "b \<noteq> t" by (cases rest) auto
  with None show ?thesis by (simp add: read_opt_field_def enc_opt_field_def)
next
  case (Some x)
  with assms(1) show ?thesis
    by (simp add: read_opt_field_def enc_opt_field_def block.dec_enc)
qed

lemma read_eos_Cons [codec_simps]: "read_eos (FIELD_EOS # bs) = Some bs"
  by (simp add: read_eos_def)

interpretation caveat: prefix_codec enc_caveat read_caveat caveat_fits
proof
  fix c rest
  assume "caveat_fits c"
  then show "read_caveat (enc_caveat c @ rest) = Some (c, rest)"
    by (simp add: read_caveat_def enc_caveat_def caveat_fits_def codec_simps)
qed

lemma enc_caveat_Cons: "\<exists>b bs. enc_caveat c = b # bs \<and> b \<noteq> FIELD_EOS"
  by (cases "cb_location c") (simp_all add: enc_caveat_def enc_opt_field_def)

lemma read_caveats_enc:
  "list_all caveat_fits cs \<Longrightarrow> read_caveats (enc_caveats cs @ rest) = Some (cs, rest)"
proof (induction cs)
  case Nil
  then show ?case by (simp add: enc_caveats_def read_caveats.simps)
next
  case (Cons c cs)
  obtain b bs where e: "enc_caveat c = b # bs" "b \<noteq> FIELD_EOS"
    using enc_caveat_Cons by blast
  have "enc_caveats (c # cs) = enc_caveat c @ enc_caveats cs"
    by (simp add: enc_caveats_def)
  moreover have "read_caveat (enc_caveat c @ enc_caveats cs @ rest) = Some (c, enc_caveats cs @ rest)"
    using Cons.prems by (intro caveat.dec_enc) simp
  moreover have "read_caveats (enc_caveats cs @ rest) = Some (cs, rest)"
    using Cons by simp
  ultimately show ?case
    by (simp add: e read_caveats.simps [of "b # bs @ enc_caveats cs @ rest"])
qed

interpretation caveats: prefix_codec enc_caveats read_caveats "list_all caveat_fits"
  by unfold_locales (rule read_caveats_enc)

interpretation macaroon: prefix_codec enc_macaroon read_macaroon macaroon_fits
proof
  fix m rest
  assume "macaroon_fits m"
  then show "read_macaroon (enc_macaroon m @ rest) = Some (m, rest)"
    by (simp add: read_macaroon_def enc_macaroon_def macaroon_fits_def codec_simps caveats.dec_enc)
qed

section \<open>The writer produces the encoding\<close>

lemma appendField_simps [simp]:
  "t \<noteq> FIELD_EOS \<Longrightarrow> appendField buffer t (Some d) = Inr (buffer @ t # enc_block d)"
  "appendField buffer FIELD_EOS data = Inr (buffer @ [FIELD_EOS])"
  by (simp_all add: appendField_def encodeVarint_def enc_block_def)

lemma appendLocation_eq [simp]:
  "appendLocation buffer l = Inr (buffer @ enc_opt_field FIELD_LOCATION (location_bytes l))"
  by (simp add: appendLocation_def location_bytes_def enc_opt_field_def split: option.split)

lemma jsonFieldBytes_eq:
  "jsonFieldBytes b64 f key required =
     (case bytes_of_fields b64 (f key) (f (key @ ''64'')) of
        None \<Rightarrow> if required then Inl (Error (''macaroon JSON is missing field '' @ key)) else Inr None
      | Some b \<Rightarrow> Inr (Some b))"
  by (simp add: jsonFieldBytes_def bytes_of_fields_def split: option.split)

lemma requireJsonFieldBytes_eq:
  "requireJsonFieldBytes b64 f key =
     (case bytes_of_fields b64 (f key) (f (key @ ''64'')) of
        None \<Rightarrow> Inl (Error (''macaroon JSON is missing field '' @ key)) | Some b \<Rightarrow> Inr b)"
  by (simp add: requireJsonFieldBytes_def jsonFieldBytes_eq split: option.split)

lemma field_access [simp]:
  "caveat_field c ''i'' = cav_i c" "caveat_field c ''i64'' = cav_i64 c"
  "caveat_field c ''v'' = cav_v c" "caveat_field c ''v64'' = cav_v64 c"
  "macaroon_field m ''i'' = mac_i m" "macaroon_field m ''i64'' = mac_i64 m"
  "macaroon_field m ''s'' = mac_s m" "macaroon_field m ''s64'' = mac_s64 m"
  by (simp_all add: caveat_field_def macaroon_field_def)

lemma exportCaveat_eq:
  "exportCaveat b64 buffer c =
     (case caveat_of b64 c of
        None \<Rightarrow> Inl (Error ''macaroon JSON is missing field i'')
      | Some cb \<Rightarrow> Inr (buffer @ enc_caveat cb))"
  by (simp add: exportCaveat_def requireJsonFieldBytes_eq jsonFieldBytes_eq caveat_of_def
      enc_caveat_def enc_opt_field_def split: option.split)

lemma exportCaveats_eq:
  "exportCaveats b64 buffer cs =
     (case caveats_of b64 cs of
        None \<Rightarrow> Inl (Error ''macaroon JSON is missing field i'')
      | Some cbs \<Rightarrow> Inr (buffer @ concat (map enc_caveat cbs)))"
  by (induction cs arbitrary: buffer) (simp_all add: exportCaveat_eq split: option.split)

lemma exportBinaryV2FromJson_Inr:
  "exportBinaryV2FromJson b64 j = Inr bytes \<longleftrightarrow>
     mac_v j = Some 2 \<and> (\<exists>m. macaroon_of b64 j = Some m \<and> bytes = map of_nat (enc_macaroon m))"
  by (auto simp: exportBinaryV2FromJson_def requireJsonFieldBytes_eq exportCaveats_eq
      macaroon_of_def enc_macaroon_def enc_caveats_def split: option.splits)

text \<open>Every number in the buffer is a byte, so \<open>Uint8Array.from\<close> loses nothing.\<close>

lemma varint_loop_bytes: "\<forall>b \<in> set (varint_loop n). b < 256"
proof (induction n rule: varint_loop.induct)
  case (1 n)
  then show ?case by (auto simp: varint_loop.simps [of n] and_7F_or_80)
qed

lemma enc_block_bytes: "b \<in> set (enc_block d) \<Longrightarrow> b < 256"
  using varint_loop_bytes by (auto simp: enc_block_def)

lemma enc_opt_field_bytes: "b \<in> set (enc_opt_field t d) \<Longrightarrow> t < 256 \<Longrightarrow> b < 256"
  using enc_block_bytes by (auto simp: enc_opt_field_def split: option.splits)

lemma enc_caveat_bytes: "b \<in> set (enc_caveat c) \<Longrightarrow> b < 256"
  by (auto simp: enc_caveat_def dest!: enc_block_bytes enc_opt_field_bytes)

lemma enc_macaroon_bytes: "b \<in> set (enc_macaroon m) \<Longrightarrow> b < 256"
  by (auto simp: enc_macaroon_def enc_caveats_def
      dest!: enc_block_bytes enc_opt_field_bytes enc_caveat_bytes)

lemma unat_Uint8Array: "(\<And>b. b \<in> set bs \<Longrightarrow> b < 256) \<Longrightarrow> map unat (map of_nat bs :: byte list) = bs"
  by (induction bs) (auto simp: unat_of_nat)

lemma read_exported_macaroon:
  assumes "exportBinaryV2FromJson b64 j = Inr bytes" and "macaroon_of b64 j = Some m"
    and "macaroon_fits m"
  shows "read_macaroon (map unat bytes) = Some (m, [])"
proof -
  have "bytes = map of_nat (enc_macaroon m)"
    using assms(1,2) by (auto simp: exportBinaryV2FromJson_Inr)
  then have "map unat bytes = enc_macaroon m"
    using unat_Uint8Array [OF enc_macaroon_bytes] by simp
  then show ?thesis using macaroon.dec_enc_all [OF assms(3)] by simp
qed

text \<open>
  C13. The hand-written binary export is faithful: for a version 2 export whose identifier,
  signature and caveat identifiers are present (as text or base64), and whose fields are
  shorter than \<open>2 ^ 32\<close> bytes, \<open>exportBinaryV2FromJson\<close> succeeds, and an independent reader
  of the version 2 format gets back exactly the location, identifier, caveats and
  signature, with no byte left over.
\<close>

theorem exportBinaryV2_roundtrip:
  assumes "mac_v j = Some 2" and "macaroon_of b64 j = Some m" and "macaroon_fits m"
  shows "\<exists>bytes. exportBinaryV2FromJson b64 j = Inr bytes \<and> read_macaroon (map unat bytes) = Some (m, [])"
proof -
  obtain bytes where "exportBinaryV2FromJson b64 j = Inr bytes"
    using assms(1,2) exportBinaryV2FromJson_Inr by blast
  with read_exported_macaroon [OF this assms(2,3)] show ?thesis by blast
qed

definition sample_json :: macaroon_json where
  "sample_json =
     \<lparr>mac_v = Some 2, mac_i = Some ''id'', mac_i64 = None, mac_l = Some ''loc'', mac_s = None,
      mac_s64 = Some ''sig'',
      mac_c = Some [\<lparr>cav_i = Some ''a = b'', cav_i64 = None, cav_l = None, cav_v = None, cav_v64 = None\<rparr>]\<rparr>"

definition sample_macaroon :: macaroon_bytes where
  "sample_macaroon =
     \<lparr>mb_location = Some (utf8Bytes ''loc''), mb_identifier = utf8Bytes ''id'',
      mb_caveats = [\<lparr>cb_location = None, cb_identifier = utf8Bytes ''a = b'', cb_vid = None\<rparr>],
      mb_signature = utf8Bytes ''sig''\<rparr>"

lemma sample_facts:
  "mac_v sample_json = Some 2" "macaroon_of utf8Bytes sample_json = Some sample_macaroon"
  "macaroon_fits sample_macaroon"
  by (simp_all add: sample_json_def sample_macaroon_def macaroon_of_def caveat_of_def bytes_of_fields_def
      location_bytes_def macaroon_fits_def caveat_fits_def fits_def utf8Bytes_def utf8_char_def)

theorem exportBinaryV2_roundtrip_witness:
  "\<exists>bytes. exportBinaryV2FromJson utf8Bytes sample_json = Inr bytes \<and>
     read_macaroon (map unat bytes) = Some (sample_macaroon, [])"
  by (rule exportBinaryV2_roundtrip [OF sample_facts])

text \<open>
  The variable-length integer code is exact for every length a buffer can have:
  \<open>encodeVarint\<close> refuses negative values, and for \<open>0 \<le> n < 2 ^ 32\<close> it produces bytes that
  read back as \<open>n\<close> whatever follows them; from \<open>2 ^ 32\<close> on, where the shift of JavaScript
  drops the high bits, the guarantee ends: \<open>2 ^ 32\<close> itself is not read back.
\<close>

lemma encodeVarint_exact:
  "(n < 0 \<longrightarrow> (\<exists>msg. encodeVarint n = Inl (Error msg))) \<and>
   (0 \<le> n \<and> n < 2 ^ 32 \<longrightarrow>
     (\<exists>bs. encodeVarint n = Inr bs \<and> (\<forall>b \<in> set bs. b < 256) \<and>
           (\<forall>rest. read_varint (bs @ rest) = Some (nat n, rest)))) \<and>
   (\<forall>bs. encodeVarint (2 ^ 32) = Inr bs \<longrightarrow> read_varint bs \<noteq> Some (2 ^ 32, []))"
proof -
  have "nat n < 2 ^ 32" if "0 \<le> n" "n < 2 ^ 32"
    using that by (metis nat_less_numeral_power_cancel_iff)
  moreover have "varint_loop (2 ^ 32) = [128, 0]"
    by (simp add: varint_loop.simps ToUint32_def)
  ultimately show ?thesis
    using varint.dec_enc varint_loop_bytes by (auto simp: encodeVarint_def)
qed

lemma encodeVarint_exact_witness:
  "\<exists>bs. encodeVarint 300 = Inr bs \<and> read_varint (bs @ [7]) = Some (300, [7])"
  using encodeVarint_exact [of 300] by auto

end
