(* ===== verification/Paywall_L402.thy ===== *)
theory Paywall_L402
  imports Paywall_Wire Js_Base64 Paywall_Store
begin

text \<open>
  L402 challenges and their verification (\<open>src/paywall-web/lib/l402.ts\<close>): the checked
  configuration, the invoice request to the Lightning node, minting a macaroon bound to
  one skill version, parsing the \<open>Authorization\<close> header and verifying its macaroon and
  preimage, and the two audit tables.

  Parameters of the model: the macaroon library (\<open>macaroon_lib\<close>), the HTTP call to the
  Lightning node (\<open>fetch\<close>) and SHA-256 (\<open>sha256\<close>). What the library documents of
  itself is the hypothesis \<open>macaroon_contract\<close>.
\<close>

abbreviation DEFAULT_INVOICE_EXPIRY_SECONDS :: int where "DEFAULT_INVOICE_EXPIRY_SECONDS \<equiv> 3600"
abbreviation DEFAULT_MIN_AMOUNT_SATS :: int where "DEFAULT_MIN_AMOUNT_SATS \<equiv> 1"
abbreviation DEFAULT_MAX_AMOUNT_SATS :: int where "DEFAULT_MAX_AMOUNT_SATS \<equiv> 100000"

section \<open>Configuration\<close>

definition requireEnv :: "env \<Rightarrow> string \<Rightarrow> string result" where
  "requireEnv env name =
     (case map_option js_trim (env name) of
        None \<Rightarrow> Inl (Error (name @ '' is required''))
      | Some value \<Rightarrow> if value = [] then Inl (Error (name @ '' is required'')) else Inr value)"

definition getLightningNodeUrl :: "env \<Rightarrow> string result" where
  "getLightningNodeUrl env =
     (let nodeType = toLowerCase (js_trim (case env ''LIGHTNING_NODE_TYPE'' of None \<Rightarrow> ''lnd'' | Some t \<Rightarrow> t)) in
      if nodeType \<noteq> ''lnd'' then Inl (Error (''unsupported LIGHTNING_NODE_TYPE: '' @ nodeType))
      else then_res (requireEnv env ''LIGHTNING_NODE_URL'') (\<lambda>baseUrl.
        Inr (if ends_with ''/'' baseUrl then butlast baseUrl else baseUrl)))"

definition getLightningApiKey :: "env \<Rightarrow> string result" where
  "getLightningApiKey env = requireEnv env ''LIGHTNING_API_KEY''"

text \<open>\<open>Number.isFinite\<close> fails for a digit string beyond the largest double.\<close>

definition parseOptionalInt :: "env \<Rightarrow> string \<Rightarrow> int \<Rightarrow> int result" where
  "parseOptionalInt env name fallback =
     (case map_option js_trim (env name) of
        None \<Rightarrow> Inr fallback
      | Some raw \<Rightarrow>
          if raw = [] then Inr fallback
          else case parseInt10 raw of
            None \<Rightarrow> Inl (Error (name @ '' must be a positive integer''))
          | Some parsed \<Rightarrow>
              if parsed \<ge> 2 ^ 1024 - 2 ^ 970 \<or> parsed \<le> 0
              then Inl (Error (name @ '' must be a positive integer''))
              else Inr parsed)"

definition getInvoiceExpirySeconds :: "env \<Rightarrow> int result" where
  "getInvoiceExpirySeconds env = parseOptionalInt env ''L402_INVOICE_EXPIRY'' DEFAULT_INVOICE_EXPIRY_SECONDS"

definition getAmountRange :: "env \<Rightarrow> (int \<times> int) result" where
  "getAmountRange env =
     then_res (parseOptionalInt env ''L402_MIN_AMOUNT_SATS'' DEFAULT_MIN_AMOUNT_SATS) (\<lambda>min.
     then_res (parseOptionalInt env ''L402_MAX_AMOUNT_SATS'' DEFAULT_MAX_AMOUNT_SATS) (\<lambda>max.
     if min > max
     then Inl (Error ''L402_MIN_AMOUNT_SATS must be less than or equal to L402_MAX_AMOUNT_SATS'')
     else Inr (min, max)))"

definition num_le :: "js_number \<Rightarrow> int \<Rightarrow> bool" where
  "num_le x k = (case x of Finite r \<Rightarrow> r \<le> of_int k | NonFinite \<Rightarrow> False)"

definition num_less :: "js_number \<Rightarrow> int \<Rightarrow> bool" where
  "num_less x k = (case x of Finite r \<Rightarrow> r < of_int k | NonFinite \<Rightarrow> False)"

definition num_greater :: "js_number \<Rightarrow> int \<Rightarrow> bool" where
  "num_greater x k = (case x of Finite r \<Rightarrow> r > of_int k | NonFinite \<Rightarrow> True)"

text \<open>The outcome: a thrown configuration error, or the message (\<open>None\<close> is \<open>null\<close>).\<close>

definition validateConfiguredPrice :: "env \<Rightarrow> js_number \<Rightarrow> string option result" where
  "validateConfiguredPrice env priceSats =
     (if \<not> isInteger priceSats \<or> num_le priceSats 0
      then Inr (Some ''priceSats must be a positive integer'')
      else then_res (getAmountRange env) (\<lambda>(min, max).
        if num_less priceSats min \<or> num_greater priceSats max
        then Inr (Some (''priceSats must be between '' @ int_to_string min @ '' and '' @ int_to_string max))
        else Inr None))"

definition getMacaroonRootKey :: "env \<Rightarrow> byte list result" where
  "getMacaroonRootKey env =
     then_res (requireEnv env ''L402_MACAROON_ROOT_KEY'') (\<lambda>hex.
     if \<not> list_all is_hex_char hex
     then Inl (Error ''L402_MACAROON_ROOT_KEY must be hex encoded'')
     else let rootKey = hex_to_bytes hex in
       if length rootKey \<noteq> 32
       then Inl (Error ''L402_MACAROON_ROOT_KEY must decode to 32 bytes'')
       else Inr rootKey)"

section \<open>Invoices\<close>

definition invoiceMemo :: "string \<Rightarrow> string \<Rightarrow> string" where
  "invoiceMemo skillId contentSha256 = ''L402 '' @ skillId @ ''@'' @ take 12 contentSha256"

record invoice_request =
  ir_url :: string
  ir_macaroon :: string
  ir_value :: string
  ir_memo :: string
  ir_expiry :: string

datatype http_reply = FetchFailed js_error | Reply nat string

record CreateInvoiceResponse =
  ci_payment_request :: "string option"
  ci_payment_request_rune :: "string option"
  ci_r_hash :: "string option"
  ci_r_hash_str :: "string option"

text \<open>The reply read at its declared type: only string properties count.\<close>

definition invoice_response_of :: "json \<Rightarrow> CreateInvoiceResponse" where
  "invoice_response_of v =
     \<lparr>ci_payment_request = json_string ''payment_request'' v,
      ci_payment_request_rune = json_string ''payment_request_rune'' v,
      ci_r_hash = json_string ''r_hash'' v, ci_r_hash_str = json_string ''r_hash_str'' v\<rparr>"

text \<open>An optional string is truthy when it is present and not empty.\<close>

definition truthy :: "string option \<Rightarrow> bool" where
  "truthy s = (case s of None \<Rightarrow> False | Some t \<Rightarrow> t \<noteq> [])"

definition response_ok :: "nat \<Rightarrow> bool" where
  "response_ok status \<longleftrightarrow> 200 \<le> status \<and> status \<le> 299"

definition paymentHash_of_response :: "CreateInvoiceResponse \<Rightarrow> string option" where
  "paymentHash_of_response data =
     (if truthy (ci_r_hash data) then map_option (\<lambda>h. bytes_to_hex (base64_decode h)) (ci_r_hash data)
      else if truthy (ci_r_hash_str data) then map_option toLowerCase (ci_r_hash_str data)
      else None)"

text \<open>Lines 147 to 170: the reply of the node, parsed before its status is looked at.\<close>

definition invoice_of_reply :: "nat \<Rightarrow> string \<Rightarrow> (string \<times> string) result" where
  "invoice_of_reply status text =
     then_res (if text = [] then Inr (JObj []) else JSON_parse text) (\<lambda>v.
     if \<not> response_ok status
     then Inl (Error (''invoice creation failed: '' @ nat_to_string status @ '' '' @ text))
     else if v = JNull then Inl (Error ''Cannot read properties of null'')
     else
       let data = invoice_response_of v;
           invoice = (case ci_payment_request data of
                        Some p \<Rightarrow> Some p | None \<Rightarrow> ci_payment_request_rune data) in
       if \<not> truthy invoice
       then Inl (Error ''invoice creation response missing payment_request'')
       else case paymentHash_of_response data of
         None \<Rightarrow> Inl (Error ''invoice creation response missing a valid payment hash'')
       | Some paymentHash \<Rightarrow>
           if \<not> is_hex64 paymentHash
           then Inl (Error ''invoice creation response missing a valid payment hash'')
           else Inr (the invoice, paymentHash))"

definition createInvoice ::
    "env \<Rightarrow> (invoice_request \<Rightarrow> http_reply) \<Rightarrow> int \<Rightarrow> string \<Rightarrow> string \<Rightarrow> (string \<times> string) result" where
  "createInvoice env fetch priceSats skillId contentSha256 =
     then_res (getLightningNodeUrl env) (\<lambda>url.
     then_res (getLightningApiKey env) (\<lambda>key.
     then_res (getInvoiceExpirySeconds env) (\<lambda>expiry.
     case fetch \<lparr>ir_url = url @ ''/v1/invoices'', ir_macaroon = key, ir_value = int_to_string priceSats,
                 ir_memo = invoiceMemo skillId contentSha256, ir_expiry = int_to_string expiry\<rparr> of
       FetchFailed e \<Rightarrow> Inl e
     | Reply status text \<Rightarrow> invoice_of_reply status text)))"

section \<open>Macaroons\<close>

record expected_claim =
  ex_skillId :: string
  ex_contentSha256 :: string
  ex_path :: string
  ex_method :: string

definition caveatsFor :: "expected_claim \<Rightarrow> string list" where
  "caveatsFor expected =
     [''skill_id = '' @ ex_skillId expected,
      ''content_sha256 = '' @ ex_contentSha256 expected,
      ''path = '' @ ex_path expected,
      ''method = '' @ toUpperCase (ex_method expected)]"

text \<open>
  The macaroon library. The check passed to \<open>lib_verify\<close> reads and extends the set of
  caveats seen so far, which the library threads from one caveat to the next; a message
  from the check, or any other failure, is a throw.
\<close>

record 'm macaroon_lib =
  lib_newMacaroon :: "nat \<Rightarrow> byte list \<Rightarrow> byte list \<Rightarrow> string \<Rightarrow> 'm"
  lib_addFirstPartyCaveat :: "'m \<Rightarrow> byte list \<Rightarrow> 'm"
  lib_exportJSON :: "'m \<Rightarrow> macaroon_json"
  lib_importMacaroon :: "string \<Rightarrow> 'm result"
  lib_verify :: "'m \<Rightarrow> byte list \<Rightarrow> (string \<Rightarrow> string list \<Rightarrow> string option \<times> string list)
                  \<Rightarrow> string list \<Rightarrow> string list result"
  lib_identifier :: "'m \<Rightarrow> byte list"
  lib_base64ToBytes :: "string \<Rightarrow> byte list"
  lib_bytesToBase64 :: "byte list \<Rightarrow> string"

definition mintMacaroon :: "'m macaroon_lib \<Rightarrow> env \<Rightarrow> string \<Rightarrow> expected_claim \<Rightarrow> string result" where
  "mintMacaroon lib env paymentHash claim =
     then_res (getMacaroonRootKey env) (\<lambda>rootKey.
     let macaroon = lib_newMacaroon lib 2 rootKey (utf8Bytes paymentHash) ''l402.lightningnode.app'';
         macaroon = foldl (\<lambda>m caveat. lib_addFirstPartyCaveat lib m (utf8Bytes caveat)) macaroon
                      (caveatsFor claim)
     in then_res (exportBinaryV2FromJson (lib_base64ToBytes lib) (lib_exportJSON lib macaroon))
          (\<lambda>bytes. Inr (lib_bytesToBase64 lib bytes)))"

text \<open>\<open>s.trim().split(/\s+/, 2)\<close>: the first two tokens.\<close>

definition split_two :: "string \<Rightarrow> string \<times> string option" where
  "split_two s =
     (let rest = dropWhile js_whitespace (dropWhile (Not \<circ> js_whitespace) s)
      in (takeWhile (Not \<circ> js_whitespace) s,
          if rest = [] then None else Some (takeWhile (Not \<circ> js_whitespace) rest)))"

definition parseAuthorizationHeader :: "string \<Rightarrow> (string \<times> string) result" where
  "parseAuthorizationHeader authorization =
     (case split_two (js_trim authorization) of
        (scheme, credential) \<Rightarrow>
          if scheme = [] \<or> \<not> truthy credential
          then Inl (Error ''malformed authorization header'')
          else
            let normalizedScheme = toUpperCase scheme; credential = the credential in
            if normalizedScheme \<noteq> ''L402'' \<and> normalizedScheme \<noteq> ''LSAT''
            then Inl (Error ''unsupported authorization scheme'')
            else case indexOf_char (CHR '':'') credential of
              None \<Rightarrow> Inl (Error ''authorization header missing preimage'')
            | Some separator \<Rightarrow>
                let macaroonB64 = take separator credential;
                    preimageHex = toLowerCase (drop (separator + 1) credential)
                in if macaroonB64 = [] \<or> \<not> is_hex64 preimageHex
                   then Inl (Error ''authorization header is invalid'')
                   else Inr (macaroonB64, preimageHex))"

text \<open>The closure handed to the library, over the set of expected caveats.\<close>

definition check_caveat :: "string list \<Rightarrow> string \<Rightarrow> string list \<Rightarrow> string option \<times> string list" where
  "check_caveat expectedCaveats condition seenCaveats =
     (if condition \<notin> set expectedCaveats
      then (Some (''unexpected caveat: '' @ condition), seenCaveats)
      else (None, set_add condition seenCaveats))"

definition first_missing :: "string list \<Rightarrow> string list \<Rightarrow> string option" where
  "first_missing expectedCaveats seenCaveats = List.find (\<lambda>c. c \<notin> set seenCaveats) expectedCaveats"

definition verifyMacaroonCaveats ::
    "'m macaroon_lib \<Rightarrow> env \<Rightarrow> string \<Rightarrow> expected_claim \<Rightarrow> string result" where
  "verifyMacaroonCaveats lib env macaroonB64 expected =
     then_res (lib_importMacaroon lib macaroonB64) (\<lambda>macaroon.
     let expectedCaveats = js_Set (caveatsFor expected) in
     then_res (getMacaroonRootKey env) (\<lambda>rootKey.
     then_res (lib_verify lib macaroon rootKey (check_caveat expectedCaveats) []) (\<lambda>seenCaveats.
     case first_missing expectedCaveats seenCaveats of
       Some caveat \<Rightarrow> Inl (Error (''missing caveat: '' @ caveat))
     | None \<Rightarrow>
         (case map_option toLowerCase (utf8_decode (lib_identifier lib macaroon)) of
            None \<Rightarrow> Inl (Error ''macaroon identifier does not contain a valid payment hash'')
          | Some paymentHash \<Rightarrow>
              if \<not> is_hex64 paymentHash
              then Inl (Error ''macaroon identifier does not contain a valid payment hash'')
              else Inr paymentHash))))"

definition paymentHashForPreimage :: "(byte list \<Rightarrow> byte list) \<Rightarrow> string \<Rightarrow> string" where
  "paymentHashForPreimage sha256 preimageHex = bytes_to_hex (sha256 (hex_to_bytes preimageHex))"

section \<open>Audit tables\<close>

definition recordChallenge ::
    "env \<Rightarrow> string \<Rightarrow> string \<Rightarrow> string \<Rightarrow> int \<Rightarrow> string \<Rightarrow> world \<Rightarrow> unit result \<times> world" where
  "recordChallenge env paymentHash skillId contentSha256 priceSats invoice w =
     (if \<not> has_db env then (Inr (), w)
      else db_query (\<lambda>db.
        let row = (case map_of (l402_challenges db) paymentHash of
                     None \<Rightarrow> \<lparr>ch_skill_id = skillId, ch_content_sha256 = contentSha256,
                              ch_price_sats = priceSats, ch_invoice = invoice, ch_created_at = w_now w\<rparr>
                   | Some old \<Rightarrow> old\<lparr>ch_skill_id := skillId, ch_content_sha256 := contentSha256,
                              ch_price_sats := priceSats, ch_invoice := invoice\<rparr>)
        in (Inr (), db\<lparr>l402_challenges := AList.update paymentHash row (l402_challenges db)\<rparr>)) w)"

definition recordReceipt :: "env \<Rightarrow> string \<Rightarrow> string \<Rightarrow> string \<Rightarrow> world \<Rightarrow> unit result \<times> world" where
  "recordReceipt env paymentHash skillId contentSha256 w =
     (if \<not> has_db env then (Inr (), w)
      else db_query (\<lambda>db.
        let row = (case map_of (l402_receipts db) paymentHash of
                     None \<Rightarrow> \<lparr>rc_skill_id = skillId, rc_content_sha256 = contentSha256,
                              rc_first_verified_at = w_now w, rc_settled_at = Some (w_now w)\<rparr>
                   | Some old \<Rightarrow> old\<lparr>rc_skill_id := skillId, rc_content_sha256 := contentSha256,
                              rc_settled_at := (case rc_settled_at old of
                                                  Some t \<Rightarrow> Some t | None \<Rightarrow> Some (w_now w))\<rparr>)
        in (Inr (), db\<lparr>l402_receipts := AList.update paymentHash row (l402_receipts db)\<rparr>)) w)"

section \<open>Issuing and verifying\<close>

record challenge_input =
  ci_claim :: expected_claim
  ci_priceSats :: js_number

definition price_int :: "js_number \<Rightarrow> int" where
  "price_int x = (case x of Finite r \<Rightarrow> \<lfloor>r\<rfloor> | NonFinite \<Rightarrow> 0)"

definition challenge_header :: "string \<Rightarrow> string \<Rightarrow> string \<Rightarrow> string" where
  "challenge_header scheme macaroonB64 invoice =
     scheme @ '' macaroon='' @ [CHR 0x22] @ macaroonB64 @ [CHR 0x22] @ '', invoice='' @ [CHR 0x22]
     @ invoice @ [CHR 0x22]"

definition issueL402Challenge ::
    "'m macaroon_lib \<Rightarrow> (invoice_request \<Rightarrow> http_reply) \<Rightarrow> env \<Rightarrow> challenge_input \<Rightarrow> world
     \<Rightarrow> L402Challenge result \<times> world" where
  "issueL402Challenge lib fetch env input w =
     (let claim = ci_claim input;
          prepared =
            then_res (validateConfiguredPrice env (ci_priceSats input)) (\<lambda>priceError.
            case priceError of
              Some msg \<Rightarrow> Inl (Error msg)
            | None \<Rightarrow>
                then_res (createInvoice env fetch (price_int (ci_priceSats input)) (ex_skillId claim)
                            (ex_contentSha256 claim)) (\<lambda>(invoice, paymentHash).
                then_res (mintMacaroon lib env paymentHash claim) (\<lambda>macaroonB64.
                Inr (invoice, paymentHash, macaroonB64))))
      in case prepared of
           Inl e \<Rightarrow> (Inl e, w)
         | Inr (invoice, paymentHash, macaroonB64) \<Rightarrow>
             (case recordChallenge env paymentHash (ex_skillId claim) (ex_contentSha256 claim)
                     (price_int (ci_priceSats input)) invoice w of
                (Inl e, w) \<Rightarrow> (Inl e, w)
              | (Inr _, w) \<Rightarrow>
                  (Inr \<lparr>lc_invoice = invoice, lc_macaroonB64 = macaroonB64, lc_paymentHash = paymentHash,
                        lc_headers = [challenge_header ''LSAT'' macaroonB64 invoice,
                                      challenge_header ''L402'' macaroonB64 invoice]\<rparr>, w)))"

definition invalid_verification :: "string \<Rightarrow> L402Verification" where
  "invalid_verification reason =
     \<lparr>lv_valid = False, lv_reason = Some reason, lv_paymentHash = None, lv_skillId = None,
      lv_contentSha256 = None\<rparr>"

fun error_message :: "js_error \<Rightarrow> string" where
  "error_message (Error m) = m"

definition verifyL402Authorization ::
    "'m macaroon_lib \<Rightarrow> (byte list \<Rightarrow> byte list) \<Rightarrow> env \<Rightarrow> string \<Rightarrow> expected_claim \<Rightarrow> world
     \<Rightarrow> L402Verification \<times> world" where
  "verifyL402Authorization lib sha256 env authorization expected w =
     (case then_res (parseAuthorizationHeader authorization) (\<lambda>(macaroonB64, preimageHex).
           then_res (verifyMacaroonCaveats lib env macaroonB64 expected) (\<lambda>paymentHash.
           Inr (paymentHash, paymentHashForPreimage sha256 preimageHex))) of
        Inl e \<Rightarrow> (invalid_verification (error_message e), w)
      | Inr (paymentHash, derivedPaymentHash) \<Rightarrow>
          if paymentHash \<noteq> derivedPaymentHash
          then (invalid_verification ''payment preimage does not match payment hash'', w)
          else (case recordReceipt env paymentHash (ex_skillId expected) (ex_contentSha256 expected) w of
                  (Inl e, w) \<Rightarrow> (invalid_verification (error_message e), w)
                | (Inr _, w) \<Rightarrow>
                    (\<lparr>lv_valid = True, lv_reason = None, lv_paymentHash = Some paymentHash,
                      lv_skillId = Some (ex_skillId expected),
                      lv_contentSha256 = Some (ex_contentSha256 expected)\<rparr>, w)))"

section \<open>What the macaroon library documents\<close>

text \<open>Calling the check on every condition in order, stopping at the first message.\<close>

fun run_checks :: "(string \<Rightarrow> 's \<Rightarrow> string option \<times> 's) \<Rightarrow> string list \<Rightarrow> 's \<Rightarrow> 's option" where
  "run_checks check [] s = Some s"
| "run_checks check (c # cs) s =
     (case check c s of (Some _, _) \<Rightarrow> None | (None, s') \<Rightarrow> run_checks check cs s')"

text \<open>
  Verification without discharge macaroons succeeds exactly when the signature chain is
  the one of the root key, no caveat is for a third party, and the check accepts every
  condition. \<open>view m\<close> is the content of a macaroon and \<open>authentic key m\<close> says that its
  signature was made with \<open>key\<close>.
\<close>

definition verify_law ::
    "'m macaroon_lib \<Rightarrow> (byte list \<Rightarrow> 'm \<Rightarrow> bool) \<Rightarrow> ('m \<Rightarrow> macaroon_bytes) \<Rightarrow> bool" where
  "verify_law lib authentic view \<longleftrightarrow>
     (\<forall>m. lib_identifier lib m = mb_identifier (view m)) \<and>
     (\<forall>m key check seen seen'.
        lib_verify lib m key check seen = Inr seen' \<longleftrightarrow>
          authentic key m \<and> list_all (\<lambda>c. cb_vid c = None) (mb_caveats (view m)) \<and>
          (\<exists>conds. map (\<lambda>c. utf8_decode (cb_identifier c)) (mb_caveats (view m)) = map Some conds \<and>
                   run_checks check conds seen = Some seen'))"

text \<open>Making macaroons: their content, and that they carry their maker's signature.\<close>

definition mint_law ::
    "'m macaroon_lib \<Rightarrow> (byte list \<Rightarrow> 'm \<Rightarrow> bool) \<Rightarrow> ('m \<Rightarrow> macaroon_bytes) \<Rightarrow> ('m \<Rightarrow> bool) \<Rightarrow> bool" where
  "mint_law lib authentic view v2 \<longleftrightarrow>
     (\<forall>key i l. l \<noteq> [] \<longrightarrow> (let m = lib_newMacaroon lib 2 key i l in
        v2 m \<and> authentic key m \<and>
        mb_location (view m) = Some (utf8Bytes l) \<and> mb_identifier (view m) = i \<and>
        mb_caveats (view m) = [] \<and> length (mb_signature (view m)) = 32)) \<and>
     (\<forall>key m c. v2 m \<and> authentic key m \<longrightarrow>
        (let m' = lib_addFirstPartyCaveat lib m c in
         v2 m' \<and> authentic key m' \<and>
         mb_location (view m') = mb_location (view m) \<and> mb_identifier (view m') = mb_identifier (view m) \<and>
         mb_caveats (view m') =
           mb_caveats (view m) @ [\<lparr>cb_location = None, cb_identifier = c, cb_vid = None\<rparr>] \<and>
         length (mb_signature (view m')) = 32))"

text \<open>
  Transport: the JSON export of a version 2 macaroon denotes its content, base64 text
  uses the base64 alphabet, and importing the base64 of bytes that hold the content of
  \<open>m\<close> in the binary format gives \<open>m\<close>.
\<close>

definition transport_law ::
    "'m macaroon_lib \<Rightarrow> ('m \<Rightarrow> macaroon_bytes) \<Rightarrow> ('m \<Rightarrow> bool) \<Rightarrow> bool" where
  "transport_law lib view v2 \<longleftrightarrow>
     (\<forall>m. v2 m \<longrightarrow> mac_v (lib_exportJSON lib m) = Some 2 \<and>
            macaroon_of (lib_base64ToBytes lib) (lib_exportJSON lib m) = Some (view m)) \<and>
     (\<forall>m bytes. v2 m \<longrightarrow> read_macaroon (map unat bytes) = Some (view m, []) \<longrightarrow>
            lib_importMacaroon lib (lib_bytesToBase64 lib bytes) = Inr m) \<and>
     (\<forall>bytes. list_all (\<lambda>c. base64_val c \<noteq> None \<or> c = CHR ''='') (lib_bytesToBase64 lib bytes) \<and>
            (bytes \<noteq> [] \<longrightarrow> lib_bytesToBase64 lib bytes \<noteq> []))"

section \<open>Caveats\<close>

lemma caveatsFor_distinct: "distinct (caveatsFor e)"
  by (simp add: caveatsFor_def)

lemma set_js_caveats [simp]: "js_Set (caveatsFor e) = caveatsFor e"
  by (rule js_Set_distinct, rule caveatsFor_distinct)

text \<open>The caveats determine the claim (the method up to its case).\<close>

lemma caveatsFor_mem:
  "''skill_id = '' @ x \<in> set (caveatsFor e) \<longleftrightarrow> x = ex_skillId e"
  "''content_sha256 = '' @ x \<in> set (caveatsFor e) \<longleftrightarrow> x = ex_contentSha256 e"
  "''path = '' @ x \<in> set (caveatsFor e) \<longleftrightarrow> x = ex_path e"
  "''method = '' @ x \<in> set (caveatsFor e) \<longleftrightarrow> x = toUpperCase (ex_method e)"
  by (simp_all add: caveatsFor_def)

lemma caveatsFor_inject:
  "set (caveatsFor e) = set (caveatsFor e') \<longleftrightarrow>
     ex_skillId e = ex_skillId e' \<and> ex_contentSha256 e = ex_contentSha256 e' \<and>
     ex_path e = ex_path e' \<and> toUpperCase (ex_method e) = toUpperCase (ex_method e')"
  (is "?L \<longleftrightarrow> ?R")
proof
  assume ?L
  then have "c \<in> set (caveatsFor e) \<longleftrightarrow> c \<in> set (caveatsFor e')" for c by simp
  then show ?R using caveatsFor_mem by metis
qed (simp add: caveatsFor_def)

lemma run_checks_check_caveat:
  "run_checks (check_caveat expected) conds seen = Some seen' \<longleftrightarrow>
     set conds \<subseteq> set expected \<and> seen' = foldl (\<lambda>s c. set_add c s) seen conds"
  by (induction conds arbitrary: seen) (auto simp: check_caveat_def)

lemma first_missing_None: "first_missing expected seen = None \<longleftrightarrow> set expected \<subseteq> set seen"
  by (auto simp: first_missing_def find_None_iff)

lemma verifyMacaroonCaveats_Inr:
  assumes "verify_law lib authentic view"
  shows "verifyMacaroonCaveats lib env mac e = Inr hash \<longleftrightarrow>
    (\<exists>m key conds ident.
       lib_importMacaroon lib mac = Inr m \<and> getMacaroonRootKey env = Inr key \<and>
       authentic key m \<and> list_all (\<lambda>c. cb_vid c = None) (mb_caveats (view m)) \<and>
       map (\<lambda>c. utf8_decode (cb_identifier c)) (mb_caveats (view m)) = map Some conds \<and>
       set conds = set (caveatsFor e) \<and>
       utf8_decode (mb_identifier (view m)) = Some ident \<and>
       hash = toLowerCase ident \<and> is_hex64 hash)"
proof -
  have ver: "lib_verify lib m key check seen = Inr seen' \<longleftrightarrow>
          authentic key m \<and> list_all (\<lambda>c. cb_vid c = None) (mb_caveats (view m)) \<and>
          (\<exists>conds. map (\<lambda>c. utf8_decode (cb_identifier c)) (mb_caveats (view m)) = map Some conds \<and>
                   run_checks check conds seen = Some seen')" for m key check seen seen'
    using assms by (simp add: verify_law_def)
  have ident: "lib_identifier lib m = mb_identifier (view m)" for m
    using assms by (simp add: verify_law_def)
  have tail: "(case first_missing ex seen of
        Some c \<Rightarrow> Inl (Error (''missing caveat: '' @ c))
      | None \<Rightarrow> (case map_option toLowerCase d of
          None \<Rightarrow> Inl (Error ''macaroon identifier does not contain a valid payment hash'')
        | Some p \<Rightarrow> if \<not> is_hex64 p
                    then Inl (Error ''macaroon identifier does not contain a valid payment hash'')
                    else Inr p)) = Inr hash \<longleftrightarrow>
      set ex \<subseteq> set seen \<and> (\<exists>ident. d = Some ident \<and> hash = toLowerCase ident \<and> is_hex64 hash)"
    for ex seen d
    by (cases "first_missing ex seen"; cases d)
      (auto simp: first_missing_None [symmetric] first_missing_def split: if_splits)
  show ?thesis
    unfolding verifyMacaroonCaveats_def Let_def then_res_Inr set_js_caveats ver ident tail
      run_checks_check_caveat
    by (fastforce simp: foldl_set_add)
qed

section \<open>The header a paying client sends\<close>

lemma base64_char_props:
  "base64_val c \<noteq> None \<or> c = CHR ''='' \<Longrightarrow> \<not> js_whitespace c \<and> c \<noteq> CHR '':''"
  by (auto simp: base64_val_def js_whitespace_def Let_def split: if_splits)

lemma parse_sent_header:
  assumes mac: "list_all (\<lambda>c. base64_val c \<noteq> None \<or> c = CHR ''='') mac" "mac \<noteq> []"
    and pre: "length pre = 32"
  shows "parseAuthorizationHeader (''L402 '' @ mac @ '':'' @ bytes_to_hex pre)
           = Inr (mac, bytes_to_hex pre)"
proof -
  let ?cred = "mac @ CHR '':'' # bytes_to_hex pre"
  have hex: "list_all is_hex_char (bytes_to_hex pre)" "bytes_to_hex pre \<noteq> []"
    using pre by (auto simp flip: length_0_conv)
  have mac_ws: "\<forall>c \<in> set mac. \<not> js_whitespace c \<and> c \<noteq> CHR '':''"
    using mac(1) base64_char_props by (auto simp: list_all_iff)
  have hex_ws: "\<forall>c \<in> set (bytes_to_hex pre). \<not> js_whitespace c"
    using hex(1) hex_char_not_ws by (auto simp: list_all_iff)
  have ws: "\<not> js_whitespace (CHR ''L'')" "\<not> js_whitespace (CHR ''4'')" "\<not> js_whitespace (CHR ''0'')"
    "\<not> js_whitespace (CHR ''2'')" "js_whitespace (CHR '' '')" "\<not> js_whitespace (CHR '':'')"
    by (simp_all add: js_whitespace_def)
  have cred_ws: "\<forall>c \<in> set ?cred. \<not> js_whitespace c" using mac_ws hex_ws ws by auto
  then have tw: "takeWhile (Not \<circ> js_whitespace) ?cred = ?cred"
    and dw: "dropWhile js_whitespace ?cred = ?cred"
    using mac(2) by (simp_all add: takeWhile_eq_all_conv dropWhile_eq_self_iff hd_append)
  have "js_trim (''L402 '' @ ?cred) = ''L402 '' @ ?cred"
    using hex(2) hex_ws ws by (intro js_trim_id) auto
  moreover have "split_two (''L402 '' @ ?cred) = (''L402'', Some ?cred)"
    using ws tw dw by (simp add: split_two_def)
  moreover have "indexOf_char (CHR '':'') ?cred = Some (length mac)"
    using mac_ws by (intro indexOf_char_append) auto
  moreover have "is_hex64 (bytes_to_hex pre)" using pre by (simp add: is_hex64_def)
  moreover have "toUpperCase ''L402'' = ''L402''" by (simp add: toUpperCase_def upper_char_def)
  ultimately show ?thesis
    using mac(2) by (simp add: parseAuthorizationHeader_def truthy_def)
qed

lemma parseAuthorizationHeader_hex:
  "parseAuthorizationHeader authorization = Inr (mac, pre) \<Longrightarrow> is_hex64 pre"
  by (auto simp: parseAuthorizationHeader_def Let_def split: prod.splits if_splits option.splits)

section \<open>The macaroon a challenge carries\<close>

abbreviation first_party :: "string \<Rightarrow> caveat_bytes" where
  "first_party c \<equiv> \<lparr>cb_location = None, cb_identifier = utf8Bytes c, cb_vid = None\<rparr>"

lemma add_caveats_view:
  assumes law: "mint_law lib authentic view v2" and "v2 m" "authentic key m"
    and "length (mb_signature (view m)) = 32"
  shows "let m' = foldl (\<lambda>m c. lib_addFirstPartyCaveat lib m (utf8Bytes c)) m cs in
    v2 m' \<and> authentic key m' \<and> mb_location (view m') = mb_location (view m) \<and>
    mb_identifier (view m') = mb_identifier (view m) \<and>
    mb_caveats (view m') = mb_caveats (view m) @ map first_party cs \<and>
    length (mb_signature (view m')) = 32"
  using assms(2-4)
proof (induction cs arbitrary: m)
  case Nil
  then show ?case by simp
next
  case (Cons c cs)
  let ?m = "lib_addFirstPartyCaveat lib m (utf8Bytes c)"
  have step: "v2 ?m" "authentic key ?m" "mb_location (view ?m) = mb_location (view m)"
    "mb_identifier (view ?m) = mb_identifier (view m)"
    "mb_caveats (view ?m) = mb_caveats (view m) @ [first_party c]" "length (mb_signature (view ?m)) = 32"
    using law Cons.prems by (simp_all add: mint_law_def Let_def)
  show ?case using Cons.IH [OF step(1,2,6)] step(3-5) by (simp add: Let_def)
qed

text \<open>Claims short enough for the 32-bit lengths of the binary format.\<close>

definition claim_fits :: "expected_claim \<Rightarrow> bool" where
  "claim_fits e \<longleftrightarrow> (\<forall>c \<in> set (caveatsFor e). length c < 2 ^ 31)"

lemma mintMacaroon_imports:
  assumes mint: "mint_law lib authentic view v2" and tr: "transport_law lib view v2"
    and key: "getMacaroonRootKey env = Inr key" and "claim_fits e" and "is_hex64 hash"
  shows "\<exists>mac m. mintMacaroon lib env hash e = Inr mac \<and> lib_importMacaroon lib mac = Inr m \<and>
    authentic key m \<and> mb_identifier (view m) = utf8Bytes hash \<and>
    mb_caveats (view m) = map first_party (caveatsFor e) \<and>
    list_all (\<lambda>c. base64_val c \<noteq> None \<or> c = CHR ''='') mac \<and> mac \<noteq> []"
proof -
  let ?m0 = "lib_newMacaroon lib 2 key (utf8Bytes hash) ''l402.lightningnode.app''"
  define m where "m = foldl (\<lambda>m c. lib_addFirstPartyCaveat lib m (utf8Bytes c)) ?m0 (caveatsFor e)"
  have m0: "v2 ?m0" "authentic key ?m0" "length (mb_signature (view ?m0)) = 32"
    "mb_location (view ?m0) = Some (utf8Bytes ''l402.lightningnode.app'')"
    "mb_identifier (view ?m0) = utf8Bytes hash" "mb_caveats (view ?m0) = []"
    using mint by (simp_all add: mint_law_def Let_def)
  have m: "v2 m" "authentic key m" "mb_location (view m) = Some (utf8Bytes ''l402.lightningnode.app'')"
    "mb_identifier (view m) = utf8Bytes hash" "mb_caveats (view m) = map first_party (caveatsFor e)"
    "length (mb_signature (view m)) = 32"
    using add_caveats_view [of lib authentic view v2 ?m0 key "caveatsFor e"] mint m0
    by (simp_all add: m_def Let_def)
  have fits_s: "fits (utf8Bytes s)" if "length s < 2 ^ 31" for s
  proof -
    have "2 * length s < 2 ^ 32" using that by simp
    then show ?thesis unfolding fits_def by (rule le_less_trans [OF length_utf8Bytes])
  qed
  have "macaroon_fits (view m)"
    using fits_s [of hash] fits_s [of "''l402.lightningnode.app''"] fits_s assms(4,5) m(3-6)
    by (auto simp: macaroon_fits_def caveat_fits_def list_all_iff claim_fits_def is_hex64_def fits_def)
  moreover have "mac_v (lib_exportJSON lib m) = Some 2"
    and view: "macaroon_of (lib_base64ToBytes lib) (lib_exportJSON lib m) = Some (view m)"
    using tr m(1) by (simp_all add: transport_law_def)
  then obtain bytes where bytes: "exportBinaryV2FromJson (lib_base64ToBytes lib) (lib_exportJSON lib m) = Inr bytes"
    using exportBinaryV2FromJson_Inr by blast
  ultimately have "read_macaroon (map unat bytes) = Some (view m, [])"
    using view by (intro read_exported_macaroon)
  moreover from this have "bytes \<noteq> []" by (auto simp: read_macaroon_def)
  ultimately show ?thesis
    using tr bytes key m
    by (intro exI [of _ "lib_bytesToBase64 lib bytes"] exI [of _ m])
      (simp add: mintMacaroon_def transport_law_def m_def [symmetric])
qed

section \<open>The payment hash of an invoice\<close>

lemma lower_char_idem: "lower_char (lower_char c) = lower_char c"
  by (auto simp: lower_char_def Let_def)

lemma toLowerCase_idem [simp]: "toLowerCase (toLowerCase s) = toLowerCase s"
  by (simp add: toLowerCase_def lower_char_idem)

lemma paymentHash_of_response_lower:
  "paymentHash_of_response data = Some h \<Longrightarrow> toLowerCase h = h"
  by (auto simp: paymentHash_of_response_def split: if_splits)

lemma invoice_of_reply_Inr:
  assumes "invoice_of_reply status text = Inr (invoice, hash)"
  shows "response_ok status \<and> invoice \<noteq> [] \<and> is_hex64 hash \<and> toLowerCase hash = hash"
  using assms unfolding invoice_of_reply_def Let_def then_res_Inr
  by (elim exE conjE)
    (auto simp: truthy_def dest: paymentHash_of_response_lower split: if_splits option.splits)

lemma createInvoice_hash:
  "createInvoice env fetch p sid sha = Inr (invoice, hash) \<Longrightarrow> is_hex64 hash \<and> toLowerCase hash = hash"
  unfolding createInvoice_def then_res_Inr
  by (elim exE conjE) (auto split: http_reply.split_asm dest!: invoice_of_reply_Inr)

section \<open>When a request is let through\<close>

lemma record_Inr:
  "(\<exists>u. fst (recordReceipt env hash sid sha w) = Inr u) \<longleftrightarrow> \<not> has_db env \<or> w_query_error w = None"
  "(\<exists>u. fst (recordChallenge env hash sid sha p invoice w) = Inr u) \<longleftrightarrow> \<not> has_db env \<or> w_query_error w = None"
  by (auto simp: recordReceipt_def recordChallenge_def db_query_def Let_def split: option.splits)

lemma verifyL402Authorization_valid:
  "lv_valid (fst (verifyL402Authorization lib sha256 env authorization e w)) \<longleftrightarrow>
     (\<exists>mac pre. parseAuthorizationHeader authorization = Inr (mac, pre) \<and>
        verifyMacaroonCaveats lib env mac e = Inr (paymentHashForPreimage sha256 pre) \<and>
        (\<not> has_db env \<or> w_query_error w = None))"
proof (cases "parseAuthorizationHeader authorization")
  case (Inl err)
  then show ?thesis by (simp add: verifyL402Authorization_def invalid_verification_def)
next
  case (Inr mp)
  obtain mac pre where mp: "mp = (mac, pre)" by (cases mp)
  show ?thesis
  proof (cases "verifyMacaroonCaveats lib env mac e")
    case (Inl err)
    with Inr mp show ?thesis by (simp add: verifyL402Authorization_def invalid_verification_def)
  next
    case (Inr hash)
    have "lv_valid (fst (verifyL402Authorization lib sha256 env authorization e w)) \<longleftrightarrow>
        hash = paymentHashForPreimage sha256 pre \<and>
        (\<exists>u. fst (recordReceipt env hash (ex_skillId e) (ex_contentSha256 e) w) = Inr u)"
      using Inr \<open>parseAuthorizationHeader authorization = Inr mp\<close> mp
      by (auto simp: verifyL402Authorization_def invalid_verification_def
          split: prod.splits sum.splits)
    then show ?thesis
      using Inr \<open>parseAuthorizationHeader authorization = Inr mp\<close> mp record_Inr(1) by auto
  qed
qed

lemma valid_means_paid:
  assumes "verify_law lib authentic view"
    and "lv_valid (fst (verifyL402Authorization lib sha256 env authorization e w))"
  shows "\<exists>mac pre m key conds ident.
    parseAuthorizationHeader authorization = Inr (mac, pre) \<and> length (hex_to_bytes pre) = 32 \<and>
    lib_importMacaroon lib mac = Inr m \<and> getMacaroonRootKey env = Inr key \<and> authentic key m \<and>
    map (\<lambda>c. utf8_decode (cb_identifier c)) (mb_caveats (view m)) = map Some conds \<and>
    set conds = set (caveatsFor e) \<and>
    utf8_decode (mb_identifier (view m)) = Some ident \<and>
    toLowerCase ident = bytes_to_hex (sha256 (hex_to_bytes pre))"
proof -
  obtain mac pre where parse: "parseAuthorizationHeader authorization = Inr (mac, pre)"
    and ver: "verifyMacaroonCaveats lib env mac e = Inr (paymentHashForPreimage sha256 pre)"
    using assms(2) by (auto simp: verifyL402Authorization_valid)
  have "length (hex_to_bytes pre) = 32"
    using parse by (intro length_hex64_bytes parseAuthorizationHeader_hex)
  with parse ver show ?thesis
    unfolding verifyMacaroonCaveats_Inr [OF assms(1)] paymentHashForPreimage_def by force
qed

text \<open>
  C4. A request is only let through on proof of payment for exactly the claim it makes:
  when \<open>verifyL402Authorization\<close> reports \<open>valid\<close>, the header held a macaroon signed with
  the configured root key whose caveats are the four of the expected claim and no other,
  and a 32-byte preimage whose SHA-256 is the payment hash in the macaroon's identifier.
\<close>

theorem verifyL402Authorization_sound:
  assumes "verify_law lib authentic view"
    and "lv_valid (fst (verifyL402Authorization lib sha256 env authorization e w))"
  shows "\<exists>mac pre m key conds ident.
    parseAuthorizationHeader authorization = Inr (mac, pre) \<and> length (hex_to_bytes pre) = 32 \<and>
    lib_importMacaroon lib mac = Inr m \<and> getMacaroonRootKey env = Inr key \<and> authentic key m \<and>
    map (\<lambda>c. utf8_decode (cb_identifier c)) (mb_caveats (view m)) = map Some conds \<and>
    set conds = set (caveatsFor e) \<and>
    utf8_decode (mb_identifier (view m)) = Some ident \<and>
    toLowerCase ident = bytes_to_hex (sha256 (hex_to_bytes pre))"
  using assms by (rule valid_means_paid)

lemma minted_macaroon_verifies:
  assumes ver: "verify_law lib authentic view" and mint: "mint_law lib authentic view v2"
    and tr: "transport_law lib view v2"
    and key: "getMacaroonRootKey env = Inr key" and fit: "claim_fits e"
    and hash: "is_hex64 hash" "toLowerCase hash = hash"
    and pre: "length pre = 32" "bytes_to_hex (sha256 pre) = hash"
    and up: "w_query_error w = None"
  shows "\<exists>mac. mintMacaroon lib env hash e = Inr mac \<and>
    list_all (\<lambda>c. base64_val c \<noteq> None \<or> c = CHR ''='') mac \<and> mac \<noteq> [] \<and>
    lv_valid (fst (verifyL402Authorization lib sha256 env (''L402 '' @ mac @ '':'' @ bytes_to_hex pre) e w))"
proof -
  obtain mac m where mac: "mintMacaroon lib env hash e = Inr mac" "lib_importMacaroon lib mac = Inr m"
    "authentic key m" "mb_identifier (view m) = utf8Bytes hash"
    "mb_caveats (view m) = map first_party (caveatsFor e)"
    "list_all (\<lambda>c. base64_val c \<noteq> None \<or> c = CHR ''='') mac" "mac \<noteq> []"
    using mintMacaroon_imports [of lib authentic view v2 env key e hash] mint tr key fit hash by auto
  have "verifyMacaroonCaveats lib env mac e = Inr hash"
    unfolding verifyMacaroonCaveats_Inr [OF ver]
    using mac(2-5) key hash
    by (intro exI [of _ m] exI [of _ key] exI [of _ "caveatsFor e"] exI [of _ hash])
      (simp add: list_all_iff codec_simps comp_def)
  moreover have "paymentHashForPreimage sha256 (bytes_to_hex pre) = hash"
    using pre(2) by (simp add: paymentHashForPreimage_def codec_simps)
  ultimately have "lv_valid (fst (verifyL402Authorization lib sha256 env
      (''L402 '' @ mac @ '':'' @ bytes_to_hex pre) e w))"
    unfolding verifyL402Authorization_valid
    using parse_sent_header [OF mac(6,7) pre(1)] up by auto
  with mac(1,6,7) show ?thesis by blast
qed

text \<open>
  C3. A challenge can be redeemed: with a valid price, an invoice from the node and a
  root key, \<open>issueL402Challenge\<close> succeeds, and whoever then presents its macaroon with
  the preimage of its payment hash in an \<open>Authorization\<close> header is reported \<open>valid\<close> by
  \<open>verifyL402Authorization\<close> for the same claim, at any later time when queries work.
\<close>

theorem issued_challenge_verifies:
  assumes "verify_law lib authentic view" and "mint_law lib authentic view v2"
    and "transport_law lib view v2"
    and price: "validateConfiguredPrice env p = Inr None"
    and inv: "createInvoice env fetch (price_int p) (ex_skillId e) (ex_contentSha256 e) = Inr (invoice, hash)"
    and "getMacaroonRootKey env = Inr key" and "claim_fits e"
    and "length pre = 32" "bytes_to_hex (sha256 pre) = hash"
    and up: "w_query_error w = None" "w_query_error w' = None"
  shows "\<exists>ch w1. issueL402Challenge lib fetch env \<lparr>ci_claim = e, ci_priceSats = p\<rparr> w = (Inr ch, w1) \<and>
    lv_valid (fst (verifyL402Authorization lib sha256 env
      (''L402 '' @ lc_macaroonB64 ch @ '':'' @ bytes_to_hex pre) e w'))"
proof -
  obtain mac where mac: "mintMacaroon lib env hash e = Inr mac"
    "lv_valid (fst (verifyL402Authorization lib sha256 env (''L402 '' @ mac @ '':'' @ bytes_to_hex pre) e w'))"
    using minted_macaroon_verifies [of lib authentic view v2 env key e hash pre sha256 w'] assms
      createInvoice_hash [OF inv] by auto
  obtain u w1 where "recordChallenge env hash (ex_skillId e) (ex_contentSha256 e) (price_int p) invoice w = (Inr u, w1)"
    using record_Inr(2) up(1) by (metis prod.collapse)
  then obtain ch where "issueL402Challenge lib fetch env \<lparr>ci_claim = e, ci_priceSats = p\<rparr> w = (Inr ch, w1)"
    "lc_macaroonB64 ch = mac"
    using price inv mac(1) by (simp add: issueL402Challenge_def)
  with mac(2) show ?thesis by blast
qed

section \<open>Prices\<close>

lemma parseOptionalInt_pos: "parseOptionalInt env name fallback = Inr k \<Longrightarrow> 0 < fallback \<Longrightarrow> 0 < k"
  by (auto simp: parseOptionalInt_def split: option.splits if_splits)

lemma getAmountRange_bounds: "getAmountRange env = Inr (lo, hi) \<Longrightarrow> 0 < lo \<and> lo \<le> hi"
  by (auto simp: getAmountRange_def result_simps dest: parseOptionalInt_pos split: if_splits)

text \<open>
  A price is accepted exactly when it is a whole number of satoshis inside the
  configured range, and that range never admits a price below one satoshi:
  \<open>validateConfiguredPrice\<close> returns \<open>null\<close> iff the range is well configured and
  \<open>1 \<le> min \<le> price \<le> max\<close> for an integer price.
\<close>

lemma validateConfiguredPrice_iff:
  "validateConfiguredPrice env p = Inr None \<longleftrightarrow>
     (\<exists>k lo hi. p = Finite (of_int k) \<and> getAmountRange env = Inr (lo, hi) \<and>
        1 \<le> lo \<and> lo \<le> k \<and> k \<le> hi)"
proof (cases p)
  case NonFinite
  then show ?thesis by (simp add: validateConfiguredPrice_def isInteger_def)
next
  case (Finite r)
  show ?thesis
  proof (cases "isInteger p")
    case False
    then show ?thesis
      by (auto simp: validateConfiguredPrice_def isInteger_Finite)
  next
    case True
    then obtain k where k: "p = Finite (of_int k)" using Finite by (metis isInteger_Finite)
    have "validateConfiguredPrice env p = Inr None \<longleftrightarrow>
        0 < k \<and> (\<exists>lo hi. getAmountRange env = Inr (lo, hi) \<and> lo \<le> k \<and> k \<le> hi)"
      using True by (cases "getAmountRange env")
        (auto simp: k validateConfiguredPrice_def num_le_def num_less_def num_greater_def split: if_splits)
    also have "\<dots> \<longleftrightarrow> (\<exists>lo hi. getAmountRange env = Inr (lo, hi) \<and> 1 \<le> lo \<and> lo \<le> k \<and> k \<le> hi)"
      using getAmountRange_bounds by fastforce
    finally show ?thesis by (simp add: k)
  qed
qed

end
