(* ===== verification/Paywall_Catalog.thy ===== *)
theory Paywall_Catalog
  imports Paywall_L402
begin

text \<open>
  The catalogue of published skill versions (\<open>src/paywall-web/lib/catalog.ts\<close>) and the
  store of their contents (\<open>lib/blob.ts\<close>): lookups go to the edge configuration first
  and to the table \<open>skill_versions\<close> second; publishing deactivates the other versions of
  the skill and inserts or reactivates the new one in one transaction, then copies it to
  the edge configuration. The services outside the repository are the record \<open>services\<close>.
\<close>

record edge_request =
  er_edgeConfigId :: string
  er_teamId :: "string option"
  er_accessToken :: string
  er_key :: string
  er_value :: PublishedSkillVersion

record blob_reply =
  br_statusCode :: nat
  br_stream :: "string option"

record services =
  sv_fetch :: "invoice_request \<Rightarrow> http_reply"
  sv_sha256 :: "byte list \<Rightarrow> byte list"
  sv_edge_patch :: "edge_request \<Rightarrow> world \<Rightarrow> http_reply \<times> world"
  sv_blob_put :: "string \<Rightarrow> byte list \<Rightarrow> world \<Rightarrow> unit result \<times> world"
  sv_blob_get :: "string \<Rightarrow> world \<Rightarrow> blob_reply option result"

section \<open>Lookups\<close>

definition edgeConfigKey :: "string \<Rightarrow> string" where
  "edgeConfigKey skillId = ''l402:skills:'' @ skillId"

definition rowToSkill :: "skill_row \<Rightarrow> PublishedSkillVersion" where
  "rowToSkill row =
     \<lparr>psv_skillId = sk_skill_id row, psv_title = sk_title row, psv_summary = sk_summary row,
      psv_priceSats = Finite (of_int (sk_price_sats row)), psv_contentSha256 = sk_content_sha256 row,
      psv_blobPath = sk_blob_path row, psv_isActive = sk_is_active row,
      psv_createdAt = Some (sk_created_at row)\<rparr>"

definition getCurrentSkillFromEdgeConfig :: "env \<Rightarrow> string \<Rightarrow> world \<Rightarrow> PublishedSkillVersion option" where
  "getCurrentSkillFromEdgeConfig env skillId w =
     (if \<not> truthy (env ''EDGE_CONFIG'') then None
      else case w_edge w of
        None \<Rightarrow> None
      | Some items \<Rightarrow> map_of items (edgeConfigKey skillId))"

text \<open>
  \<open>where skill_id = $1 and is_active = true order by created_at desc limit 1\<close>; among rows
  with the same time the first of the table is taken.
\<close>

fun latest_row :: "skill_row list \<Rightarrow> skill_row option" where
  "latest_row [] = None"
| "latest_row (r # rs) =
     (case latest_row rs of
        None \<Rightarrow> Some r
      | Some s \<Rightarrow> if sk_created_at r < sk_created_at s then Some s else Some r)"

definition getCurrentSkillVersion :: "env \<Rightarrow> string \<Rightarrow> world \<Rightarrow> PublishedSkillVersion option result" where
  "getCurrentSkillVersion env skillId w =
     (case getCurrentSkillFromEdgeConfig env skillId w of
        Some s \<Rightarrow> Inr (Some s)
      | None \<Rightarrow>
          if \<not> has_db env then Inr None
          else fst (db_query (\<lambda>db.
            (Inr (map_option rowToSkill (latest_row
               (filter (\<lambda>r. sk_skill_id r = skillId \<and> sk_is_active r) (skill_versions db)))), db)) w))"

definition getSkillVersion :: "env \<Rightarrow> string \<Rightarrow> string \<Rightarrow> world \<Rightarrow> PublishedSkillVersion option result" where
  "getSkillVersion env skillId contentSha256 w =
     (let from_db =
        (if \<not> has_db env then Inr None
         else fst (db_query (\<lambda>db.
           (Inr (map_option rowToSkill (List.find
              (\<lambda>r. sk_skill_id r = skillId \<and> sk_content_sha256 r = contentSha256) (skill_versions db))), db)) w))
      in case getCurrentSkillFromEdgeConfig env skillId w of
           Some current \<Rightarrow> if psv_contentSha256 current = contentSha256 then Inr (Some current) else from_db
         | None \<Rightarrow> from_db)"

section \<open>Publishing\<close>

record publish_input =
  pi_input :: PublishSkillInput
  pi_blobPath :: string
  pi_contentSha256 :: string

definition deactivate_others :: "string \<Rightarrow> string \<Rightarrow> skill_row list \<Rightarrow> skill_row list" where
  "deactivate_others skillId contentSha256 =
     map (\<lambda>r. if sk_skill_id r = skillId \<and> sk_content_sha256 r \<noteq> contentSha256
              then r\<lparr>sk_is_active := False\<rparr> else r)"

definition is_version :: "string \<Rightarrow> string \<Rightarrow> skill_row \<Rightarrow> bool" where
  "is_version skillId contentSha256 r \<longleftrightarrow> sk_skill_id r = skillId \<and> sk_content_sha256 r = contentSha256"

text \<open>\<open>insert \<dots> on conflict (skill_id, content_sha256) do update \<dots>\<close> with the stored price.\<close>

definition insert_version :: "publish_input \<Rightarrow> int \<Rightarrow> nat \<Rightarrow> skill_row list \<Rightarrow> skill_row list" where
  "insert_version input price now rows =
     (let i = pi_input input in
      if list_ex (is_version (psi_skillId i) (pi_contentSha256 input)) rows
      then map (\<lambda>r. if is_version (psi_skillId i) (pi_contentSha256 input) r
                    then r\<lparr>sk_title := psi_title i, sk_summary := psi_summary i, sk_price_sats := price,
                           sk_blob_path := pi_blobPath input, sk_is_active := True\<rparr>
                    else r) rows
      else rows @ [\<lparr>sk_skill_id = psi_skillId i, sk_content_sha256 = pi_contentSha256 input,
                    sk_title = psi_title i, sk_summary = psi_summary i, sk_price_sats = price,
                    sk_blob_path = pi_blobPath input, sk_is_active = True, sk_created_at = now\<rparr>])"

definition upsertSkillVersion :: "publish_input \<Rightarrow> world \<Rightarrow> PublishedSkillVersion result \<times> world" where
  "upsertSkillVersion input w =
     (let i = pi_input input in
      case db_query (\<lambda>db. (Inr (), db\<lparr>skill_versions :=
             deactivate_others (psi_skillId i) (pi_contentSha256 input) (skill_versions db)\<rparr>)) w of
        (Inl e, w) \<Rightarrow> (Inl e, w)
      | (Inr _, w) \<Rightarrow>
          db_query (\<lambda>db.
            case to_bigint (psi_priceSats i) of
              Inl e \<Rightarrow> (Inl e, db)
            | Inr price \<Rightarrow>
                (let rows = insert_version input price (w_now w) (skill_versions db) in
                 case List.find (is_version (psi_skillId i) (pi_contentSha256 input)) rows of
                   None \<Rightarrow> (Inl (Error ''Cannot read properties of undefined''), db)
                 | Some row \<Rightarrow> (Inr (rowToSkill row), db\<lparr>skill_versions := rows\<rparr>))) w)"

definition syncSkillToEdgeConfig ::
    "services \<Rightarrow> env \<Rightarrow> PublishedSkillVersion \<Rightarrow> world \<Rightarrow> unit result \<times> world" where
  "syncSkillToEdgeConfig sv env skill w =
     (if \<not> truthy (env ''VERCEL_EDGE_CONFIG_ID'') \<or> \<not> truthy (env ''VERCEL_ACCESS_TOKEN'') then (Inr (), w)
      else
        case sv_edge_patch sv
               \<lparr>er_edgeConfigId = the (env ''VERCEL_EDGE_CONFIG_ID''),
                er_teamId = (if truthy (env ''VERCEL_TEAM_ID'') then env ''VERCEL_TEAM_ID'' else None),
                er_accessToken = the (env ''VERCEL_ACCESS_TOKEN''),
                er_key = edgeConfigKey (psv_skillId skill), er_value = skill\<rparr> w of
          (FetchFailed e, w) \<Rightarrow> (Inl e, w)
        | (Reply status text, w) \<Rightarrow>
            if \<not> response_ok status
            then (Inl (Error (''failed to sync Edge Config: '' @ nat_to_string status @ '' '' @ text)), w)
            else (Inr (), w))"

definition publishSkillVersion ::
    "services \<Rightarrow> env \<Rightarrow> publish_input \<Rightarrow> world \<Rightarrow> PublishedSkillVersion result \<times> world" where
  "publishSkillVersion sv env input w =
     (case withTransaction env (upsertSkillVersion input) w of
        (Inl e, w) \<Rightarrow> (Inl e, w)
      | (Inr skill, w) \<Rightarrow>
          (case syncSkillToEdgeConfig sv env skill w of
             (Inl e, w) \<Rightarrow> (Inl e, w)
           | (Inr _, w) \<Rightarrow> (Inr skill, w)))"

section \<open>Contents\<close>

definition skillBlobPath :: "string \<Rightarrow> string \<Rightarrow> string" where
  "skillBlobPath skillId contentSha256 = ''skills/'' @ skillId @ ''/'' @ contentSha256 @ ''.md''"

definition uploadSkillContent ::
    "services \<Rightarrow> string \<Rightarrow> string \<Rightarrow> string \<Rightarrow> world \<Rightarrow> string result \<times> world" where
  "uploadSkillContent sv skillId contentSha256 content w =
     (let pathname = skillBlobPath skillId contentSha256 in
      case sv_blob_put sv pathname (utf8Bytes content) w of
        (Inl e, w) \<Rightarrow> (Inl e, w)
      | (Inr _, w) \<Rightarrow> (Inr pathname, w))"

definition getSkillContentBlob :: "services \<Rightarrow> string \<Rightarrow> world \<Rightarrow> blob_reply option result" where
  "getSkillContentBlob sv pathname w = sv_blob_get sv pathname w"

section \<open>The catalogue's invariant\<close>

text \<open>
  The primary key of the table, and at most one active version of each skill.
\<close>

definition row_key :: "skill_row \<Rightarrow> string \<times> string" where
  "row_key r = (sk_skill_id r, sk_content_sha256 r)"

definition active_versions :: "string \<Rightarrow> skill_row list \<Rightarrow> skill_row list" where
  "active_versions skillId rows = filter (\<lambda>r. sk_skill_id r = skillId \<and> sk_is_active r) rows"

definition catalog_inv :: "skill_row list \<Rightarrow> bool" where
  "catalog_inv rows \<longleftrightarrow> distinct (map row_key rows) \<and> (\<forall>s. length (active_versions s rows) \<le> 1)"

text \<open>The table after a publication of \<open>(skillId, contentSha256)\<close>.\<close>

definition upsert_rows :: "publish_input \<Rightarrow> int \<Rightarrow> nat \<Rightarrow> skill_row list \<Rightarrow> skill_row list" where
  "upsert_rows input price now rows =
     insert_version input price now
       (deactivate_others (psi_skillId (pi_input input)) (pi_contentSha256 input) rows)"

lemma row_key_deactivate [simp]: "map row_key (deactivate_others s c rows) = map row_key rows"
  by (simp add: deactivate_others_def row_key_def comp_def if_distrib [where f = sk_skill_id]
      if_distrib [where f = sk_content_sha256] cong: if_cong)

lemma list_ex_is_version: "list_ex (is_version s c) rows \<longleftrightarrow> (s, c) \<in> set (map row_key rows)"
  by (induction rows) (auto simp: is_version_def row_key_def)

lemma row_key_insert:
  "map row_key (insert_version input price now rows) =
     (let k = (psi_skillId (pi_input input), pi_contentSha256 input) in
      if k \<in> set (map row_key rows) then map row_key rows else map row_key rows @ [k])"
  unfolding insert_version_def Let_def list_ex_is_version
  by (auto simp: row_key_def is_version_def)

lemma distinct_upsert_rows:
  "distinct (map row_key rows) \<Longrightarrow> distinct (map row_key (upsert_rows input price now rows))"
  by (simp add: upsert_rows_def row_key_insert Let_def)

lemma filter_at_most_one:
  assumes "distinct (map f xs)" and "\<And>x. x \<in> set xs \<Longrightarrow> P x \<Longrightarrow> f x = k"
  shows "length (filter P xs) \<le> 1"
proof -
  have "distinct (map f (filter P xs))"
    using assms(1) by (simp add: distinct_map inj_on_def)
  moreover have "set (map f (filter P xs)) \<subseteq> {k}" using assms(2) by auto
  ultimately show ?thesis
    by (metis card_mono card_1_singleton_iff distinct_card finite.emptyI finite.insertI length_map One_nat_def)
qed

lemma upsert_active_key:
  assumes "r \<in> set (upsert_rows input price now rows)" and "sk_is_active r"
    and "sk_skill_id r = psi_skillId (pi_input input)"
  shows "row_key r = (psi_skillId (pi_input input), pi_contentSha256 input)"
  using assms
  by (auto simp: upsert_rows_def insert_version_def deactivate_others_def is_version_def row_key_def Let_def
      split: if_splits)

lemma active_versions_map:
  assumes "\<And>r. sk_skill_id r = s \<Longrightarrow> f r = r" and "\<And>r. sk_skill_id (f r) = sk_skill_id r"
  shows "active_versions s (map f rows) = active_versions s rows"
  by (induction rows) (auto simp: active_versions_def assms)

lemma upsert_other_skill:
  assumes "s \<noteq> psi_skillId (pi_input input)"
  shows "active_versions s (upsert_rows input price now rows) = active_versions s rows"
proof -
  have "active_versions s (deactivate_others (psi_skillId (pi_input input)) (pi_contentSha256 input) rows)
      = active_versions s rows"
    unfolding deactivate_others_def using assms by (intro active_versions_map) auto
  moreover have "active_versions s (insert_version input price now rs) = active_versions s rs" for rs
  proof (cases "list_ex (is_version (psi_skillId (pi_input input)) (pi_contentSha256 input)) rs")
    case True
    then show ?thesis
      unfolding insert_version_def Let_def using assms
      by (simp add: active_versions_map is_version_def)
  next
    case False
    then show ?thesis using assms by (simp add: insert_version_def Let_def active_versions_def)
  qed
  ultimately show ?thesis by (simp add: upsert_rows_def)
qed

lemma catalog_inv_upsert:
  assumes "catalog_inv rows"
  shows "catalog_inv (upsert_rows input price now rows)"
  unfolding catalog_inv_def
proof (intro conjI allI)
  show d: "distinct (map row_key (upsert_rows input price now rows))"
    using assms by (intro distinct_upsert_rows) (simp add: catalog_inv_def)
  fix s
  show "length (active_versions s (upsert_rows input price now rows)) \<le> 1"
  proof (cases "s = psi_skillId (pi_input input)")
    case True
    then show ?thesis
      unfolding active_versions_def using upsert_active_key
      by (intro filter_at_most_one [OF d, where k = "(s, pi_contentSha256 input)"]) auto
  next
    case False
    then show ?thesis using assms by (simp add: upsert_other_skill catalog_inv_def)
  qed
qed

text \<open>The row a publication leaves in the table.\<close>

definition published_row :: "publish_input \<Rightarrow> int \<Rightarrow> skill_row \<Rightarrow> bool" where
  "published_row input price r \<longleftrightarrow>
     is_version (psi_skillId (pi_input input)) (pi_contentSha256 input) r \<and> sk_is_active r \<and>
     sk_title r = psi_title (pi_input input) \<and> sk_summary r = psi_summary (pi_input input) \<and>
     sk_price_sats r = price \<and> sk_blob_path r = pi_blobPath input"

lemma find_upserted:
  "\<exists>row. List.find (is_version (psi_skillId (pi_input input)) (pi_contentSha256 input))
           (upsert_rows input price now rows) = Some row \<and> published_row input price row \<and>
         row \<in> set (upsert_rows input price now rows)"
proof -
  let ?P = "is_version (psi_skillId (pi_input input)) (pi_contentSha256 input)"
  let ?rows = "upsert_rows input price now rows"
  have "list_ex ?P ?rows"
    unfolding list_ex_is_version upsert_rows_def row_key_insert by (simp add: Let_def)
  then obtain row where row: "List.find ?P ?rows = Some row"
    by (metis find_None_iff list_ex_iff option.exhaust)
  then have "row \<in> set ?rows" and "?P row" by (auto simp: find_Some_iff)
  moreover have "published_row input price r" if "r \<in> set ?rows" "?P r" for r
    using that by (auto simp: upsert_rows_def insert_version_def list_ex_iff published_row_def
        is_version_def Let_def split: if_splits)
  ultimately show ?thesis using row by blast
qed

lemma upsert_current:
  assumes "catalog_inv rows"
    and "List.find (is_version (psi_skillId (pi_input input)) (pi_contentSha256 input))
           (upsert_rows input price now rows) = Some row"
  shows "active_versions (psi_skillId (pi_input input)) (upsert_rows input price now rows) = [row]"
proof -
  let ?act = "active_versions (psi_skillId (pi_input input)) (upsert_rows input price now rows)"
  have "row \<in> set ?act"
    using find_upserted [of input price now rows] assms(2)
    by (auto simp: active_versions_def published_row_def is_version_def)
  moreover have "length ?act \<le> 1" using catalog_inv_upsert [OF assms(1)] by (simp add: catalog_inv_def)
  ultimately show ?thesis by (cases ?act) auto
qed

lemma upsertSkillVersion_ok:
  assumes "w_query_error w = None"
  shows "upsertSkillVersion input w =
    (case to_bigint (psi_priceSats (pi_input input)) of
       Inl e \<Rightarrow> (Inl e, w\<lparr>w_db := (w_db w)\<lparr>skill_versions :=
          deactivate_others (psi_skillId (pi_input input)) (pi_contentSha256 input) (skill_versions (w_db w))\<rparr>\<rparr>)
     | Inr price \<Rightarrow>
         (let rows = upsert_rows input price (w_now w) (skill_versions (w_db w)) in
          (Inr (rowToSkill (the (List.find (is_version (psi_skillId (pi_input input)) (pi_contentSha256 input)) rows))),
           w\<lparr>w_db := (w_db w)\<lparr>skill_versions := rows\<rparr>\<rparr>)))"
proof (cases "to_bigint (psi_priceSats (pi_input input))")
  case (Inl e)
  with assms show ?thesis by (simp add: upsertSkillVersion_def db_query_def Let_def)
next
  case (Inr price)
  obtain row where "List.find (is_version (psi_skillId (pi_input input)) (pi_contentSha256 input))
      (upsert_rows input price (w_now w) (skill_versions (w_db w))) = Some row"
    using find_upserted by blast
  with assms Inr show ?thesis
    by (simp add: upsertSkillVersion_def db_query_def upsert_rows_def Let_def)
qed

lemma publish_transaction:
  assumes "withTransaction env (upsertSkillVersion input) w = (Inr skill, w')"
  shows "\<exists>price row. has_db env \<and> w_query_error w = None \<and>
    to_bigint (psi_priceSats (pi_input input)) = Inr price \<and>
    List.find (is_version (psi_skillId (pi_input input)) (pi_contentSha256 input))
      (upsert_rows input price (w_now w) (skill_versions (w_db w))) = Some row \<and>
    skill = rowToSkill row \<and>
    w' = w\<lparr>w_db := (w_db w)\<lparr>skill_versions := upsert_rows input price (w_now w) (skill_versions (w_db w))\<rparr>\<rparr>"
proof -
  have up: "w_query_error w = None" and db: "has_db env"
    using assms by (auto simp: withTransaction_def getRequiredDb_def split: option.splits sum.splits if_splits)
  then obtain price where "to_bigint (psi_priceSats (pi_input input)) = Inr price"
    using assms by (auto simp: withTransaction_def upsertSkillVersion_ok split: sum.splits prod.splits)
  then show ?thesis
    using up db assms find_upserted [of input price "w_now w" "skill_versions (w_db w)"]
    by (auto simp: withTransaction_def getRequiredDb_def upsertSkillVersion_ok Let_def)
qed

section \<open>Publishing and looking up\<close>

text \<open>The services outside the repository do not write to its database.\<close>

definition services_frame :: "services \<Rightarrow> bool" where
  "services_frame sv \<longleftrightarrow>
     (\<forall>r w. w_db (snd (sv_edge_patch sv r w)) = w_db w \<and>
            w_query_error (snd (sv_edge_patch sv r w)) = w_query_error w) \<and>
     (\<forall>p b w. w_db (snd (sv_blob_put sv p b w)) = w_db w \<and>
            w_query_error (snd (sv_blob_put sv p b w)) = w_query_error w \<and>
            w_now (snd (sv_blob_put sv p b w)) = w_now w)"

lemma syncSkillToEdgeConfig_frame:
  assumes "services_frame sv" and "syncSkillToEdgeConfig sv env skill w = (r, w')"
  shows "w_db w' = w_db w \<and> w_query_error w' = w_query_error w"
proof -
  have f: "w_db (snd (sv_edge_patch sv r w)) = w_db w"
    "w_query_error (snd (sv_edge_patch sv r w)) = w_query_error w" for r w
    using assms(1) by (simp_all add: services_frame_def)
  let ?q = "\<lparr>er_edgeConfigId = the (env ''VERCEL_EDGE_CONFIG_ID''),
                er_teamId = (if truthy (env ''VERCEL_TEAM_ID'') then env ''VERCEL_TEAM_ID'' else None),
                er_accessToken = the (env ''VERCEL_ACCESS_TOKEN''),
                er_key = edgeConfigKey (psv_skillId skill), er_value = skill\<rparr>"
  obtain reply w1 where q: "sv_edge_patch sv ?q w = (reply, w1)" by (cases "sv_edge_patch sv ?q w")
  show ?thesis using assms(2) f [of ?q w] unfolding syncSkillToEdgeConfig_def q
    by (cases reply) (auto split: if_splits)
qed

lemma publishSkillVersion_Inr:
  assumes "services_frame sv" and "publishSkillVersion sv env input w = (Inr skill, w')"
  shows "\<exists>price row. has_db env \<and> w_query_error w' = None \<and>
    to_bigint (psi_priceSats (pi_input input)) = Inr price \<and>
    List.find (is_version (psi_skillId (pi_input input)) (pi_contentSha256 input))
      (upsert_rows input price (w_now w) (skill_versions (w_db w))) = Some row \<and>
    skill = rowToSkill row \<and>
    skill_versions (w_db w') = upsert_rows input price (w_now w) (skill_versions (w_db w))"
proof -
  obtain w1 where t: "withTransaction env (upsertSkillVersion input) w = (Inr skill, w1)"
    and y: "\<exists>u. syncSkillToEdgeConfig sv env skill w1 = (Inr u, w')"
    using assms(2) by (auto simp: publishSkillVersion_def split: prod.splits sum.splits)
  then have "w_db w' = w_db w1" "w_query_error w' = w_query_error w1"
    using syncSkillToEdgeConfig_frame [OF assms(1)] by auto
  with publish_transaction [OF t] show ?thesis by auto
qed

lemma latest_row_single [simp]: "latest_row [r] = Some r"
  by simp

lemma getCurrent_db:
  assumes "\<not> truthy (env ''EDGE_CONFIG'')" and "has_db env" and "w_query_error w = None"
  shows "getCurrentSkillVersion env s w =
      Inr (map_option rowToSkill (latest_row (active_versions s (skill_versions (w_db w)))))"
    and "getSkillVersion env s c w =
      Inr (map_option rowToSkill (List.find (is_version s c) (skill_versions (w_db w))))"
proof -
  have "is_version s c = (\<lambda>r. sk_skill_id r = s \<and> sk_content_sha256 r = c)"
    by (simp add: fun_eq_iff is_version_def)
  with assms show "getCurrentSkillVersion env s w =
      Inr (map_option rowToSkill (latest_row (active_versions s (skill_versions (w_db w)))))"
    and "getSkillVersion env s c w =
      Inr (map_option rowToSkill (List.find (is_version s c) (skill_versions (w_db w))))"
    by (simp_all add: getCurrentSkillVersion_def getSkillVersion_def getCurrentSkillFromEdgeConfig_def
        db_query_def active_versions_def Let_def)
qed


lemma find_map_fixed:
  assumes "\<And>r. P (f r) \<longleftrightarrow> P r"
  shows "List.find P (map f rows) = map_option f (List.find P rows)"
  by (induction rows) (auto simp: assms)

lemma find_append_None: "\<not> P r \<Longrightarrow> List.find P (rows @ [r]) = List.find P rows"
  by (induction rows) auto

lemma find_upsert_other:
  assumes "(s, c) \<noteq> (psi_skillId (pi_input input), pi_contentSha256 input)"
  shows "List.find (is_version s c) (upsert_rows input price now rows) =
    map_option (\<lambda>r. if s = psi_skillId (pi_input input) then r\<lparr>sk_is_active := False\<rparr> else r)
      (List.find (is_version s c) rows)"
proof -
  have "List.find (is_version s c) (insert_version input price now rs) = List.find (is_version s c) rs" for rs
  proof (cases "list_ex (is_version (psi_skillId (pi_input input)) (pi_contentSha256 input)) rs")
    case True
    have "List.find (is_version s c) (map (\<lambda>r. if is_version (psi_skillId (pi_input input)) (pi_contentSha256 input) r
                    then r\<lparr>sk_title := t, sk_summary := u, sk_price_sats := price,
                           sk_blob_path := b, sk_is_active := True\<rparr> else r) rs) = List.find (is_version s c) rs" for t u b
      using assms by (induction rs) (auto simp: is_version_def)
    with True show ?thesis by (simp add: insert_version_def Let_def)
  next
    case False
    then show ?thesis using assms
      by (auto simp: insert_version_def Let_def is_version_def intro!: find_append_None)
  qed
  moreover have "List.find (is_version s c) (deactivate_others (psi_skillId (pi_input input)) (pi_contentSha256 input) rows)
    = map_option (\<lambda>r. if s = psi_skillId (pi_input input) then r\<lparr>sk_is_active := False\<rparr> else r)
      (List.find (is_version s c) rows)"
    using assms by (induction rows) (auto simp: deactivate_others_def is_version_def)
  ultimately show ?thesis by (simp add: upsert_rows_def)
qed

text \<open>
  Purchases stay valid: publishing a version never removes or rewrites another one. A
  version that could be looked up by its content hash before still can afterwards, with the
  same title, price and blob; only its \<open>isActive\<close> flag may be cleared.
\<close>

lemma publish_keeps_other_versions:
  assumes frame: "services_frame sv" and edge: "\<not> truthy (env ''EDGE_CONFIG'')"
    and pub: "publishSkillVersion sv env input w = (Inr skill, w')"
    and up: "w_query_error w = None"
    and other: "(s, c) \<noteq> (psi_skillId (pi_input input), pi_contentSha256 input)"
    and old: "getSkillVersion env s c w = Inr (Some v)"
  shows "\<exists>active. getSkillVersion env s c w' = Inr (Some (v\<lparr>psv_isActive := active\<rparr>))"
proof -
  obtain price where p: "has_db env" "w_query_error w' = None"
    "skill_versions (w_db w') = upsert_rows input price (w_now w) (skill_versions (w_db w))"
    using publishSkillVersion_Inr [OF frame pub] by blast
  obtain r where r: "List.find (is_version s c) (skill_versions (w_db w)) = Some r" "v = rowToSkill r"
    using old getCurrent_db(2) [OF edge p(1) up] by auto
  then show ?thesis
    using getCurrent_db(2) [OF edge p(1,2), of s c] p(3) find_upsert_other [OF other]
    by (auto simp: rowToSkill_def)
qed

end
