(* ===== verification/Paywall_Routes.thy ===== *)
theory Paywall_Routes
  imports Paywall_Catalog
begin

text \<open>
  The HTTP surface of the paywall: the response helpers of \<open>src/paywall-web/lib/paywall.ts\<close>,
  the manifest and paid-content routes under \<open>app/.well-known/l402/skills\<close> and the
  publishing route \<open>app/api/admin/publish-skill\<close>. Headers are kept under their lower-case
  names with the values appended to them; a JSON body is kept as its value.
\<close>

section \<open>Requests and responses\<close>

type_synonym headers = "(string \<times> string list) list"

definition headers_set :: "string \<Rightarrow> string \<Rightarrow> headers \<Rightarrow> headers" where
  "headers_set name value h = AList.update (toLowerCase name) [value] h"

definition headers_append :: "string \<Rightarrow> string \<Rightarrow> headers \<Rightarrow> headers" where
  "headers_append name value h =
     AList.update (toLowerCase name)
       ((case map_of h (toLowerCase name) of None \<Rightarrow> [] | Some vs \<Rightarrow> vs) @ [value]) h"

definition headers_of :: "(string \<times> string) list \<Rightarrow> headers" where
  "headers_of ps = foldl (\<lambda>h (n, v). headers_append n v h) [] ps"

record http_request =
  rq_method :: string
  rq_authorization :: "string option"
  rq_body :: string

datatype http_body = NoBody | JsonBody json | StreamBody string

record http_response =
  rs_status :: nat
  rs_headers :: headers
  rs_body :: http_body

abbreviation PURCHASE_MODEL :: string where "PURCHASE_MODEL \<equiv> ''one_purchase_per_immutable_version''"
abbreviation MANIFEST_ROOT :: string where "MANIFEST_ROOT \<equiv> ''/.well-known/l402/skills''"
abbreviation MARKDOWN_CONTENT_TYPE :: string where "MARKDOWN_CONTENT_TYPE \<equiv> ''text/markdown; charset=utf-8''"

section \<open>Response helpers\<close>

definition manifestPath :: "string \<Rightarrow> string" where
  "manifestPath skillId = MANIFEST_ROOT @ ''/'' @ skillId"

definition paidContentPath :: "string \<Rightarrow> string \<Rightarrow> string" where
  "paidContentPath skillId contentSha256 = manifestPath skillId @ ''/v/'' @ contentSha256 @ ''/content''"

definition toManifest :: "PublishedSkillVersion \<Rightarrow> SkillManifest" where
  "toManifest skill =
     \<lparr>sm_skill_id = psv_skillId skill, sm_title = psv_title skill, sm_summary = psv_summary skill,
      sm_purchase_model = PURCHASE_MODEL, sm_price_sats = psv_priceSats skill,
      sm_content_sha256 = psv_contentSha256 skill, sm_manifest_url = manifestPath (psv_skillId skill),
      sm_paid_url = paidContentPath (psv_skillId skill) (psv_contentSha256 skill),
      sm_content_type = MARKDOWN_CONTENT_TYPE\<rparr>"

definition manifest_json :: "SkillManifest \<Rightarrow> json" where
  "manifest_json m =
     JObj [(''skill_id'', JStr (sm_skill_id m)), (''title'', JStr (sm_title m)),
           (''summary'', JStr (sm_summary m)), (''purchase_model'', JStr (sm_purchase_model m)),
           (''price_sats'', JNum (sm_price_sats m)), (''content_sha256'', JStr (sm_content_sha256 m)),
           (''manifest_url'', JStr (sm_manifest_url m)), (''paid_url'', JStr (sm_paid_url m)),
           (''content_type'', JStr (sm_content_type m))]"

definition addCorsHeaders :: "headers \<Rightarrow> headers" where
  "addCorsHeaders h =
     headers_set ''Access-Control-Expose-Headers'' ''WWW-Authenticate, ETag, X-Skill-Version''
     (headers_set ''Access-Control-Allow-Headers'' ''Authorization, Content-Type, WWW-Authenticate''
     (headers_set ''Access-Control-Allow-Methods'' ''GET, HEAD, OPTIONS''
     (headers_set ''Access-Control-Allow-Origin'' ''*'' h)))"

definition preflightResponse :: http_response where
  "preflightResponse =
     \<lparr>rs_status = 204, rs_headers = headers_set ''Allow'' ''GET, HEAD, OPTIONS'' (addCorsHeaders []),
      rs_body = NoBody\<rparr>"

definition jsonResponse :: "http_request \<Rightarrow> nat \<Rightarrow> json \<Rightarrow> headers \<Rightarrow> http_response" where
  "jsonResponse request status body initHeaders =
     \<lparr>rs_status = status,
      rs_headers = headers_set ''Content-Type'' ''application/json; charset=utf-8'' (addCorsHeaders initHeaders),
      rs_body = (if rq_method request = ''HEAD'' then NoBody else JsonBody body)\<rparr>"

definition errorResponse :: "http_request \<Rightarrow> nat \<Rightarrow> string \<Rightarrow> headers \<Rightarrow> http_response" where
  "errorResponse request status message initHeaders =
     jsonResponse request status (JObj [(''error'', JStr message)])
       (headers_set ''Cache-Control'' ''no-store'' initHeaders)"

definition methodNotAllowed :: "http_request \<Rightarrow> http_response" where
  "methodNotAllowed request =
     errorResponse request 405 ''method not allowed'' (headers_of [(''Allow'', ''GET, HEAD, OPTIONS'')])"

definition challengeResponse ::
    "http_request \<Rightarrow> L402Challenge \<Rightarrow> PublishedSkillVersion \<Rightarrow> http_response" where
  "challengeResponse request challenge skill =
     (let h = headers_of [(''Allow'', ''GET, HEAD, OPTIONS''), (''Cache-Control'', ''private, no-store'')];
          h = foldl (\<lambda>h authHeader. headers_append ''WWW-Authenticate'' authHeader h) h (lc_headers challenge)
      in jsonResponse request 402
           (JObj [(''error'', JStr ''payment_required''), (''skill_id'', JStr (psv_skillId skill)),
                  (''purchase_model'', JStr PURCHASE_MODEL), (''price_sats'', JNum (psv_priceSats skill)),
                  (''content_sha256'', JStr (psv_contentSha256 skill)),
                  (''paid_url'', JStr (paidContentPath (psv_skillId skill) (psv_contentSha256 skill)))]) h)"

definition paidContentResponse ::
    "http_request \<Rightarrow> PublishedSkillVersion \<Rightarrow> string \<Rightarrow> http_response" where
  "paidContentResponse request skill stream =
     \<lparr>rs_status = 200,
      rs_headers = addCorsHeaders (headers_of
        [(''Allow'', ''GET, HEAD, OPTIONS''), (''Cache-Control'', ''private, no-store''),
         (''Content-Type'', MARKDOWN_CONTENT_TYPE),
         (''ETag'', [CHR 0x22] @ psv_contentSha256 skill @ [CHR 0x22]),
         (''X-Skill-Version'', psv_contentSha256 skill)]),
      rs_body = (if rq_method request = ''HEAD'' then NoBody else StreamBody stream)\<rparr>"

section \<open>Routes\<close>

text \<open>A throw that no handler catches is an \<open>Inl\<close>: the framework answers it.\<close>

definition manifest_handleRequest ::
    "env \<Rightarrow> http_request \<Rightarrow> string \<Rightarrow> world \<Rightarrow> http_response result \<times> world" where
  "manifest_handleRequest env request skillId w =
     (then_res (getCurrentSkillVersion env skillId w) (\<lambda>skill. Inr (
        case skill of
          None \<Rightarrow> errorResponse request 404 ''unknown skill'' []
        | Some s \<Rightarrow>
            jsonResponse request 200 (manifest_json (toManifest s))
              (headers_of [(''Allow'', ''GET, HEAD, OPTIONS''), (''Cache-Control'', ''public, max-age=300'')]))), w)"

definition skill_claim :: "PublishedSkillVersion \<Rightarrow> expected_claim" where
  "skill_claim skill =
     \<lparr>ex_skillId = psv_skillId skill, ex_contentSha256 = psv_contentSha256 skill,
      ex_path = paidContentPath (psv_skillId skill) (psv_contentSha256 skill), ex_method = ''GET''\<rparr>"

definition issueChallenge ::
    "'m macaroon_lib \<Rightarrow> services \<Rightarrow> env \<Rightarrow> http_request \<Rightarrow> string \<Rightarrow> string \<Rightarrow> world
     \<Rightarrow> http_response result \<times> world" where
  "issueChallenge lib sv env request skillId sha w =
     (case getSkillVersion env skillId sha w of
        Inl e \<Rightarrow> (Inl e, w)
      | Inr None \<Rightarrow> (Inr (errorResponse request 404 ''unknown skill version'' []), w)
      | Inr (Some skill) \<Rightarrow>
          (case issueL402Challenge lib (sv_fetch sv) env
                  \<lparr>ci_claim = skill_claim skill, ci_priceSats = psv_priceSats skill\<rparr> w of
             (Inr challenge, w) \<Rightarrow> (Inr (challengeResponse request challenge skill), w)
           | (Inl e, w) \<Rightarrow> (Inr (errorResponse request 503 ''skill paywall unavailable'' []), w)))"

definition content_handleRequest ::
    "'m macaroon_lib \<Rightarrow> services \<Rightarrow> env \<Rightarrow> http_request \<Rightarrow> string \<Rightarrow> string \<Rightarrow> world
     \<Rightarrow> http_response result \<times> world" where
  "content_handleRequest lib sv env request skillId sha w =
     (case getSkillVersion env skillId sha w of
        Inl e \<Rightarrow> (Inl e, w)
      | Inr None \<Rightarrow> (Inr (errorResponse request 404 ''unknown skill version'' []), w)
      | Inr (Some skill) \<Rightarrow>
          if \<not> truthy (rq_authorization request) then issueChallenge lib sv env request skillId sha w
          else
            (case verifyL402Authorization lib (sv_sha256 sv) env (the (rq_authorization request))
                    (skill_claim skill) w of
               (verification, w) \<Rightarrow>
                 if \<not> lv_valid verification then issueChallenge lib sv env request skillId sha w
                 else
                   (case getSkillContentBlob sv (psv_blobPath skill) w of
                      Inl e \<Rightarrow> (Inl e, w)
                    | Inr None \<Rightarrow> (Inr (errorResponse request 404 ''paid content unavailable'' []), w)
                    | Inr (Some blob) \<Rightarrow>
                        (case br_stream blob of
                           None \<Rightarrow> (Inr (errorResponse request 404 ''paid content unavailable'' []), w)
                         | Some stream \<Rightarrow>
                             if br_statusCode blob \<noteq> 200
                             then (Inr (errorResponse request 404 ''paid content unavailable'' []), w)
                             else (Inr (paidContentResponse request skill stream), w)))))"

text \<open>The exported handlers, dispatched on the method; \<open>None\<close>: no such export.\<close>

definition content_route ::
    "'m macaroon_lib \<Rightarrow> services \<Rightarrow> env \<Rightarrow> http_request \<Rightarrow> string \<Rightarrow> string \<Rightarrow> world
     \<Rightarrow> (http_response result \<times> world) option" where
  "content_route lib sv env request skillId sha w =
     (if rq_method request = ''GET'' \<or> rq_method request = ''HEAD''
      then Some (content_handleRequest lib sv env request skillId sha w)
      else if rq_method request = ''OPTIONS'' then Some (Inr preflightResponse, w)
      else if rq_method request = ''POST'' then Some (Inr (methodNotAllowed request), w)
      else None)"

definition manifest_route ::
    "env \<Rightarrow> http_request \<Rightarrow> string \<Rightarrow> world \<Rightarrow> (http_response result \<times> world) option" where
  "manifest_route env request skillId w =
     (if rq_method request = ''GET'' \<or> rq_method request = ''HEAD''
      then Some (manifest_handleRequest env request skillId w)
      else if rq_method request = ''OPTIONS'' then Some (Inr preflightResponse, w)
      else if rq_method request = ''POST'' then Some (Inr (methodNotAllowed request), w)
      else None)"

section \<open>Publishing\<close>

definition sha256Hex :: "services \<Rightarrow> string \<Rightarrow> string" where
  "sha256Hex sv content = bytes_to_hex (sv_sha256 sv (utf8Bytes content))"

definition isAuthorized :: "env \<Rightarrow> http_request \<Rightarrow> bool result" where
  "isAuthorized env request =
     (if \<not> truthy (env ''ADMIN_PUBLISH_TOKEN'') then Inl (Error ''ADMIN_PUBLISH_TOKEN is required'')
      else Inr (rq_authorization request = Some (''Bearer '' @ the (env ''ADMIN_PUBLISH_TOKEN''))))"

text \<open>The payload at its declared type, or \<open>None\<close> when a property has another type.\<close>

definition validateInput :: "json \<Rightarrow> PublishSkillInput option" where
  "validateInput value =
     (case (json_prop ''skillId'' value, json_prop ''title'' value, json_prop ''summary'' value,
            json_prop ''content'' value, json_prop ''priceSats'' value) of
        (Some (JStr i), Some (JStr t), Some (JStr s), Some (JStr c), Some (JNum p)) \<Rightarrow>
          Some \<lparr>psi_skillId = i, psi_title = t, psi_summary = s, psi_priceSats = p, psi_content = c\<rparr>
      | _ \<Rightarrow> None)"

definition publish_content ::
    "services \<Rightarrow> env \<Rightarrow> PublishSkillInput \<Rightarrow> world \<Rightarrow> PublishedSkillVersion result \<times> world" where
  "publish_content sv env input w =
     (let contentSha256 = sha256Hex sv (psi_content input) in
      case uploadSkillContent sv (psi_skillId input) contentSha256 (psi_content input) w of
        (Inl e, w) \<Rightarrow> (Inl e, w)
      | (Inr blobPath, w) \<Rightarrow>
          publishSkillVersion sv env
            \<lparr>pi_input = input, pi_blobPath = blobPath, pi_contentSha256 = contentSha256\<rparr> w)"

definition publish_POST :: "services \<Rightarrow> env \<Rightarrow> http_request \<Rightarrow> world \<Rightarrow> http_response result \<times> world" where
  "publish_POST sv env request w =
     (case isAuthorized env request of
        Inl e \<Rightarrow> (Inl e, w)
      | Inr False \<Rightarrow> (Inr (errorResponse request 401 ''unauthorized'' []), w)
      | Inr True \<Rightarrow>
          (case JSON_parse (rq_body request) of
             Inl e \<Rightarrow> (Inr (errorResponse request 400 ''invalid json body'' []), w)
           | Inr payload \<Rightarrow>
               (case validateInput payload of
                  None \<Rightarrow> (Inr (errorResponse request 400 ''invalid publish payload'' []), w)
                | Some input \<Rightarrow>
                    if psi_skillId input = [] \<or> psi_title input = [] \<or> psi_summary input = [] \<or> psi_content input = []
                    then (Inr (errorResponse request 400 ''missing required fields'' []), w)
                    else
                      (case validateConfiguredPrice env (psi_priceSats input) of
                         Inl e \<Rightarrow> (Inl e, w)
                       | Inr (Some priceError) \<Rightarrow> (Inr (errorResponse request 400 priceError []), w)
                       | Inr None \<Rightarrow>
                           (case publish_content sv env input w of
                              (Inl e, w) \<Rightarrow> (Inr (errorResponse request 500 ''unable to publish skill'' []), w)
                            | (Inr skill, w) \<Rightarrow>
                                (Inr (jsonResponse request 200 (manifest_json (toManifest skill))
                                        (headers_of [(''Cache-Control'', ''no-store'')])), w))))))"

section \<open>The contract of an endpoint\<close>

text \<open>
  Every answer allows cross-origin reading, and an answer to a \<open>HEAD\<close> request has no
  body. \<open>handle\<close> is a handler, with the parameters of its route.
\<close>

definition cors_open :: "http_response \<Rightarrow> bool" where
  "cors_open r \<longleftrightarrow> map_of (rs_headers r) ''access-control-allow-origin'' = Some [''*'']"

definition proper_response :: "http_request \<Rightarrow> http_response \<Rightarrow> bool" where
  "proper_response request r \<longleftrightarrow> cors_open r \<and> (rq_method request = ''HEAD'' \<longrightarrow> rs_body r = NoBody)"

locale http_endpoint =
  fixes handle :: "http_request \<Rightarrow> 'p \<Rightarrow> world \<Rightarrow> http_response result \<times> world"
  assumes answers_properly: "handle request p w = (Inr r, w') \<Longrightarrow> proper_response request r"
begin

lemma head_has_no_body:
  "handle request p w = (Inr r, w') \<Longrightarrow> rq_method request = ''HEAD'' \<Longrightarrow> rs_body r = NoBody"
  using answers_properly by (auto simp: proper_response_def)

lemma always_cors: "handle request p w = (Inr r, w') \<Longrightarrow> cors_open r"
  using answers_properly by (auto simp: proper_response_def)

end

lemma map_of_headers_set:
  "map_of (headers_set n v h) k = (if k = toLowerCase n then Some [v] else map_of h k)"
  by (simp add: headers_set_def update_conv')

lemma lower_names [simp]:
  "toLowerCase ''Access-Control-Expose-Headers'' = ''access-control-expose-headers''"
  "toLowerCase ''Access-Control-Allow-Headers'' = ''access-control-allow-headers''"
  "toLowerCase ''Access-Control-Allow-Methods'' = ''access-control-allow-methods''"
  "toLowerCase ''Access-Control-Allow-Origin'' = ''access-control-allow-origin''"
  "toLowerCase ''Content-Type'' = ''content-type''" "toLowerCase ''Allow'' = ''allow''"
  by code_simp+

lemma addCorsHeaders_origin [simp]:
  "map_of (addCorsHeaders h) ''access-control-allow-origin'' = Some [''*'']"
  by (simp add: addCorsHeaders_def map_of_headers_set)

lemma proper_helpers [simp]:
  "proper_response req (jsonResponse req status body h)"
  "proper_response req (errorResponse req status msg h)"
  "proper_response req (methodNotAllowed req)"
  "proper_response req (challengeResponse req ch skill)"
  "proper_response req (paidContentResponse req skill stream)"
  "proper_response req preflightResponse"
  by (simp_all add: proper_response_def cors_open_def jsonResponse_def errorResponse_def
      methodNotAllowed_def challengeResponse_def paidContentResponse_def preflightResponse_def
      map_of_headers_set Let_def)

lemma issueChallenge_proper:
  "issueChallenge lib sv env req sid sha w = (Inr r, w') \<Longrightarrow> proper_response req r"
  by (auto simp: issueChallenge_def split: sum.splits option.splits prod.splits)

lemma content_proper:
  assumes "content_handleRequest lib sv env req sid sha w = (Inr r, w')"
  shows "proper_response req r"
  using assms issueChallenge_proper [of lib sv env req sid sha]
  unfolding content_handleRequest_def
  by (auto split: sum.split_asm option.split_asm prod.split_asm if_split_asm)

interpretation content_endpoint: http_endpoint
  "\<lambda>request (lib, sv, env, skillId, sha). content_handleRequest lib sv env request skillId sha"
  by unfold_locales (auto dest: content_proper split: prod.splits)

interpretation manifest_endpoint: http_endpoint
  "\<lambda>request (env, skillId). manifest_handleRequest env request skillId"
  by unfold_locales (auto simp: manifest_handleRequest_def result_simps split: prod.splits option.splits)

interpretation publish_endpoint: http_endpoint
  "\<lambda>request (sv, env). publish_POST sv env request"
  by unfold_locales
    (auto simp: publish_POST_def split: prod.splits sum.split_asm option.split_asm bool.split_asm if_split_asm)

section \<open>Properties of the routes\<close>

lemma content_stream_cases:
  assumes "content_handleRequest lib sv env req sid sha w = (Inr r, w')" and "rs_body r = StreamBody s"
  shows "\<exists>skill a w1 blob. getSkillVersion env sid sha w = Inr (Some skill) \<and>
    rq_authorization req = Some a \<and>
    verifyL402Authorization lib (sv_sha256 sv) env a (skill_claim skill) w = (w1, w') \<and> lv_valid w1 \<and>
    sv_blob_get sv (psv_blobPath skill) w' = Inr (Some blob) \<and> br_statusCode blob = 200 \<and>
    br_stream blob = Some s"
proof -
  have no_stream: "issueChallenge lib sv env req sid sha w0 \<noteq> (Inr r, w')" for w0
    using assms(2)
    by (auto simp: issueChallenge_def errorResponse_def jsonResponse_def challengeResponse_def Let_def
        split: sum.splits option.splits prod.splits if_splits)
  show ?thesis
    using assms no_stream
    by (auto simp: content_handleRequest_def errorResponse_def jsonResponse_def paidContentResponse_def
        getSkillContentBlob_def truthy_def
        split: sum.split_asm option.split_asm prod.split_asm if_split_asm)
qed

text \<open>
  C1. Paid content leaves the server only against proof of payment for that very version:
  when the content route answers with a stream, the requested version exists, the request
  carried an \<open>Authorization\<close> header whose macaroon was signed with the root key, names
  exactly the skill, content hash, path and method of that version, and whose preimage
  hashes to the payment hash it was issued for; and the stream is the blob of that version.
\<close>

theorem content_served_only_when_paid:
  assumes law: "verify_law lib authentic view"
    and serve: "content_handleRequest lib sv env req sid sha w = (Inr r, w')" "rs_body r = StreamBody s"
  shows "\<exists>skill a mac pre m key conds ident blob.
    getSkillVersion env sid sha w = Inr (Some skill) \<and> rq_authorization req = Some a \<and>
    parseAuthorizationHeader a = Inr (mac, pre) \<and> lib_importMacaroon lib mac = Inr m \<and>
    getMacaroonRootKey env = Inr key \<and> authentic key m \<and>
    map (\<lambda>c. utf8_decode (cb_identifier c)) (mb_caveats (view m)) = map Some conds \<and>
    set conds = set (caveatsFor (skill_claim skill)) \<and>
    utf8_decode (mb_identifier (view m)) = Some ident \<and>
    toLowerCase ident = bytes_to_hex (sv_sha256 sv (hex_to_bytes pre)) \<and>
    sv_blob_get sv (psv_blobPath skill) w' = Inr (Some blob) \<and> br_stream blob = Some s"
proof -
  obtain skill a v blob where c: "getSkillVersion env sid sha w = Inr (Some skill)"
    "rq_authorization req = Some a"
    "verifyL402Authorization lib (sv_sha256 sv) env a (skill_claim skill) w = (v, w')" "lv_valid v"
    "sv_blob_get sv (psv_blobPath skill) w' = Inr (Some blob)" "br_stream blob = Some s"
    using content_stream_cases [OF serve] by blast
  then have "lv_valid (fst (verifyL402Authorization lib (sv_sha256 sv) env a (skill_claim skill) w))"
    by simp
  from valid_means_paid [OF law this] c show ?thesis by (elim exE conjE) blast
qed

text \<open>
  Every endpoint of the paywall keeps the contract of \<open>http_endpoint\<close>: whatever the
  outcome, the answer of the content, manifest and publishing handlers carries the open
  cross-origin header, and a \<open>HEAD\<close> request is answered without a body.
\<close>

lemma endpoints_answer_properly:
  "(content_handleRequest lib sv env req sid sha w = (Inr r, w') \<longrightarrow> proper_response req r) \<and>
   (manifest_handleRequest env req sid w = (Inr r, w') \<longrightarrow> proper_response req r) \<and>
   (publish_POST sv env req w = (Inr r, w') \<longrightarrow> proper_response req r)"
  using content_endpoint.answers_properly [of req "(lib, sv, env, sid, sha)"]
    manifest_endpoint.answers_properly [of req "(env, sid)"]
    publish_endpoint.answers_properly [of req "(sv, env)"] by auto

text \<open>
  C23. Only the holder of the publishing token can change anything: if \<open>publish_POST\<close> changes
  the database, the blobs or the edge configuration, the request carried
  \<open>Bearer <ADMIN_PUBLISH_TOKEN>\<close> with a configured, non-empty token, and its body parsed to
  a complete input with an accepted price.
\<close>

theorem publish_changes_only_with_token:
  assumes "publish_POST sv env req w = (r, w')" and "w' \<noteq> w"
  shows "\<exists>tok payload input. env ''ADMIN_PUBLISH_TOKEN'' = Some tok \<and> tok \<noteq> [] \<and>
    rq_authorization req = Some (''Bearer '' @ tok) \<and> JSON_parse (rq_body req) = Inr payload \<and>
    validateInput payload = Some input \<and> psi_skillId input \<noteq> [] \<and> psi_content input \<noteq> [] \<and>
    validateConfiguredPrice env (psi_priceSats input) = Inr None"
proof -
  have auth: "isAuthorized env req = Inr True"
    using assms by (auto simp: publish_POST_def split: sum.split_asm bool.split_asm)
  then obtain tok where "env ''ADMIN_PUBLISH_TOKEN'' = Some tok" "tok \<noteq> []"
    "rq_authorization req = Some (''Bearer '' @ tok)"
    by (auto simp: isAuthorized_def truthy_def split: if_splits option.splits)
  moreover have "\<exists>payload input. JSON_parse (rq_body req) = Inr payload \<and>
      validateInput payload = Some input \<and> psi_skillId input \<noteq> [] \<and> psi_content input \<noteq> [] \<and>
      validateConfiguredPrice env (psi_priceSats input) = Inr None"
    using assms auth
    by (auto simp: publish_POST_def split: sum.split_asm option.split_asm if_split_asm)
  ultimately show ?thesis by blast
qed

lemma content_served_when_valid:
  assumes "getSkillVersion env sid sha w = Inr (Some skill)"
    and "rq_authorization req = Some a" "a \<noteq> []" "rq_method req = ''GET''"
    and "lv_valid (fst (verifyL402Authorization lib (sv_sha256 sv) env a (skill_claim skill) w))"
    and "\<And>w. sv_blob_get sv (psv_blobPath skill) w = Inr (Some \<lparr>br_statusCode = 200, br_stream = Some s\<rparr>)"
  shows "\<exists>r w'. content_handleRequest lib sv env req sid sha w = (Inr r, w') \<and> rs_status r = 200 \<and>
    rs_body r = StreamBody s"
  using assms
  by (cases "verifyL402Authorization lib (sv_sha256 sv) env a (skill_claim skill) w")
    (simp add: content_handleRequest_def truthy_def getSkillContentBlob_def paidContentResponse_def)

end
