(* ===== verification/Paywall_Demo.thy ===== *)
theory Paywall_Demo
  imports Paywall_Routes
begin

text \<open>
  A concrete macaroon library that satisfies the laws of \<open>Paywall_L402\<close>, and a concrete
  deployment of the paywall. They show that the hypotheses of the paywall's properties
  can hold together, and carry their witnesses. The library's signature is its root key
  cut to 32 bytes: the laws ask for an authentic signature, not for a secret one.
\<close>

section \<open>The library\<close>

definition demo_sign :: "byte list \<Rightarrow> byte list" where
  "demo_sign key = take 32 (key @ replicate 32 0)"

definition demo_authentic :: "byte list \<Rightarrow> macaroon_bytes \<Rightarrow> bool" where
  "demo_authentic key m \<longleftrightarrow> mb_signature m = demo_sign key"

definition demo_v2 :: "macaroon_bytes \<Rightarrow> bool" where
  "demo_v2 m \<longleftrightarrow> (\<exists>l. l \<noteq> [] \<and> mb_location m = Some (utf8Bytes l)) \<and>
     list_all (\<lambda>c. cb_location c = None \<and> cb_vid c = None) (mb_caveats m)"

definition demo_conditions :: "macaroon_bytes \<Rightarrow> string list option" where
  "demo_conditions m =
     those (map (\<lambda>c. utf8_decode (cb_identifier c)) (mb_caveats m))"

definition demo_verify ::
    "macaroon_bytes \<Rightarrow> byte list \<Rightarrow> (string \<Rightarrow> string list \<Rightarrow> string option \<times> string list)
     \<Rightarrow> string list \<Rightarrow> string list result" where
  "demo_verify m key check seen =
     (if demo_authentic key m \<and> list_all (\<lambda>c. cb_vid c = None) (mb_caveats m)
      then case demo_conditions m of
             None \<Rightarrow> Inl (Error ''invalid caveat'')
           | Some conds \<Rightarrow>
               (case run_checks check conds seen of
                  None \<Rightarrow> Inl (Error ''caveat check failed'') | Some seen' \<Rightarrow> Inr seen')
      else Inl (Error ''signature mismatch''))"

definition demo_exportJSON :: "macaroon_bytes \<Rightarrow> macaroon_json" where
  "demo_exportJSON m =
     \<lparr>mac_v = Some 2, mac_i = None, mac_i64 = Some (base64_encode (mb_identifier m)),
      mac_l = Option.bind (mb_location m) utf8_decode, mac_s = None,
      mac_s64 = Some (base64_encode (mb_signature m)),
      mac_c = Some (map (\<lambda>c. \<lparr>cav_i = None, cav_i64 = Some (base64_encode (cb_identifier c)),
                               cav_l = None, cav_v = None, cav_v64 = None\<rparr>) (mb_caveats m))\<rparr>"

definition demo_importMacaroon :: "string \<Rightarrow> macaroon_bytes result" where
  "demo_importMacaroon s =
     (case read_macaroon (map unat (base64_decode s)) of
        Some (m, []) \<Rightarrow> Inr m | _ \<Rightarrow> Inl (Error ''bad macaroon''))"

definition demo_lib :: "macaroon_bytes macaroon_lib" where
  "demo_lib =
     \<lparr>lib_newMacaroon = (\<lambda>_ key i l. \<lparr>mb_location = Some (utf8Bytes l), mb_identifier = i,
                                       mb_caveats = [], mb_signature = demo_sign key\<rparr>),
      lib_addFirstPartyCaveat = (\<lambda>m c. m\<lparr>mb_caveats := mb_caveats m @
                                       [\<lparr>cb_location = None, cb_identifier = c, cb_vid = None\<rparr>]\<rparr>),
      lib_exportJSON = demo_exportJSON, lib_importMacaroon = demo_importMacaroon,
      lib_verify = demo_verify, lib_identifier = mb_identifier,
      lib_base64ToBytes = base64_decode, lib_bytesToBase64 = base64_encode\<rparr>"

lemma those_Some: "those xs = Some ys \<longleftrightarrow> xs = map Some ys"
  by (induction xs arbitrary: ys) (auto split: option.splits)

lemma demo_verify_law: "verify_law demo_lib demo_authentic id"
  by (auto simp: verify_law_def demo_lib_def demo_verify_def demo_conditions_def
      those_Some [symmetric] split: option.splits)

lemma length_demo_sign: "length (demo_sign key) = 32"
  by (simp add: demo_sign_def)

lemma demo_mint_law: "mint_law demo_lib demo_authentic id demo_v2"
  by (auto simp: mint_law_def demo_lib_def demo_v2_def demo_authentic_def length_demo_sign Let_def)

lemma demo_caveats_of:
  "list_all (\<lambda>c. cb_location c = None \<and> cb_vid c = None) cs \<Longrightarrow>
   caveats_of base64_decode (map (\<lambda>c. \<lparr>cav_i = None, cav_i64 = Some (base64_encode (cb_identifier c)),
      cav_l = None, cav_v = None, cav_v64 = None\<rparr>) cs) = Some cs"
  by (induction cs) (auto simp: caveat_of_def bytes_of_fields_def location_bytes_def codec_simps)

lemma demo_export: "demo_v2 m \<Longrightarrow> macaroon_of base64_decode (demo_exportJSON m) = Some m"
  by (auto simp: demo_v2_def macaroon_of_def demo_exportJSON_def demo_caveats_of bytes_of_fields_def
      location_bytes_def codec_simps)

lemma encode_groups_alphabet:
  "(\<And>x. x \<in> set bs \<Longrightarrow> x < 256) \<Longrightarrow> c \<in> set (encode_groups bs) \<Longrightarrow>
   base64_val c \<noteq> None \<or> c = CHR ''=''"
proof (induction bs rule: encode_groups.induct)
  case (1 x y z r)
  have "x < 256" "y < 256" "z < 256" using "1.prems"(1) by auto
  then have "x div 4 < 64" "16 * (x mod 4) + y div 16 < 64" "4 * (y mod 16) + z div 64 < 64" "z mod 64 < 64"
    by linarith+
  with 1 show ?case by (auto simp: base64_val_char)
next
  case (2 x y)
  have "x < 256" "y < 256" using "2.prems"(1) by auto
  then have "x div 4 < 64" "16 * (x mod 4) + y div 16 < 64" "4 * (y mod 16) < 64" by linarith+
  with 2 show ?case by (auto simp: base64_val_char)
next
  case (3 x)
  have "x < 256" using "3.prems"(1) by auto
  then have "x div 4 < 64" "16 * (x mod 4) < 64" by linarith+
  with 3 show ?case by (auto simp: base64_val_char)
qed simp

lemma encode_groups_eq_Nil: "encode_groups bs = [] \<longleftrightarrow> bs = []"
  by (cases bs rule: encode_groups.cases) simp_all

lemma demo_transport_law: "transport_law demo_lib id demo_v2"
proof -
  have "list_all (\<lambda>c. base64_val c \<noteq> None \<or> c = CHR ''='') (base64_encode bytes)" for bytes
    unfolding list_all_iff base64_encode_def
    by (intro ballI encode_groups_alphabet [of "map unat bytes"]) auto
  moreover have "bytes \<noteq> [] \<Longrightarrow> base64_encode bytes \<noteq> []" for bytes
    by (simp add: base64_encode_def encode_groups_eq_Nil)
  moreover have "mac_v (demo_exportJSON m) = Some 2" for m by (simp add: demo_exportJSON_def)
  ultimately show ?thesis
    by (auto simp: transport_law_def demo_lib_def demo_export demo_importMacaroon_def codec_simps)
qed

lemmas demo_laws = demo_verify_law demo_mint_law demo_transport_law

section \<open>A deployment\<close>

definition zeros64 :: string where
  "zeros64 = replicate 64 (CHR ''0'')"

definition demo_env :: env where
  "demo_env name =
     (if name = ''LIGHTNING_NODE_URL'' then Some ''http://lnd/''
      else if name = ''LIGHTNING_API_KEY'' then Some ''ab''
      else if name = ''L402_MACAROON_ROOT_KEY'' then Some zeros64
      else if name = ''ADMIN_PUBLISH_TOKEN'' then Some ''t0ken''
      else if name = ''DATABASE_URL'' then Some ''postgres://localhost''
      else None)"

definition demo_fetch :: "invoice_request \<Rightarrow> http_reply" where
  "demo_fetch r =
     Reply 200 (''{\"payment_request\":\"lnbc1\",\"r_hash_str\":\"'' @ zeros64 @ ''\"}'')"

definition demo_claim :: expected_claim where
  "demo_claim = \<lparr>ex_skillId = ''s'', ex_contentSha256 = ''ab'', ex_path = ''/p'', ex_method = ''GET''\<rparr>"

definition demo_world :: world where
  "demo_world = \<lparr>w_db = \<lparr>skill_versions = [], l402_challenges = [], l402_receipts = []\<rparr>,
     w_query_error = None, w_now = 5, w_edge = Some [], w_blobs = []\<rparr>"

lemma demo_price: "validateConfiguredPrice demo_env (Finite 10) = Inr None"
  by code_simp

lemma demo_invoice:
  "createInvoice demo_env demo_fetch (price_int (Finite 10)) ''s'' ''ab'' = Inr (''lnbc1'', zeros64)"
  by code_simp

lemma demo_key: "getMacaroonRootKey demo_env = Inr (replicate 32 0)"
  by code_simp

lemma demo_hash: "bytes_to_hex (replicate 32 0) = zeros64"
  by code_simp

lemma demo_fits: "claim_fits demo_claim"
  by (simp add: claim_fits_def caveatsFor_def demo_claim_def toUpperCase_def)

lemma demo_zeros: "is_hex64 zeros64" "toLowerCase zeros64 = zeros64"
  by code_simp+

lemma demo_world_up: "w_query_error demo_world = None"
  by (simp add: demo_world_def)

lemma demo_valid:
  "\<exists>authorization. lv_valid (fst (verifyL402Authorization demo_lib id demo_env authorization demo_claim demo_world))"
  using minted_macaroon_verifies [OF demo_laws demo_key demo_fits demo_zeros, of "replicate 32 0" id demo_world]
  by (auto simp: demo_hash demo_world_up)

section \<open>A published skill\<close>

definition demo_services :: services where
  "demo_services =
     \<lparr>sv_fetch = demo_fetch, sv_sha256 = id, sv_edge_patch = (\<lambda>r w. (Reply 200 [], w)),
      sv_blob_put = (\<lambda>p b w. (Inr (), w)),
      sv_blob_get = (\<lambda>p w. Inr (Some \<lparr>br_statusCode = 200, br_stream = Some ''# doc''\<rparr>))\<rparr>"

definition demo_row :: "string \<Rightarrow> skill_row" where
  "demo_row sha = \<lparr>sk_skill_id = ''s'', sk_content_sha256 = sha, sk_title = ''t'', sk_summary = ''u'',
     sk_price_sats = 10, sk_blob_path = ''b'', sk_is_active = True, sk_created_at = 1\<rparr>"

definition demo_shop :: world where
  "demo_shop = demo_world\<lparr>w_db := (w_db demo_world)\<lparr>skill_versions := [demo_row ''ab'']\<rparr>\<rparr>"

definition demo_publish :: publish_input where
  "demo_publish = \<lparr>pi_input = \<lparr>psi_skillId = ''s'', psi_title = ''new'', psi_summary = ''u'',
     psi_priceSats = Finite 20, psi_content = ''doc''\<rparr>, pi_blobPath = ''c'', pi_contentSha256 = ''cd''\<rparr>"

lemma demo_db: "has_db demo_env" "\<not> truthy (demo_env ''EDGE_CONFIG'')" "w_query_error demo_shop = None"
  by (simp_all add: has_db_def getOptionalDb_def demo_env_def truthy_def demo_shop_def demo_world_def Let_def)

lemma demo_frame: "services_frame demo_services"
  by (simp add: services_frame_def demo_services_def)

lemma demo_inv: "catalog_inv (skill_versions (w_db demo_shop))"
  by (simp add: catalog_inv_def demo_shop_def demo_row_def active_versions_def)

lemma demo_lookup: "getSkillVersion demo_env ''s'' ''ab'' demo_shop = Inr (Some (rowToSkill (demo_row ''ab'')))"
  using getCurrent_db(2) [OF demo_db(2,1,3), of "''s''" "''ab''"]
  by (simp add: demo_shop_def demo_row_def is_version_def)

lemma demo_bigint: "to_bigint (Finite 20) = Inr 20"
  using isInteger_Finite [of 20] by (simp add: to_bigint_def)

lemma demo_published:
  "\<exists>skill w'. publishSkillVersion demo_services demo_env demo_publish demo_shop = (Inr skill, w')"
  using demo_db demo_bigint
  by (auto simp: publishSkillVersion_def withTransaction_def getRequiredDb_def upsertSkillVersion_ok Let_def
      syncSkillToEdgeConfig_def demo_env_def truthy_def demo_publish_def split: prod.splits sum.splits)

lemma demo_shop_fits: "claim_fits (skill_claim (rowToSkill (demo_row ''ab'')))"
  by (simp add: claim_fits_def caveatsFor_def skill_claim_def rowToSkill_def demo_row_def paidContentPath_def
      manifestPath_def toUpperCase_def)

lemma demo_serve:
  "\<exists>req r w'. content_handleRequest demo_lib demo_services demo_env req ''s'' ''ab'' demo_shop = (Inr r, w') \<and>
     rs_body r = StreamBody ''# doc''"
proof -
  obtain mac where mac: "lv_valid (fst (verifyL402Authorization demo_lib id demo_env
      (''L402 '' @ mac @ '':'' @ bytes_to_hex (replicate 32 0)) (skill_claim (rowToSkill (demo_row ''ab''))) demo_shop))"
    using minted_macaroon_verifies [OF demo_laws demo_key demo_shop_fits demo_zeros, of "replicate 32 0" id demo_shop]
    by (auto simp: demo_hash demo_db)
  let ?req = "\<lparr>rq_method = ''GET'',
    rq_authorization = Some (''L402 '' @ mac @ '':'' @ bytes_to_hex (replicate 32 0)), rq_body = []\<rparr>"
  have "\<exists>r w'. content_handleRequest demo_lib demo_services demo_env ?req ''s'' ''ab'' demo_shop = (Inr r, w') \<and>
     rs_status r = 200 \<and> rs_body r = StreamBody ''# doc''"
    using mac by (intro content_served_when_valid [OF demo_lookup]) (simp_all add: demo_services_def)
  then show ?thesis by blast
qed

definition demo_post :: http_request where
  "demo_post = \<lparr>rq_method = ''POST'', rq_authorization = Some ''Bearer t0ken'',
     rq_body = ''{\"skillId\":\"s\",\"title\":\"t\",\"summary\":\"u\",\"content\":\"c\",\"priceSats\":7}''\<rparr>"

lemma demo_post_parse:
  "JSON_parse (rq_body demo_post) = Inr (JObj [(''skillId'', JStr ''s''), (''title'', JStr ''t''),
     (''summary'', JStr ''u''), (''content'', JStr ''c''), (''priceSats'', JNum (Finite 7))])"
  by code_simp

lemma demo_post_changes:
  "map sk_price_sats (skill_versions (w_db (snd (publish_POST demo_services demo_env demo_post demo_shop)))) = [10, 7]"
  by code_simp

section \<open>Witnesses\<close>

theorem content_served_only_when_paid_witness:
  "\<exists>req r w' skill mac m key.
     content_handleRequest demo_lib demo_services demo_env req ''s'' ''ab'' demo_shop = (Inr r, w') \<and>
     rs_body r = StreamBody ''# doc'' \<and> getSkillVersion demo_env ''s'' ''ab'' demo_shop = Inr (Some skill) \<and>
     lib_importMacaroon demo_lib mac = Inr m \<and> getMacaroonRootKey demo_env = Inr key \<and> demo_authentic key m"
proof -
  obtain req r w' where s: "content_handleRequest demo_lib demo_services demo_env req ''s'' ''ab'' demo_shop = (Inr r, w')"
    "rs_body r = StreamBody ''# doc''"
    using demo_serve by blast
  show ?thesis using content_served_only_when_paid [OF demo_verify_law s] s by blast
qed


theorem publish_keeps_other_versions_witness:
  "\<exists>skill w' active. publishSkillVersion demo_services demo_env demo_publish demo_shop = (Inr skill, w') \<and>
     getSkillVersion demo_env ''s'' ''ab'' w' =
       Inr (Some ((rowToSkill (demo_row ''ab''))\<lparr>psv_isActive := active\<rparr>))"
proof -
  obtain skill w' where p: "publishSkillVersion demo_services demo_env demo_publish demo_shop = (Inr skill, w')"
    using demo_published by blast
  have other: "(''s'', ''ab'') \<noteq> (psi_skillId (pi_input demo_publish), pi_contentSha256 demo_publish)"
    by (simp add: demo_publish_def)
  show ?thesis
    using publish_keeps_other_versions [OF demo_frame demo_db(2) p demo_db(3) other demo_lookup] p by blast
qed

theorem endpoints_answer_properly_witness:
  "\<exists>r w'. manifest_handleRequest demo_env \<lparr>rq_method = ''HEAD'', rq_authorization = None, rq_body = []\<rparr> ''s'' demo_shop
       = (Inr r, w') \<and> rs_body r = NoBody \<and> cors_open r"
proof -
  let ?req = "\<lparr>rq_method = ''HEAD'', rq_authorization = None, rq_body = []\<rparr>"
  obtain r where r: "manifest_handleRequest demo_env ?req ''s'' demo_shop = (Inr r, demo_shop)"
    using getCurrent_db(1) [OF demo_db(2,1,3), of "''s''"] by (simp add: manifest_handleRequest_def)
  show ?thesis
    using endpoints_answer_properly [of demo_lib demo_services demo_env ?req "''s''" "''ab''" demo_shop r demo_shop] r
    by (auto simp: proper_response_def)
qed

theorem verifyL402Authorization_sound_witness:
  "\<exists>authorization mac pre m key.
     lv_valid (fst (verifyL402Authorization demo_lib id demo_env authorization demo_claim demo_world)) \<and>
     parseAuthorizationHeader authorization = Inr (mac, pre) \<and> length (hex_to_bytes pre) = 32 \<and>
     lib_importMacaroon demo_lib mac = Inr m \<and> getMacaroonRootKey demo_env = Inr key \<and> demo_authentic key m"
proof -
  obtain a where a: "lv_valid (fst (verifyL402Authorization demo_lib id demo_env a demo_claim demo_world))"
    using demo_valid by blast
  show ?thesis using verifyL402Authorization_sound [OF demo_verify_law a] a by blast
qed

theorem issued_challenge_verifies_witness:
  "\<exists>ch w1. issueL402Challenge demo_lib demo_fetch demo_env
       \<lparr>ci_claim = demo_claim, ci_priceSats = Finite 10\<rparr> demo_world = (Inr ch, w1) \<and>
     lv_valid (fst (verifyL402Authorization demo_lib id demo_env
       (''L402 '' @ lc_macaroonB64 ch @ '':'' @ bytes_to_hex (replicate 32 0)) demo_claim demo_world))"
proof (rule issued_challenge_verifies [OF demo_laws demo_price _ demo_key demo_fits])
  show "createInvoice demo_env demo_fetch (price_int (Finite 10)) (ex_skillId demo_claim)
      (ex_contentSha256 demo_claim) = Inr (''lnbc1'', zeros64)"
    using demo_invoice by (simp add: demo_claim_def)
qed (simp_all add: demo_hash demo_world_up)

theorem publish_changes_only_with_token_witness:
  "\<exists>tok payload input. demo_env ''ADMIN_PUBLISH_TOKEN'' = Some tok \<and> tok \<noteq> [] \<and>
     rq_authorization demo_post = Some (''Bearer '' @ tok) \<and> JSON_parse (rq_body demo_post) = Inr payload \<and>
     validateInput payload = Some input \<and> psi_skillId input \<noteq> [] \<and> psi_content input \<noteq> [] \<and>
     validateConfiguredPrice demo_env (psi_priceSats input) = Inr None"
proof -
  obtain r w' where p: "publish_POST demo_services demo_env demo_post demo_shop = (r, w')"
    by (cases "publish_POST demo_services demo_env demo_post demo_shop")
  have "map sk_price_sats (skill_versions (w_db demo_shop)) = [10]"
    by (simp add: demo_shop_def demo_row_def)
  then have "w' \<noteq> demo_shop" using demo_post_changes p by auto
  then show ?thesis using publish_changes_only_with_token [OF p] by blast
qed

end
