(* ===== verification/Walk_Site.thy ===== *)
theory Walk_Site
  imports Walk_Flows Paywall_Demo
begin

text \<open>
  The client of \<open>scripts/l402_walkthrough.mjs\<close> talking to the server of \<open>paywall-web\<close>: the
  routes of \<open>Paywall_Routes\<close> as the remote side of the dialogue of \<open>Walk_Flows\<close>, with the
  file-system routing of the \<open>app\<close> directory, bodies and repeated headers as they appear on
  the wire. The result is that the purchase the client describes goes through.
\<close>

section \<open>The site\<close>

datatype site_route = ManifestRoute string | ContentRoute string string | PublishRoute | NoRoute

text \<open>The directories below \<open>app\<close> that hold a \<open>route.ts\<close>.\<close>

definition route_of :: "string \<Rightarrow> site_route" where
  "route_of path =
     (let parts = split_on (CHR ''/'') path in
      case parts of
        [a, b, c, d, skillId] \<Rightarrow>
          if a = [] \<and> b = ''.well-known'' \<and> c = ''l402'' \<and> d = ''skills'' then ManifestRoute skillId else NoRoute
      | [a, b, c, d, skillId, e, sha, f] \<Rightarrow>
          if a = [] \<and> b = ''.well-known'' \<and> c = ''l402'' \<and> d = ''skills'' \<and> e = ''v'' \<and> f = ''content''
          then ContentRoute skillId sha else NoRoute
      | [a, b, c, d] \<Rightarrow> if a = [] \<and> b = ''api'' \<and> c = ''admin'' \<and> d = ''publish-skill'' then PublishRoute else NoRoute
      | _ \<Rightarrow> NoRoute)"

definition body_text :: "http_body \<Rightarrow> string" where
  "body_text b = (case b of NoBody \<Rightarrow> [] | JsonBody v \<Rightarrow> JSON_stringify v | StreamBody s \<Rightarrow> s)"

definition on_the_wire :: "http_response \<Rightarrow> net_response" where
  "on_the_wire r =
     \<lparr>ns_status = rs_status r, ns_headers = map (\<lambda>(n, vs). (n, join '', '' vs)) (rs_headers r),
      ns_body = body_text (rs_body r)\<rparr>"

definition bare_status :: "nat \<Rightarrow> net_response" where
  "bare_status n = \<lparr>ns_status = n, ns_headers = [], ns_body = []\<rparr>"

text \<open>An export that is missing is answered 405, an exception 500, an unknown path 404.\<close>

definition answered :: "(http_response result \<times> world) option \<Rightarrow> world \<Rightarrow> net_response result \<times> world" where
  "answered a w =
     (case a of
        None \<Rightarrow> (Inr (bare_status 405), w)
      | Some (Inl e, w') \<Rightarrow> (Inr (bare_status 500), w')
      | Some (Inr r, w') \<Rightarrow> (Inr (on_the_wire r), w'))"

definition paywall_site ::
    "url_api \<Rightarrow> 'm macaroon_lib \<Rightarrow> services \<Rightarrow> env \<Rightarrow> world http_client" where
  "paywall_site api lib sv env rq w =
     (case api (nr_url rq) of
        None \<Rightarrow> (Inl (Error ''Invalid URL''), w)
      | Some u \<Rightarrow>
          (let request = \<lparr>rq_method = nr_method rq, rq_authorization = map_of (nr_headers rq) ''Authorization'',
                          rq_body = or_empty (nr_body rq)\<rparr> in
           case route_of (url_pathname u) of
             ManifestRoute skillId \<Rightarrow> answered (manifest_route env request skillId w) w
           | ContentRoute skillId sha \<Rightarrow> answered (content_route lib sv env request skillId sha w) w
           | PublishRoute \<Rightarrow>
               answered (if rq_method request = ''POST'' then Some (publish_POST sv env request w) else None) w
           | NoRoute \<Rightarrow> (Inr (bare_status 404), w)))"

text \<open>
  What the URL parser does with the address of a site: it accepts the address, keeps it up
  to a final slash, and takes an address followed by a path apart again. A path is plain
  when it consists of characters that are never encoded and has no dot segments.
\<close>

definition path_char :: "char \<Rightarrow> bool" where
  "path_char c \<longleftrightarrow> (let n = of_char c :: nat in
     48 \<le> n \<and> n \<le> 57 \<or> 65 \<le> n \<and> n \<le> 90 \<or> 97 \<le> n \<and> n \<le> 122 \<or> n = 45 \<or> n = 46 \<or> n = 47 \<or> n = 95)"

definition plain_path :: "string \<Rightarrow> bool" where
  "plain_path p \<longleftrightarrow> starts_with ''/'' p \<and> list_all path_char p \<and>
     ''.'' \<notin> set (split_on (CHR ''/'') p) \<and> ''..'' \<notin> set (split_on (CHR ''/'') p)"

definition url_site :: "url_api \<Rightarrow> string \<Rightarrow> bool" where
  "url_site api base \<longleftrightarrow>
     base \<noteq> [] \<and> \<not> ends_with ''/'' base \<and>
     (\<exists>u. api base = Some u \<and> url_protocol u \<in> {''http:'', ''https:''} \<and> trimTrailingSlash (url_href u) = base) \<and>
     (\<forall>p. plain_path p \<longrightarrow>
        (\<exists>u. api (base @ p) = Some u \<and> url_href u = base @ p \<and> url_pathname u = p))"

section \<open>Routing\<close>

lemma split_on_append: "d \<notin> set xs \<Longrightarrow> split_on d (xs @ d # ys) = xs # split_on d ys"
  by (induction xs) auto

lemma split_on_none: "d \<notin> set xs \<Longrightarrow> split_on d xs = [xs]"
  by (induction xs) auto

lemma split_manifest:
  assumes "CHR ''/'' \<notin> set skillId"
  shows "split_on (CHR ''/'') (manifestPath skillId) = [[], ''.well-known'', ''l402'', ''skills'', skillId]"
  using assms by (simp add: manifestPath_def split_on_none)

lemma split_paid:
  assumes "CHR ''/'' \<notin> set skillId" "CHR ''/'' \<notin> set sha"
  shows "split_on (CHR ''/'') (paidContentPath skillId sha)
    = [[], ''.well-known'', ''l402'', ''skills'', skillId, ''v'', sha, ''content'']"
  using assms by (simp add: paidContentPath_def manifestPath_def split_on_append split_on_none)

lemma route_paths:
  "CHR ''/'' \<notin> set skillId \<Longrightarrow> route_of (manifestPath skillId) = ManifestRoute skillId"
  "CHR ''/'' \<notin> set skillId \<Longrightarrow> CHR ''/'' \<notin> set sha \<Longrightarrow> route_of (paidContentPath skillId sha) = ContentRoute skillId sha"
  by (simp_all add: route_of_def split_manifest split_paid)

text \<open>Skill ids that need no encoding.\<close>

definition plain_id :: "string \<Rightarrow> bool" where
  "plain_id i \<longleftrightarrow> i \<noteq> [] \<and> list_all path_char i \<and> CHR ''/'' \<notin> set i \<and> i \<noteq> ''.'' \<and> i \<noteq> ''..''"

lemma path_char_solid: "path_char c \<Longrightarrow> \<not> js_whitespace c"
  by (auto simp: path_char_def js_whitespace_def Let_def)

lemma hex_path_char: "is_hex_char c \<Longrightarrow> path_char c \<and> c \<noteq> CHR ''/''"
  by (auto simp: path_char_def is_hex_char_def Let_def)

lemma hex64_no_slash: "is_hex64 sha \<Longrightarrow> CHR ''/'' \<notin> set sha"
  using hex_path_char by (auto simp: is_hex64_def list_all_iff)

lemma plain_paths:
  assumes "plain_id i"
  shows "plain_path (manifestPath i)" "is_hex64 sha \<Longrightarrow> plain_path (paidContentPath i sha)"
proof -
  have lit: "list_all path_char ''/.well-known/l402/skills''" "list_all path_char ''/v/''" "list_all path_char ''/content''"
    "path_char (CHR ''/'')"
    by code_simp+
  show "plain_path (manifestPath i)"
    using assms lit by (auto simp: plain_path_def plain_id_def split_manifest) (simp_all add: manifestPath_def starts_with_def)
  assume h: "is_hex64 sha"
  then have "list_all path_char sha" using hex_path_char by (auto simp: is_hex64_def list_all_iff)
  moreover have "sha \<noteq> ''.''" "sha \<noteq> ''..''" using h by (auto simp: is_hex64_def)
  ultimately show "plain_path (paidContentPath i sha)"
    using assms lit h hex64_no_slash [OF h]
    by (auto simp: plain_path_def plain_id_def split_paid)
      (simp_all add: paidContentPath_def manifestPath_def starts_with_def)
qed

section \<open>Runs of the dialogue\<close>

text \<open>
  From given input and a given remote state a program ends with a value, leaving some of
  the input and a new remote state; what it prints does not matter except at the end.
\<close>

definition goes :: "('w, 'a) prog \<Rightarrow> string list \<Rightarrow> 'w \<Rightarrow> 'a \<Rightarrow> string list \<Rightarrow> 'w \<Rightarrow> bool" where
  "goes p ls w x ls' w' \<longleftrightarrow>
     (\<forall>s. cl_lines s = ls \<and> cl_world s = w \<longrightarrow> (\<exists>t. p s = (Value x, t) \<and> cl_lines t = ls' \<and> cl_world t = w'))"

definition shows_last :: "('w, 'a) prog \<Rightarrow> string list \<Rightarrow> 'w \<Rightarrow> string \<Rightarrow> bool" where
  "shows_last p ls w text \<longleftrightarrow>
     (\<forall>s. cl_lines s = ls \<and> cl_world s = w \<longrightarrow>
        (\<exists>x t. p s = (Value x, t) \<and> cl_out t \<noteq> [] \<and> last (cl_out t) = text))"

lemma goes_and_then: "goes p ls w x ls1 w1 \<Longrightarrow> goes (f x) ls1 w1 y ls2 w2 \<Longrightarrow> goes (and_then p f) ls w y ls2 w2"
  unfolding goes_def and_then_def by fastforce

lemma shows_and_then: "goes p ls w x ls1 w1 \<Longrightarrow> shows_last (f x) ls1 w1 text \<Longrightarrow> shows_last (and_then p f) ls w text"
  unfolding goes_def shows_last_def and_then_def by fastforce

lemma shows_with_now: "(\<And>now. shows_last (f now) ls w text) \<Longrightarrow> shows_last (with_now f) ls w text"
  by (simp add: shows_last_def with_now_def)

lemma goes_say: "goes (say texts) ls w () ls w"
  by (simp add: goes_def say_def)

lemma goes_printList: "goes (printList items) ls w () ls w"
  by (simp add: printList_def goes_say)

lemma goes_give: "goes (give x) ls w x ls w"
  by (simp add: goes_def give_def)

lemma goes_lift: "r = Inr x \<Longrightarrow> goes (lift_result r) ls w x ls w"
  by (simp add: goes_def lift_result_def)

lemma shows_say: "shows_last (say (texts @ [text])) ls w text"
  by (simp add: shows_last_def say_def)

lemma goes_question: "q ls = (Some x, ls', out) \<Longrightarrow> goes (run_question q) ls w x ls' w"
  by (simp add: goes_def run_question_def)

lemma goes_choice:
  assumes "parseInt10 (js_trim l) = Some (int (Suc n))" "n < length opts"
  shows "goes (promptChoice cf label opts) (l # ls) w (ch_value (opts ! n)) ls w"
  unfolding promptChoice_def using assms
  by (intro goes_and_then [OF goes_say] goes_question) simp

lemma goes_default:
  assumes "d \<noteq> []" "v d = None"
  shows "goes (promptInput cf label (Some d) v) ([] # ls) w d ls w"
proof -
  have "js_trim [] = []" by (simp add: js_trim_def)
  then show ?thesis
    unfolding promptInput_def Let_def using assms
    by (intro goes_and_then [OF goes_say] goes_question) simp
qed

lemma goes_typed:
  assumes "js_trim l = l" "l \<noteq> []" "v l = None"
  shows "goes (promptInput cf label d v) (l # ls) w l ls w"
  unfolding promptInput_def Let_def using assms
  by (cases d) (auto intro!: goes_and_then [OF goes_say] goes_question)

lemma hidden_hex: "list_all is_hex_char l \<Longrightarrow> hidden_chars v l = Inr (v @ l)"
  by (induction l arbitrary: v) (auto simp: is_hex_char_def)

lemma trim_solid: "(\<And>c. c \<in> set l \<Longrightarrow> \<not> js_whitespace c) \<Longrightarrow> js_trim l = l"
  by (cases "l = []") (simp add: js_trim_def, auto intro!: js_trim_id)

lemma hex64_trim: "is_hex64 l \<Longrightarrow> js_trim l = l"
  by (rule trim_solid) (auto simp: is_hex64_def list_all_iff dest: hex_char_not_ws)

lemma goes_secret:
  assumes "is_hex64 l" "v l = None"
  shows "goes (promptSecret cf label v) (l # ls) w l ls w"
proof -
  have l: "hidden_chars [] l = Inr l" "l \<noteq> []" "js_trim l = l"
    using assms(1) hidden_hex [of l "[]"] hex64_trim by (auto simp: is_hex64_def)
  show ?thesis
    unfolding promptSecret_def
    by (rule goes_and_then [OF goes_say], rule goes_and_then [OF goes_question [of _ _ "Inr l"] goes_lift])
      (use l assms(2) in auto)
qed

lemma goes_prints:
  "goes (summarizeManifest cf m) ls w () ls w" "goes (summarizeChallenge cf r c) ls w () ls w"
  "goes (printChallengeBundle cf b h) ls w () ls w"
  unfolding summarizeManifest_def summarizeChallenge_def printChallengeBundle_def
  by (intro goes_and_then [OF goes_say] goes_and_then [OF goes_printList] goes_printList goes_say)+

lemma goes_request:
  assumes "cf_url cf url = Some u" "req \<lparr>nr_url = url_href u, nr_method = m, nr_headers = h, nr_body = b\<rparr> w = (Inr r, w')"
  shows "goes (requestRaw cf req url m h b) ls w r ls w'"
  using assms by (simp add: goes_def requestRaw_def and_then_def lift_result_def new_URL_def)

section \<open>What the server answers\<close>

lemma challenge_header_text: "challenge_header scheme mac iv = header_text scheme mac iv"
  by (simp add: challenge_header_def header_text_def)

lemma map_of_wire: "map_of (ns_headers (on_the_wire r)) n = map_option (join '', '') (map_of (rs_headers r) n)"
  by (simp add: on_the_wire_def map_of_map)

lemma challenge_headers:
  assumes "lc_headers ch = [h1, h2]"
  shows "map_of (rs_headers (challengeResponse rq ch skill)) ''www-authenticate'' = Some [h1, h2]"
  using assms
  by (simp add: challengeResponse_def jsonResponse_def addCorsHeaders_def headers_set_def headers_append_def
      headers_of_def toLowerCase_def lower_char_def update_conv' Let_def char_of_def bit_Suc_0_iff)

lemma wire_challenge:
  assumes "lc_headers ch = [challenge_header ''LSAT'' mac iv, challenge_header ''L402'' mac iv]"
    and "quotable mac" "quotable iv"
  shows "find_L402 (on_the_wire (challengeResponse rq ch skill))
    = Some \<lparr>pc_scheme = ''L402'', pc_macaroon = mac, pc_invoice = iv\<rparr>"
    "ns_status (on_the_wire (challengeResponse rq ch skill)) = 402"
proof -
  have "header_of ''www-authenticate'' (on_the_wire (challengeResponse rq ch skill))
      = One (header_text ''LSAT'' mac iv @ '', '' @ header_text ''L402'' mac iv)"
    by (simp add: header_of_def map_of_wire challenge_headers [OF assms(1)] challenge_header_text join_def)
  then show "find_L402 (on_the_wire (challengeResponse rq ch skill))
    = Some \<lparr>pc_scheme = ''L402'', pc_macaroon = mac, pc_invoice = iv\<rparr>"
    using parseChallenges_both [OF assms(2,3)] by (simp add: find_L402_def)
  show "ns_status (on_the_wire (challengeResponse rq ch skill)) = 402"
    by (simp add: on_the_wire_def challengeResponse_def jsonResponse_def Let_def)
qed

lemma plain_manifest: "plain_number (psv_priceSats v) \<Longrightarrow> plain_json (manifest_json (toManifest v))"
  by (simp add: manifest_json_def toManifest_def)

text \<open>What the client reads in the manifest of a version.\<close>

lemma manifest_props:
  "json_prop ''title'' (manifest_json (toManifest v)) = Some (JStr (psv_title v))"
  "json_prop ''price_sats'' (manifest_json (toManifest v)) = Some (JNum (psv_priceSats v))"
  "json_prop ''content_sha256'' (manifest_json (toManifest v)) = Some (JStr (psv_contentSha256 v))"
  "json_prop ''paid_url'' (manifest_json (toManifest v)) = Some (JStr (paidContentPath (psv_skillId v) (psv_contentSha256 v)))"
  "json_truthy (manifest_json (toManifest v))"
  by (simp_all add: manifest_json_def toManifest_def json_prop_def json_truthy_def)

lemma lookup_ignores_challenges:
  "getSkillVersion env i h (w\<lparr>w_db := (w_db w)\<lparr>l402_challenges := cs\<rparr>\<rparr>) = getSkillVersion env i h w"
  by (cases "w_query_error w") (simp_all add: getSkillVersion_def getCurrentSkillFromEdgeConfig_def db_query_def)

lemma recordChallenge_frame:
  assumes "recordChallenge env hash sid sha p iv w = (Inr u, w1)"
  shows "w_query_error w1 = w_query_error w" "getSkillVersion env i h w1 = getSkillVersion env i h w"
proof -
  have "w1 = w \<or> (\<exists>cs. w1 = w\<lparr>w_db := (w_db w)\<lparr>l402_challenges := cs\<rparr>\<rparr>)"
    using assms by (cases "has_db env"; cases "w_query_error w") (auto simp: recordChallenge_def db_query_def Let_def)
  then show "w_query_error w1 = w_query_error w" "getSkillVersion env i h w1 = getSkillVersion env i h w"
    by (auto simp: lookup_ignores_challenges)
qed

section \<open>A version on sale\<close>

text \<open>
  A deployment that sells version \<open>v\<close> with the given content: it is the current version of
  its skill and can be looked up, its price is accepted, the node makes an invoice with the
  given payment hash, and the blob store has the content.
\<close>

definition on_sale ::
    "services \<Rightarrow> env \<Rightarrow> world \<Rightarrow> PublishedSkillVersion \<Rightarrow> string \<Rightarrow> string \<Rightarrow> string \<Rightarrow> bool" where
  "on_sale sv env w v content invoice hash \<longleftrightarrow>
     w_query_error w = None \<and> plain_id (psv_skillId v) \<and> is_hex64 (psv_contentSha256 v) \<and>
     plain_number (psv_priceSats v) \<and> claim_fits (skill_claim v) \<and>
     getCurrentSkillVersion env (psv_skillId v) w = Inr (Some v) \<and>
     getSkillVersion env (psv_skillId v) (psv_contentSha256 v) w = Inr (Some v) \<and>
     validateConfiguredPrice env (psv_priceSats v) = Inr None \<and>
     createInvoice env (sv_fetch sv) (price_int (psv_priceSats v)) (psv_skillId v) (psv_contentSha256 v)
       = Inr (invoice, hash) \<and>
     (\<forall>w'. sv_blob_get sv (psv_blobPath v) w' = Inr (Some \<lparr>br_statusCode = 200, br_stream = Some content\<rparr>))"

section \<open>The purchase\<close>

lemma site_paths:
  assumes "url_site (cf_url cf) base" "plain_path p"
    and "req \<lparr>nr_url = base @ p, nr_method = m, nr_headers = h, nr_body = b\<rparr> w = (Inr r, w')"
  shows "goes (requestRaw cf req (base @ p) m h b) ls w r ls w'"
proof -
  obtain u where u: "cf_url cf (base @ p) = Some u" "url_href u = base @ p" "url_pathname u = p"
    using assms(1,2) by (auto simp: url_site_def)
  then show ?thesis using assms(3) by (intro goes_request [OF u(1)]) simp
qed

lemma site_route:
  assumes "url_site api base" "plain_path p"
  shows "paywall_site api lib sv env \<lparr>nr_url = base @ p, nr_method = m, nr_headers = h, nr_body = b\<rparr> w =
    (let request = \<lparr>rq_method = m, rq_authorization = map_of h ''Authorization'', rq_body = or_empty b\<rparr> in
     case route_of p of
       ManifestRoute skillId \<Rightarrow> answered (manifest_route env request skillId w) w
     | ContentRoute skillId sha \<Rightarrow> answered (content_route lib sv env request skillId sha w) w
     | PublishRoute \<Rightarrow> answered (if m = ''POST'' then Some (publish_POST sv env request w) else None) w
     | NoRoute \<Rightarrow> (Inr (bare_status 404), w))"
proof -
  obtain u where "api (base @ p) = Some u" "url_pathname u = p" using assms by (auto simp: url_site_def)
  then show ?thesis by (simp add: paywall_site_def Let_def)
qed

lemma site_base [simp]: "url_site api base \<Longrightarrow> trimTrailingSlash base = base"
  by (simp add: url_site_def trimTrailingSlash_def)

lemma manifest_reply:
  assumes "url_site (cf_url cf) base" "on_sale sv env w v content iv hash"
  shows "\<exists>r. goes (fetchManifest cf (paywall_site (cf_url cf) lib sv env) base (psv_skillId v)) ls w r ls w \<and>
    ns_status r = 200 \<and> ns_json r = manifest_json (toManifest v)"
proof -
  let ?i = "psv_skillId v" and ?rq = "\<lparr>rq_method = ''GET'', rq_authorization = None, rq_body = []\<rparr>"
  let ?resp = "jsonResponse ?rq 200 (manifest_json (toManifest v))
    (headers_of [(''Allow'', ''GET, HEAD, OPTIONS''), (''Cache-Control'', ''public, max-age=300'')])"
  have pid: "plain_id ?i" and cur: "getCurrentSkillVersion env ?i w = Inr (Some v)" and pl: "plain_number (psv_priceSats v)"
    using assms(2) by (auto simp: on_sale_def)
  have path: "plain_path (manifestPath ?i)" using plain_paths(1) [OF pid] .
  have route: "route_of (manifestPath ?i) = ManifestRoute ?i" using pid by (intro route_paths) (simp add: plain_id_def)
  have "goes (requestRaw cf (paywall_site (cf_url cf) lib sv env) (base @ manifestPath ?i) ''GET'' [] None) ls w
      (on_the_wire ?resp) ls w"
    by (rule site_paths [OF assms(1) path])
      (simp add: site_route [OF assms(1) path] route answered_def manifest_route_def manifest_handleRequest_def cur or_empty_def)
  moreover have "ns_json (on_the_wire ?resp) = manifest_json (toManifest v)"
    by (simp add: ns_json_def on_the_wire_def jsonResponse_def body_text_def parseJson_def
        parse_stringify [OF plain_manifest [OF pl]])
  moreover have "ns_status (on_the_wire ?resp) = 200" by (simp add: on_the_wire_def jsonResponse_def)
  ultimately show ?thesis using assms(1) by (auto simp: fetchManifest_def manifestPath_def)
qed

text \<open>The base64 text of a macaroon stands in a header without quoting.\<close>

lemma base64_text:
  assumes "list_all (\<lambda>c. base64_val c \<noteq> None \<or> c = CHR ''='') mac" "mac \<noteq> []"
  shows "quotable mac" "js_trim mac = mac"
proof -
  have "base64_val QUOTE = None" "base64_val (CHR '','') = None" "QUOTE \<noteq> CHR ''=''" "CHR '','' \<noteq> CHR ''=''"
    by (simp_all add: base64_val_def)
  then show "quotable mac" using assms by (auto simp: quotable_def list_all_iff)
  have "base64_val c = None \<and> c \<noteq> CHR ''=''" if "js_whitespace c" for c
    using that by (auto simp: base64_val_def js_whitespace_def Let_def)
  then show "js_trim mac = mac" using assms(1) by (intro trim_solid) (fastforce simp: list_all_iff)
qed

lemma sale_challenge:
  assumes laws: "verify_law lib authentic view" "mint_law lib authentic view v2" "transport_law lib view v2"
    and key: "getMacaroonRootKey env = Inr key" and site: "url_site (cf_url cf) base"
    and sale: "on_sale sv env w v content iv hash" and iv: "isLikelyBolt11Invoice iv"
    and pre: "length pre = 32" "bytes_to_hex (sv_sha256 sv pre) = hash"
  obtains mac r w1 where
    "goes (fetchChallenge cf (paywall_site (cf_url cf) lib sv env) base
       (paidContentPath (psv_skillId v) (psv_contentSha256 v))) ls w r ls w1"
    "find_L402 r = Some \<lparr>pc_scheme = ''L402'', pc_macaroon = mac, pc_invoice = iv\<rparr>" "ns_status r = 402"
    "mac \<noteq> []" "js_trim mac = mac"
    "lv_valid (fst (verifyL402Authorization lib (sv_sha256 sv) env (''L402 '' @ mac @ '':'' @ bytes_to_hex pre) (skill_claim v) w1))"
    "getSkillVersion env (psv_skillId v) (psv_contentSha256 v) w1 = Inr (Some v)"
proof -
  let ?i = "psv_skillId v" and ?h = "psv_contentSha256 v"
  let ?rq = "\<lparr>rq_method = ''GET'', rq_authorization = None, rq_body = []\<rparr>"
  have s: "w_query_error w = None" "plain_id ?i" "is_hex64 ?h" "claim_fits (skill_claim v)"
    "getSkillVersion env ?i ?h w = Inr (Some v)" "validateConfiguredPrice env (psv_priceSats v) = Inr None"
    "createInvoice env (sv_fetch sv) (price_int (psv_priceSats v)) ?i ?h = Inr (iv, hash)"
    using sale by (auto simp: on_sale_def)
  obtain u w1 where rc: "recordChallenge env hash ?i ?h (price_int (psv_priceSats v)) iv w = (Inr u, w1)"
    using record_Inr(2) s(1) by (metis prod.collapse)
  note frame = recordChallenge_frame [OF rc]
  obtain mac where mac: "mintMacaroon lib env hash (skill_claim v) = Inr mac"
    "list_all (\<lambda>c. base64_val c \<noteq> None \<or> c = CHR ''='') mac" "mac \<noteq> []"
    "lv_valid (fst (verifyL402Authorization lib (sv_sha256 sv) env (''L402 '' @ mac @ '':'' @ bytes_to_hex pre) (skill_claim v) w1))"
    using minted_macaroon_verifies [of lib authentic view v2 env key "skill_claim v" hash pre "sv_sha256 sv" w1]
      laws key s pre createInvoice_hash [OF s(7)] frame(1) by auto
  define ch where "ch = \<lparr>lc_invoice = iv, lc_macaroonB64 = mac, lc_paymentHash = hash,
    lc_headers = [challenge_header ''LSAT'' mac iv, challenge_header ''L402'' mac iv]\<rparr>"
  have issue: "issueL402Challenge lib (sv_fetch sv) env \<lparr>ci_claim = skill_claim v, ci_priceSats = psv_priceSats v\<rparr> w = (Inr ch, w1)"
    using s(6,7) mac(1) rc by (simp add: issueL402Challenge_def ch_def skill_claim_def)
  have path: "plain_path (paidContentPath ?i ?h)" using plain_paths(2) [OF s(2,3)] .
  have route: "route_of (paidContentPath ?i ?h) = ContentRoute ?i ?h"
    using s(2) hex64_no_slash [OF s(3)] by (intro route_paths) (simp_all add: plain_id_def)
  have "content_handleRequest lib sv env ?rq ?i ?h w = (Inr (challengeResponse ?rq ch v), w1)"
    using s(5) issue by (simp add: content_handleRequest_def truthy_def issueChallenge_def)
  then have "goes (requestRaw cf (paywall_site (cf_url cf) lib sv env) (base @ paidContentPath ?i ?h) ''GET'' [] None) ls w
      (on_the_wire (challengeResponse ?rq ch v)) ls w1"
    by (intro site_paths [OF site path])
      (simp add: site_route [OF site path] route answered_def content_route_def or_empty_def)
  then show thesis
    using that [of "on_the_wire (challengeResponse ?rq ch v)" w1 mac] site s(5) frame(2) mac(3,4)
      wire_challenge [of ch mac iv ?rq v] base64_text [OF mac(2,3)] bolt11_plain [OF iv]
    by (simp add: fetchChallenge_def ch_def)
qed

lemma paid_reply:
  assumes site: "url_site (cf_url cf) base" and i: "plain_id (psv_skillId v)" "is_hex64 (psv_contentSha256 v)"
    and v: "getSkillVersion env (psv_skillId v) (psv_contentSha256 v) w = Inr (Some v)" "a \<noteq> []"
    and valid: "lv_valid (fst (verifyL402Authorization lib (sv_sha256 sv) env a (skill_claim v) w))"
    and blob: "\<And>w'. sv_blob_get sv (psv_blobPath v) w' = Inr (Some \<lparr>br_statusCode = 200, br_stream = Some content\<rparr>)"
  obtains r w2 where
    "goes (fetchAuthorizedContent cf (paywall_site (cf_url cf) lib sv env) base
       (paidContentPath (psv_skillId v) (psv_contentSha256 v)) a) ls w r ls w2"
    "ns_status r = 200" "ns_body r = content"
proof -
  let ?i = "psv_skillId v" and ?h = "psv_contentSha256 v"
  let ?rq = "\<lparr>rq_method = ''GET'', rq_authorization = Some a, rq_body = []\<rparr>"
  obtain resp w2 where resp: "content_handleRequest lib sv env ?rq ?i ?h w = (Inr resp, w2)"
    "rs_status resp = 200" "rs_body resp = StreamBody content"
    using content_served_when_valid [OF v(1), of ?rq a lib sv content] v(2) valid blob by auto
  have path: "plain_path (paidContentPath ?i ?h)" using plain_paths(2) [OF i] .
  have route: "route_of (paidContentPath ?i ?h) = ContentRoute ?i ?h"
    using i(1) hex64_no_slash [OF i(2)] by (intro route_paths) (simp_all add: plain_id_def)
  have "goes (requestRaw cf (paywall_site (cf_url cf) lib sv env) (base @ paidContentPath ?i ?h) ''GET'' [(''Authorization'', a)] None)
      ls w (on_the_wire resp) ls w2"
    by (intro site_paths [OF site path])
      (simp add: site_route [OF site path] route answered_def content_route_def or_empty_def resp)
  then show thesis
    using that [of "on_the_wire resp" w2] resp(2,3) site
    by (simp add: fetchAuthorizedContent_def on_the_wire_def body_text_def)
qed

lemma bytes_hex64: "length pre = 32 \<Longrightarrow> is_hex64 (bytes_to_hex pre)"
  by (simp add: is_hex64_def)

lemma answers: "parseInt10 (js_trim ''1'') = Some 1" "parseInt10 (js_trim ''2'') = Some 2"
  by code_simp+

lemma goes_first: "goes (promptChoice cf l (o1 # os)) (''1'' # ls) w (ch_value o1) ls w"
  using goes_choice [of "''1''" 0 "o1 # os" cf l ls w] answers by simp

lemma goes_second: "goes (promptChoice cf l (o1 # o2 # os)) (''2'' # ls) w (ch_value o2) ls w"
  using goes_choice [of "''2''" 1 "o1 # o2 # os" cf l ls w] answers by simp

lemma typed_preimage:
  assumes "length pre = 32"
  shows "goes (promptSecret cf l validate_preimage) (bytes_to_hex pre # ls) w (bytes_to_hex pre) ls w"
    "toLowerCase (bytes_to_hex pre) = bytes_to_hex pre"
proof -
  have h: "is_hex64 (bytes_to_hex pre)" using bytes_hex64 assms .
  then show "goes (promptSecret cf l validate_preimage) (bytes_to_hex pre # ls) w (bytes_to_hex pre) ls w"
    by (intro goes_secret) (simp_all add: validate_preimage_def isHex64_iff is_hex64_def)
  show "toLowerCase (bytes_to_hex pre) = bytes_to_hex pre" by simp
qed

text \<open>Unlocking with the preimage and printing the content.\<close>

lemma unlock_shows:
  assumes site: "url_site (cf_url cf) base" and i: "plain_id (psv_skillId v)" "is_hex64 (psv_contentSha256 v)"
    and b: "bu_baseUrl b = base" "bu_paidUrl b = paidContentPath (psv_skillId v) (psv_contentSha256 v)"
      "bu_scheme b = ''L402''" "bu_macaroon b = mac" "bu_sourceFile b = None"
    and v: "getSkillVersion env (psv_skillId v) (psv_contentSha256 v) w = Inr (Some v)"
    and valid: "lv_valid (fst (verifyL402Authorization lib (sv_sha256 sv) env (''L402 '' @ mac @ '':'' @ bytes_to_hex pre) (skill_claim v) w))"
    and pre: "length pre = 32"
    and blob: "\<And>w'. sv_blob_get sv (psv_blobPath v) w' = Inr (Some \<lparr>br_statusCode = 200, br_stream = Some content\<rparr>)"
  shows "shows_last (unlockPaidContent cf (paywall_site (cf_url cf) lib sv env) b)
    [''1'', bytes_to_hex pre, ''2''] w content"
proof -
  let ?a = "''L402 '' @ mac @ '':'' @ bytes_to_hex pre"
  obtain r w2 where r: "goes (fetchAuthorizedContent cf (paywall_site (cf_url cf) lib sv env) base
       (paidContentPath (psv_skillId v) (psv_contentSha256 v)) ?a) [''2''] w r [''2''] w2"
    "ns_status r = 200" "ns_body r = content"
    using paid_reply [OF site i v _ valid blob] by auto
  have deliver: "shows_last (deliver_content cf b r) [''2''] w2 content"
    unfolding deliver_content_def
    by (rule shows_and_then [OF goes_say], rule shows_and_then [OF goes_second])
      (use shows_say [of "[[]]" content] r(3) in simp)
  have rest: "shows_last (and_then (say t1) (\<lambda>_. and_then (printList t2) (\<lambda>_.
      if ns_status r \<noteq> 200 then report_refusal cf b r else deliver_content cf b r))) [''2''] w2 content" for t1 t2
    by (rule shows_and_then [OF goes_say], rule shows_and_then [OF goes_printList]) (simp add: r(2) deliver)
  have request: "goes (fetchAuthorizedContent cf (paywall_site (cf_url cf) lib sv env) (bu_baseUrl b) (bu_paidUrl b)
      (bu_scheme b @ '' '' @ bu_macaroon b @ '':'' @ toLowerCase (bytes_to_hex pre))) [''2''] w r [''2''] w2"
    using r(1) typed_preimage(2) [OF pre] by (simp add: b)
  show ?thesis
    unfolding unlockPaidContent_def Let_def
    by (rule shows_and_then [OF goes_prints(3)], rule shows_and_then [OF goes_first], simp only: choice.simps unlock_action.case,
        rule shows_and_then [OF typed_preimage(1) [OF pre]], rule shows_and_then [OF request], rule rest)
qed

lemma plain_trim: "list_all path_char s \<Longrightarrow> js_trim s = s"
  by (rule trim_solid) (auto simp: list_all_iff path_char_solid)

lemma sale_fields:
  "manifest_fields base i (manifest_json (toManifest v)) =
     [(''baseUrl'', JStr base), (''skillId'', JStr i), (''title'', JStr (psv_title v)), (''priceSats'', JNum (psv_priceSats v)),
      (''contentSha256'', JStr (psv_contentSha256 v)), (''paidUrl'', JStr (paidContentPath (psv_skillId v) (psv_contentSha256 v)))]"
  by (simp add: manifest_fields_def present_def manifest_props)

lemma sale_bundle:
  assumes site: "url_site (cf_url cf) base" and i: "plain_id (psv_skillId v)" "is_hex64 (psv_contentSha256 v)"
    and iv: "isLikelyBolt11Invoice iv" and mac: "mac \<noteq> []" "js_trim mac = mac"
  obtains b where "normalizeChallengeBundle (cf_url cf)
      (JObj (manifest_fields base (psv_skillId v) (manifest_json (toManifest v))
        @ [(''invoice'', JStr iv), (''macaroon'', JStr mac), (''scheme'', JStr ''L402''), (''capturedAt'', JStr now)])) (JObj [])
      = Inr b"
    "bu_baseUrl b = base" "bu_paidUrl b = paidContentPath (psv_skillId v) (psv_contentSha256 v)"
    "bu_scheme b = ''L402''" "bu_macaroon b = mac" "bu_sourceFile b = None"
proof -
  define inp where "inp = JObj (manifest_fields base (psv_skillId v) (manifest_json (toManifest v))
    @ [(''invoice'', JStr iv), (''macaroon'', JStr mac), (''scheme'', JStr ''L402''), (''capturedAt'', JStr now)])"
  let ?p = "paidContentPath (psv_skillId v) (psv_contentSha256 v)"
  obtain u where u: "cf_url cf base = Some u" "trimTrailingSlash (url_href u) = base"
    using site by (auto simp: url_site_def)
  have path: "plain_path ?p" using plain_paths(2) [OF i] .
  then have slash: "starts_with ''/'' ?p" and trims: "js_trim ?p = ?p"
    by (auto simp: plain_path_def intro: plain_trim)
  have nonempty: "?p \<noteq> []" using slash by (auto simp: starts_with_def)
  have props: "json_string ''baseUrl'' inp = Some base" "json_string ''paidUrl'' inp = Some ?p"
    "json_string ''skillId'' inp = Some (psv_skillId v)" "json_string ''invoice'' inp = Some iv"
    "json_string ''macaroon'' inp = Some mac" "json_string ''scheme'' inp = Some ''L402''" "is_object inp"
    by (simp_all add: json_string_def json_prop_def sale_fields is_object_def inp_def)
  have skill: "js_trim (psv_skillId v) = psv_skillId v" "psv_skillId v \<noteq> []"
    using i(1) by (auto simp: plain_id_def intro: plain_trim)
  have no_defaults: "json_string k (JObj []) = None" for k by (simp add: json_string_def json_prop_def)
  have scheme: "scheme_of ''L402'' = ''L402''" by code_simp
  have "\<exists>b. normalizeChallengeBundle (cf_url cf) inp (JObj []) = Inr b \<and> bu_baseUrl b = base \<and> bu_paidUrl b = ?p \<and>
      bu_scheme b = ''L402'' \<and> bu_macaroon b = mac \<and> bu_sourceFile b = None"
    using nonempty slash trims props skill u iv mac bolt11_plain [OF iv]
    by (simp add: normalizeChallengeBundle_def new_URL_def bundle_base_def bundle_paid_def bundle_skill_def
         bundle_invoice_def bundle_macaroon_def bundle_scheme_def or_empty_def normalizePaidUrl_def scheme Let_def
         no_defaults)
  then show thesis using that unfolding inp_def by blast
qed

lemma challenge_shows:
  assumes laws: "verify_law lib authentic view" "mint_law lib authentic view v2" "transport_law lib view v2"
    and key: "getMacaroonRootKey env = Inr key" and site: "url_site (cf_url cf) base"
    and sale: "on_sale sv env w v content iv hash" and iv: "isLikelyBolt11Invoice iv"
    and pre: "length pre = 32" "bytes_to_hex (sv_sha256 sv pre) = hash"
  shows "shows_last (challenge_step cf (paywall_site (cf_url cf) lib sv env) base (psv_skillId v) (manifest_json (toManifest v)))
    [''1'', ''1'', bytes_to_hex pre, ''2''] w content"
proof -
  have s: "plain_id (psv_skillId v)" "is_hex64 (psv_contentSha256 v)"
    "\<And>w'. sv_blob_get sv (psv_blobPath v) w' = Inr (Some \<lparr>br_statusCode = 200, br_stream = Some content\<rparr>)"
    using sale by (auto simp: on_sale_def)
  obtain mac r w1 where r: "goes (fetchChallenge cf (paywall_site (cf_url cf) lib sv env) base
       (paidContentPath (psv_skillId v) (psv_contentSha256 v))) [''1'', ''1'', bytes_to_hex pre, ''2''] w r
       [''1'', ''1'', bytes_to_hex pre, ''2''] w1"
    "find_L402 r = Some \<lparr>pc_scheme = ''L402'', pc_macaroon = mac, pc_invoice = iv\<rparr>" "ns_status r = 402"
    "mac \<noteq> []" "js_trim mac = mac"
    "lv_valid (fst (verifyL402Authorization lib (sv_sha256 sv) env (''L402 '' @ mac @ '':'' @ bytes_to_hex pre) (skill_claim v) w1))"
    "getSkillVersion env (psv_skillId v) (psv_contentSha256 v) w1 = Inr (Some v)"
    by (rule sale_challenge [OF laws key site sale iv pre])
  have paid: "prop_text ''paid_url'' (manifest_json (toManifest v)) = paidContentPath (psv_skillId v) (psv_contentSha256 v)"
    by (simp add: prop_text_def manifest_props)
  have unlock: "shows_last (and_then (lift_result (normalizeChallengeBundle (cf_url cf)
      (JObj (manifest_fields base (psv_skillId v) (manifest_json (toManifest v))
        @ [(''invoice'', JStr iv), (''macaroon'', JStr mac), (''scheme'', JStr ''L402''), (''capturedAt'', JStr now)])) (JObj [])))
      (\<lambda>b. and_then (promptChoice cf l (\<lparr>ch_label = t, ch_recommended = c, ch_value = PayLncli\<rparr> # os)) (\<lambda>verb.
       if verb = SaveLater then p b else and_then (say (q verb)) (\<lambda>_.
         unlockPaidContent cf (paywall_site (cf_url cf) lib sv env) b))))
      [''1'', ''1'', bytes_to_hex pre, ''2''] w1 content" for now l t c os p q
  proof (rule sale_bundle [OF site s(1,2) iv r(4,5), of now])
    fix b
    assume n: "normalizeChallengeBundle (cf_url cf)
      (JObj (manifest_fields base (psv_skillId v) (manifest_json (toManifest v))
        @ [(''invoice'', JStr iv), (''macaroon'', JStr mac), (''scheme'', JStr ''L402''), (''capturedAt'', JStr now)])) (JObj []) = Inr b"
      and b: "bu_baseUrl b = base" "bu_paidUrl b = paidContentPath (psv_skillId v) (psv_contentSha256 v)"
      "bu_scheme b = ''L402''" "bu_macaroon b = mac" "bu_sourceFile b = None"
    show ?thesis
      by (rule shows_and_then [OF goes_lift [OF n]], rule shows_and_then [OF goes_first],
          simp only: choice.simps payment_method.distinct if_False, rule shows_and_then [OF goes_say],
          rule unlock_shows [OF site s(1,2) b r(7,6) pre(1) s(3)])
  qed
  show ?thesis
    unfolding challenge_step_def paid
    by (rule shows_and_then [OF r(1)], rule shows_and_then [OF goes_say], rule shows_and_then [OF goes_printList],
        simp only: r(2,3) option.case simp_thms if_False parsed_challenge.simps,
        rule shows_and_then [OF goes_prints(2)], rule shows_with_now, rule unlock)
qed

lemma access_shows:
  assumes laws: "verify_law lib authentic view" "mint_law lib authentic view v2" "transport_law lib view v2"
    and key: "getMacaroonRootKey env = Inr key" and site: "url_site (cf_url cf) base"
    and sale: "on_sale sv env w v content iv hash" and iv: "isLikelyBolt11Invoice iv"
    and pre: "length pre = 32" "bytes_to_hex (sv_sha256 sv pre) = hash"
  shows "shows_last (accessFlow cf (paywall_site (cf_url cf) lib sv env) base other)
    [[], ''2'', psv_skillId v, ''1'', ''1'', ''1'', bytes_to_hex pre, ''2''] w content"
proof -
  have s: "plain_id (psv_skillId v)" using sale by (auto simp: on_sale_def)
  obtain u where "cf_url cf base = Some u" "url_protocol u \<in> {''http:'', ''https:''}" "base \<noteq> []"
    using site by (auto simp: url_site_def)
  then have base: "validate_http cf base = None" "base \<noteq> []" by (auto simp: validate_http_def)
  have address: "goes (promptInput cf l (Some base) (validate_http cf)) ([] # ls) w base ls w" for l ls w
    using base by (rule goes_default [rotated])
  have skill: "goes (promptInput cf l d accept_all) (psv_skillId v # ls) w (psv_skillId v) ls w" for l d ls w
    using s by (intro goes_typed) (auto simp: plain_id_def accept_all_def intro: plain_trim)
  obtain r where r: "goes (fetchManifest cf (paywall_site (cf_url cf) lib sv env) base (psv_skillId v))
      [''1'', ''1'', ''1'', bytes_to_hex pre, ''2''] w r [''1'', ''1'', ''1'', bytes_to_hex pre, ''2''] w"
    "ns_status r = 200" "ns_json r = manifest_json (toManifest v)"
    using manifest_reply [OF site sale] by blast
  show ?thesis
    unfolding accessFlow_def Let_def
    by (rule shows_and_then [OF goes_say], rule shows_and_then [OF address],
        rule shows_and_then [OF goes_second], simp only: choice.simps option.case site_base [OF site],
        rule shows_and_then [OF skill], rule shows_and_then [OF r(1)],
        simp only: r(2,3) manifest_props(5) simp_thms if_False,
        rule shows_and_then [OF goes_prints(1)], rule shows_and_then [OF goes_first],
        simp only: choice.simps access_step.case, rule challenge_shows [OF assms])
qed

text \<open>
  C2. Client and server work together: against a deployment that sells a version, a user who
  accepts the address, types the skill id, asks for the challenge, pays the invoice and
  enters the preimage the node released sees the whole published content printed. Every
  message on the way is the text one side wrote and the other parsed: the manifest, the
  challenge headers, the paid URL, the authorization and the macaroon in it.
\<close>

theorem walkthrough_buys_content:
  assumes "verify_law lib authentic view" "mint_law lib authentic view v2" "transport_law lib view v2"
    and "getMacaroonRootKey env = Inr key" and "url_site (cf_url cf) base"
    and "on_sale sv env (cl_world s) v content invoice hash" and "isLikelyBolt11Invoice invoice"
    and "length pre = 32" "bytes_to_hex (sv_sha256 sv pre) = hash"
    and "cl_lines s = [[], ''2'', psv_skillId v, ''1'', ''1'', ''1'', bytes_to_hex pre, ''2'']"
  shows "\<exists>t. accessFlow cf (paywall_site (cf_url cf) lib sv env) base other s = (Value (), t) \<and>
    cl_out t \<noteq> [] \<and> last (cl_out t) = content"
  using access_shows [OF assms(1-9), of other] assms(10) by (auto simp: shows_last_def)

section \<open>A shop\<close>

definition demo_url :: url_api where
  "demo_url s =
     (if starts_with ''http://shop'' s
      then Some \<lparr>url_href = (if drop 11 s = [] then ''http://shop/'' else s), url_protocol = ''http:'',
                 url_origin = ''http://shop'', url_pathname = (if drop 11 s = [] then ''/'' else drop 11 s), url_search = []\<rparr>
      else None)"

definition demo_cf :: cli_config where
  "demo_cf = \<lparr>cf_interactive = True, cf_home = ''/home/u'', cf_cwd = ''/w'', cf_url = demo_url, cf_writable = (\<lambda>_. True)\<rparr>"

definition demo_store :: world where
  "demo_store = demo_world\<lparr>w_db := (w_db demo_world)\<lparr>skill_versions := [demo_row zeros64]\<rparr>\<rparr>"

definition demo_user :: "world cli" where
  "demo_user = \<lparr>cl_lines = [[], ''2'', ''s'', ''1'', ''1'', ''1'', zeros64, ''2''], cl_out = [], cl_files = [],
     cl_now = ''2025-01-01T00:00:00.000Z'', cl_ms = 0, cl_world = demo_store\<rparr>"

lemma demo_site: "url_site (cf_url demo_cf) ''http://shop''"
proof -
  have "trimTrailingSlash ''http://shop/'' = ''http://shop''" "\<not> ends_with ''/'' ''http://shop''"
    "demo_url ''http://shop'' = Some \<lparr>url_href = ''http://shop/'', url_protocol = ''http:'',
       url_origin = ''http://shop'', url_pathname = ''/'', url_search = []\<rparr>"
    by code_simp+
  moreover have "\<exists>u. demo_url (''http://shop'' @ p) = Some u \<and> url_href u = ''http://shop'' @ p \<and> url_pathname u = p"
    if "plain_path p" for p
    using that by (cases p) (auto simp: demo_url_def starts_with_def plain_path_def)
  ultimately show ?thesis by (auto simp: url_site_def demo_cf_def)
qed

lemma demo_on_sale: "on_sale demo_services demo_env demo_store (rowToSkill (demo_row zeros64)) ''# doc'' ''lnbc1'' zeros64"
proof -
  have up: "w_query_error demo_store = None" by (simp add: demo_store_def demo_world_def)
  have "claim_fits (skill_claim (rowToSkill (demo_row zeros64)))"
    by (simp add: claim_fits_def caveatsFor_def skill_claim_def rowToSkill_def demo_row_def paidContentPath_def
      manifestPath_def toUpperCase_def zeros64_def)
  moreover have "getCurrentSkillVersion demo_env ''s'' demo_store = Inr (Some (rowToSkill (demo_row zeros64)))"
    "getSkillVersion demo_env ''s'' zeros64 demo_store = Inr (Some (rowToSkill (demo_row zeros64)))"
    by code_simp+
  moreover have "createInvoice demo_env demo_fetch (price_int (Finite 10)) ''s'' zeros64 = Inr (''lnbc1'', zeros64)"
    "plain_id ''s''" "plain_number (Finite 10)"
    by code_simp+
  ultimately show ?thesis
    using up demo_zeros(1) demo_price by (simp add: on_sale_def rowToSkill_def demo_row_def demo_services_def)
qed

theorem walkthrough_buys_content_witness:
  "\<exists>t. accessFlow demo_cf (paywall_site demo_url demo_lib demo_services demo_env) ''http://shop'' DEFAULT_SKILL_ID demo_user
    = (Value (), t) \<and> cl_out t \<noteq> [] \<and> last (cl_out t) = ''# doc''"
proof -
  have "isLikelyBolt11Invoice ''lnbc1''" by code_simp
  moreover have "psv_skillId (rowToSkill (demo_row zeros64)) = ''s''" by (simp add: rowToSkill_def demo_row_def)
  moreover have "cl_world demo_user = demo_store" "cf_url demo_cf = demo_url" "sv_sha256 demo_services = id"
    "cl_lines demo_user = [[], ''2'', ''s'', ''1'', ''1'', ''1'', zeros64, ''2'']"
    by (simp_all add: demo_user_def demo_cf_def demo_services_def)
  ultimately show ?thesis
    using walkthrough_buys_content [OF demo_laws demo_key demo_site, of demo_services demo_user "rowToSkill (demo_row zeros64)"
        "''# doc''" "''lnbc1''" zeros64 "replicate 32 0" DEFAULT_SKILL_ID] demo_on_sale demo_hash
    by simp
qed

definition demo_input :: json where
  "demo_input = JObj [(''baseUrl'', JStr ''http://shop''), (''skillId'', JStr ''s''), (''priceSats'', JNum (Finite 10)),
     (''paidUrl'', JStr ''/p''), (''invoice'', JStr ''lnbc1''), (''macaroon'', JStr ''AQ=='')]"

definition demo_bundle :: challenge_bundle where
  "demo_bundle = \<lparr>bu_baseUrl = ''http://shop'', bu_skillId = ''s'', bu_title = None, bu_priceSats = Some (Finite 10),
     bu_contentSha256 = None, bu_paidUrl = ''/p'', bu_invoice = ''lnbc1'',
     bu_macaroon = ''AQ=='', bu_scheme = ''L402'', bu_capturedAt = None, bu_sourceFile = None\<rparr>"

theorem challenge_file_roundtrip_witness:
  "bundle_of_file demo_url (JObj []) ''/c.json'' (challenge_file_text ''2025'' demo_bundle)
    = Inr (demo_bundle\<lparr>bu_capturedAt := Some ''2025'', bu_sourceFile := Some ''/c.json''\<rparr>)"
proof -
  have "normalizeChallengeBundle demo_url demo_input (JObj []) = Inr demo_bundle" by code_simp
  moreover have "storable demo_url demo_bundle"
  proof -
    have "plain_number (Finite 10)" "trimTrailingSlash ''http://shop/'' = ''http://shop''"
      "js_trim ''/p'' = ''/p''" "js_trim ''s'' = ''s''"
      "snd (extractChallengeMetadataFromPaidUrl ''/p'') = None"
      by code_simp+
    then show ?thesis by (simp add: storable_def demo_bundle_def demo_url_def starts_with_def)
  qed
  moreover have "bu_capturedAt demo_bundle = None" by (simp add: demo_bundle_def)
  ultimately show ?thesis using challenge_file_roundtrip [of demo_url demo_input demo_bundle "''/c.json''" "''2025''"] by simp
qed

end
