(* ===== verification/Paywall_Shop.thy ===== *)
theory Paywall_Shop
  imports Walk_Site
begin

text \<open>
  What the paywall promises, without tables, rows, routes and transactions: a shop with
  offers by skill and content hash and one current version of every skill. The site of
  \<open>Walk_Site\<close>, with all its routes, is shown to refine it: whatever requests arrive in
  whatever order, the shop changes only by accepted publications.
\<close>

section \<open>Refinement\<close>

text \<open>A sequence of steps of a specification, one for each request.\<close>

fun spec_path :: "('r \<Rightarrow> 's \<Rightarrow> 's \<Rightarrow> bool) \<Rightarrow> 'r list \<Rightarrow> 's \<Rightarrow> 's \<Rightarrow> bool" where
  "spec_path spec [] s t \<longleftrightarrow> s = t"
| "spec_path spec (r # rs) s t \<longleftrightarrow> (\<exists>u. spec r s u \<and> spec_path spec rs u t)"

locale simulation =
  fixes step :: "'r \<Rightarrow> 'w \<Rightarrow> 'w" and ok :: "'w \<Rightarrow> bool" and abstract :: "'w \<Rightarrow> 's"
    and spec :: "'r \<Rightarrow> 's \<Rightarrow> 's \<Rightarrow> bool"
  assumes keeps_ok: "ok w \<Longrightarrow> ok (step r w)"
    and simulates: "ok w \<Longrightarrow> spec r (abstract w) (abstract (step r w))"
begin

lemma runs_simulate: "ok w \<Longrightarrow> ok (fold step rs w) \<and> spec_path spec rs (abstract w) (abstract (fold step rs w))"
  by (induction rs arbitrary: w) (auto simp: keeps_ok intro: simulates)

end

section \<open>The shop\<close>

record offer =
  of_title :: string
  of_summary :: string
  of_price :: int
  of_blob :: string

record shop =
  sh_offers :: "string \<times> string \<rightharpoonup> offer"
  sh_current :: "string \<rightharpoonup> string"

definition put_on_sale :: "string \<Rightarrow> string \<Rightarrow> offer \<Rightarrow> shop \<Rightarrow> shop" where
  "put_on_sale skillId sha o1 s =
     s\<lparr>sh_offers := (sh_offers s)((skillId, sha) \<mapsto> o1), sh_current := (sh_current s)(skillId \<mapsto> sha)\<rparr>"

text \<open>A request that may publish: the token, the route, a complete body and an accepted price.\<close>

definition admitted :: "url_api \<Rightarrow> env \<Rightarrow> net_request \<Rightarrow> PublishSkillInput \<Rightarrow> bool" where
  "admitted api env rq input \<longleftrightarrow>
     (\<exists>u tok payload. api (nr_url rq) = Some u \<and> route_of (url_pathname u) = PublishRoute \<and> nr_method rq = ''POST'' \<and>
        env ''ADMIN_PUBLISH_TOKEN'' = Some tok \<and> tok \<noteq> [] \<and>
        map_of (nr_headers rq) ''Authorization'' = Some (''Bearer '' @ tok) \<and>
        JSON_parse (or_empty (nr_body rq)) = Inr payload \<and> validateInput payload = Some input \<and>
        validateConfiguredPrice env (psi_priceSats input) = Inr None)"

text \<open>
  A request leaves the shop as it is, or puts the published text on sale at its price,
  under its hash and the path of its blob.
\<close>

inductive shop_step :: "url_api \<Rightarrow> services \<Rightarrow> env \<Rightarrow> net_request \<Rightarrow> shop \<Rightarrow> shop \<Rightarrow> bool" for api sv env rq where
  stays: "shop_step api sv env rq s s"
| sells: "\<lbrakk>admitted api env rq input; to_bigint (psi_priceSats input) = Inr price\<rbrakk> \<Longrightarrow>
    shop_step api sv env rq s
      (put_on_sale (psi_skillId input) (sha256Hex sv (psi_content input))
         \<lparr>of_title = psi_title input, of_summary = psi_summary input, of_price = price,
          of_blob = skillBlobPath (psi_skillId input) (sha256Hex sv (psi_content input))\<rparr> s)"

inductive_cases shop_stepE: "shop_step api sv env rq s t"

text \<open>The shop a table describes.\<close>

definition offer_of :: "skill_row \<Rightarrow> offer" where
  "offer_of r = \<lparr>of_title = sk_title r, of_summary = sk_summary r, of_price = sk_price_sats r, of_blob = sk_blob_path r\<rparr>"

definition shop_of :: "skill_row list \<Rightarrow> shop" where
  "shop_of rows =
     \<lparr>sh_offers = (\<lambda>(i, h). map_option offer_of (List.find (is_version i h) rows)),
      sh_current = (\<lambda>i. map_option sk_content_sha256 (latest_row (active_versions i rows)))\<rparr>"

abbreviation catalog_of :: "world \<Rightarrow> skill_row list" where
  "catalog_of w \<equiv> skill_versions (w_db w)"

lemma shop_of_upsert:
  assumes "catalog_inv rows"
  shows "shop_of (upsert_rows input price now rows) =
    put_on_sale (psi_skillId (pi_input input)) (pi_contentSha256 input)
      \<lparr>of_title = psi_title (pi_input input), of_summary = psi_summary (pi_input input), of_price = price,
       of_blob = pi_blobPath input\<rparr> (shop_of rows)"
proof -
  let ?i = "psi_skillId (pi_input input)" and ?h = "pi_contentSha256 input"
  obtain row where row: "List.find (is_version ?i ?h) (upsert_rows input price now rows) = Some row"
    "published_row input price row"
    using find_upserted by blast
  have flag: "offer_of (if b then r\<lparr>sk_is_active := False\<rparr> else r) = offer_of r" for b r by (simp add: offer_of_def)
  have "map_option offer_of (List.find (is_version i h) (upsert_rows input price now rows)) =
      (if (i, h) = (?i, ?h) then Some \<lparr>of_title = psi_title (pi_input input), of_summary = psi_summary (pi_input input),
         of_price = price, of_blob = pi_blobPath input\<rparr> else map_option offer_of (List.find (is_version i h) rows))" for i h
  proof (cases "(i, h) = (?i, ?h)")
    case True
    then show ?thesis using row by (auto simp: offer_of_def published_row_def)
  next
    case False
    then show ?thesis using find_upsert_other [OF False, of price now rows]
      by (auto simp: option.map_comp comp_def flag)
  qed
  moreover have "map_option sk_content_sha256 (latest_row (active_versions i (upsert_rows input price now rows))) =
      (if i = ?i then Some ?h else map_option sk_content_sha256 (latest_row (active_versions i rows)))" for i
    using upsert_current [OF assms row(1)] row(2) upsert_other_skill [of i input price now rows]
    by (auto simp: published_row_def is_version_def)
  ultimately show ?thesis by (auto simp: shop_of_def put_on_sale_def fun_eq_iff)
qed

section \<open>What the handlers do to the catalogue\<close>

lemma db_query_catalog:
  assumes "\<And>db. skill_versions (snd (q db)) = skill_versions db"
  shows "catalog_of (snd (db_query q w)) = catalog_of w"
  using assms [of "w_db w"] by (cases "w_query_error w") (auto simp: db_query_def split: prod.splits)

lemma record_catalog:
  "catalog_of (snd (recordChallenge env hash i h p iv w)) = catalog_of w"
  "catalog_of (snd (recordReceipt env hash i h w)) = catalog_of w"
  by (auto simp: recordChallenge_def recordReceipt_def Let_def intro: db_query_catalog)

lemma verify_catalog: "catalog_of (snd (verifyL402Authorization lib sha env a e w)) = catalog_of w"
  using record_catalog(2) [of env _ "ex_skillId e" "ex_contentSha256 e" w]
  by (auto simp: verifyL402Authorization_def split: sum.splits prod.splits) (metis snd_conv)+

lemma issue_catalog: "catalog_of (snd (issueChallenge lib sv env rq i h w)) = catalog_of w"
proof -
  have "catalog_of (snd (issueL402Challenge lib f env input w)) = catalog_of w" for f input
    using record_catalog(1) [of env _ "ex_skillId (ci_claim input)" "ex_contentSha256 (ci_claim input)"
        "price_int (ci_priceSats input)" _ w]
    by (auto simp: issueL402Challenge_def Let_def split: sum.splits prod.splits) (metis snd_conv)+
  then show ?thesis
    by (auto simp: issueChallenge_def split: sum.splits option.splits prod.splits) (metis snd_conv)+
qed

lemma content_catalog: "catalog_of (snd (content_handleRequest lib sv env rq i h w)) = catalog_of w"
  using verify_catalog [of lib "sv_sha256 sv" env "the (rq_authorization rq)" _ w] issue_catalog [of lib sv env rq i h]
  by (auto simp: content_handleRequest_def split: sum.split option.split prod.splits) (metis snd_conv)+

lemma publish_version_catalog:
  assumes frame: "services_frame sv" and inv: "catalog_inv (catalog_of w)"
  shows "catalog_inv (catalog_of (snd (publishSkillVersion sv env input w))) \<and>
    (catalog_of (snd (publishSkillVersion sv env input w)) = catalog_of w \<or>
     (\<exists>price. to_bigint (psi_priceSats (pi_input input)) = Inr price \<and>
        catalog_of (snd (publishSkillVersion sv env input w)) = upsert_rows input price (w_now w) (catalog_of w)))"
proof -
  obtain r w1 where t: "withTransaction env (upsertSkillVersion input) w = (r, w1)"
    by (cases "withTransaction env (upsertSkillVersion input) w")
  show ?thesis
  proof (cases r)
    case (Inl e)
    then have "w_db w1 = w_db w" using withTransaction_atomic [of env "upsertSkillVersion input" w] t by simp
    then show ?thesis using Inl t inv by (simp add: publishSkillVersion_def)
  next
    case (Inr skill)
    obtain q w2 where y: "syncSkillToEdgeConfig sv env skill w1 = (q, w2)" by (cases "syncSkillToEdgeConfig sv env skill w1")
    have "w_db w2 = w_db w1" using syncSkillToEdgeConfig_frame [OF frame y] by simp
    moreover obtain price where "to_bigint (psi_priceSats (pi_input input)) = Inr price"
      "catalog_of w1 = upsert_rows input price (w_now w) (catalog_of w)"
      using publish_transaction [of env input w skill w1] t Inr by auto
    ultimately show ?thesis
      using t Inr y catalog_inv_upsert [OF inv] by (cases q) (auto simp: publishSkillVersion_def)
  qed
qed

lemma publish_content_catalog:
  assumes frame: "services_frame sv" and inv: "catalog_inv (catalog_of w)"
  shows "catalog_inv (catalog_of (snd (publish_content sv env input w))) \<and>
    (catalog_of (snd (publish_content sv env input w)) = catalog_of w \<or>
     (\<exists>price. to_bigint (psi_priceSats input) = Inr price \<and>
        shop_of (catalog_of (snd (publish_content sv env input w))) =
          put_on_sale (psi_skillId input) (sha256Hex sv (psi_content input))
            \<lparr>of_title = psi_title input, of_summary = psi_summary input, of_price = price,
             of_blob = skillBlobPath (psi_skillId input) (sha256Hex sv (psi_content input))\<rparr> (shop_of (catalog_of w))))"
proof -
  let ?h = "sha256Hex sv (psi_content input)"
  let ?p = "skillBlobPath (psi_skillId input) ?h"
  obtain r w1 where u: "sv_blob_put sv ?p (utf8Bytes (psi_content input)) w = (r, w1)"
    by (cases "sv_blob_put sv ?p (utf8Bytes (psi_content input)) w")
  have db: "catalog_of w1 = catalog_of w" using frame u unfolding services_frame_def by (metis snd_conv)
  show ?thesis
  proof (cases r)
    case (Inl e)
    then show ?thesis using u db inv by (simp add: publish_content_def uploadSkillContent_def Let_def)
  next
    case (Inr ok)
    let ?in = "\<lparr>pi_input = input, pi_blobPath = ?p, pi_contentSha256 = ?h\<rparr>"
    have "publish_content sv env input w = publishSkillVersion sv env ?in w1"
      using u Inr by (simp add: publish_content_def uploadSkillContent_def Let_def)
    then show ?thesis
      using publish_version_catalog [OF frame, of w1 env ?in] db inv shop_of_upsert [OF inv, of ?in _ "w_now w1"] by auto
  qed
qed

lemma publish_POST_cases:
  "snd (publish_POST sv env rq w) = w \<or>
   (\<exists>tok payload input. env ''ADMIN_PUBLISH_TOKEN'' = Some tok \<and> tok \<noteq> [] \<and>
      rq_authorization rq = Some (''Bearer '' @ tok) \<and> JSON_parse (rq_body rq) = Inr payload \<and>
      validateInput payload = Some input \<and> validateConfiguredPrice env (psi_priceSats input) = Inr None \<and>
      snd (publish_POST sv env rq w) = snd (publish_content sv env input w))"
proof (cases "isAuthorized env rq = Inr True")
  case True
  then obtain tok where "env ''ADMIN_PUBLISH_TOKEN'' = Some tok" "tok \<noteq> []" "rq_authorization rq = Some (''Bearer '' @ tok)"
    by (auto simp: isAuthorized_def truthy_def split: if_splits option.splits)
  then show ?thesis
    using True by (auto simp: publish_POST_def split: sum.splits option.splits prod.splits)
next
  case False
  then show ?thesis by (auto simp: publish_POST_def split: sum.split bool.split)
qed

section \<open>The site refines the shop\<close>

definition site_step :: "url_api \<Rightarrow> 'm macaroon_lib \<Rightarrow> services \<Rightarrow> env \<Rightarrow> net_request \<Rightarrow> world \<Rightarrow> world" where
  "site_step api lib sv env rq w = snd (paywall_site api lib sv env rq w)"

lemma answered_world: "snd (answered a w) = (case a of None \<Rightarrow> w | Some p \<Rightarrow> snd p)"
  by (auto simp: answered_def split: option.split prod.split sum.split)

lemma site_step_cases:
  "catalog_of (site_step api lib sv env rq w) = catalog_of w \<or>
   (\<exists>input. admitted api env rq input \<and> site_step api lib sv env rq w = snd (publish_content sv env input w))"
proof (cases "api (nr_url rq)")
  case None
  then show ?thesis by (simp add: site_step_def paywall_site_def)
next
  case (Some u)
  let ?rq = "\<lparr>rq_method = nr_method rq, rq_authorization = map_of (nr_headers rq) ''Authorization'', rq_body = or_empty (nr_body rq)\<rparr>"
  have manifest: "snd (manifest_handleRequest env request i w) = w" for request i
    by (auto simp: manifest_handleRequest_def split: sum.split option.split)
  show ?thesis
  proof (cases "route_of (url_pathname u)")
    case (ManifestRoute i)
    then show ?thesis
      using Some by (simp add: site_step_def paywall_site_def answered_world manifest_route_def manifest Let_def)
  next
    case (ContentRoute i h)
    then show ?thesis
      using Some by (simp add: site_step_def paywall_site_def answered_world content_route_def content_catalog Let_def)
  next
    case PublishRoute
    then have "site_step api lib sv env rq w = (if nr_method rq = ''POST'' then snd (publish_POST sv env ?rq w) else w)"
      using Some by (simp add: site_step_def paywall_site_def answered_world Let_def)
    then show ?thesis
      using Some PublishRoute publish_POST_cases [of sv env ?rq w] unfolding admitted_def
      by (auto split: if_splits)
  next
    case NoRoute
    then show ?thesis using Some by (simp add: site_step_def paywall_site_def Let_def)
  qed
qed

interpretation site: simulation "site_step api lib sv env"
  "\<lambda>w. services_frame sv \<and> catalog_inv (catalog_of w)" "\<lambda>w. shop_of (catalog_of w)" "shop_step api sv env"
  for api lib sv env
proof
  fix w rq
  assume ok: "services_frame sv \<and> catalog_inv (catalog_of w)"
  have p: "catalog_inv (catalog_of (snd (publish_content sv env input w)))" for input
    using publish_content_catalog ok by blast
  show "services_frame sv \<and> catalog_inv (catalog_of (site_step api lib sv env rq w))"
    using site_step_cases [of api lib sv env rq w] p ok by auto
  show "shop_step api sv env rq (shop_of (catalog_of w)) (shop_of (catalog_of (site_step api lib sv env rq w)))"
    using site_step_cases [of api lib sv env rq w] publish_content_catalog [of sv w env] ok
    by (auto intro: stays) (metis sells stays)
qed

text \<open>
  C5. The paywall is a shop: for every sequence of requests, of any method, to any path and
  with any headers and bodies, the shop described by the catalogue goes through a sequence
  of abstract steps, each of which changes nothing or puts exactly the text of an admitted
  publication on sale, under its hash, as the current version of its skill; and the
  catalogue keeps its invariant.
\<close>

theorem site_refines_shop:
  assumes "services_frame sv" and "catalog_inv (catalog_of w)"
  shows "catalog_inv (catalog_of (fold (site_step api lib sv env) rqs w)) \<and>
    spec_path (shop_step api sv env) rqs (shop_of (catalog_of w)) (shop_of (catalog_of (fold (site_step api lib sv env) rqs w)))"
  using site.runs_simulate [of sv w api lib env rqs] assms by simp
section \<open>What visitors see\<close>

definition version_offer :: "PublishedSkillVersion \<Rightarrow> offer" where
  "version_offer v = \<lparr>of_title = psv_title v, of_summary = psv_summary v, of_price = price_int (psv_priceSats v), of_blob = psv_blobPath v\<rparr>"

lemma version_offer_row: "version_offer (rowToSkill r) = offer_of r"
  by (simp add: version_offer_def rowToSkill_def offer_of_def price_int_def)

lemma single_active:
  assumes "catalog_inv rows"
  shows "active_versions i rows = [] \<or> (\<exists>r. active_versions i rows = [r])"
proof -
  have "length (active_versions i rows) \<le> 1" using assms by (simp add: catalog_inv_def)
  then show ?thesis by (cases "active_versions i rows") auto
qed

lemma key_unique: "catalog_inv rows \<Longrightarrow> r \<in> set rows \<Longrightarrow> t \<in> set rows \<Longrightarrow> row_key r = row_key t \<Longrightarrow> r = t"
  by (auto simp: catalog_inv_def distinct_map dest: inj_onD)

lemma find_version_iff:
  assumes "catalog_inv rows"
  shows "List.find (is_version i h) rows = Some r \<longleftrightarrow> r \<in> set rows \<and> row_key r = (i, h)"
proof
  assume "List.find (is_version i h) rows = Some r"
  then show "r \<in> set rows \<and> row_key r = (i, h)" by (auto simp: find_Some_iff is_version_def row_key_def)
next
  assume r: "r \<in> set rows \<and> row_key r = (i, h)"
  then obtain t where t: "List.find (is_version i h) rows = Some t"
    by (cases "List.find (is_version i h) rows") (auto simp: find_None_iff is_version_def row_key_def)
  then have "t \<in> set rows" "row_key t = (i, h)" by (auto simp: find_Some_iff is_version_def row_key_def)
  then show "List.find (is_version i h) rows = Some r" using key_unique [OF assms] r t by auto
qed

lemma active_iff_current:
  assumes inv: "catalog_inv rows" and r: "r \<in> set rows" "row_key r = (i, h)"
  shows "sk_is_active r \<longleftrightarrow> sh_current (shop_of rows) i = Some h"
proof -
  consider "active_versions i rows = []" | t where "active_versions i rows = [t]" using single_active [OF inv] by blast
  then show ?thesis
  proof cases
    case 1
    then show ?thesis using r by (auto simp: active_versions_def shop_of_def row_key_def filter_empty_conv)
  next
    case 2
    then have t: "t \<in> set rows" "sk_skill_id t = i" "sk_is_active t" by (auto simp: active_versions_def dest!: filter_eq_ConsD)
    have "sk_is_active r \<longleftrightarrow> r = t"
    proof
      assume "sk_is_active r"
      then have "r \<in> set (active_versions i rows)" using r by (auto simp: active_versions_def row_key_def)
      then show "r = t" using 2 by simp
    qed (use t in simp)
    also have "\<dots> \<longleftrightarrow> sk_content_sha256 t = h" using key_unique [OF inv t(1) r(1)] r t by (auto simp: row_key_def)
    finally show ?thesis using 2 by (simp add: shop_of_def)
  qed
qed


section \<open>Witnesses\<close>

definition demo_publication :: net_request where
  "demo_publication = \<lparr>nr_url = ''http://shop/api/admin/publish-skill'', nr_method = ''POST'',
     nr_headers = [(''Authorization'', ''Bearer t0ken'')], nr_body = Some (rq_body demo_post)\<rparr>"

lemma demo_store_inv: "catalog_inv (catalog_of demo_store)"
  by (simp add: catalog_inv_def demo_store_def demo_row_def active_versions_def)

theorem site_refines_shop_witness:
  "\<exists>s. spec_path (shop_step demo_url demo_services demo_env) [demo_publication] (shop_of (catalog_of demo_store)) s \<and>
     s = shop_of (catalog_of (fold (site_step demo_url demo_lib demo_services demo_env) [demo_publication] demo_store)) \<and>
     sh_current s ''s'' = Some (sha256Hex demo_services ''c'')"
proof -
  have "sh_current (shop_of (catalog_of (fold (site_step demo_url demo_lib demo_services demo_env) [demo_publication] demo_store))) ''s''
      = Some (sha256Hex demo_services ''c'')"
    by code_simp
  then show ?thesis using site_refines_shop [OF demo_frame demo_store_inv] by blast
qed


end
