(* ===== verification/Pool_Models.thy ===== *)
theory Pool_Models
  imports App_Node
begin

text \<open>
  The models of the Pool pages (\<open>app/src/store/models/account.ts\<close>, \<open>order.ts\<close>, \<open>lease.ts\<close>)
  and the arithmetic and requests of \<open>app/src/api/pool.ts\<close>. A value that the daemon sends as
  a decimal string is the integer it denotes; enumerations of the protocol files are their
  numbers. The semantic-version functions of the package \<open>semver\<close> are parameters.
\<close>

section \<open>Rates and fees\<close>

definition FEE_RATE_TOTAL_PARTS :: rat where "FEE_RATE_TOTAL_PARTS = 10 ^ 9"
definition ONE_UNIT :: rat where "ONE_UNIT = 100000"
definition MIN_FEE_RATE_KW :: rat where "MIN_FEE_RATE_KW = 253"
definition DEFAULT_ORDER_VERSION :: int where "DEFAULT_ORDER_VERSION = 2"

definition ORDER_VERSION_COMPAT :: "(string \<times> int) list" where
  "ORDER_VERSION_COMPAT =
     [(''>=0.5.2-alpha'', 5), (''>=0.5.0-alpha'', 4), (''>=0.4.0-alpha'', 2), (''>=0.2.7-alpha'', 1)]"

definition satsPerVByteToKWeight :: "rat \<Rightarrow> rat" where
  "satsPerVByteToKWeight satsPerVByte =
     (let satsPerKVByte = satsPerVByte * 1000; satsPerKWeight = satsPerKVByte / 4
      in max satsPerKWeight MIN_FEE_RATE_KW)"

definition satsPerKWeightToVByte :: "big_lib \<Rightarrow> Big \<Rightarrow> Big" where
  "satsPerKWeightToVByte B satsPerKWeight = big_div B (satsPerKWeight * 4) 1000"

text \<open>\<open>big.js\<close> throws when the divisor is zero.\<close>

definition big_divide :: "big_lib \<Rightarrow> Big \<Rightarrow> Big \<Rightarrow> Big result" where
  "big_divide B a b = (if b = 0 then Inl (Error ''[big.js] Division by zero'') else Inr (big_div B a b))"

definition calcFixedRate :: "big_lib \<Rightarrow> Big \<Rightarrow> Big \<Rightarrow> rat \<Rightarrow> rat result" where
  "calcFixedRate B amt premium duration =
     then_res (big_divide B (premium * 100) amt) (\<lambda>ratePct.
       let interestRate = big_div B ratePct 100;
           rateFixedFloat = interestRate * FEE_RATE_TOTAL_PARTS
       in then_res (big_divide B rateFixedFloat duration) (\<lambda>r. Inr (big_round B r 0 roundDown)))"

definition calcPctRate :: "big_lib \<Rightarrow> Big \<Rightarrow> Big \<Rightarrow> rat" where
  "calcPctRate B fixedRate duration = big_div B (fixedRate * duration) FEE_RATE_TOTAL_PARTS"

text \<open>\<open>coerce\<close> reads a version out of a text, \<open>satisfies v range\<close> compares it.\<close>

definition getOrderVersion :: "(string \<Rightarrow> 'v option) \<Rightarrow> ('v \<Rightarrow> string \<Rightarrow> bool) \<Rightarrow> string \<Rightarrow> int" where
  "getOrderVersion coerce sat version =
     (case coerce version of
        None \<Rightarrow> DEFAULT_ORDER_VERSION
      | Some verNum \<Rightarrow>
          (case List.find (\<lambda>(condition, _). sat verNum condition) ORDER_VERSION_COMPAT of
             None \<Rightarrow> DEFAULT_ORDER_VERSION
           | Some (_, v) \<Rightarrow> v))"

section \<open>Requests\<close>

datatype OrderType = Bid | Ask

definition POOL_INITIATOR :: string where "POOL_INITIATOR = ''lit-ui''"

record order_details =
  od_traderKey :: string
  od_amt :: Big
  od_rateFixed :: rat
  od_minUnitsMatch :: rat
  od_maxBatchFeeRateSatPerKw :: rat

record submit_request =
  sr_type :: OrderType
  sr_details :: order_details
  sr_leaseDurationBlocks :: rat
  sr_version :: int
  sr_minNodeTier :: "int option"
  sr_initiator :: string

record quote_order_request =
  qo_amt :: Big
  qo_rateFixed :: rat
  qo_leaseDurationBlocks :: rat
  qo_minUnitsMatch :: rat
  qo_maxBatchFeeRateSatPerKw :: rat

text \<open>
  \<open>submitOrder\<close> up to the request: it throws for a rate below one before it asks the daemon
  for its version (\<open>info\<close>).
\<close>

definition submitOrder_request ::
    "(string \<Rightarrow> 'v option) \<Rightarrow> ('v \<Rightarrow> string \<Rightarrow> bool) \<Rightarrow> string api_result \<Rightarrow> string \<Rightarrow> OrderType \<Rightarrow> Big \<Rightarrow> rat \<Rightarrow> rat
     \<Rightarrow> rat \<Rightarrow> rat \<Rightarrow> int option \<Rightarrow> submit_request api_result" where
  "submitOrder_request coerce sat info traderKey type amt rateFixed duration minUnitsMatch feeRateSatPerKw tier =
     (if rateFixed < 1
      then Inl (AppError ''The rate is too low. it must equate to at least 1 sat per block'')
      else case info of
        Inl e \<Rightarrow> Inl e
      | Inr version \<Rightarrow>
          Inr \<lparr>sr_type = type,
               sr_details = \<lparr>od_traderKey = b64 traderKey False, od_amt = amt, od_rateFixed = rateFixed,
                  od_minUnitsMatch = minUnitsMatch, od_maxBatchFeeRateSatPerKw = feeRateSatPerKw\<rparr>,
               sr_leaseDurationBlocks = duration, sr_version = getOrderVersion coerce sat version,
               sr_minNodeTier = (if type = Bid then tier else None), sr_initiator = POOL_INITIATOR\<rparr>)"

definition quoteOrder_request :: "Big \<Rightarrow> rat \<Rightarrow> rat \<Rightarrow> rat \<Rightarrow> rat \<Rightarrow> quote_order_request" where
  "quoteOrder_request amt rateFixed duration minUnitsMatch feeRateSatPerKw =
     \<lparr>qo_amt = amt, qo_rateFixed = rateFixed, qo_leaseDurationBlocks = duration,
      qo_minUnitsMatch = minUnitsMatch, qo_maxBatchFeeRateSatPerKw = feeRateSatPerKw\<rparr>"

text \<open>The requests of the account operations.\<close>

datatype account_request =
    InitAccount Big rat rat string
  | RenewAccount string rat Big
  | CloseAccount string rat "string option"
  | DepositAccount string Big rat
  | WithdrawAccount string Big rat

definition initAccount_request :: "Big \<Rightarrow> rat \<Rightarrow> rat option \<Rightarrow> account_request" where
  "initAccount_request amt expiryBlocks target =
     InitAccount amt expiryBlocks (case target of None \<Rightarrow> 6 | Some t \<Rightarrow> t) POOL_INITIATOR"

definition renewAccount_request :: "string \<Rightarrow> rat \<Rightarrow> Big \<Rightarrow> account_request" where
  "renewAccount_request traderKey expiryBlocks feeRateSatPerKw = RenewAccount (b64 traderKey False) expiryBlocks feeRateSatPerKw"

definition closeAccount_request :: "string \<Rightarrow> rat option \<Rightarrow> string option \<Rightarrow> account_request" where
  "closeAccount_request traderKey feeRateSatPerKw destinationAddr =
     CloseAccount (b64 traderKey False) (case feeRateSatPerKw of None \<Rightarrow> 253 | Some r \<Rightarrow> r)
       (case destinationAddr of Some d \<Rightarrow> if d = [] then None else Some d | None \<Rightarrow> None)"

definition deposit_request :: "string \<Rightarrow> Big \<Rightarrow> rat option \<Rightarrow> account_request" where
  "deposit_request traderKey amt feeRateSatPerKw =
     DepositAccount (base64_encode (hex_to_bytes traderKey)) amt (case feeRateSatPerKw of None \<Rightarrow> 253 | Some r \<Rightarrow> r)"

definition withdraw_request :: "string \<Rightarrow> Big \<Rightarrow> rat option \<Rightarrow> account_request" where
  "withdraw_request traderKey amt feeRateSatPerKw =
     WithdrawAccount (base64_encode (hex_to_bytes traderKey)) amt (case feeRateSatPerKw of None \<Rightarrow> 253 | Some r \<Rightarrow> r)"

section \<open>Accounts\<close>

abbreviation (input) ACCT_PENDING_OPEN :: int where "ACCT_PENDING_OPEN \<equiv> 0"
abbreviation (input) ACCT_PENDING_UPDATE :: int where "ACCT_PENDING_UPDATE \<equiv> 1"
abbreviation (input) ACCT_OPEN :: int where "ACCT_OPEN \<equiv> 2"
abbreviation (input) ACCT_EXPIRED :: int where "ACCT_EXPIRED \<equiv> 3"
abbreviation (input) ACCT_PENDING_CLOSED :: int where "ACCT_PENDING_CLOSED \<equiv> 4"
abbreviation (input) ACCT_CLOSED :: int where "ACCT_CLOSED \<equiv> 5"
abbreviation (input) ACCT_RECOVERY_FAILED :: int where "ACCT_RECOVERY_FAILED \<equiv> 6"
abbreviation (input) ACCT_PENDING_BATCH :: int where "ACCT_PENDING_BATCH \<equiv> 7"

record Account =
  traderKey :: string
  totalBalance :: Big
  availableBalance :: Big
  expirationHeight :: int
  acct_state :: int
  fundingTxnId :: string

record pool_account =
  pa_traderKey :: string
  pa_value :: int
  pa_availableBalance :: int
  pa_expirationHeight :: int
  pa_state :: int
  pa_latestTxid :: string

definition Account_update :: "pool_account \<Rightarrow> Account" where
  "Account_update poolAccount =
     \<lparr>traderKey = hex (pa_traderKey poolAccount) False, totalBalance = of_int (pa_value poolAccount),
      availableBalance = of_int (pa_availableBalance poolAccount),
      expirationHeight = pa_expirationHeight poolAccount, acct_state = pa_state poolAccount,
      fundingTxnId = hex (pa_latestTxid poolAccount) True\<rparr>"

definition traderKeyEllipsed :: "Account \<Rightarrow> string" where
  "traderKeyEllipsed a = ellipseInside (traderKey a) 4 None"

definition fundingTxnIdEllipsed :: "Account \<Rightarrow> string" where
  "fundingTxnIdEllipsed a = ellipseInside (fundingTxnId a) 4 None"

definition fundingTxnUrl :: "'a app_settings_scheme \<Rightarrow> Account \<Rightarrow> string" where
  "fundingTxnUrl s a = getBitcoinTxUrl s (fundingTxnId a)"

definition pendingBalance :: "Account \<Rightarrow> Big" where
  "pendingBalance a = totalBalance a - availableBalance a"

definition acct_isPending :: "Account \<Rightarrow> bool" where
  "acct_isPending a \<longleftrightarrow> acct_state a = ACCT_PENDING_OPEN \<or> acct_state a = ACCT_PENDING_UPDATE \<or>
     acct_state a = ACCT_PENDING_BATCH \<or> acct_state a = ACCT_PENDING_CLOSED"

definition expiresInBlocks :: "'a app_node_scheme \<Rightarrow> Account \<Rightarrow> int" where
  "expiresInBlocks s a = max (expirationHeight a - blockHeight s) 0"

definition expiresSoon :: "'a app_node_scheme \<Rightarrow> Account \<Rightarrow> bool" where
  "expiresSoon s a \<longleftrightarrow> expiresInBlocks s a \<le> 144 * 3"

definition acct_stateLabel :: "Account \<Rightarrow> string" where
  "acct_stateLabel a =
     (if acct_state a = ACCT_PENDING_OPEN then ''Pending Open''
      else if acct_state a = ACCT_PENDING_UPDATE then ''Pending Update''
      else if acct_state a = ACCT_PENDING_BATCH then ''Pending Batch''
      else if acct_state a = ACCT_OPEN then ''Open''
      else if acct_state a = ACCT_EXPIRED then ''Expired''
      else if acct_state a = ACCT_PENDING_CLOSED then ''Pending Closed''
      else if acct_state a = ACCT_CLOSED then ''Closed''
      else if acct_state a = ACCT_RECOVERY_FAILED then ''Recovery Failed''
      else ''Unknown'')"

section \<open>Orders\<close>

abbreviation (input) ORDER_SUBMITTED :: int where "ORDER_SUBMITTED \<equiv> 0"
abbreviation (input) ORDER_CLEARED :: int where "ORDER_CLEARED \<equiv> 1"
abbreviation (input) ORDER_PARTIALLY_FILLED :: int where "ORDER_PARTIALLY_FILLED \<equiv> 2"
abbreviation (input) ORDER_EXECUTED :: int where "ORDER_EXECUTED \<equiv> 3"
abbreviation (input) ORDER_CANCELED :: int where "ORDER_CANCELED \<equiv> 4"
abbreviation (input) ORDER_EXPIRED :: int where "ORDER_EXPIRED \<equiv> 5"
abbreviation (input) ORDER_FAILED :: int where "ORDER_FAILED \<equiv> 6"

record Order =
  ord_nonce :: string
  ord_traderKey :: string
  ord_amount :: Big
  ord_state :: int
  ord_rateFixed :: Big
  ord_maxBatchFeeRateSatPerKw :: Big
  ord_units :: int
  ord_unitsUnfulfilled :: int
  ord_reserved :: Big
  ord_creationTimestamp :: Big
  ord_minNodeTier :: "int option"
  ord_type :: OrderType
  ord_duration :: Big

record pool_order =
  po_orderNonce :: string
  po_traderKey :: string
  po_amt :: int
  po_state :: int
  po_rateFixed :: int
  po_maxBatchFeeRateSatPerKw :: int
  po_units :: int
  po_unitsUnfulfilled :: int
  po_reservedValueSat :: int
  po_creationTimestampNs :: int

definition Order_update :: "pool_order \<Rightarrow> OrderType \<Rightarrow> int \<Rightarrow> int option \<Rightarrow> Order" where
  "Order_update poolOrder type duration tier =
     \<lparr>ord_nonce = hex (po_orderNonce poolOrder) False, ord_traderKey = hex (po_traderKey poolOrder) False,
      ord_amount = of_int (po_amt poolOrder), ord_state = po_state poolOrder,
      ord_rateFixed = of_int (po_rateFixed poolOrder),
      ord_maxBatchFeeRateSatPerKw = of_int (po_maxBatchFeeRateSatPerKw poolOrder),
      ord_units = po_units poolOrder, ord_unitsUnfulfilled = po_unitsUnfulfilled poolOrder,
      ord_reserved = of_int (po_reservedValueSat poolOrder),
      ord_creationTimestamp = of_int (po_creationTimestampNs poolOrder), ord_minNodeTier = tier,
      ord_type = type, ord_duration = of_int duration\<rparr>"

definition ord_basisPoints :: "big_lib \<Rightarrow> Order \<Rightarrow> int" where
  "ord_basisPoints B ord = js_round (calcPctRate B (ord_rateFixed ord) (ord_duration ord) * 100 * 100)"

definition ord_isPending :: "Order \<Rightarrow> bool" where
  "ord_isPending ord \<longleftrightarrow> ord_state ord \<in> {ORDER_SUBMITTED, ORDER_PARTIALLY_FILLED}"

definition ord_stateLabel :: "Order \<Rightarrow> string" where
  "ord_stateLabel ord =
     (if ord_state ord = ORDER_SUBMITTED then ''Submitted''
      else if ord_state ord = ORDER_CLEARED then ''Cleared''
      else if ord_state ord = ORDER_PARTIALLY_FILLED then ''Partially Filled''
      else if ord_state ord = ORDER_EXECUTED then ''Filled''
      else if ord_state ord = ORDER_CANCELED then ''Cancelled''
      else if ord_state ord = ORDER_EXPIRED then ''Expired''
      else if ord_state ord = ORDER_FAILED then ''Failed''
      else ''Unknown'')"

definition ord_createdOn :: "big_lib \<Rightarrow> Order \<Rightarrow> int" where
  "ord_createdOn B ord = js_trunc (big_div B (big_div B (ord_creationTimestamp ord) 1000) 1000)"

definition ord_createdOnLabel :: "big_lib \<Rightarrow> (string \<Rightarrow> int \<Rightarrow> string) \<Rightarrow> Order \<Rightarrow> string" where
  "ord_createdOnLabel B date_text ord = date_text ''MMM d, h:mm a'' (ord_createdOn B ord)"

definition order_type_text :: "OrderType \<Rightarrow> string" where
  "order_type_text t = (case t of Bid \<Rightarrow> ''Bid'' | Ask \<Rightarrow> ''Ask'')"

definition Order_compare :: "string option \<Rightarrow> Order \<Rightarrow> Order \<Rightarrow> rat" where
  "Order_compare field a b =
     (if field = Some ''type'' then compare_text (order_type_text (ord_type a)) (order_type_text (ord_type b))
      else if field = Some ''amount'' then ord_amount a - ord_amount b
      else if field = Some ''rateFixed'' then ord_rateFixed a - ord_rateFixed b
      else if field = Some ''duration'' then ord_duration a - ord_duration b
      else if field = Some ''stateLabel'' then compare_text (ord_stateLabel a) (ord_stateLabel b)
      else ord_creationTimestamp a - ord_creationTimestamp b)"

section \<open>Leases\<close>

record Lease =
  ls_channelPoint :: string
  ls_channelAmtSat :: Big
  ls_channelDurationBlocks :: int
  ls_channelLeaseExpiry :: int
  ls_premiumSat :: Big
  ls_executionFeeSat :: Big
  ls_chainFeeSat :: Big
  ls_clearingRatePrice :: Big
  ls_orderFixedRate :: Big
  ls_orderNonce :: string
  ls_purchased :: bool
  ls_channelRemoteNodeKey :: string
  ls_channelNodeTier :: int

record pool_lease =
  pl_channelPoint :: "(string \<times> int) option"
  pl_channelAmtSat :: int
  pl_channelDurationBlocks :: int
  pl_channelLeaseExpiry :: int
  pl_premiumSat :: int
  pl_executionFeeSat :: int
  pl_chainFeeSat :: int
  pl_clearingRatePrice :: int
  pl_orderFixedRate :: int
  pl_orderNonce :: string
  pl_purchased :: bool
  pl_channelRemoteNodeKey :: string
  pl_channelNodeTier :: int

definition lease_channelPointToString :: "(string \<times> int) option \<Rightarrow> string" where
  "lease_channelPointToString outpoint =
     (case outpoint of None \<Rightarrow> [] | Some (txid, outputIndex) \<Rightarrow> hex txid True @ '':'' @ int_to_string outputIndex)"

definition Lease_update :: "pool_lease \<Rightarrow> Lease" where
  "Lease_update poolLease =
     \<lparr>ls_channelPoint = lease_channelPointToString (pl_channelPoint poolLease),
      ls_channelAmtSat = of_int (pl_channelAmtSat poolLease),
      ls_channelDurationBlocks = pl_channelDurationBlocks poolLease,
      ls_channelLeaseExpiry = pl_channelLeaseExpiry poolLease, ls_premiumSat = of_int (pl_premiumSat poolLease),
      ls_executionFeeSat = of_int (pl_executionFeeSat poolLease), ls_chainFeeSat = of_int (pl_chainFeeSat poolLease),
      ls_clearingRatePrice = of_int (pl_clearingRatePrice poolLease),
      ls_orderFixedRate = of_int (pl_orderFixedRate poolLease), ls_orderNonce = hex (pl_orderNonce poolLease) False,
      ls_purchased = pl_purchased poolLease, ls_channelRemoteNodeKey = hex (pl_channelRemoteNodeKey poolLease) False,
      ls_channelNodeTier = pl_channelNodeTier poolLease\<rparr>"

definition NODE_TIERS :: "(int \<times> string) list" where
  "NODE_TIERS = [(0, ''Default - T1''), (1, ''T0 - All Nodes''), (2, ''T1 - Preferred Nodes'')]"

definition tierLabel :: "Lease \<Rightarrow> string option" where
  "tierLabel x = map_of NODE_TIERS (ls_channelNodeTier x)"

definition Lease_csvColumns :: "(string \<times> string) list" where
  "Lease_csvColumns =
     [(''orderNonce'', ''Order Nonce''), (''channelPoint'', ''Channel Point''), (''channelRemoteNodeKey'', ''Remote Pubkey''),
      (''channelAmtSat'', ''Amount''), (''channelDurationBlocks'', ''Duration''), (''channelLeaseExpiry'', ''Lease Expiry''),
      (''premiumSat'', ''Premium''), (''executionFeeSat'', ''Execution Fee''), (''chainFeeSat'', ''Chain Fee''),
      (''clearingRatePrice'', ''Clearing Rate''), (''orderFixedRate'', ''Fixed Rate''), (''purchased'', ''Purchased''),
      (''tierLabel'', ''Tier'')]"

section \<open>The fixed rate is the integer quotient\<close>

text \<open>Three divisions, each rounded to 20 places, stay close to the exact quotient.\<close>

definition rate_float :: "int \<Rightarrow> int \<Rightarrow> int \<Rightarrow> rat" where
  "rate_float p a d =
     (let r1 = round_dec 20 roundHalfUp (of_int p * 100 / of_int a); r2 = round_dec 20 roundHalfUp (r1 / 100)
      in round_dec 20 roundHalfUp (r2 * 10 ^ 9 / of_int d))"

lemma round_half_up_near: "0 \<le> x \<Longrightarrow> \<bar>round_dec 20 roundHalfUp x - x\<bar> \<le> 1 / (2 * 10 ^ 20)"
  using round_half_up_bounds [of x 20] by linarith

lemma near_trans: "\<bar>c - b\<bar> \<le> e \<Longrightarrow> \<bar>b - a\<bar> \<le> f \<Longrightarrow> \<bar>c - a\<bar> \<le> e + f" for a b c e f :: rat
  by linarith

lemma rate_float_near:
  assumes p: "0 \<le> p" and a: "0 < a" and d: "0 < d"
  shows "\<bar>rate_float p a d - of_int (p * 10 ^ 9) / of_int (a * d)\<bar> \<le> (1 + (1 + 1 / 100) * 10 ^ 9 / of_int d) / (2 * 10 ^ 20)"
    and "0 \<le> rate_float p a d"
proof -
  define h :: rat where "h = 1 / (2 * 10 ^ 20)"
  define D :: rat where "D = of_int d"
  define x1 :: rat where "x1 = of_int p * 100 / of_int a"
  define r1 where "r1 = round_dec 20 roundHalfUp x1"
  define r2 where "r2 = round_dec 20 roundHalfUp (r1 / 100)"
  define r3 where "r3 = round_dec 20 roundHalfUp (r2 * 10 ^ 9 / D)"
  have D: "0 < D" using d by (simp add: D_def)
  have x1: "0 \<le> x1" using p a by (simp add: x1_def)
  have r1: "0 \<le> r1" "\<bar>r1 - x1\<bar> \<le> h" unfolding r1_def h_def using round_dec_nonneg_result [OF x1] round_half_up_near [OF x1] by auto
  have r2: "0 \<le> r2" "\<bar>r2 - r1 / 100\<bar> \<le> h"
    unfolding r2_def h_def using round_dec_nonneg_result [of "r1 / 100"] round_half_up_near [of "r1 / 100"] r1 by auto
  have r3: "0 \<le> r3" "\<bar>r3 - r2 * 10 ^ 9 / D\<bar> \<le> h"
    unfolding r3_def h_def
    using round_dec_nonneg_result [of "r2 * 10 ^ 9 / D"] round_half_up_near [of "r2 * 10 ^ 9 / D"] r2 D by auto
  have "\<bar>r2 - x1 / 100\<bar> \<le> (1 + 1 / 100) * h"
  proof -
    have "(1 + 1 / 100) * h = h + h / 100" by (simp add: field_simps)
    moreover have "r1 / 100 - x1 / 100 \<le> h / 100" "x1 / 100 - r1 / 100 \<le> h / 100" using r1(2) by linarith+
    ultimately show ?thesis using r2(2) by linarith
  qed
  then have "\<bar>r2 - x1 / 100\<bar> * (10 ^ 9 / D) \<le> (1 + 1 / 100) * h * (10 ^ 9 / D)"
    using D by (intro mult_right_mono) auto
  moreover have "\<bar>r2 - x1 / 100\<bar> * (10 ^ 9 / D) = \<bar>r2 * 10 ^ 9 / D - x1 / 100 * 10 ^ 9 / D\<bar>"
  proof -
    have "(r2 - x1 / 100) * (10 ^ 9 / D) = r2 * 10 ^ 9 / D - x1 / 100 * 10 ^ 9 / D" by (simp add: left_diff_distrib diff_divide_distrib)
    moreover have "0 \<le> 10 ^ 9 / D" using D by simp
    ultimately show ?thesis by (metis abs_mult abs_of_nonneg)
  qed
  ultimately have "\<bar>r2 * 10 ^ 9 / D - x1 / 100 * 10 ^ 9 / D\<bar> \<le> (1 + 1 / 100) * h * (10 ^ 9 / D)" by simp
  then have "\<bar>r3 - x1 / 100 * 10 ^ 9 / D\<bar> \<le> h + (1 + 1 / 100) * h * (10 ^ 9 / D)" by (rule near_trans [OF r3(2)])
  moreover have "x1 / 100 * 10 ^ 9 / D = of_int (p * 10 ^ 9) / of_int (a * d)" by (simp add: x1_def D_def)
  moreover have "h + (1 + 1 / 100) * h * (10 ^ 9 / D) = (1 + (1 + 1 / 100) * 10 ^ 9 / D) / (2 * 10 ^ 20)"
    by (simp add: h_def add_divide_distrib)
  moreover have "rate_float p a d = r3" by (simp add: rate_float_def r3_def r2_def r1_def x1_def D_def Let_def)
  ultimately show "\<bar>rate_float p a d - of_int (p * 10 ^ 9) / of_int (a * d)\<bar> \<le> (1 + (1 + 1 / 100) * 10 ^ 9 / of_int d) / (2 * 10 ^ 20)"
    and "0 \<le> rate_float p a d" using r3(1) by (simp_all add: D_def)
qed

text \<open>A quotient without remainder goes through the divisions unrounded.\<close>

lemma rate_float_whole:
  assumes a: "0 < a" and d: "0 < d" and n: "p * 10 ^ 9 = a * d * n"
  shows "rate_float p a d = of_int n"
proof -
  have e: "(of_int p :: rat) * 10 ^ 9 = of_int a * of_int d * of_int n"
    using arg_cong [OF n, of "of_int :: int \<Rightarrow> rat"] by simp
  have x1: "of_int p * 100 / of_int a = (of_int (d * n) / 10 ^ 7 :: rat)"
    using e a by (simp add: field_simps)
  have "round_dec 20 roundHalfUp (of_int (d * n) / 10 ^ 7 :: rat) = of_int (d * n) / 10 ^ 7"
    by (rule round_dec_exact [of _ _ "d * n * 10 ^ 13"]) (simp add: field_simps)
  moreover have "round_dec 20 roundHalfUp (of_int (d * n) / 10 ^ 7 / 100 :: rat) = of_int (d * n) / 10 ^ 7 / 100"
    by (rule round_dec_exact [of _ _ "d * n * 10 ^ 11"]) (simp add: field_simps)
  moreover have "of_int (d * n) / 10 ^ 7 / 100 * 10 ^ 9 / of_int d = (of_int n :: rat)" using d by (simp add: field_simps)
  ultimately show ?thesis unfolding rate_float_def x1 Let_def by (simp only: round_dec_int)
qed

lemma rate_float_floor:
  assumes p: "0 \<le> p" and a: "0 < a" "a \<le> 9 * 10 ^ 10" and d: "0 < d" "d \<le> 10 ^ 9"
  shows "\<lfloor>rate_float p a d\<rfloor> = p * 10 ^ 9 div (a * d)"
proof -
  define N where "N = p * 10 ^ 9"
  define m where "m = a * d"
  define n where "n = N div m"
  have m: "0 < m" using a d by (simp add: m_def)
  show ?thesis
  proof (cases "N mod m = 0")
    case True
    then have "N = m * n" using mult_div_mod_eq [of m N] by (simp add: n_def)
    then have "p * 10 ^ 9 = a * d * n" by (simp add: N_def m_def)
    then show ?thesis using rate_float_whole [OF a(1) d(1)] by (simp add: n_def N_def m_def)
  next
    case False
    have "0 \<le> N mod m" "N mod m < m" using m by simp_all
    moreover have "N = m * n + N mod m" by (simp add: n_def)
    moreover have "m * (n + 1) = m * n + m" by (simp add: algebra_simps)
    ultimately have N: "m * n + 1 \<le> N" "N + 1 \<le> m * (n + 1)" using False by linarith+
    have mr: "0 < (of_int m :: rat)" using m by simp
    have low: "of_int n + 1 / of_int m \<le> (of_int N / of_int m :: rat)"
    proof -
      have "(of_int (m * n + 1) :: rat) / of_int m \<le> of_int N / of_int m"
        using N(1) mr by (intro divide_right_mono of_int_le_iff [THEN iffD2]) simp_all
      then show ?thesis using mr by (simp add: add_divide_distrib)
    qed
    have high: "of_int N / of_int m + 1 / of_int m \<le> (of_int n + 1 :: rat)"
    proof -
      have "(of_int (N + 1) :: rat) / of_int m \<le> of_int (m * (n + 1)) / of_int m"
        using N(2) mr by (intro divide_right_mono of_int_le_iff [THEN iffD2]) simp_all
      then show ?thesis using mr by (simp add: add_divide_distrib)
    qed
    have err: "(1 + (1 + 1 / 100) * 10 ^ 9 / of_int d) / (2 * 10 ^ 20) < (1 / of_int m :: rat)"
    proof -
      have "a * (100 * d + 101 * 10 ^ 9) \<le> 9 * 10 ^ 10 * (100 * 10 ^ 9 + 101 * 10 ^ 9)"
        using a d by (intro mult_mono) simp_all
      then have "a * (100 * d + 101 * 10 ^ 9) < 2 * 10 ^ 22" by simp
      then have "(of_int (a * (100 * d + 101 * 10 ^ 9)) :: rat) < of_int (2 * 10 ^ 22)" by (simp only: of_int_less_iff)
      then have "(of_int a * (of_int d + (1 + 1 / 100) * 10 ^ 9) :: rat) < 2 * 10 ^ 20" by (simp add: field_simps)
      then have "of_int d * (of_int a * (of_int d + (1 + 1 / 100) * 10 ^ 9)) < of_int d * (2 * 10 ^ 20 :: rat)"
        using d by (intro mult_strict_left_mono) simp_all
      then show ?thesis using a d by (simp add: m_def field_simps)
    qed
    have "\<bar>rate_float p a d - of_int N / of_int m\<bar> < 1 / of_int m"
      using rate_float_near(1) [OF p a(1) d(1)] err by (simp add: N_def m_def)
    then have "of_int n < rate_float p a d" "rate_float p a d < of_int n + 1" using low high by linarith+
    then have "\<lfloor>rate_float p a d\<rfloor> = n" by (simp add: floor_eq_iff)
    then show ?thesis by (simp add: n_def N_def m_def)
  qed
qed

lemma calcFixedRate_whole:
  assumes B: "big_law B" and p: "0 \<le> p" and a: "0 < a" "a \<le> 9 * 10 ^ 10" and d: "0 < d" "d \<le> 10 ^ 9"
  shows "calcFixedRate B (of_int a) (of_int p) (of_int d) = Inr (of_int (p * 10 ^ 9 div (a * d)))"
proof -
  have "calcFixedRate B (of_int a) (of_int p) (of_int d) = Inr (round_dec 0 roundDown (rate_float p a d))"
    using a d by (simp add: calcFixedRate_def big_divide_def big_div_eq [OF B] big_round_eq [OF B] rate_float_def
        FEE_RATE_TOTAL_PARTS_def Let_def)
  then show ?thesis
    using rate_float_near(2) [OF p a(1) d(1)] rate_float_floor [OF p a d] by (simp add: round_dec_down)
qed

text \<open>
  C26. The rate of an order is exact although it is computed with rounded decimals: for whole
  amounts up to 900 bitcoin it is the integer quotient of premium and amount per block, in
  billionths. The premium that the rate amounts to over the whole lease is therefore never
  more than the premium that was entered, and less than one step of the rate below it.
\<close>

theorem fixed_rate_never_overcharges:
  assumes "big_law B" and "0 \<le> p" and "0 < a" "a \<le> 9 * 10 ^ 10" and "0 < d" "d \<le> 10 ^ 9"
  shows "\<exists>r. calcFixedRate B (of_int a) (of_int p) (of_int d) = Inr (of_int r) \<and>
    r = p * 10 ^ 9 div (a * d) \<and> r * (a * d) \<le> p * 10 ^ 9 \<and> p * 10 ^ 9 < (r + 1) * (a * d)"
proof -
  have m: "0 < a * d" using assms by simp
  have e: "(a * d) * (p * 10 ^ 9 div (a * d)) + p * 10 ^ 9 mod (a * d) = p * 10 ^ 9" by (rule mult_div_mod_eq)
  have "0 \<le> p * 10 ^ 9 mod (a * d)" "p * 10 ^ 9 mod (a * d) < a * d" using m by simp_all
  then have "p * 10 ^ 9 div (a * d) * (a * d) \<le> p * 10 ^ 9" "p * 10 ^ 9 < (p * 10 ^ 9 div (a * d) + 1) * (a * d)"
    using e by (simp_all add: algebra_simps)
  then show ?thesis using calcFixedRate_whole [OF assms] by blast
qed

theorem fixed_rate_never_overcharges_witness:
  "calcFixedRate exact_big (of_int 3000000) (of_int 1000) (of_int 2016) = Inr 165"
  using fixed_rate_never_overcharges [OF exact_big_law, of 1000 3000000 2016] by simp

end
