(* ===== verification/Pool_Stores.thy ===== *)
theory Pool_Stores
  imports Pool_Models Loop_Stores
begin

text \<open>
  \<open>app/src/store/stores/accountStore.ts\<close> and \<open>app/src/store/stores/orderStore.ts\<close>. As in
  \<open>Loop_Stores\<close>, an operation that waits for the daemon is a function of its replies;
  \<open>pool_replies\<close> collects those of a refresh. The requests that change something at the
  daemon are logged in \<open>pool_sent\<close>.
\<close>

section \<open>State\<close>

datatype pool_request = PoolAccount account_request | PoolSubmit submit_request | PoolCancel string

record app_pool = app_loop +
  accounts :: "(string \<times> Account) list"
  activeTraderKey :: "string option"
  accounts_loaded :: bool
  orders :: "(string \<times> Order) list"
  leases :: "(string \<times> Lease) list"
  earnedSats :: Big
  paidSats :: Big
  pool_sent :: "pool_request list"

text \<open>An entry of the order lists: bids come with a node tier, asks without.\<close>

record order_entry =
  oe_details :: pool_order
  oe_type :: OrderType
  oe_leaseDurationBlocks :: int
  oe_minNodeTier :: "int option"

record lease_reply =
  lr_leases :: "pool_lease list"
  lr_totalAmtEarnedSat :: int
  lr_totalAmtPaidSat :: int

record pool_replies =
  rp_orders :: "((pool_order \<times> int) list \<times> (pool_order \<times> int \<times> int) list) api_result"
  rp_leases :: "lease_reply api_result"
  rp_accounts :: "pool_account list api_result"
  rp_info :: "node_info api_result"

definition pool_send :: "pool_request \<Rightarrow> 'a app_pool_scheme \<Rightarrow> 'a app_pool_scheme" where
  "pool_send r s = s\<lparr>pool_sent := pool_sent s @ [r]\<rparr>"

section \<open>Accounts\<close>

definition activeAccount :: "'a app_pool_scheme \<Rightarrow> Account api_result" where
  "activeAccount s =
     (case activeTraderKey s of
        None \<Rightarrow> Inl (AppError ''Select an account to manage'')
      | Some k \<Rightarrow>
          if k = [] then Inl (AppError ''Select an account to manage'')
          else case map_of (accounts s) k of
            None \<Rightarrow> Inl (AppError ''The selected account is not valid'')
          | Some a \<Rightarrow> Inr a)"

definition sort_accounts :: "Account list \<Rightarrow> Account list" where
  "sort_accounts accts =
     (let opened = js_sort (\<lambda>a b. totalBalance b - totalBalance a) (filter (\<lambda>a. acct_state a = ACCT_OPEN) accts);
          other = js_sort (\<lambda>a b. of_int (expirationHeight b - expirationHeight a))
                    (filter (\<lambda>a. acct_state a \<noteq> ACCT_OPEN \<and> acct_state a \<noteq> ACCT_CLOSED \<and>
                                acct_state a \<noteq> ACCT_PENDING_CLOSED) accts)
      in opened @ other)"

definition sortedAccounts :: "'a app_pool_scheme \<Rightarrow> Account list" where
  "sortedAccounts s = sort_accounts (map snd (accounts s))"

definition setActiveTraderKey :: "string \<Rightarrow> 'a app_pool_scheme \<Rightarrow> 'a app_pool_scheme" where
  "setActiveTraderKey k s = s\<lparr>activeTraderKey := Some k\<rparr>"

text \<open>\<open>copyTxnId\<close>: what goes to the clipboard; the getter throws without an active account.\<close>

definition copyTxnId :: "'a app_pool_scheme \<Rightarrow> string api_result \<times> 'a app_pool_scheme" where
  "copyTxnId s =
     (case activeAccount s of
        Inl e \<Rightarrow> (Inl e, s)
      | Inr a \<Rightarrow> (Inr (fundingTxnId a),
                   notify (Plain ''Copied funding txn ID to clipboard'') (Some (Plain [])) Success s))"

definition account_key :: "pool_account \<Rightarrow> string" where
  "account_key p = hex (pa_traderKey p) False"

definition account_of :: "pool_account \<Rightarrow> Account option \<Rightarrow> Account" where
  "account_of p existing = Account_update p"

definition refresh_accounts :: "pool_account list \<Rightarrow> (string \<times> Account) list \<Rightarrow> (string \<times> Account) list" where
  "refresh_accounts accountsList m =
     (let m = upsert_all account_key account_of accountsList m;
          serverIds = map account_key accountsList;
          localIds = map fst m
      in drop_missing localIds serverIds m)"

definition fetchAccounts :: "pool_replies \<Rightarrow> 'a app_pool_scheme \<Rightarrow> 'a app_pool_scheme" where
  "fetchAccounts rp s =
     (case rp_accounts rp of
        Inl e \<Rightarrow> handleError e ''Unable to fetch Accounts'' s
      | Inr accountsList \<Rightarrow>
          (let s = fetchInfo (rp_info rp) s;
               s = s\<lparr>accounts := refresh_accounts accountsList (accounts s)\<rparr>;
               s = (case sortedAccounts s of a # _ \<Rightarrow> setActiveTraderKey (traderKey a) s | [] \<Rightarrow> s)
           in s\<lparr>accounts_loaded := True\<rparr>))"

text \<open>The results are the value the operation returns (\<open>None\<close>: undefined) and the new state.\<close>

definition createAccount ::
    "Big \<Rightarrow> rat \<Rightarrow> rat option \<Rightarrow> pool_account api_result \<Rightarrow> 'a app_pool_scheme \<Rightarrow> string option \<times> 'a app_pool_scheme" where
  "createAccount amt expiryBlocks target reply s =
     (let s = pool_send (PoolAccount (initAccount_request amt expiryBlocks target)) s in
      case reply of
        Inl e \<Rightarrow> (None, handleError e ''Unable to create the account'' s)
      | Inr acct \<Rightarrow>
          (Some (pa_traderKey acct),
           setActiveTraderKey (account_key acct)
             (s\<lparr>accounts := AList.update (account_key acct) (Account_update acct) (accounts s)\<rparr>)))"

definition closeAccount ::
    "rat \<Rightarrow> string option \<Rightarrow> string api_result \<Rightarrow> pool_replies \<Rightarrow> 'a app_pool_scheme \<Rightarrow> string option \<times> 'a app_pool_scheme" where
  "closeAccount feeRate destination reply rp s =
     (case activeAccount s of
        Inl e \<Rightarrow> (None, handleError e ''Unable to close the account'' s)
      | Inr acct \<Rightarrow>
          (let s = pool_send (PoolAccount (closeAccount_request (traderKey acct) (Some feeRate) destination)) s in
           case reply of
             Inl e \<Rightarrow> (None, handleError e ''Unable to close the account'' s)
           | Inr closeTxid \<Rightarrow> (Some closeTxid, fetchAccounts rp (s\<lparr>activeTraderKey := None\<rparr>))))"

text \<open>
  What \<open>renewAccount\<close>, \<open>deposit\<close> and \<open>withdraw\<close> share: the request for the active account, and
  a reply with the id of the transaction and the changed account, which is updated in place.
\<close>

definition account_operation ::
    "string \<Rightarrow> (string \<Rightarrow> account_request) \<Rightarrow> (string \<times> pool_account option) api_result \<Rightarrow> 'a app_pool_scheme
     \<Rightarrow> string option \<times> 'a app_pool_scheme" where
  "account_operation title request_for reply s =
     (case activeAccount s of
        Inl e \<Rightarrow> (None, handleError e title s)
      | Inr acct \<Rightarrow>
          (let s = pool_send (PoolAccount (request_for (traderKey acct))) s in
           case reply of
             Inl e \<Rightarrow> (None, handleError e title s)
           | Inr (txid, Some p) \<Rightarrow>
               (Some txid, s\<lparr>accounts := AList.update (the (activeTraderKey s)) (Account_update p) (accounts s)\<rparr>)
           | Inr (txid, None) \<Rightarrow> (Some txid, start_call FetchAccounts s)))"

definition renewAccount ::
    "rat \<Rightarrow> rat \<Rightarrow> (string \<times> pool_account option) api_result \<Rightarrow> 'a app_pool_scheme \<Rightarrow> string option \<times> 'a app_pool_scheme" where
  "renewAccount expiryBlocks feeRate =
     account_operation ''Unable to renew the account'' (\<lambda>k. renewAccount_request k expiryBlocks feeRate)"

definition deposit ::
    "Big \<Rightarrow> rat option \<Rightarrow> (string \<times> pool_account option) api_result \<Rightarrow> 'a app_pool_scheme \<Rightarrow> string option \<times> 'a app_pool_scheme" where
  "deposit amt feeRate = account_operation ''Unable to deposit funds'' (\<lambda>k. deposit_request k amt feeRate)"

definition withdraw ::
    "Big \<Rightarrow> rat option \<Rightarrow> (string \<times> pool_account option) api_result \<Rightarrow> 'a app_pool_scheme \<Rightarrow> string option \<times> 'a app_pool_scheme" where
  "withdraw amt feeRate = account_operation ''Unable to withdraw funds'' (\<lambda>k. withdraw_request k amt feeRate)"

definition registerSidecar :: "unit api_result \<Rightarrow> 'a app_pool_scheme \<Rightarrow> 'a app_pool_scheme" where
  "registerSidecar reply s =
     (case reply of Inl e \<Rightarrow> handleError e ''Unable to register sidecar ticket'' s | Inr _ \<Rightarrow> s)"

section \<open>Orders and leases\<close>

definition sortedOrders :: "'a app_pool_scheme \<Rightarrow> Order list" where
  "sortedOrders s =
     sort_by (Order_compare (so_field (orderSort s))) (so_descending (orderSort s)) (map snd (orders s))"

definition pendingOrdersCount :: "'a app_pool_scheme \<Rightarrow> nat" where
  "pendingOrdersCount s = length (filter ord_isPending (sortedOrders s))"

definition leasesByNonce :: "'a app_pool_scheme \<Rightarrow> (string \<times> Lease list) list" where
  "leasesByNonce s =
     foldl (\<lambda>m x. case map_of m (ls_orderNonce x) of
                    None \<Rightarrow> AList.update (ls_orderNonce x) [x] m
                  | Some xs \<Rightarrow> AList.update (ls_orderNonce x) (xs @ [x]) m)
       [] (map snd (leases s))"

definition leaseCount :: "'a app_pool_scheme \<Rightarrow> Order \<Rightarrow> nat" where
  "leaseCount s ord = length (case map_of (leasesByNonce s) (ord_nonce ord) of None \<Rightarrow> [] | Some xs \<Rightarrow> xs)"

definition stateWithCount :: "'a app_pool_scheme \<Rightarrow> Order \<Rightarrow> string" where
  "stateWithCount s ord =
     (if leaseCount s ord = 0 then ord_stateLabel ord
      else ord_stateLabel ord @ '' ('' @ nat_to_string (leaseCount s ord) @ '')'')"

definition order_entries :: "(pool_order \<times> int) list \<Rightarrow> (pool_order \<times> int \<times> int) list \<Rightarrow> order_entry list" where
  "order_entries asks bids =
     map (\<lambda>(p, d). \<lparr>oe_details = p, oe_type = Ask, oe_leaseDurationBlocks = d, oe_minNodeTier = None\<rparr>) asks @
     map (\<lambda>(p, d, t). \<lparr>oe_details = p, oe_type = Bid, oe_leaseDurationBlocks = d, oe_minNodeTier = Some t\<rparr>) bids"

definition order_key :: "order_entry \<Rightarrow> string" where
  "order_key e = hex (po_orderNonce (oe_details e)) False"

definition order_of :: "order_entry \<Rightarrow> Order option \<Rightarrow> Order" where
  "order_of e existing = Order_update (oe_details e) (oe_type e) (oe_leaseDurationBlocks e) (oe_minNodeTier e)"

text \<open>As in \<open>refresh_swaps\<close>, \<open>own\<close> is \<open>Object.keys\<close> of the MobX map.\<close>

definition refresh_orders :: "string list \<Rightarrow> order_entry list \<Rightarrow> (string \<times> Order) list \<Rightarrow> (string \<times> Order) list" where
  "refresh_orders own entries m =
     (let m = upsert_all order_key order_of entries m;
          serverIds = map order_key entries;
          localIds = own
      in drop_missing localIds serverIds m)"

definition lease_key :: "pool_lease \<Rightarrow> string" where
  "lease_key p = lease_channelPointToString (pl_channelPoint p)"

definition lease_of :: "pool_lease \<Rightarrow> Lease option \<Rightarrow> Lease" where
  "lease_of p existing = Lease_update p"

definition refresh_leases :: "pool_lease list \<Rightarrow> (string \<times> Lease) list \<Rightarrow> (string \<times> Lease) list" where
  "refresh_leases leasesList m =
     (let m = upsert_all lease_key lease_of leasesList m;
          serverIds = map lease_key leasesList;
          localIds = map fst m
      in drop_missing localIds serverIds m)"

definition fetchLeases :: "lease_reply api_result \<Rightarrow> 'a app_pool_scheme \<Rightarrow> 'a app_pool_scheme" where
  "fetchLeases res s =
     (case res of
        Inl e \<Rightarrow> handleError e ''Unable to fetch leases'' s
      | Inr r \<Rightarrow>
          s\<lparr>earnedSats := of_int (lr_totalAmtEarnedSat r), paidSats := of_int (lr_totalAmtPaidSat r),
            leases := refresh_leases (lr_leases r) (leases s)\<rparr>)"

definition fetchOrders :: "string list \<Rightarrow> pool_replies \<Rightarrow> 'a app_pool_scheme \<Rightarrow> 'a app_pool_scheme" where
  "fetchOrders own rp s =
     (case rp_orders rp of
        Inl e \<Rightarrow> handleError e ''Unable to fetch orders'' s
      | Inr (asks, bids) \<Rightarrow>
          fetchLeases (rp_leases rp) (s\<lparr>orders := refresh_orders own (order_entries asks bids) (orders s)\<rparr>))"

text \<open>The fees of an order: total execution fee and worst case chain fee.\<close>

definition quoteOrder :: "(int \<times> int) api_result \<Rightarrow> 'a app_pool_scheme \<Rightarrow> (int \<times> int) \<times> 'a app_pool_scheme" where
  "quoteOrder res s =
     (case res of
        Inl e \<Rightarrow> ((0, 0), handleError e ''Unable to estimate order fees'' s)
      | Inr fees \<Rightarrow> (fees, s))"

text \<open>
  \<open>info\<close> is the version reply, \<open>reply\<close> the answer to the order: the accepted nonce and the
  reason when the order is invalid.
\<close>

definition submitOrder ::
    "(string \<Rightarrow> 'v option) \<Rightarrow> ('v \<Rightarrow> string \<Rightarrow> bool) \<Rightarrow> string list \<Rightarrow> OrderType \<Rightarrow> Big \<Rightarrow> rat \<Rightarrow> rat \<Rightarrow> rat \<Rightarrow> rat
     \<Rightarrow> int option \<Rightarrow> string api_result \<Rightarrow> (string \<times> string option) api_result \<Rightarrow> pool_replies \<Rightarrow> 'a app_pool_scheme
     \<Rightarrow> string option \<times> 'a app_pool_scheme" where
  "submitOrder coerce sat own type amt rateFixed duration minUnitsMatch feeRate tier info reply rp s =
     (let failed = (\<lambda>e s. (None, handleError e ''Unable to submit the order'' s)) in
      case activeAccount s of
        Inl e \<Rightarrow> failed e s
      | Inr acct \<Rightarrow>
          (case submitOrder_request coerce sat info (traderKey acct) type amt rateFixed duration minUnitsMatch feeRate tier of
             Inl e \<Rightarrow> failed e s
           | Inr req \<Rightarrow>
               (let s = pool_send (PoolSubmit req) s in
                case reply of
                  Inl e \<Rightarrow> failed e s
                | Inr (acceptedOrderNonce, invalidOrder) \<Rightarrow>
                    (let s = fetchAccounts rp (fetchOrders own rp s) in
                     case invalidOrder of
                       Some failString \<Rightarrow> failed (AppError failString) s
                     | None \<Rightarrow> (Some (hex acceptedOrderNonce False), s)))))"

definition cancelOrder ::
    "string list \<Rightarrow> string \<Rightarrow> unit api_result \<Rightarrow> pool_replies \<Rightarrow> 'a app_pool_scheme \<Rightarrow> 'a app_pool_scheme" where
  "cancelOrder own nonce reply rp s =
     (case activeAccount s of
        Inl e \<Rightarrow> handleError e ''Unable to cancel the order'' s
      | Inr _ \<Rightarrow>
          (let s = pool_send (PoolCancel (b64 nonce False)) s in
           case reply of
             Inl e \<Rightarrow> handleError e ''Unable to cancel the order'' s
           | Inr _ \<Rightarrow> fetchAccounts rp (fetchOrders own rp s)))"

text \<open>The loop of \<open>cancelAllOrders\<close> stops at the first request that fails.\<close>

fun cancel_each :: "(string \<Rightarrow> unit api_result) \<Rightarrow> Order list \<Rightarrow> 'a app_pool_scheme \<Rightarrow> unit api_result \<times> 'a app_pool_scheme" where
  "cancel_each replies [] s = (Inr (), s)"
| "cancel_each replies (ord # os) s =
     (let s = pool_send (PoolCancel (b64 (ord_nonce ord) False)) s in
      case replies (ord_nonce ord) of Inl e \<Rightarrow> (Inl e, s) | Inr _ \<Rightarrow> cancel_each replies os s)"

definition cancelAllOrders ::
    "string list \<Rightarrow> (string \<Rightarrow> unit api_result) \<Rightarrow> pool_replies \<Rightarrow> 'a app_pool_scheme \<Rightarrow> unit api_result \<times> 'a app_pool_scheme" where
  "cancelAllOrders own replies rp s =
     (case activeAccount s of
        Inl e \<Rightarrow> (Inl e, s)
      | Inr _ \<Rightarrow>
          (case cancel_each replies (filter ord_isPending (sortedOrders s)) s of
             (Inl e, s) \<Rightarrow> (Inl e, s)
           | (Inr _, s) \<Rightarrow> (Inr (), fetchAccounts rp (fetchOrders own rp s))))"

text \<open>The contents of the exported file; amounts are whole satoshis.\<close>

definition lease_csv :: "Lease \<Rightarrow> string \<Rightarrow> js_value" where
  "lease_csv x k =
     (if k = ''orderNonce'' then VStr (ls_orderNonce x)
      else if k = ''channelPoint'' then VStr (ls_channelPoint x)
      else if k = ''channelRemoteNodeKey'' then VStr (ls_channelRemoteNodeKey x)
      else if k = ''channelAmtSat'' then VBig \<lfloor>ls_channelAmtSat x\<rfloor>
      else if k = ''channelDurationBlocks'' then VInt (ls_channelDurationBlocks x)
      else if k = ''channelLeaseExpiry'' then VInt (ls_channelLeaseExpiry x)
      else if k = ''premiumSat'' then VBig \<lfloor>ls_premiumSat x\<rfloor>
      else if k = ''executionFeeSat'' then VBig \<lfloor>ls_executionFeeSat x\<rfloor>
      else if k = ''chainFeeSat'' then VBig \<lfloor>ls_chainFeeSat x\<rfloor>
      else if k = ''clearingRatePrice'' then VBig \<lfloor>ls_clearingRatePrice x\<rfloor>
      else if k = ''orderFixedRate'' then VBig \<lfloor>ls_orderFixedRate x\<rfloor>
      else if k = ''purchased'' then VBool (ls_purchased x)
      else if k = ''tierLabel'' then (case tierLabel x of Some t \<Rightarrow> VStr t | None \<Rightarrow> VUndefined)
      else VUndefined)"

definition exportLeases :: "'a app_pool_scheme \<Rightarrow> string" where
  "exportLeases s = convert Lease_csvColumns (map lease_csv (map snd (leases s)))"

section \<open>The stores keep the contract of a refresh\<close>

lemma keyed_id [simp]:
  "traderKey (account_of p e) = account_key p" "ls_channelPoint (lease_of q f) = lease_key q" "ord_nonce (order_of r g) = order_key r"
  by (simp_all add: account_of_def Account_update_def account_key_def lease_of_def Lease_update_def lease_key_def
      order_of_def Order_update_def order_key_def)

lemma refresh_accounts_lookup:
  "map_of (refresh_accounts items m) k =
    (if k \<in> account_key ` set items then latest account_key account_of items k (map_of m k) else None)"
  by (rule drop_missing_mirrors [where ids = "map fst"]) (simp_all only: refresh_accounts_def Let_def dom_fst)

lemma refresh_leases_lookup:
  "map_of (refresh_leases items m) k =
    (if k \<in> lease_key ` set items then latest lease_key lease_of items k (map_of m k) else None)"
  by (rule drop_missing_mirrors [where ids = "map fst"]) (simp_all only: refresh_leases_def Let_def dom_fst)

lemma refresh_keyed:
  "keyed traderKey m \<Longrightarrow> keyed traderKey (refresh_accounts items m)"
  "keyed ls_channelPoint n \<Longrightarrow> keyed ls_channelPoint (refresh_leases parts n)"
  by (simp_all add: refresh_accounts_def refresh_leases_def Let_def keyed_drop keyed_upsert)

interpretation account_list: mirroring_store account_key account_of "\<lambda>_. True" "keyed traderKey" refresh_accounts
  by unfold_locales
    (auto simp: refresh_accounts_lookup account_of_def refresh_keyed)

interpretation lease_list: mirroring_store lease_key lease_of "\<lambda>_. True" "keyed ls_channelPoint" refresh_leases
  by unfold_locales
    (auto simp: refresh_leases_lookup lease_of_def refresh_keyed)

definition orders_ok :: "string list \<Rightarrow> (string \<times> Order) list \<Rightarrow> bool" where
  "orders_ok own m \<longleftrightarrow> keyed ord_nonce m \<and> dom (map_of m) \<inter> set own = {}"

lemma refresh_orders_lookup:
  assumes "orders_ok own m" "list_all (\<lambda>e. order_key e \<notin> set own) items"
  shows "map_of (refresh_orders own items m) k = latest order_key order_of items k (map_of m k)"
  using assms drop_own_lookup [of m own order_key items] by (simp add: refresh_orders_def orders_ok_def Let_def)

lemma refresh_orders_ok:
  assumes "orders_ok own m" "list_all (\<lambda>e. order_key e \<notin> set own) items"
  shows "orders_ok own (refresh_orders own items m)"
  using assms drop_own_disjoint [of m own order_key items]
  by (simp add: refresh_orders_def orders_ok_def Let_def keyed_drop keyed_upsert)

interpretation order_list: accumulating_store order_key order_of "\<lambda>e. order_key e \<notin> set own" "orders_ok own"
    "refresh_orders own" for own
  by unfold_locales (auto simp: refresh_orders_lookup refresh_orders_ok latest_absent order_of_def)


section \<open>Which account is selected\<close>

lemma pool_frame [simp]:
  "accounts (handleError e t s) = accounts s" "activeTraderKey (handleError e t s) = activeTraderKey s"
  "orders (handleError e t s) = orders s" "leases (handleError e t s) = leases s" "pool_sent (handleError e t s) = pool_sent s"
  "accounts (fetchInfo i s) = accounts s" "activeTraderKey (fetchInfo i s) = activeTraderKey s"
  "orders (fetchInfo i s) = orders s" "leases (fetchInfo i s) = leases s" "pool_sent (fetchInfo i s) = pool_sent s"
  "accounts (pool_send r s) = accounts s" "activeTraderKey (pool_send r s) = activeTraderKey s"
  "orders (pool_send r s) = orders s" "leases (pool_send r s) = leases s" "pool_sent (pool_send r s) = pool_sent s @ [r]"
  "accounts (start_call c s) = accounts s" "orders (start_call c s) = orders s" "leases (start_call c s) = leases s"
  "pool_sent (start_call c s) = pool_sent s"
  by (simp_all add: handleError_def notify_def fetchInfo_def pool_send_def start_call_def Let_def
      split: app_error.split sum.split list.split prod.split)

lemma sorted_head:
  assumes "comparator cmp" "js_sort cmp xs = a # rest" "b \<in> set xs"
  shows "cmp a b \<le> 0"
proof -
  have "sorted_wrt (\<lambda>a b. cmp a b \<le> 0) (a # rest)" using sorted_js_sort [OF assms(1), of xs] assms(2) by simp
  moreover have "b \<in> set (a # rest)" using assms(2,3) by (metis set_js_sort)
  moreover have "cmp a a \<le> 0" using assms(1) unfolding comparator_def by blast
  ultimately show ?thesis by auto
qed

lemma comparator_flip: "comparator (\<lambda>a b. f b - f a)"
  by (auto simp: comparator_def)

lemma set_sort_accounts:
  "set (sort_accounts accts) = {a \<in> set accts. acct_state a \<noteq> ACCT_CLOSED \<and> acct_state a \<noteq> ACCT_PENDING_CLOSED}"
  by (auto simp: sort_accounts_def Let_def)

lemma sort_accounts_head:
  assumes "sort_accounts accts = a # rest" and "b \<in> set accts" "acct_state b = ACCT_OPEN"
  shows "acct_state a = ACCT_OPEN \<and> totalBalance b \<le> totalBalance a"
proof -
  let ?opened = "js_sort (\<lambda>a b. totalBalance b - totalBalance a) (filter (\<lambda>a. acct_state a = ACCT_OPEN) accts)"
  have b: "b \<in> set (filter (\<lambda>a. acct_state a = ACCT_OPEN) accts)" using assms(2,3) by simp
  then have "b \<in> set ?opened" by simp
  then obtain c cs where o: "?opened = c # cs" by (cases ?opened) auto
  then have "c = a" using assms(1) by (simp add: sort_accounts_def Let_def)
  moreover have "c \<in> set ?opened" unfolding o by simp
  ultimately have "acct_state a = ACCT_OPEN" by simp
  then show ?thesis using sorted_head [OF comparator_flip o b] \<open>c = a\<close> by simp
qed

lemma fetchAccounts_state:
  assumes "rp_accounts rp = Inr accountsList"
  shows "accounts (fetchAccounts rp s) = refresh_accounts accountsList (accounts s)"
    and "activeTraderKey (fetchAccounts rp s) =
      (case sort_accounts (map snd (refresh_accounts accountsList (accounts s))) of
         a # _ \<Rightarrow> Some (traderKey a) | [] \<Rightarrow> activeTraderKey s)"
  using assms by (simp_all add: fetchAccounts_def sortedAccounts_def setActiveTraderKey_def Let_def split: list.split)

lemma fetchAccounts_frame [simp]:
  "orders (fetchAccounts rp s) = orders s" "leases (fetchAccounts rp s) = leases s" "pool_sent (fetchAccounts rp s) = pool_sent s"
  by (simp_all add: fetchAccounts_def setActiveTraderKey_def Let_def split: sum.split list.split)

lemma fetchOrders_frame [simp]:
  "accounts (fetchOrders own rp s) = accounts s" "activeTraderKey (fetchOrders own rp s) = activeTraderKey s"
  "pool_sent (fetchOrders own rp s) = pool_sent s"
  by (simp_all add: fetchOrders_def fetchLeases_def split: sum.split prod.split)

lemma activeAccount_after_fetch:
  assumes "rp_accounts rp = Inr accountsList" and "keyed traderKey (accounts s)" and "[] \<notin> account_key ` set accountsList"
    and "s' = fetchAccounts rp s" "sortedAccounts s' = a # rest"
  shows "activeAccount s' = Inr a"
proof -
  note st = fetchAccounts_state [OF assms(1), of s, folded assms(4)]
  have k: "activeTraderKey s' = Some (traderKey a)" using assms(5) st by (simp add: sortedAccounts_def)
  have "keyed traderKey (accounts s')" using assms(2) st by (simp add: refresh_keyed)
  moreover have "a \<in> snd ` set (accounts s')"
    using assms(5) set_sort_accounts [of "map snd (accounts s')"] by (auto simp: sortedAccounts_def)
  ultimately have m: "map_of (accounts s') (traderKey a) = Some a" by (auto simp: keyed_def)
  have "dom (map_of (accounts s')) = account_key ` set accountsList"
    using account_list.keys_mirror [OF assms(2), of accountsList] st(1) by (simp add: list_all_iff)
  then have "traderKey a \<noteq> []" using m assms(3) by (metis domI)
  then show ?thesis using m k by (simp add: activeAccount_def)
qed

text \<open>
  C31. After every refresh the accounts are exactly those the daemon reports, and an open
  account with the largest balance is selected, if there is an open one, whatever the user
  had selected before. Without an account to show, the selection stays.
\<close>

theorem refresh_selects_richest_account:
  assumes "rp_accounts rp = Inr accountsList" and "keyed traderKey (accounts s)" and "[] \<notin> account_key ` set accountsList"
    and "s' = fetchAccounts rp s"
  shows "dom (map_of (accounts s')) = account_key ` set accountsList \<and>
    (case sortedAccounts s' of
       [] \<Rightarrow> activeTraderKey s' = activeTraderKey s
     | a # _ \<Rightarrow> activeAccount s' = Inr a \<and> activeAccount (fetchAccounts rp (s\<lparr>activeTraderKey := k\<rparr>)) = Inr a) \<and>
    (\<forall>b. map_of (accounts s') (traderKey b) = Some b \<longrightarrow> acct_state b = ACCT_OPEN \<longrightarrow>
      (\<exists>a. activeAccount s' = Inr a \<and> acct_state a = ACCT_OPEN \<and> totalBalance b \<le> totalBalance a))"
proof (intro conjI allI impI)
  note st = fetchAccounts_state [OF assms(1), of s, folded assms(4)]
  show "dom (map_of (accounts s')) = account_key ` set accountsList"
    using account_list.keys_mirror [OF assms(2), of accountsList] st(1) by (simp add: list_all_iff)
  let ?t = "fetchAccounts rp (s\<lparr>activeTraderKey := k\<rparr>)"
  have "sortedAccounts ?t = sortedAccounts s'" using st(1) by (simp add: sortedAccounts_def fetchAccounts_state [OF assms(1)])
  then show "case sortedAccounts s' of [] \<Rightarrow> activeTraderKey s' = activeTraderKey s
     | a # _ \<Rightarrow> activeAccount s' = Inr a \<and> activeAccount ?t = Inr a"
    using st activeAccount_after_fetch [OF assms] activeAccount_after_fetch [OF assms(1) _ assms(3) refl, of "s\<lparr>activeTraderKey := k\<rparr>"] assms(2)
    by (auto simp: sortedAccounts_def split: list.split)
  fix b assume b: "map_of (accounts s') (traderKey b) = Some b" "acct_state b = ACCT_OPEN"
  then have mem: "b \<in> set (map snd (accounts s'))" by (force dest: map_of_SomeD)
  then have "b \<in> set (sortedAccounts s')" using b(2) by (simp add: sortedAccounts_def set_sort_accounts)
  then obtain a rest where a: "sortedAccounts s' = a # rest" by (cases "sortedAccounts s'") auto
  then show "\<exists>a. activeAccount s' = Inr a \<and> acct_state a = ACCT_OPEN \<and> totalBalance b \<le> totalBalance a"
    using activeAccount_after_fetch [OF assms a] sort_accounts_head [of "map snd (accounts s')" a rest b] mem b(2)
    by (auto simp: sortedAccounts_def)
qed

section \<open>The collections stay well formed\<close>

definition pool_inv :: "string list \<Rightarrow> 'a app_pool_scheme \<Rightarrow> bool" where
  "pool_inv own s \<longleftrightarrow> keyed traderKey (accounts s) \<and> orders_ok own (orders s) \<and> keyed ls_channelPoint (leases s)"

text \<open>The reply names no order like a property of the map object.\<close>

definition replies_ok :: "string list \<Rightarrow> pool_replies \<Rightarrow> bool" where
  "replies_ok own rp \<longleftrightarrow>
     (case rp_orders rp of
        Inl _ \<Rightarrow> True | Inr (asks, bids) \<Rightarrow> list_all (\<lambda>e. order_key e \<notin> set own) (order_entries asks bids))"

inductive pool_step ::
    "(string \<Rightarrow> 'v option) \<Rightarrow> ('v \<Rightarrow> string \<Rightarrow> bool) \<Rightarrow> string list \<Rightarrow> 'a app_pool_scheme \<Rightarrow> 'a app_pool_scheme \<Rightarrow> bool"
  for coerce :: "string \<Rightarrow> 'v option" and sat :: "'v \<Rightarrow> string \<Rightarrow> bool" and own :: "string list" where
  fetches_accounts: "pool_step coerce sat own s (fetchAccounts rp s)"
| fetches_orders: "replies_ok own rp \<Longrightarrow> pool_step coerce sat own s (fetchOrders own rp s)"
| selects: "pool_step coerce sat own s (setActiveTraderKey k s)"
| creates: "pool_step coerce sat own s (snd (createAccount amt blocks target reply s))"
| closes: "pool_step coerce sat own s (snd (closeAccount rate dest txid rp s))"
| changes: "(case changed of Inr (_, Some p) \<Rightarrow> activeTraderKey s = Some (account_key p) | _ \<Rightarrow> True) \<Longrightarrow>
    pool_step coerce sat own s (snd (account_operation title request_for changed s))"
| submits: "replies_ok own rp \<Longrightarrow>
    pool_step coerce sat own s (snd (submitOrder coerce sat own type amt rateFixed duration units rate tier info answer rp s))"
| cancels: "replies_ok own rp \<Longrightarrow> pool_step coerce sat own s (cancelOrder own nonce ack rp s)"
| cancels_all: "replies_ok own rp \<Longrightarrow> pool_step coerce sat own s (snd (cancelAllOrders own answers rp s))"

lemma pool_inv_fields:
  "pool_inv own (handleError e t s) = pool_inv own s" "pool_inv own (pool_send r s) = pool_inv own s"
  "pool_inv own (s\<lparr>activeTraderKey := k\<rparr>) = pool_inv own s" "pool_inv own (setActiveTraderKey k' s) = pool_inv own s"
  "pool_inv own (start_call c s) = pool_inv own s"
  by (simp_all add: pool_inv_def setActiveTraderKey_def)

lemma fetchAccounts_inv: "pool_inv own s \<Longrightarrow> pool_inv own (fetchAccounts rp s)"
proof (cases "rp_accounts rp")
  case (Inl e)
  then show "pool_inv own s \<Longrightarrow> ?thesis" by (simp add: fetchAccounts_def pool_inv_fields)
qed (simp add: pool_inv_def fetchAccounts_state refresh_keyed)

lemma fetchLeases_inv: "pool_inv own s \<Longrightarrow> pool_inv own (fetchLeases r s)"
  by (cases r) (simp_all add: pool_inv_def fetchLeases_def refresh_keyed)

lemma fetchOrders_inv: "pool_inv own s \<Longrightarrow> replies_ok own rp \<Longrightarrow> pool_inv own (fetchOrders own rp s)"
  by (cases "rp_orders rp")
    (auto simp: fetchOrders_def replies_ok_def pool_inv_fields intro!: fetchLeases_inv, auto simp: pool_inv_def refresh_orders_ok)

lemma store_account_inv:
  "pool_inv own s \<Longrightarrow> m = accounts s \<Longrightarrow> account_key p = k \<Longrightarrow>
   pool_inv own (s\<lparr>accounts := AList.update k (Account_update p) m\<rparr>)"
  by (simp add: pool_inv_def keyed_update Account_update_def account_key_def)

lemma cancel_each_inv: "pool_inv own (snd (cancel_each answers os s)) = pool_inv own s"
  by (induction answers os s rule: cancel_each.induct) (simp_all add: Let_def pool_inv_fields split: sum.split)

lemmas pool_inv_intros = fetchAccounts_inv fetchOrders_inv store_account_inv

lemma pool_step_inv: "pool_step coerce sat own s t \<Longrightarrow> pool_inv own s \<Longrightarrow> pool_inv own t"
proof (induction rule: pool_step.induct)
  case (creates s amt blocks target reply)
  then show ?case by (auto simp: createAccount_def Let_def pool_inv_fields intro!: pool_inv_intros split: sum.split)
next
  case (closes s rate dest txid rp)
  then show ?case by (auto simp: closeAccount_def Let_def pool_inv_fields intro!: pool_inv_intros split: sum.split)
next
  case (changes changed s title request_for)
  then show ?case
    by (auto simp: account_operation_def Let_def pool_inv_fields intro!: pool_inv_intros split: sum.splits option.splits)
next
  case (submits rp s type amt rateFixed duration units rate tier info answer)
  then show ?case
    by (auto simp: submitOrder_def Let_def pool_inv_fields intro!: pool_inv_intros split: sum.splits option.splits)
next
  case (cancels rp s nonce ack)
  then show ?case by (auto simp: cancelOrder_def Let_def pool_inv_fields intro!: pool_inv_intros split: sum.splits)
next
  case (cancels_all rp s answers)
  then have "pool_inv own (snd (cancel_each answers (filter ord_isPending (sortedOrders s)) s))" by (simp add: cancel_each_inv)
  with cancels_all show ?case
    by (auto simp: cancelAllOrders_def intro!: pool_inv_intros split: sum.splits prod.splits)
qed (simp_all add: pool_inv_intros pool_inv_fields)


section \<open>The initial state and witnesses\<close>

definition initial_pool :: app_pool where
  "initial_pool = app_loop.extend initial_loop (app_pool.fields [] None False [] [] 0 0 [])"

lemma initial_pool_simps [simp]:
  "accounts initial_pool = []" "activeTraderKey initial_pool = None" "orders initial_pool = []" "leases initial_pool = []"
  "pool_sent initial_pool = []" "blockHeight initial_pool = 0"
  by (simp_all add: initial_pool_def app_loop.extend_def app_pool.fields_def initial_loop_def initial_shell_def
      app_settings.extend_def app_node.fields_def app_node.extend_def app_channels.extend_def app_channels.fields_def
      app_loop.fields_def)

text \<open>Two open accounts, the second the richer, with the keys 01 and 02.\<close>

definition demo_account :: "string \<Rightarrow> int \<Rightarrow> int \<Rightarrow> pool_account" where
  "demo_account k v st = \<lparr>pa_traderKey = k, pa_value = v, pa_availableBalance = v, pa_expirationHeight = 4000,
     pa_state = st, pa_latestTxid = []\<rparr>"

definition demo_order :: "string \<Rightarrow> pool_order" where
  "demo_order n = \<lparr>po_orderNonce = n, po_traderKey = ''AQ=='', po_amt = 100000, po_state = ORDER_SUBMITTED,
     po_rateFixed = 2480, po_maxBatchFeeRateSatPerKw = 253, po_units = 1, po_unitsUnfulfilled = 1,
     po_reservedValueSat = 0, po_creationTimestampNs = 1000\<rparr>"

definition demo_replies :: pool_replies where
  "demo_replies = \<lparr>rp_orders = Inr ([(demo_order ''AQ=='', 2016)], []),
     rp_leases = Inr \<lparr>lr_leases = [], lr_totalAmtEarnedSat = 0, lr_totalAmtPaidSat = 0\<rparr>,
     rp_accounts = Inr [demo_account ''AQ=='' 200000 ACCT_OPEN, demo_account ''Ag=='' 300000 ACCT_OPEN],
     rp_info = Inl (AppError ''offline'')\<rparr>"

text \<open>The user has selected the poorer account.\<close>

definition demo_pool :: app_pool where
  "demo_pool = setActiveTraderKey ''01'' (fetchOrders map_object_names demo_replies (fetchAccounts demo_replies initial_pool))"

lemma demo_keys [simp]:
  "account_key (demo_account ''AQ=='' v st) = ''01''" "account_key (demo_account ''Ag=='' v st) = ''02''"
  "hex ''AQ=='' False = ''01''"
  by code_simp+

lemma demo_refresh:
  "refresh_accounts [demo_account ''AQ=='' 200000 ACCT_OPEN, demo_account ''Ag=='' 300000 ACCT_OPEN] [] =
     [(''01'', Account_update (demo_account ''AQ=='' 200000 ACCT_OPEN)), (''02'', Account_update (demo_account ''Ag=='' 300000 ACCT_OPEN))]"
  by (simp add: refresh_accounts_def upsert_all_def drop_missing_def delete_all_def account_of_def)

lemma demo_account_fields [simp]:
  "acct_state (Account_update (demo_account k v st)) = st" "totalBalance (Account_update (demo_account k v st)) = of_int v"
  "traderKey (Account_update (demo_account k v st)) = account_key (demo_account k v st)"
  by (simp_all add: Account_update_def demo_account_def account_key_def)

lemma demo_sorted:
  "sort_accounts [Account_update (demo_account ''AQ=='' 200000 ACCT_OPEN), Account_update (demo_account ''Ag=='' 300000 ACCT_OPEN)] =
     [Account_update (demo_account ''Ag=='' 300000 ACCT_OPEN), Account_update (demo_account ''AQ=='' 200000 ACCT_OPEN)]"
  by (simp add: sort_accounts_def js_sort_def Let_def)

lemma demo_reply [simp]:
  "rp_accounts demo_replies = Inr [demo_account ''AQ=='' 200000 ACCT_OPEN, demo_account ''Ag=='' 300000 ACCT_OPEN]"
  "rp_orders demo_replies = Inr ([(demo_order ''AQ=='', 2016)], [])"
  by (simp_all add: demo_replies_def)

theorem refresh_selects_richest_account_witness:
  "activeAccount (fetchAccounts demo_replies (setActiveTraderKey ''01'' initial_pool)) =
     Inr (Account_update (demo_account ''Ag=='' 300000 ACCT_OPEN))"
proof -
  let ?s = "setActiveTraderKey ''01'' initial_pool"
  have "accounts ?s = []" by (simp add: setActiveTraderKey_def)
  then show ?thesis
    using refresh_selects_richest_account [of demo_replies _ ?s, OF demo_reply(1) _ _ refl]
    by (simp add: keyed_def sortedAccounts_def fetchAccounts_state demo_refresh demo_sorted)
qed



end
