(* ===== verification/Pool_Batches.thy ===== *)
theory Pool_Batches
  imports Pool_Stores
begin

text \<open>
  \<open>app/src/store/models/batch.ts\<close>, \<open>app/src/store/models/market.ts\<close> and
  \<open>app/src/store/stores/batchStore.ts\<close>: the past batches of the auction, grouped into one
  market per lease duration and fetched page by page. The answer of the daemon to
  \<open>batchSnapshots(count, startId)\<close> is the function \<open>snapshots\<close>.
\<close>

section \<open>Batches\<close>

record MatchedOrder =
  matchingRate :: int
  unitsMatched :: int
  totalSatsCleared :: Big
  mo_ask :: "int \<times> int"
  mo_bid :: "int \<times> int"

record Batch =
  batchId :: string
  prevBatchId :: string
  clearingPriceRate :: int
  batchTxId :: string
  batchTxFeeRateSatPerKw :: Big
  matchedOrders :: "MatchedOrder list"
  bt_leaseDuration :: int

text \<open>The reply: a match has the lease duration and the rate of its ask and its bid, if present.\<close>

record pool_match =
  px_matchingRate :: int
  px_unitsMatched :: int
  px_totalSatsCleared :: int
  px_ask :: "(int \<times> int) option"
  px_bid :: "(int \<times> int) option"

record pool_batch =
  pb_batchId :: string
  pb_prevBatchId :: string
  pb_batchTxId :: string
  pb_batchTxFeeRateSatPerKw :: int
  pb_matchedMarketsMap :: "(int \<times> int \<times> pool_match list) list"

definition new_MatchedOrder :: "pool_match \<Rightarrow> MatchedOrder" where
  "new_MatchedOrder p =
     \<lparr>matchingRate = px_matchingRate p, unitsMatched = px_unitsMatched p,
      totalSatsCleared = of_int (px_totalSatsCleared p), mo_ask = the (px_ask p), mo_bid = the (px_bid p)\<rparr>"

definition matched_of :: "pool_match list \<Rightarrow> MatchedOrder list" where
  "matched_of ps = map new_MatchedOrder (filter (\<lambda>p. px_ask p \<noteq> None \<and> px_bid p \<noteq> None) ps)"

definition Batch_update :: "pool_batch \<Rightarrow> Batch \<Rightarrow> Batch" where
  "Batch_update p b =
     foldl (\<lambda>b (duration, rate, ps).
              if duration = bt_leaseDuration b then b\<lparr>clearingPriceRate := rate, matchedOrders := matched_of ps\<rparr> else b)
       (b\<lparr>batchId := hex (pb_batchId p) False, prevBatchId := hex (pb_prevBatchId p) False,
          batchTxId := pb_batchTxId p, batchTxFeeRateSatPerKw := of_int (pb_batchTxFeeRateSatPerKw p)\<rparr>)
       (pb_matchedMarketsMap p)"

definition new_Batch :: "int \<Rightarrow> pool_batch \<Rightarrow> Batch" where
  "new_Batch duration p =
     Batch_update p \<lparr>batchId = [], prevBatchId = [], clearingPriceRate = 0, batchTxId = [],
       batchTxFeeRateSatPerKw = 0, matchedOrders = [], bt_leaseDuration = duration\<rparr>"

definition batchIdEllipsed :: "Batch \<Rightarrow> string" where
  "batchIdEllipsed b = ellipseInside (batchId b) 4 None"

definition batchTxIdEllipsed :: "Batch \<Rightarrow> string" where
  "batchTxIdEllipsed b = ellipseInside (batchTxId b) 4 None"

definition batchTxUrl :: "'a app_settings_scheme \<Rightarrow> Batch \<Rightarrow> string" where
  "batchTxUrl s b = getBitcoinTxUrl s (batchTxId b)"

definition volume :: "Batch \<Rightarrow> Big" where
  "volume b = foldl (\<lambda>total_sats ord. total_sats + totalSatsCleared ord) 0 (matchedOrders b)"

definition ordersCount :: "Batch \<Rightarrow> nat" where
  "ordersCount b = length (matchedOrders b)"

definition batch_earnedSats :: "big_lib \<Rightarrow> Batch \<Rightarrow> Big" where
  "batch_earnedSats B b = volume b * calcPctRate B (of_int (clearingPriceRate b)) (of_int (bt_leaseDuration b))"

definition feeInVBytes :: "big_lib \<Rightarrow> Batch \<Rightarrow> Big" where
  "feeInVBytes B b = satsPerKWeightToVByte B (batchTxFeeRateSatPerKw b)"

text \<open>\<open>big_text\<close> is \<open>Big.prototype.toString\<close>.\<close>

definition feeLabel :: "big_lib \<Rightarrow> (Big \<Rightarrow> string) \<Rightarrow> Batch \<Rightarrow> string" where
  "feeLabel B big_text b = big_text (big_round B (feeInVBytes B b) 0 roundHalfUp)"

definition feeDescription :: "big_lib \<Rightarrow> (Big \<Rightarrow> string) \<Rightarrow> Batch \<Rightarrow> string" where
  "feeDescription B big_text b =
     big_text (batchTxFeeRateSatPerKw b) @ '' sats/kw - '' @
     big_text (big_div B (big_round B (feeInVBytes B b * 100) 0 roundHalfUp) 100) @ '' sats/vbyte''"

definition basisPoints :: "big_lib \<Rightarrow> Batch \<Rightarrow> int" where
  "basisPoints B b =
     \<lceil>calcPctRate B (of_int (clearingPriceRate b)) (of_int (bt_leaseDuration b)) * 100 * 100\<rceil>"

text \<open>\<open>xs[xs.indexOf(x) + 1]\<close>: the first element when \<open>x\<close> does not occur.\<close>

fun after_first :: "'a \<Rightarrow> 'a list \<Rightarrow> 'a option" where
  "after_first x [] = None"
| "after_first x (y # ys) = (if x = y then (case ys of [] \<Rightarrow> None | z # _ \<Rightarrow> Some z) else after_first x ys)"

definition element_after :: "'a \<Rightarrow> 'a list \<Rightarrow> 'a option" where
  "element_after x xs =
     (if x \<in> set xs then after_first x xs else case xs of [] \<Rightarrow> None | y # _ \<Rightarrow> Some y)"

datatype BatchDelta = neutral | positive | negative

text \<open>\<open>shown\<close> is \<open>batchStore.sortedBatches\<close>.\<close>

definition delta :: "big_lib \<Rightarrow> Batch list \<Rightarrow> Batch \<Rightarrow> BatchDelta" where
  "delta B shown b =
     (case element_after b shown of
        None \<Rightarrow> neutral
      | Some prevBatch \<Rightarrow>
          if basisPoints B b > basisPoints B prevBatch then positive
          else if basisPoints B b < basisPoints B prevBatch then negative
          else neutral)"

text \<open>\<open>None\<close>: not a number, or infinite.\<close>

definition pctChange :: "big_lib \<Rightarrow> Batch list \<Rightarrow> Batch \<Rightarrow> rat option" where
  "pctChange B shown b =
     (let priorBps = (case element_after b shown of None \<Rightarrow> basisPoints B b | Some p \<Rightarrow> basisPoints B p)
      in if priorBps = 0 then None
         else Some (toPercent (of_int (basisPoints B b - priorBps) / of_int priorBps)))"

section \<open>Markets\<close>

record Market =
  mk_leaseDuration :: int
  mk_batches :: "(string \<times> Batch) list"
  orderedIds :: "string list"

definition new_Market :: "int \<Rightarrow> Market" where
  "new_Market duration = \<lparr>mk_leaseDuration = duration, mk_batches = [], orderedIds = []\<rparr>"

definition market_sortedBatches :: "Market \<Rightarrow> Batch list" where
  "market_sortedBatches k =
     filter (\<lambda>b. clearingPriceRate b > 0) (List.map_filter (\<lambda>i. map_of (mk_batches k) i) (orderedIds k))"

definition market_oldestBatch :: "Market \<Rightarrow> Batch option" where
  "market_oldestBatch k =
     (let bs = market_sortedBatches k in if bs = [] then None else Some (last bs))"

definition batch_key :: "pool_batch \<Rightarrow> string" where
  "batch_key p = hex (pb_batchId p) False"

definition Market_add :: "bool \<Rightarrow> pool_batch \<Rightarrow> Market \<Rightarrow> Market" where
  "Market_add appendToFront p k =
     (case map_of (mk_batches k) (batch_key p) of
        None \<Rightarrow>
          (let b = new_Batch (mk_leaseDuration k) p
           in k\<lparr>mk_batches := AList.update (batchId b) b (mk_batches k),
                orderedIds := (if appendToFront then batchId b # orderedIds k else orderedIds k @ [batchId b])\<rparr>)
      | Some existing \<Rightarrow> k\<lparr>mk_batches := AList.update (batch_key p) (Batch_update p existing) (mk_batches k)\<rparr>)"

definition Market_update :: "pool_batch list \<Rightarrow> bool \<Rightarrow> Market \<Rightarrow> Market" where
  "Market_update poolBatches appendToFront k = foldl (\<lambda>k p. Market_add appendToFront p k) k poolBatches"

section \<open>The store\<close>

record app_batches = app_pool +
  selectedLeaseDuration :: int
  leaseDurations :: "(int \<times> int) list"
  markets :: "(int \<times> Market) list"
  nextBatchTimestamp :: Big
  nextFeeRate :: rat
  nodeTier :: "int option"
  batches_loading :: bool
  nextBatchTimer :: "rat option"
  pollingInterval :: "nat option"

abbreviation (input) NO_MARKET :: int where "NO_MARKET \<equiv> 0"
abbreviation (input) MARKET_CLOSED :: int where "MARKET_CLOSED \<equiv> 1"
abbreviation (input) ACCEPTING_ORDERS :: int where "ACCEPTING_ORDERS \<equiv> 2"
abbreviation (input) MARKET_OPEN :: int where "MARKET_OPEN \<equiv> 3"

abbreviation (input) TIER_0 :: int where "TIER_0 \<equiv> 1"

definition BATCH_QUERY_LIMIT :: nat where "BATCH_QUERY_LIMIT = 20"
definition ZERO_BATCH_ID :: string where "ZERO_BATCH_ID = replicate 66 (CHR ''0'')"

definition activeMarket :: "'a app_batches_scheme \<Rightarrow> Market" where
  "activeMarket s =
     (case map_of (markets s) (selectedLeaseDuration s) of
        Some k \<Rightarrow> k
      | None \<Rightarrow> (case markets s of (_, k) # _ \<Rightarrow> k | [] \<Rightarrow> new_Market 0))"

definition sortedDurations :: "'a app_batches_scheme \<Rightarrow> (int \<times> int) list" where
  "sortedDurations s = js_sort (\<lambda>(d, _) (d', _). of_int (d - d')) (leaseDurations s)"

definition batches :: "'a app_batches_scheme \<Rightarrow> (string \<times> Batch) list" where
  "batches s = mk_batches (activeMarket s)"

definition sortedBatches :: "'a app_batches_scheme \<Rightarrow> Batch list" where
  "sortedBatches s = market_sortedBatches (activeMarket s)"

definition oldestBatch :: "'a app_batches_scheme \<Rightarrow> Batch option" where
  "oldestBatch s = market_oldestBatch (activeMarket s)"

definition hasMoreBatches :: "'a app_batches_scheme \<Rightarrow> bool" where
  "hasMoreBatches s =
     (case oldestBatch s of
        None \<Rightarrow> True
      | Some b \<Rightarrow> prevBatchId b \<noteq> [] \<and> prevBatchId b \<noteq> ZERO_BATCH_ID)"

definition pool_canFetchData :: "'a app_batches_scheme \<Rightarrow> bool" where
  "pool_canFetchData s \<longleftrightarrow> ss_running (ss_pool s) \<and> ss_error (ss_pool s) = []"

definition add_duration :: "int \<times> int \<Rightarrow> 'a app_batches_scheme \<Rightarrow> 'a app_batches_scheme" where
  "add_duration = (\<lambda>(duration, st) s.
     let s = s\<lparr>leaseDurations := AList.update duration st (leaseDurations s)\<rparr>;
         s = (if selectedLeaseDuration s = 0 then s\<lparr>selectedLeaseDuration := duration\<rparr> else s)
     in case map_of (markets s) duration of
          None \<Rightarrow> s\<lparr>markets := AList.update duration (new_Market duration) (markets s)\<rparr>
        | Some _ \<Rightarrow> s)"

definition fetchLeaseDurations :: "(int \<times> int) list api_result \<Rightarrow> 'a app_batches_scheme \<Rightarrow> 'a app_batches_scheme" where
  "fetchLeaseDurations res s =
     (case res of
        Inl e \<Rightarrow> handleError e ''Unable to fetch lease durations'' s
      | Inr buckets \<Rightarrow> foldl (\<lambda>s b. add_duration b s) s buckets)"

definition update_markets :: "pool_batch list \<Rightarrow> bool \<Rightarrow> 'a app_batches_scheme \<Rightarrow> 'a app_batches_scheme" where
  "update_markets bs front s = s\<lparr>markets := map (\<lambda>(d, k). (d, Market_update bs front k)) (markets s)\<rparr>"

definition fetchBatches ::
    "(int \<times> int) list api_result \<Rightarrow> (nat \<Rightarrow> string \<Rightarrow> pool_batch list api_result) \<Rightarrow> 'a app_batches_scheme
     \<Rightarrow> 'a app_batches_scheme" where
  "fetchBatches durations snapshots s =
     (if \<not> hasMoreBatches s then s
      else
        let prevId = (case oldestBatch s of None \<Rightarrow> [] | Some b \<Rightarrow> prevBatchId b);
            s = fetchLeaseDurations durations (s\<lparr>batches_loading := True\<rparr>)
        in case snapshots BATCH_QUERY_LIMIT prevId of
             Inl e \<Rightarrow>
               if error_message e \<noteq> ''batch snapshot not found''
               then handleError e (''Unable to fetch batch with id '' @ prevId) s else s
           | Inr batchesList \<Rightarrow> (update_markets batchesList False s)\<lparr>batches_loading := False\<rparr>)"

text \<open>\<open>nextBatchTimer\<close> is the time, in milliseconds, at which the timer asks for the latest batch.\<close>

definition setNextBatchTimestamp :: "Big \<Rightarrow> 'a app_batches_scheme \<Rightarrow> 'a app_batches_scheme" where
  "setNextBatchTimestamp timestamp s =
     (if nextBatchTimestamp s = timestamp then s
      else
        let ms = timestamp * 1000 - of_int (clock s);
            ms = (if ms < 0 then 10 * 60 * 1000 else ms)
        in s\<lparr>nextBatchTimestamp := timestamp, nextBatchTimer := Some (of_int (clock s) + (ms + 3000))\<rparr>)"

definition setNextFeeRate :: "big_lib \<Rightarrow> Big \<Rightarrow> 'a app_batches_scheme \<Rightarrow> 'a app_batches_scheme" where
  "setNextFeeRate B satsPerKWeight s =
     s\<lparr>nextFeeRate := big_round B (satsPerKWeightToVByte B satsPerKWeight) 0 roundUp\<rparr>"

text \<open>The reply: the timestamp of the next batch, and its fee rate in sats per kilo-weight.\<close>

definition fetchNextBatchInfo :: "big_lib \<Rightarrow> (int \<times> int) api_result \<Rightarrow> 'a app_batches_scheme \<Rightarrow> 'a app_batches_scheme" where
  "fetchNextBatchInfo B res s =
     (case res of
        Inl e \<Rightarrow> handleError e ''Unable to fetch the next batch info'' s
      | Inr (clearTimestamp, feeRateSatPerKw) \<Rightarrow>
          setNextFeeRate B (of_int feeRateSatPerKw) (setNextBatchTimestamp (of_int clearTimestamp) s))"

definition fetchLatestBatch ::
    "big_lib \<Rightarrow> (nat \<Rightarrow> string \<Rightarrow> pool_batch list api_result) \<Rightarrow> (int \<times> int) api_result \<Rightarrow> 'a app_batches_scheme
     \<Rightarrow> 'a app_batches_scheme" where
  "fetchLatestBatch B snapshots info s =
     (case snapshots 1 [] of
        Inl e \<Rightarrow>
          if error_message e = ''batch snapshot not found'' then s
          else handleError e ''Unable to fetch the latest batch'' s
      | Inr batchesList \<Rightarrow> update_markets batchesList True (fetchNextBatchInfo B info s))"

text \<open>The reply: keys and tiers of nodes.\<close>

definition fetchNodeTier :: "(string \<times> int) list api_result \<Rightarrow> 'a app_batches_scheme \<Rightarrow> 'a app_batches_scheme" where
  "fetchNodeTier res s =
     (case res of
        Inl e \<Rightarrow> handleError e ''Unable to fetch the node tier'' s
      | Inr ratings \<Rightarrow>
          s\<lparr>nodeTier := (case List.find (\<lambda>(key, _). hex key False = pubkey s) ratings of
                           Some (_, tier) \<Rightarrow> Some tier | None \<Rightarrow> Some TIER_0)\<rparr>)"

definition setActiveMarket :: "int \<Rightarrow> 'a app_batches_scheme \<Rightarrow> 'a app_batches_scheme" where
  "setActiveMarket duration s =
     (if map_of (leaseDurations s) duration \<in> {None, Some 0}
      then handleError (AppError (int_to_string duration @ '' is not a valid lease duration'')) ''Unable to switch markets'' s
      else s\<lparr>selectedLeaseDuration := duration\<rparr>)"

definition stopPolling :: "'a app_batches_scheme \<Rightarrow> 'a app_batches_scheme" where
  "stopPolling s = (case pollingInterval s of None \<Rightarrow> s | Some _ \<Rightarrow> s\<lparr>pollingInterval := None\<rparr>)"

definition startPolling :: "bool \<Rightarrow> bool \<Rightarrow> 'a app_batches_scheme \<Rightarrow> 'a app_batches_scheme" where
  "startPolling IS_TEST IS_DEV s =
     (if IS_TEST then s
      else
        let s = (if pollingInterval s \<noteq> None then stopPolling s else s)
        in s\<lparr>pollingInterval := Some ((if IS_DEV then 15 else 60) * 1000)\<rparr>)"

text \<open>What the polling timer does each time.\<close>

definition poll ::
    "big_lib \<Rightarrow> string list \<Rightarrow> (nat \<Rightarrow> string \<Rightarrow> pool_batch list api_result) \<Rightarrow> (int \<times> int) api_result \<Rightarrow> pool_replies
     \<Rightarrow> 'a app_batches_scheme \<Rightarrow> 'a app_batches_scheme" where
  "poll B own snapshots info rp s = fetchOrders own rp (fetchAccounts rp (fetchLatestBatch B snapshots info s))"

text \<open>\<open>init\<close>: whether the reaction that fetches the node's tier runs.\<close>

definition tier_wanted :: "'a app_batches_scheme \<Rightarrow> bool" where
  "tier_wanted s \<longleftrightarrow> pool_canFetchData s \<and> pubkey s \<noteq> [] \<and> nodeTier s \<in> {None, Some 0}"

section \<open>Pages of the history\<close>

text \<open>
  The history of the auction, newest batch first: ids are distinct, every batch names the one
  before it, and the first batch of all names none.
\<close>

definition prev_key :: "pool_batch \<Rightarrow> string" where
  "prev_key p = hex (pb_prevBatchId p) False"

definition history :: "pool_batch list \<Rightarrow> bool" where
  "history hs \<longleftrightarrow> distinct (map batch_key hs) \<and>
     (\<forall>i. Suc i < length hs \<longrightarrow> prev_key (hs ! i) = batch_key (hs ! Suc i)) \<and>
     (hs \<noteq> [] \<longrightarrow> prev_key (last hs) \<in> {[], ZERO_BATCH_ID}) \<and>
     (\<forall>p \<in> set hs. batch_key p \<notin> {[], ZERO_BATCH_ID})"

text \<open>What \<open>BatchSnapshots\<close> documents: so many batches back, from the given or the newest one.\<close>

definition serves :: "pool_batch list \<Rightarrow> (nat \<Rightarrow> string \<Rightarrow> pool_batch list api_result) \<Rightarrow> bool" where
  "serves hs snapshots \<longleftrightarrow> (\<forall>n. snapshots n [] = Inr (take n hs)) \<and>
     (\<forall>n j. j < length hs \<longrightarrow> snapshots n (batch_key (hs ! j)) = Inr (take n (drop j hs)))"

text \<open>The market shows the newest \<open>k\<close> batches of the history.\<close>

definition displays :: "pool_batch list \<Rightarrow> nat \<Rightarrow> Market \<Rightarrow> bool" where
  "displays hs k mk \<longleftrightarrow> k \<le> length hs \<and> orderedIds mk = map batch_key (take k hs) \<and>
     (\<forall>i. map_of (mk_batches mk) i = map_of (map (\<lambda>p. (batch_key p, new_Batch (mk_leaseDuration mk) p)) (take k hs)) i)"

definition nonempty :: "int \<Rightarrow> pool_batch \<Rightarrow> bool" where
  "nonempty d p \<longleftrightarrow> clearingPriceRate (new_Batch d p) > 0"

text \<open>How many batches there are up to the oldest one that is not empty.\<close>

definition reach :: "int \<Rightarrow> pool_batch list \<Rightarrow> nat" where
  "reach d ps = length (dropWhile (\<lambda>p. \<not> nonempty d p) (rev ps))"

lemma Batch_update_entry:
  "Batch_update p b =
    (let b = b\<lparr>batchId := batch_key p, prevBatchId := prev_key p, batchTxId := pb_batchTxId p,
               batchTxFeeRateSatPerKw := of_int (pb_batchTxFeeRateSatPerKw p)\<rparr>
     in case map_of (rev (pb_matchedMarketsMap p)) (bt_leaseDuration b) of
          None \<Rightarrow> b | Some (rate, ps) \<Rightarrow> b\<lparr>clearingPriceRate := rate, matchedOrders := matched_of ps\<rparr>)"
proof -
  have "foldl (\<lambda>b (duration, rate, ps). if duration = bt_leaseDuration b then b\<lparr>clearingPriceRate := rate, matchedOrders := matched_of ps\<rparr> else b) b ms =
    (case map_of (rev ms) (bt_leaseDuration b) of
       None \<Rightarrow> b | Some (rate, ps) \<Rightarrow> b\<lparr>clearingPriceRate := rate, matchedOrders := matched_of ps\<rparr>)" for b :: Batch and ms
    by (induction ms rule: rev_induct) (auto split: option.split)
  then show ?thesis by (simp add: Batch_update_def Let_def batch_key_def prev_key_def)
qed

lemma new_Batch_fields [simp]:
  "batchId (new_Batch d p) = batch_key p" "prevBatchId (new_Batch d p) = prev_key p" "bt_leaseDuration (new_Batch d p) = d"
  by (simp_all add: new_Batch_def Batch_update_entry Let_def split: option.split)

lemma Batch_update_again [simp]: "Batch_update p (new_Batch d p) = new_Batch d p"
  by (simp add: new_Batch_def Batch_update_entry Let_def split: option.split)

lemma Market_add_duration [simp]: "mk_leaseDuration (Market_add front p mk) = mk_leaseDuration mk"
  by (simp add: Market_add_def Let_def split: option.split)

lemma Market_update_duration [simp]: "mk_leaseDuration (Market_update ps front mk) = mk_leaseDuration mk"
  by (induction ps arbitrary: mk) (simp_all add: Market_update_def)

lemma displays_lookup:
  assumes "history hs" "displays hs k mk" "p \<in> set hs"
  shows "map_of (mk_batches mk) (batch_key p) = (if p \<in> set (take k hs) then Some (new_Batch (mk_leaseDuration mk) p) else None)"
proof -
  let ?f = "\<lambda>p. (batch_key p, new_Batch (mk_leaseDuration mk) p)"
  have i: "inj_on batch_key (set hs)" using assms(1) by (simp add: history_def distinct_map)
  have d: "distinct (map fst (map ?f (take k hs)))"
    using assms(1) by (simp add: history_def comp_def take_map [symmetric] distinct_map_filter)
  have m: "map_of (mk_batches mk) (batch_key p) = map_of (map ?f (take k hs)) (batch_key p)"
    using assms(2) by (simp add: displays_def)
  show ?thesis
  proof (cases "p \<in> set (take k hs)")
    case True
    then have "(batch_key p, new_Batch (mk_leaseDuration mk) p) \<in> set (map ?f (take k hs))" by auto
    then show ?thesis using True m d by (metis map_of_eq_Some_iff)
  next
    case False
    have "batch_key p \<notin> batch_key ` set (take k hs)"
      using False i assms(3) inj_on_image_mem_iff [OF i assms(3), of "set (take k hs)"] by (auto dest: in_set_takeD)
    then have "batch_key p \<notin> fst ` set (map ?f (take k hs))" by force
    then show ?thesis using False m by (simp add: map_of_eq_None_iff del: set_map)
  qed
qed

lemma displays_add_known:
  assumes "history hs" "displays hs k mk" "p \<in> set (take k hs)"
  shows "displays hs k (Market_add front p mk)"
proof -
  have l: "map_of (mk_batches mk) (batch_key p) = Some (new_Batch (mk_leaseDuration mk) p)"
    using displays_lookup [OF assms(1,2) in_set_takeD [OF assms(3)]] assms(3) by simp
  then have "map_of (mk_batches (Market_add front p mk)) i = map_of (mk_batches mk) i" for i
    by (simp add: Market_add_def update_conv')
  then show ?thesis using assms(2) l by (simp add: displays_def Market_add_def)
qed

lemma displays_add_next:
  assumes "history hs" "displays hs k mk" "k < length hs"
  shows "displays hs (Suc k) (Market_add False (hs ! k) mk)"
proof -
  have "hs ! k \<notin> set (take k hs)"
    using assms(1,3) by (auto simp: history_def distinct_map in_set_conv_nth nth_eq_iff_index_eq)
  then have l: "map_of (mk_batches mk) (batch_key (hs ! k)) = None"
    using displays_lookup [OF assms(1,2), of "hs ! k"] assms(3) by simp
  have "map_of (map (\<lambda>p. (batch_key p, new_Batch (mk_leaseDuration mk) p)) (take k hs)) (batch_key (hs ! k)) = None"
    using l assms(2) by (simp add: displays_def)
  then show ?thesis
    using assms(2,3) l by (auto simp: displays_def Market_add_def Let_def take_Suc_conv_app_nth update_conv' map_add_def split: option.split)
qed

lemma displays_page:
  assumes "history hs" "displays hs k mk" "j \<le> k" "drop j hs = ps @ rest"
  shows "displays hs (max k (j + length ps)) (Market_update ps False mk)"
  using assms(2-)
proof (induction ps arbitrary: j k mk)
  case Nil
  then show ?case by (simp add: Market_update_def max_def)
next
  case (Cons p ps)
  have "j < length hs" using Cons.prems(3) by (cases "j < length hs") simp_all
  then have j: "j < length hs" "hs ! j = p" "drop (Suc j) hs = ps @ rest"
    using Cons.prems(3) Cons_nth_drop_Suc [of j hs] by simp_all
  define k' where "k' = (if j < k then k else Suc k)"
  have "displays hs k' (Market_add False p mk)"
  proof (cases "j < k")
    case True
    then have "p \<in> set (take k hs)" using j by (auto simp: in_set_conv_nth)
    then show ?thesis using displays_add_known [OF assms(1) Cons.prems(1)] True by (simp add: k'_def)
  next
    case False
    then have "j = k" using Cons.prems(2) by simp
    then show ?thesis using displays_add_next [OF assms(1) Cons.prems(1)] j by (simp add: k'_def)
  qed
  moreover have "Suc j \<le> k'" using Cons.prems(2) by (simp add: k'_def)
  ultimately have "displays hs (max k' (Suc j + length ps)) (Market_update ps False (Market_add False p mk))" using Cons.IH j(3) by blast
  moreover have "max k' (Suc j + length ps) = max k (j + length (p # ps))" using Cons.prems(2) by (auto simp: k'_def)
  ultimately show ?case by (simp add: Market_update_def)
qed

lemma displays_sorted:
  assumes "history hs" "displays hs k mk"
  shows "market_sortedBatches mk = filter (\<lambda>b. clearingPriceRate b > 0) (map (new_Batch (mk_leaseDuration mk)) (take k hs))"
proof -
  have "map (\<lambda>p. map_of (mk_batches mk) (batch_key p)) (take k hs) = map (\<lambda>p. Some (new_Batch (mk_leaseDuration mk) p)) (take k hs)"
    by (rule map_cong) (simp_all add: displays_lookup [OF assms in_set_takeD])
  then have "List.map_filter (\<lambda>i. map_of (mk_batches mk) i) (map batch_key (take k hs)) = map (new_Batch (mk_leaseDuration mk)) (take k hs)"
    by (induction "take k hs" arbitrary: hs k) (auto simp: List.map_filter_def comp_def)
  then show ?thesis using assms(2) by (simp add: market_sortedBatches_def displays_def)
qed

lemma last_filter:
  "filter P xs \<noteq> [] \<Longrightarrow> last (filter P xs) = xs ! (length (dropWhile (\<lambda>x. \<not> P x) (rev xs)) - 1)"
proof (induction xs rule: rev_induct)
  case (snoc x xs)
  show ?case
  proof (cases "P x")
    case False
    then have "filter P xs \<noteq> []" using snoc.prems by simp
    moreover from this have "dropWhile (\<lambda>x. \<not> P x) (rev xs) \<noteq> []" by (auto simp: filter_empty_conv)
    then have "length (dropWhile (\<lambda>x. \<not> P x) (rev xs)) - 1 < length xs"
      using length_dropWhile_le [of "\<lambda>x. \<not> P x" "rev xs"] by (cases "dropWhile (\<lambda>x. \<not> P x) (rev xs)") auto
    ultimately show ?thesis using snoc.IH False by (simp add: nth_append)
  qed simp
qed simp

lemma reach_le: "reach d ps \<le> length ps"
  using length_dropWhile_le [of "\<lambda>p. \<not> nonempty d p" "rev ps"] by (simp add: reach_def)

text \<open>The oldest batch shown is the last one within reach, so its predecessor starts the next page.\<close>

lemma oldest_at_reach:
  assumes "history hs" "displays hs k mk"
  defines "r \<equiv> reach (mk_leaseDuration mk) (take k hs)"
  shows "market_oldestBatch mk = (if r = 0 then None else Some (new_Batch (mk_leaseDuration mk) (hs ! (r - 1))))"
proof -
  let ?d = "mk_leaseDuration mk"
  let ?ps = "filter (nonempty ?d) (take k hs)"
  have s: "market_sortedBatches mk = map (new_Batch ?d) ?ps"
    unfolding displays_sorted [OF assms(1,2)] by (simp add: filter_map comp_def nonempty_def [abs_def])
  have e: "r = 0 \<longleftrightarrow> ?ps = []" by (auto simp: r_def reach_def filter_empty_conv)
  show ?thesis
  proof (cases "?ps = []")
    case False
    have "0 < r" "r \<le> k" using e False reach_le [of ?d "take k hs"] by (auto simp: r_def)
    moreover have "last ?ps = take k hs ! (r - 1)" using last_filter [OF False] by (simp add: r_def reach_def)
    ultimately have "last ?ps = hs ! (r - 1)" by simp
    then show ?thesis using False e by (simp add: market_oldestBatch_def s Let_def last_map)
  qed (use e in \<open>simp add: market_oldestBatch_def s Let_def\<close>)
qed

text \<open>The request that \<open>fetchBatches\<close> makes, and whether it makes one.\<close>

lemma next_page:
  assumes "history hs" "serves hs snapshots" "displays hs k (activeMarket s)"
  defines "r \<equiv> reach (mk_leaseDuration (activeMarket s)) (take k hs)"
  shows "hasMoreBatches s \<longleftrightarrow> r = 0 \<or> r < length hs"
    and "hasMoreBatches s \<Longrightarrow> snapshots n (case oldestBatch s of None \<Rightarrow> [] | Some b \<Rightarrow> prevBatchId b) = Inr (take n (drop r hs))"
proof -
  have o: "oldestBatch s = (if r = 0 then None else Some (new_Batch (mk_leaseDuration (activeMarket s)) (hs ! (r - 1))))"
    unfolding oldestBatch_def r_def by (rule oldest_at_reach [OF assms(1,3)])
  have "r \<le> k" "k \<le> length hs" using reach_le [of _ "take k hs"] assms(3) by (auto simp: r_def displays_def intro: order_trans)
  then have r: "r \<le> length hs" by simp
  have link: "prev_key (hs ! (r - 1)) = batch_key (hs ! r) \<and> batch_key (hs ! r) \<notin> {[], ZERO_BATCH_ID}" if "0 < r" "r < length hs"
    using assms(1) that by (auto simp: history_def dest: spec [of _ "r - 1"])
  have stop: "prev_key (hs ! (r - 1)) \<in> {[], ZERO_BATCH_ID}" if "0 < r" "r = length hs"
    using assms(1) that by (auto simp: history_def last_conv_nth)
  show h: "hasMoreBatches s \<longleftrightarrow> r = 0 \<or> r < length hs"
    using o r link stop by (cases "r = length hs") (auto simp: hasMoreBatches_def)
  show "snapshots n (case oldestBatch s of None \<Rightarrow> [] | Some b \<Rightarrow> prevBatchId b) = Inr (take n (drop r hs))" if "hasMoreBatches s"
    using that h o link assms(2) by (cases "r = 0") (auto simp: serves_def)
qed

lemma add_duration_fields:
  "map_of (markets s) d = Some mk \<Longrightarrow> map_of (markets (add_duration b s)) d = Some mk"
  "selectedLeaseDuration s \<noteq> 0 \<Longrightarrow> selectedLeaseDuration (add_duration b s) = selectedLeaseDuration s"
  by (auto simp: add_duration_def Let_def update_conv' split: prod.split option.split)

lemma fetchLeaseDurations_keeps:
  "map_of (markets s) d = Some mk \<Longrightarrow> map_of (markets (fetchLeaseDurations res s)) d = Some mk"
  "selectedLeaseDuration s \<noteq> 0 \<Longrightarrow> selectedLeaseDuration (fetchLeaseDurations res s) = selectedLeaseDuration s"
proof -
  have "map_of (markets s) d = Some mk \<Longrightarrow> map_of (markets (foldl (\<lambda>s b. add_duration b s) s bs)) d = Some mk" for bs
    by (induction bs arbitrary: s) (simp_all add: add_duration_fields)
  then show "map_of (markets s) d = Some mk \<Longrightarrow> map_of (markets (fetchLeaseDurations res s)) d = Some mk"
    by (cases res) (simp_all add: fetchLeaseDurations_def handleError_def notify_def Let_def split: app_error.split)
  have "selectedLeaseDuration s \<noteq> 0 \<Longrightarrow> selectedLeaseDuration (foldl (\<lambda>s b. add_duration b s) s bs) = selectedLeaseDuration s" for bs
    by (induction bs arbitrary: s) (simp_all add: add_duration_fields)
  then show "selectedLeaseDuration s \<noteq> 0 \<Longrightarrow> selectedLeaseDuration (fetchLeaseDurations res s) = selectedLeaseDuration s"
    by (cases res) (simp_all add: fetchLeaseDurations_def handleError_def notify_def Let_def split: app_error.split)
qed

lemma map_of_update_markets: "map_of (markets (update_markets ps front s)) d = map_option (Market_update ps front) (map_of (markets s) d)"
  by (simp add: update_markets_def map_of_map)

text \<open>The market of the selected duration shows the newest \<open>k\<close> batches.\<close>

definition viewing :: "pool_batch list \<Rightarrow> int \<Rightarrow> nat \<Rightarrow> 'a app_batches_scheme \<Rightarrow> bool" where
  "viewing hs d k s \<longleftrightarrow> selectedLeaseDuration s = d \<and> d \<noteq> 0 \<and> mk_leaseDuration (activeMarket s) = d \<and>
     map_of (markets s) d = Some (activeMarket s) \<and> displays hs k (activeMarket s)"

lemma viewing_intro:
  "selectedLeaseDuration s = d \<Longrightarrow> d \<noteq> 0 \<Longrightarrow> map_of (markets s) d = Some mk \<Longrightarrow> mk_leaseDuration mk = d \<Longrightarrow> displays hs k mk \<Longrightarrow> viewing hs d k s"
  by (simp add: viewing_def activeMarket_def)

lemma fetchBatches_page:
  assumes "history hs" "serves hs snapshots" "viewing hs d k s" "hasMoreBatches s"
  defines "k' \<equiv> max k (min (length hs) (reach d (take k hs) + BATCH_QUERY_LIMIT))"
  shows "viewing hs d k' (fetchBatches durations snapshots s)" "batches_loading (fetchBatches durations snapshots s) = False"
proof -
  let ?r = "reach d (take k hs)"
  let ?ps = "take BATCH_QUERY_LIMIT (drop ?r hs)"
  let ?mk = "activeMarket s"
  have v: "selectedLeaseDuration s = d" "d \<noteq> 0" "mk_leaseDuration ?mk = d" "map_of (markets s) d = Some ?mk" "displays hs k ?mk"
    using assms(3) by (simp_all add: viewing_def)
  have pg: "snapshots BATCH_QUERY_LIMIT (case oldestBatch s of None \<Rightarrow> [] | Some b \<Rightarrow> prevBatchId b) = Inr ?ps"
    using next_page(2) [OF assms(1,2) v(5) assms(4)] v(3) by simp
  define t where "t = fetchLeaseDurations durations (s\<lparr>batches_loading := True\<rparr>)"
  have f: "fetchBatches durations snapshots s = (update_markets ?ps False t)\<lparr>batches_loading := False\<rparr>"
    using assms(4) pg by (simp add: fetchBatches_def Let_def t_def)
  have r: "?r \<le> k" "k \<le> length hs" using reach_le [of d "take k hs"] v(5) by (auto simp: displays_def)
  have "displays hs (max k (?r + length ?ps)) (Market_update ?ps False ?mk)"
    using displays_page [OF assms(1) v(5) r(1), of ?ps "drop BATCH_QUERY_LIMIT (drop ?r hs)"] by (simp only: append_take_drop_id)
  moreover have "max k (?r + length ?ps) = k'" using r by (auto simp: k'_def)
  moreover have "map_of (markets (fetchBatches durations snapshots s)) d = Some (Market_update ?ps False ?mk)"
    using fetchLeaseDurations_keeps(1) [of "s\<lparr>batches_loading := True\<rparr>" d ?mk durations] v(4)
    by (simp add: f map_of_update_markets t_def)
  moreover have "selectedLeaseDuration (fetchBatches durations snapshots s) = d"
    using fetchLeaseDurations_keeps(2) [of "s\<lparr>batches_loading := True\<rparr>" durations] v(1,2) by (simp add: f update_markets_def t_def)
  ultimately show "viewing hs d k' (fetchBatches durations snapshots s)" using v(2,3) by (intro viewing_intro) simp_all
  show "batches_loading (fetchBatches durations snapshots s) = False" by (simp add: f)
qed

lemma fetchBatches_done: "\<not> hasMoreBatches s \<Longrightarrow> fetchBatches durations snapshots s = s"
  by (simp add: fetchBatches_def)


text \<open>
  Paging stops at a page without a trade: when the last twenty batches fetched are empty
  for the market on display, every further request fetches the same page again. However often
  the user asks, no older batch appears, although the store still reports that there are more.
\<close>

lemma empty_page_stalls_history:
  assumes "history hs" "serves hs snapshots" "viewing hs d k s"
    and "reach d (take k hs) + BATCH_QUERY_LIMIT \<le> k" and "reach d (take k hs) < length hs"
  shows "viewing hs d k ((fetchBatches durations snapshots ^^ n) s) \<and> hasMoreBatches ((fetchBatches durations snapshots ^^ n) s)"
proof (induction n)
  case 0
  then show ?case using next_page(1) [OF assms(1,2), of k s] assms(3,5) by (simp add: viewing_def)
next
  case (Suc n)
  let ?t = "(fetchBatches durations snapshots ^^ n) s"
  have "max k (min (length hs) (reach d (take k hs) + BATCH_QUERY_LIMIT)) = k" using assms(4) by simp
  then have v: "viewing hs d k (fetchBatches durations snapshots ?t)" using fetchBatches_page(1) [OF assms(1,2), of d k ?t durations] Suc.IH by simp
  then show ?case using next_page(1) [OF assms(1,2), of k "fetchBatches durations snapshots ?t"] assms(5) by (simp add: viewing_def)
qed

section \<open>A history of 22 batches with one trade\<close>

definition initial_batches :: app_batches where
  "initial_batches = app_pool.extend initial_pool (app_batches.fields 0 [] [] 0 0 None True None None)"

definition demo_batch :: "nat \<Rightarrow> pool_batch" where
  "demo_batch n = \<lparr>pb_batchId = base64_encode [of_nat n], pb_prevBatchId = (if n = 1 then [] else base64_encode [of_nat (n - 1)]),
     pb_batchTxId = [], pb_batchTxFeeRateSatPerKw = 253, pb_matchedMarketsMap = (if n = 22 then [(2016, 2480, [])] else [])\<rparr>"

definition demo_history :: "pool_batch list" where
  "demo_history = map demo_batch [22, 21, 20, 19, 18, 17, 16, 15, 14, 13, 12, 11, 10, 9, 8, 7, 6, 5, 4, 3, 2, 1]"

definition demo_snapshots :: "nat \<Rightarrow> string \<Rightarrow> pool_batch list api_result" where
  "demo_snapshots n i = Inr (take n (if i = [] then demo_history else dropWhile (\<lambda>p. batch_key p \<noteq> i) demo_history))"

lemma history_by_keys:
  assumes "distinct (map batch_key hs)" "map prev_key hs = tl (map batch_key hs) @ [z]" "z \<in> {[], ZERO_BATCH_ID}"
    and "list_all (\<lambda>k. k \<notin> {[], ZERO_BATCH_ID}) (map batch_key hs)"
  shows "history hs"
proof -
  have "prev_key (hs ! i) = batch_key (hs ! Suc i)" if "Suc i < length hs" for i
    using arg_cong [OF assms(2), of "\<lambda>xs. xs ! i"] that less_diff_conv [of i "length hs" 1] by (simp add: nth_append nth_tl)
  moreover have "prev_key (last hs) = z" if "hs \<noteq> []"
    using arg_cong [OF assms(2), of last] that by (simp add: last_map)
  ultimately show ?thesis using assms(1,3,4) by (auto simp: history_def list_all_iff)
qed

lemma dropWhile_at_key:
  "distinct (map f xs) \<Longrightarrow> j < length xs \<Longrightarrow> dropWhile (\<lambda>p. f p \<noteq> f (xs ! j)) xs = drop j xs"
proof (induction xs arbitrary: j)
  case (Cons x xs)
  then show ?case by (cases j) auto
qed simp

lemma demo_keys_hex:
  "map batch_key demo_history = [''16'', ''15'', ''14'', ''13'', ''12'', ''11'', ''10'', ''0f'', ''0e'', ''0d'', ''0c'', ''0b'',
     ''0a'', ''09'', ''08'', ''07'', ''06'', ''05'', ''04'', ''03'', ''02'', ''01'']"
  by code_simp

lemma demo_prev: "prev_key (demo_batch n) = (if n = 1 then [] else batch_key (demo_batch (n - 1)))"
proof -
  have "hex [] False = []" by code_simp
  then show ?thesis by (simp add: prev_key_def batch_key_def demo_batch_def)
qed

lemma demo_prev_hex: "map prev_key demo_history = tl (map batch_key demo_history) @ [[]]"
  by (simp add: demo_history_def demo_prev)

lemma demo_history_ok: "history demo_history"
  by (rule history_by_keys [OF _ demo_prev_hex]) (simp_all add: demo_keys_hex ZERO_BATCH_ID_def numeral_eq_Suc)

lemma demo_serves: "serves demo_history demo_snapshots"
proof -
  have d: "distinct (map batch_key demo_history)" and n: "\<forall>p \<in> set demo_history. batch_key p \<noteq> []"
    using demo_history_ok by (auto simp: history_def)
  then show ?thesis by (auto simp: serves_def demo_snapshots_def dropWhile_at_key)
qed

lemma demo_nonempty: "nonempty 2016 (demo_batch n) \<longleftrightarrow> n = 22"
  by (simp add: nonempty_def new_Batch_def Batch_update_def demo_batch_def)

lemma demo_reach:
  "length demo_history = 22" "reach 2016 (take 20 demo_history) = 1" "reach 2016 (take 21 demo_history) = 1"
  by (simp_all add: demo_history_def reach_def demo_nonempty)

definition demo_view :: app_batches where
  "demo_view = fetchLeaseDurations (Inr [(2016, MARKET_OPEN)]) initial_batches"

lemma demo_view_ok: "viewing demo_history 2016 0 demo_view" "hasMoreBatches demo_view"
proof -
  have "markets demo_view = [(2016, new_Market 2016)]" "selectedLeaseDuration demo_view = 2016"
    by (simp_all add: demo_view_def fetchLeaseDurations_def add_duration_def initial_batches_def app_pool.extend_def
        app_batches.fields_def)
  then show v: "viewing demo_history 2016 0 demo_view"
    by (intro viewing_intro [of _ _ "new_Market 2016"]) (simp_all add: new_Market_def displays_def)
  then show "hasMoreBatches demo_view"
    using next_page(1) [OF demo_history_ok demo_serves, of 0 demo_view] by (simp add: viewing_def reach_def)
qed


lemma demo_two_pages: "viewing demo_history 2016 21 (fetchBatches (Inr []) demo_snapshots (fetchBatches (Inr []) demo_snapshots demo_view))"
proof -
  let ?s = "fetchBatches (Inr []) demo_snapshots demo_view"
  have v: "viewing demo_history 2016 20 ?s"
    using fetchBatches_page(1) [OF demo_history_ok demo_serves demo_view_ok, of "Inr []"] by (simp add: reach_def demo_reach BATCH_QUERY_LIMIT_def)
  have "hasMoreBatches ?s"
    using next_page(1) [OF demo_history_ok demo_serves, of 20 ?s] v by (simp add: viewing_def demo_reach)
  from fetchBatches_page(1) [OF demo_history_ok demo_serves v this, of "Inr []"]
  show ?thesis by (simp add: demo_reach BATCH_QUERY_LIMIT_def)
qed

lemma empty_page_stalls_history_witness:
  "viewing demo_history 2016 21 ((fetchBatches (Inr []) demo_snapshots ^^ 100)
     (fetchBatches (Inr []) demo_snapshots (fetchBatches (Inr []) demo_snapshots demo_view))) \<and> length demo_history = 22"
  using empty_page_stalls_history [OF demo_history_ok demo_serves demo_two_pages, of 100 "Inr []"]
  by (simp add: demo_reach BATCH_QUERY_LIMIT_def)

end
