(* ===== verification/Pool_Forms.thy ===== *)
theory Pool_Forms
  imports Pool_Batches
begin

text \<open>
  The forms of the Pool page: \<open>app/src/store/views/orderFormView.ts\<close>,
  \<open>accountSectionView.ts\<close>, \<open>fundNewAccountView.ts\<close>, \<open>fundAccountView.ts\<close>,
  \<open>closeAccountView.ts\<close> and \<open>renewAccountView.ts\<close>. An error text is \<open>None\<close> when the code
  returns the empty string; labels from the translation files are their keys. An operation
  that can be rejected returns its outcome together with the state.
\<close>

section \<open>State\<close>

record app_forms = app_batches +
  of_orderType :: OrderType
  of_amount :: Big
  of_premium :: Big
  of_duration :: rat
  of_addlOptionsVisible :: bool
  of_executionFee :: Big
  of_worstChainFee :: Big
  of_quoteLoading :: bool
  of_quoteScheduled :: bool
  form_section :: string
  fn_amount :: Big
  fn_confTarget :: rat
  fn_expireBlocks :: rat
  fn_minerFee :: Big
  fn_loading :: bool
  fa_amount :: rat
  fa_satsPerVbyte :: rat
  fa_loading :: bool
  ca_destination :: string
  ca_satsPerVbyte :: rat
  ca_loading :: bool
  ra_expiryBlocks :: rat
  ra_satsPerVbyte :: rat
  ra_loading :: bool

text \<open>A step that may throw, and what follows it.\<close>

definition then_do :: "'a api_result \<times> 's \<Rightarrow> ('a \<Rightarrow> 's \<Rightarrow> 'b api_result \<times> 's) \<Rightarrow> 'b api_result \<times> 's" where
  "then_do r k = (case r of (Inl e, s) \<Rightarrow> (Inl e, s) | (Inr x, s) \<Rightarrow> k x s)"

definition thrown :: "'a result \<Rightarrow> 'a api_result" where
  "thrown r = (case r of Inl (Error msg) \<Rightarrow> Inl (AppError msg) | Inr x \<Rightarrow> Inr x)"

text \<open>The truth value of an optional text.\<close>

definition given :: "string option \<Rightarrow> bool" where
  "given t \<longleftrightarrow> t \<noteq> None \<and> t \<noteq> Some []"

text \<open>The remainder, with the sign of the dividend.\<close>

definition js_rem :: "rat \<Rightarrow> rat \<Rightarrow> rat" where
  "js_rem x u = x - u * of_int (js_trunc (x / u))"

section \<open>The order form\<close>

definition orderOptions :: "(ui_text \<times> OrderType) list" where
  "orderOptions = [(Translated ''buy'', Bid), (Translated ''sell'', Ask)]"

definition amountError :: "'a app_forms_scheme \<Rightarrow> ui_text option" where
  "amountError s =
     (if of_amount s = 0 then None
      else if js_rem (of_amount s) ONE_UNIT \<noteq> 0 then Some (Translated ''errorMultiple'')
      else None)"

definition derivedDuration :: "'a app_forms_scheme \<Rightarrow> rat" where
  "derivedDuration s = (if of_duration s \<noteq> 0 then of_duration s else of_int (selectedLeaseDuration s))"

definition perBlockFixedRate :: "big_lib \<Rightarrow> 'a app_forms_scheme \<Rightarrow> rat result" where
  "perBlockFixedRate B s =
     (if of_amount s = 0 \<or> of_premium s = 0 then Inr 0
      else calcFixedRate B (of_amount s) (of_premium s) (derivedDuration s))"

definition premiumError :: "big_lib \<Rightarrow> 'a app_forms_scheme \<Rightarrow> ui_text option result" where
  "premiumError B s =
     (if of_premium s = 0 \<or> of_amount s = 0 then Inr None
      else then_res (perBlockFixedRate B s) (\<lambda>r. Inr (if r < 1 then Some (Translated ''premiumLowError'') else None)))"

definition minChanSizeError :: "'a app_forms_scheme \<Rightarrow> ui_text option" where
  "minChanSizeError s =
     (if form_minChanSize s = 0 then None
      else if js_rem (form_minChanSize s) ONE_UNIT \<noteq> 0 then Some (Translated ''errorMultiple'')
      else if of_amount s \<noteq> 0 \<and> of_amount s < form_minChanSize s then Some (Translated ''errorLiquidity'')
      else None)"

definition feeRateError :: "'a app_forms_scheme \<Rightarrow> ui_text option" where
  "feeRateError s =
     (if form_maxBatchFeeRate s = 0 then None
      else if form_maxBatchFeeRate s < 1 then Some (Translated ''feeRateErrorMin'')
      else None)"

definition marketsAcceptingOrders :: "'a app_forms_scheme \<Rightarrow> (int \<times> int) list" where
  "marketsAcceptingOrders s = filter (\<lambda>(_, st). st = MARKET_OPEN \<or> st = ACCEPTING_ORDERS) (sortedDurations s)"

definition marketStateLabels :: "(int \<times> ui_text) list" where
  "marketStateLabels =
     [(MARKET_OPEN, Translated ''marketOpen''), (ACCEPTING_ORDERS, Translated ''marketAccepting''),
      (MARKET_CLOSED, Translated ''marketClosed''), (NO_MARKET, Translated ''noMarket'')]"

text \<open>The pieces of the label, and the value. A state without a label prints as \<open>undefined\<close>.\<close>

definition state_label :: "int \<Rightarrow> ui_text" where
  "state_label st = (case map_of marketStateLabels st of Some t \<Rightarrow> t | None \<Rightarrow> Plain ''undefined'')"

definition durationOptions :: "'a app_forms_scheme \<Rightarrow> (ui_text list \<times> string) list" where
  "durationOptions s =
     (let durations = map (\<lambda>(duration, st).
            ([Plain (blocksToTime (of_int duration) @ '' (''), state_label st, Plain '')''], int_to_string duration))
            (marketsAcceptingOrders s);
          selectedDuration = selectedLeaseDuration s
      in case map_of (leaseDurations s) selectedDuration of
           None \<Rightarrow> durations
         | Some selectedState \<Rightarrow>
             if selectedState = 0 then durations
             else ([Translated ''inView'', Plain ('' ('' @ blocksToTime (of_int selectedDuration) @ '', ''),
                    state_label selectedState, Plain '')''], ''0'') # durations)"

definition durationVisible :: "'a app_forms_scheme \<Rightarrow> bool" where
  "durationVisible s \<longleftrightarrow> length (marketsAcceptingOrders s) > 1"

definition nodeTierOptions :: "(string \<times> string) list" where
  "nodeTierOptions = map (\<lambda>(v, label). (label, int_to_string v)) NODE_TIERS"

definition interestBps :: "big_lib \<Rightarrow> 'a app_forms_scheme \<Rightarrow> int" where
  "interestBps B s =
     (if of_amount s = 0 \<or> of_premium s = 0 then 0 else toBasisPoints (big_div B (of_premium s) (of_amount s)))"

definition apr :: "big_lib \<Rightarrow> 'a app_forms_scheme \<Rightarrow> rat result" where
  "apr B s =
     (if of_amount s = 0 \<or> of_premium s = 0 then Inr 0
      else then_res (annualPercentRate B (of_amount s) (of_premium s) (derivedDuration s / BLOCKS_PER_DAY))
             (\<lambda>r. Inr (toPercent r)))"

definition placeOrderLabel :: "'a app_forms_scheme \<Rightarrow> ui_text list" where
  "placeOrderLabel s =
     [Translated ''placeOrderLabel'', if of_orderType s = Bid then Translated ''buy'' else Translated ''sell'']"

definition form_isValid :: "'a app_forms_scheme \<Rightarrow> bool" where
  "form_isValid s \<longleftrightarrow>
     of_amount s \<noteq> 0 \<and> of_premium s \<noteq> 0 \<and> 0 \<notin> {form_minChanSize s, form_maxBatchFeeRate s} \<and>
     amountError s = None \<and> minChanSizeError s = None \<and> feeRateError s = None"

text \<open>\<open>of_quoteScheduled\<close>: the debounced \<open>quoteOrder\<close> is going to run.\<close>

definition fetchQuote :: "'a app_forms_scheme \<Rightarrow> 'a app_forms_scheme" where
  "fetchQuote s =
     (if \<not> form_isValid s
      then s\<lparr>of_executionFee := 0, of_worstChainFee := 0, of_quoteLoading := False\<rparr>
      else s\<lparr>of_quoteLoading := True, of_quoteScheduled := True\<rparr>)"

definition setOrderType :: "OrderType \<Rightarrow> 'a app_forms_scheme \<Rightarrow> 'a app_forms_scheme" where
  "setOrderType t s = s\<lparr>of_orderType := t\<rparr>"

definition form_setAmount :: "rat \<Rightarrow> 'a app_forms_scheme \<Rightarrow> 'a app_forms_scheme" where
  "form_setAmount amt s = fetchQuote (s\<lparr>of_amount := amt\<rparr>)"

definition setPremium :: "rat \<Rightarrow> 'a app_forms_scheme \<Rightarrow> 'a app_forms_scheme" where
  "setPremium premium s = fetchQuote (s\<lparr>of_premium := premium\<rparr>)"

definition setDuration :: "rat \<Rightarrow> 'a app_forms_scheme \<Rightarrow> 'a app_forms_scheme" where
  "setDuration duration s = fetchQuote (s\<lparr>of_duration := duration\<rparr>)"

definition setMinChanSize :: "rat \<Rightarrow> 'a app_forms_scheme \<Rightarrow> 'a app_forms_scheme" where
  "setMinChanSize v s = fetchQuote (s\<lparr>form_minChanSize := v\<rparr>)"

definition setMaxBatchFeeRate :: "rat \<Rightarrow> 'a app_forms_scheme \<Rightarrow> 'a app_forms_scheme" where
  "setMaxBatchFeeRate feeRate s = fetchQuote (s\<lparr>form_maxBatchFeeRate := feeRate\<rparr>)"

definition setMinNodeTier :: "int \<Rightarrow> 'a app_forms_scheme \<Rightarrow> 'a app_forms_scheme" where
  "setMinNodeTier tier s = s\<lparr>form_minNodeTier := tier\<rparr>"

definition setSuggestedPremium :: "big_lib \<Rightarrow> 'a app_forms_scheme \<Rightarrow> 'a app_forms_scheme" where
  "setSuggestedPremium B s =
     (let failed = (\<lambda>msg. handleError (AppError msg) ''Unable to suggest premium'' s) in
      if of_amount s = 0 then failed ''Must specify amount first''
      else case sortedBatches s of
        [] \<Rightarrow> failed ''Previous batch not found''
      | prevBatch # _ \<Rightarrow>
          (let prevPctRate = calcPctRate B (of_int (clearingPriceRate prevBatch)) (derivedDuration s);
               suggested = of_amount s * prevPctRate
           in fetchQuote (s\<lparr>of_premium := big_round B (big_div B suggested 10) 0 roundHalfUp * 10\<rparr>)))"

definition form_toggleAddlOptions :: "'a app_forms_scheme \<Rightarrow> 'a app_forms_scheme" where
  "form_toggleAddlOptions s = s\<lparr>of_addlOptionsVisible := \<not> of_addlOptionsVisible s\<rparr>"

definition form_quote_request :: "big_lib \<Rightarrow> 'a app_forms_scheme \<Rightarrow> quote_order_request result" where
  "form_quote_request B s =
     (let minUnitsMatch = big_round B (big_div B (form_minChanSize s) ONE_UNIT) 0 roundDown;
          satsPerKWeight = satsPerVByteToKWeight (form_maxBatchFeeRate s)
      in then_res (perBlockFixedRate B s) (\<lambda>rate.
           Inr (quoteOrder_request (of_amount s) rate (derivedDuration s) minUnitsMatch satsPerKWeight)))"

definition form_quoteOrder ::
    "big_lib \<Rightarrow> (quote_order_request \<Rightarrow> (int \<times> int) api_result) \<Rightarrow> 'a app_forms_scheme \<Rightarrow> unit api_result \<times> 'a app_forms_scheme" where
  "form_quoteOrder B quotes s =
     (let s = s\<lparr>of_quoteScheduled := False\<rparr> in
      then_do (thrown (form_quote_request B s), s) (\<lambda>req s.
        let ((totalExecutionFeeSat, worstCaseChainFeeSat), s) = quoteOrder (quotes req) s
        in (Inr (), s\<lparr>of_executionFee := of_int totalExecutionFeeSat, of_worstChainFee := of_int worstCaseChainFeeSat,
                      of_quoteLoading := False\<rparr>)))"

text \<open>What the daemon answers while an order is placed: version, answer to the order, and the lists.\<close>

record submit_replies =
  su_info :: "string api_result"
  su_answer :: "(string \<times> string option) api_result"
  su_lists :: pool_replies

definition placeOrder ::
    "big_lib \<Rightarrow> (string \<Rightarrow> 'v option) \<Rightarrow> ('v \<Rightarrow> string \<Rightarrow> bool) \<Rightarrow> string list \<Rightarrow> submit_replies \<Rightarrow> 'a app_forms_scheme
     \<Rightarrow> string option api_result \<times> 'a app_forms_scheme" where
  "placeOrder B coerce sat own rs s =
     (let minUnitsMatch = of_int \<lfloor>form_minChanSize s / ONE_UNIT\<rfloor>;
          satsPerKWeight = satsPerVByteToKWeight (form_maxBatchFeeRate s)
      in then_do (thrown (perBlockFixedRate B s), s) (\<lambda>rate s.
           let (nonce, s) = submitOrder coerce sat own (of_orderType s) (of_amount s) rate (derivedDuration s)
                 minUnitsMatch satsPerKWeight (Some (form_minNodeTier s)) (su_info rs) (su_answer rs) (su_lists rs) s;
               s = (if given nonce
                    then setOrderSettings (form_minChanSize s) (form_maxBatchFeeRate s) (form_minNodeTier s)
                           (s\<lparr>of_amount := 0, of_premium := 0, of_duration := 0, of_executionFee := 0, of_worstChainFee := 0\<rparr>)
                    else s)
           in (Inr nonce, s)))"

section \<open>The sections of the account panel\<close>

definition visibleSection :: "'a app_forms_scheme \<Rightarrow> string api_result" where
  "visibleSection s =
     (if \<not> given (activeTraderKey s)
      then Inr (if form_section s \<in> {''fund-new-confirm'', ''fund-new''} then form_section s else ''none'')
      else case activeAccount s of
        Inl e \<Rightarrow> Inl e
      | Inr a \<Rightarrow>
          Inr (if acct_stateLabel a = ''Expired'' \<and>
                  form_section s \<notin> {''close'', ''close-confirm'', ''renew'', ''renew-confirm''}
               then ''expired'' else form_section s))"

definition hasChannels :: "'a app_forms_scheme \<Rightarrow> bool" where
  "hasChannels s \<longleftrightarrow> channels s \<noteq> []"

text \<open>The log line evaluates \<open>visibleSection\<close>, so the call throws when that does.\<close>

definition setSection :: "string \<Rightarrow> 'a app_forms_scheme \<Rightarrow> unit api_result \<times> 'a app_forms_scheme" where
  "setSection v s =
     (let s = s\<lparr>form_section := v\<rparr> in
      case visibleSection s of Inl e \<Rightarrow> (Inl e, s) | Inr _ \<Rightarrow> (Inr (), s))"

definition showSummary :: "'a app_forms_scheme \<Rightarrow> unit api_result \<times> 'a app_forms_scheme" where
  "showSummary = setSection ''summary''"

definition showFundAccount :: "'a app_forms_scheme \<Rightarrow> unit api_result \<times> 'a app_forms_scheme" where
  "showFundAccount s =
     (if given (activeTraderKey s)
      then case activeAccount s of
        Inl e \<Rightarrow> (Inl e, s)
      | Inr a \<Rightarrow> if acct_stateLabel a = ''Open'' then setSection ''fund'' s else setSection ''fund-new'' s
      else setSection ''fund-new'' s)"

definition showFundNew :: "'a app_forms_scheme \<Rightarrow> unit api_result \<times> 'a app_forms_scheme" where
  "showFundNew = setSection ''fund-new''"

definition showFundNewConfirm :: "'a app_forms_scheme \<Rightarrow> unit api_result \<times> 'a app_forms_scheme" where
  "showFundNewConfirm = setSection ''fund-new-confirm''"

text \<open>The other sections are set without the log line.\<close>

definition showFundConfirm :: "'a app_forms_scheme \<Rightarrow> 'a app_forms_scheme" where
  "showFundConfirm s = s\<lparr>form_section := ''fund-confirm''\<rparr>"

definition showCloseAccount :: "'a app_forms_scheme \<Rightarrow> 'a app_forms_scheme" where
  "showCloseAccount s = s\<lparr>form_section := ''close''\<rparr>"

definition showCloseConfirm :: "'a app_forms_scheme \<Rightarrow> 'a app_forms_scheme" where
  "showCloseConfirm s = s\<lparr>form_section := ''close-confirm''\<rparr>"

definition showRenewAccount :: "'a app_forms_scheme \<Rightarrow> 'a app_forms_scheme" where
  "showRenewAccount s = s\<lparr>form_section := ''renew''\<rparr>"

definition showRenewConfirm :: "'a app_forms_scheme \<Rightarrow> 'a app_forms_scheme" where
  "showRenewConfirm s = s\<lparr>form_section := ''renew-confirm''\<rparr>"

section \<open>The account forms\<close>

definition hasActiveAccount :: "'a app_forms_scheme \<Rightarrow> bool" where
  "hasActiveAccount s \<longleftrightarrow> given (activeTraderKey s)"

definition accountBalance :: "'a app_forms_scheme \<Rightarrow> Big api_result" where
  "accountBalance s =
     (if hasActiveAccount s then (case activeAccount s of Inl e \<Rightarrow> Inl e | Inr a \<Rightarrow> Inr (availableBalance a)) else Inr 0)"

definition newBalance :: "Big \<Rightarrow> 'a app_forms_scheme \<Rightarrow> Big api_result" where
  "newBalance amt s = (case accountBalance s of Inl e \<Rightarrow> Inl e | Inr b \<Rightarrow> Inr (b + amt))"

definition form_walletBalance :: "'a app_forms_scheme \<Rightarrow> Big" where
  "form_walletBalance s = confirmedBalance s"

subsection \<open>A new account\<close>

definition DEFAULT_EXPIRE_BLOCKS :: rat where "DEFAULT_EXPIRE_BLOCKS = 12960"
definition DEFAULT_CONF_TARGET :: rat where "DEFAULT_CONF_TARGET = 6"

definition fn_amountError :: "'a app_forms_scheme \<Rightarrow> ui_text option" where
  "fn_amountError s =
     (if fn_amount s = 0 then None
      else if fn_amount s < 100000 then Some (Translated ''amountTooLow'')
      else if form_walletBalance s < fn_amount s then Some (Translated ''amountTooHigh'')
      else None)"

definition expireBlocksError :: "'a app_forms_scheme \<Rightarrow> ui_text option" where
  "expireBlocksError s =
     (if fn_expireBlocks s = 0 then None
      else if fn_expireBlocks s < BLOCKS_PER_DAY then Some (Translated ''lowExpireBlocks'')
      else if fn_expireBlocks s > BLOCKS_PER_DAY * 365 then Some (Translated ''highExpireBlocks'')
      else None)"

definition confTargetError :: "'a app_forms_scheme \<Rightarrow> ui_text option" where
  "confTargetError s =
     (if fn_confTarget s = 0 then None
      else if fn_confTarget s \<le> 1 then Some (Translated ''lowConfTarget'')
      else None)"

text \<open>
  \<open>![amount, confTarget, expireBlocks].includes(0)\<close>: the amount is a \<open>Big\<close> object, which is
  never the number 0.
\<close>

definition fn_isValid :: "'a app_forms_scheme \<Rightarrow> bool" where
  "fn_isValid s \<longleftrightarrow> 0 \<notin> {fn_confTarget s, fn_expireBlocks s} \<and> fn_amountError s = None"

definition fn_setAmount :: "rat \<Rightarrow> 'a app_forms_scheme \<Rightarrow> 'a app_forms_scheme" where
  "fn_setAmount amt s = s\<lparr>fn_amount := amt\<rparr>"

definition fn_setConfTarget :: "rat \<Rightarrow> 'a app_forms_scheme \<Rightarrow> 'a app_forms_scheme" where
  "fn_setConfTarget t s = s\<lparr>fn_confTarget := t\<rparr>"

definition fn_setExpireBlocks :: "rat \<Rightarrow> 'a app_forms_scheme \<Rightarrow> 'a app_forms_scheme" where
  "fn_setExpireBlocks n s = s\<lparr>fn_expireBlocks := n\<rparr>"

definition fn_setLoading :: "bool \<Rightarrow> 'a app_forms_scheme \<Rightarrow> 'a app_forms_scheme" where
  "fn_setLoading b s = s\<lparr>fn_loading := b\<rparr>"

definition fn_cancel :: "'a app_forms_scheme \<Rightarrow> unit api_result \<times> 'a app_forms_scheme" where
  "fn_cancel s =
     showSummary (s\<lparr>fn_amount := 0, fn_confTarget := DEFAULT_CONF_TARGET, fn_expireBlocks := DEFAULT_EXPIRE_BLOCKS\<rparr>)"

text \<open>The argument is the answer to \<open>quoteAccount\<close>: the miner fee.\<close>

definition fn_confirm :: "int api_result \<Rightarrow> 'a app_forms_scheme \<Rightarrow> 'a app_forms_scheme" where
  "fn_confirm res s =
     (let failed = (\<lambda>e s. handleError e ''Unable to estimate miner fee'' s) in
      case res of
        Inl e \<Rightarrow> failed e s
      | Inr minerFeeTotal \<Rightarrow>
          (case showFundNewConfirm (s\<lparr>fn_minerFee := of_int minerFeeTotal\<rparr>) of
             (Inl e, s) \<Rightarrow> failed e s
           | (Inr _, s) \<Rightarrow> s))"

definition fn_fundAccount :: "pool_account api_result \<Rightarrow> 'a app_forms_scheme \<Rightarrow> unit api_result \<times> 'a app_forms_scheme" where
  "fn_fundAccount reply s =
     (let (traderKey, s) = createAccount (fn_amount s) (fn_expireBlocks s) (Some (fn_confTarget s)) reply (fn_setLoading True s)
      in then_do (if given traderKey then fn_cancel s else (Inr (), s)) (\<lambda>_ s. (Inr (), fn_setLoading False s)))"

subsection \<open>A deposit\<close>

definition fa_amountError :: "'a app_forms_scheme \<Rightarrow> ui_text option" where
  "fa_amountError s =
     (if fa_amount s = 0 then None
      else if form_walletBalance s < fa_amount s then Some (Translated ''amountTooHigh'')
      else None)"

definition fa_isValid :: "'a app_forms_scheme \<Rightarrow> bool" where
  "fa_isValid s \<longleftrightarrow> 0 \<notin> {fa_amount s, fa_satsPerVbyte s} \<and> fa_amountError s = None"

definition fa_setAmount :: "rat \<Rightarrow> 'a app_forms_scheme \<Rightarrow> 'a app_forms_scheme" where
  "fa_setAmount amt s = s\<lparr>fa_amount := amt\<rparr>"

definition fa_setSatsPerVbyte :: "rat \<Rightarrow> 'a app_forms_scheme \<Rightarrow> 'a app_forms_scheme" where
  "fa_setSatsPerVbyte r s = s\<lparr>fa_satsPerVbyte := r\<rparr>"

definition fa_setLoading :: "bool \<Rightarrow> 'a app_forms_scheme \<Rightarrow> 'a app_forms_scheme" where
  "fa_setLoading b s = s\<lparr>fa_loading := b\<rparr>"

definition fa_cancel :: "'a app_forms_scheme \<Rightarrow> unit api_result \<times> 'a app_forms_scheme" where
  "fa_cancel s = showSummary (s\<lparr>fa_amount := 0, fa_satsPerVbyte := 0\<rparr>)"

definition fa_confirm :: "'a app_forms_scheme \<Rightarrow> 'a app_forms_scheme" where
  "fa_confirm = showFundConfirm"

definition fa_fundAccount :: "(string \<times> pool_account option) api_result \<Rightarrow> 'a app_forms_scheme \<Rightarrow> unit api_result \<times> 'a app_forms_scheme" where
  "fa_fundAccount reply s =
     (let satsPerKWeight = satsPerVByteToKWeight (fa_satsPerVbyte s);
          (txid, s) = deposit (fa_amount s) (Some satsPerKWeight) reply (fa_setLoading True s)
      in then_do (if given txid then fa_cancel s else (Inr (), s)) (\<lambda>_ s. (Inr (), fa_setLoading False s)))"

subsection \<open>Closing the account\<close>

definition destinationEllipsed :: "'a app_forms_scheme \<Rightarrow> string" where
  "destinationEllipsed s = ellipseInside (ca_destination s) 6 None"

definition ca_isValid :: "'a app_forms_scheme \<Rightarrow> bool" where
  "ca_isValid s \<longleftrightarrow> ca_satsPerVbyte s \<noteq> 0"

definition ca_setDestination :: "string \<Rightarrow> 'a app_forms_scheme \<Rightarrow> 'a app_forms_scheme" where
  "ca_setDestination d s = s\<lparr>ca_destination := d\<rparr>"

definition ca_setSatsPerVbyte :: "rat \<Rightarrow> 'a app_forms_scheme \<Rightarrow> 'a app_forms_scheme" where
  "ca_setSatsPerVbyte r s = s\<lparr>ca_satsPerVbyte := r\<rparr>"

definition ca_setLoading :: "bool \<Rightarrow> 'a app_forms_scheme \<Rightarrow> 'a app_forms_scheme" where
  "ca_setLoading b s = s\<lparr>ca_loading := b\<rparr>"

definition ca_cancel :: "'a app_forms_scheme \<Rightarrow> unit api_result \<times> 'a app_forms_scheme" where
  "ca_cancel s = showSummary (s\<lparr>ca_destination := [], ca_satsPerVbyte := 0\<rparr>)"

definition ca_confirm :: "'a app_forms_scheme \<Rightarrow> 'a app_forms_scheme" where
  "ca_confirm = showCloseConfirm"

text \<open>
  The replies: to each cancelled order, the lists after cancelling, to the closing, and the
  lists after closing.
\<close>

record close_replies =
  cl_cancels :: "string \<Rightarrow> unit api_result"
  cl_lists :: pool_replies
  cl_txid :: "string api_result"
  cl_after :: pool_replies

definition ca_closeAccount :: "string list \<Rightarrow> close_replies \<Rightarrow> 'a app_forms_scheme \<Rightarrow> unit api_result \<times> 'a app_forms_scheme" where
  "ca_closeAccount own rs s =
     (if \<not> ca_isValid s then (Inr (), s)
      else case cancelAllOrders own (cl_cancels rs) (cl_lists rs) (ca_setLoading True s) of
        (Inl e, s) \<Rightarrow> (Inr (), ca_setLoading False (handleError e ''Unable to cancel all open orders'' s))
      | (Inr _, s) \<Rightarrow>
          (let satsPerKWeight = satsPerVByteToKWeight (ca_satsPerVbyte s);
               (txid, s) = closeAccount satsPerKWeight (Some (ca_destination s)) (cl_txid rs) (cl_after rs) s
           in then_do (if given txid then ca_cancel s else (Inr (), s)) (\<lambda>_ s. (Inr (), ca_setLoading False s))))"

subsection \<open>Renewing the account\<close>

definition currentExpiry :: "'a app_forms_scheme \<Rightarrow> int api_result" where
  "currentExpiry s =
     (if hasActiveAccount s then (case activeAccount s of Inl e \<Rightarrow> Inl e | Inr a \<Rightarrow> Inr (expiresInBlocks s a)) else Inr 0)"

definition ra_isValid :: "'a app_forms_scheme \<Rightarrow> bool" where
  "ra_isValid s \<longleftrightarrow> 0 \<notin> {ra_expiryBlocks s, ra_satsPerVbyte s}"

definition ra_setExpiryBlocks :: "rat \<Rightarrow> 'a app_forms_scheme \<Rightarrow> 'a app_forms_scheme" where
  "ra_setExpiryBlocks n s = s\<lparr>ra_expiryBlocks := n\<rparr>"

definition ra_setSatsPerVbyte :: "rat \<Rightarrow> 'a app_forms_scheme \<Rightarrow> 'a app_forms_scheme" where
  "ra_setSatsPerVbyte r s = s\<lparr>ra_satsPerVbyte := r\<rparr>"

definition ra_setLoading :: "bool \<Rightarrow> 'a app_forms_scheme \<Rightarrow> 'a app_forms_scheme" where
  "ra_setLoading b s = s\<lparr>ra_loading := b\<rparr>"

definition ra_cancel :: "'a app_forms_scheme \<Rightarrow> unit api_result \<times> 'a app_forms_scheme" where
  "ra_cancel s = showSummary (s\<lparr>ra_expiryBlocks := DEFAULT_EXPIRE_BLOCKS, ra_satsPerVbyte := 0\<rparr>)"

definition ra_confirm :: "'a app_forms_scheme \<Rightarrow> 'a app_forms_scheme" where
  "ra_confirm = showRenewConfirm"

definition ra_renewAccount :: "(string \<times> pool_account option) api_result \<Rightarrow> 'a app_forms_scheme \<Rightarrow> unit api_result \<times> 'a app_forms_scheme" where
  "ra_renewAccount reply s =
     (if \<not> ra_isValid s then (Inr (), s)
      else
        let satsPerKWeight = satsPerVByteToKWeight (ra_satsPerVbyte s);
            (txid, s) = renewAccount (ra_expiryBlocks s) satsPerKWeight reply (ra_setLoading True s)
        in then_do (if given txid then ra_cancel s else (Inr (), s)) (\<lambda>_ s. (Inr (), ra_setLoading False s)))"

section \<open>What the order form sends\<close>

lemma js_rem_zero: "js_rem x u = 0 \<Longrightarrow> x = u * of_int (js_trunc (x / u))"
  by (simp add: js_rem_def)

lemma positive_units:
  assumes "0 < x" "js_rem x ONE_UNIT = 0"
  obtains n where "1 \<le> n" "x = ONE_UNIT * of_int n" "\<lfloor>x / ONE_UNIT\<rfloor> = n"
proof
  let ?n = "js_trunc (x / ONE_UNIT)"
  show x: "x = ONE_UNIT * of_int ?n" using js_rem_zero [OF assms(2)] .
  then have q: "x / ONE_UNIT = of_int ?n" by (simp add: ONE_UNIT_def)
  then show "\<lfloor>x / ONE_UNIT\<rfloor> = ?n" by (metis floor_of_int)
  have "0 < x / ONE_UNIT" using assms(1) by (simp add: ONE_UNIT_def)
  then have "0 < (of_int ?n :: rat)" using q by simp
  then show "1 \<le> ?n" by simp
qed

lemma div_mult_le_int: "0 < m \<Longrightarrow> N div m * m \<le> N" for m N :: int
  using div_mult_mod_eq [of N m] pos_mod_sign [of m N] by linarith

lemma submitOrder_sent:
  "pool_sent (snd (submitOrder coerce sat own t amt r d u f tier info answer rp s)) = pool_sent s @
     (case activeAccount s of
        Inl _ \<Rightarrow> []
      | Inr acct \<Rightarrow>
          (case submitOrder_request coerce sat info (traderKey acct) t amt r d u f tier of
             Inl _ \<Rightarrow> [] | Inr req \<Rightarrow> [PoolSubmit req]))"
  by (simp add: submitOrder_def Let_def split: sum.split prod.split option.split)

text \<open>The request of the form for an account and a rate.\<close>

abbreviation form_request ::
    "(string \<Rightarrow> 'v option) \<Rightarrow> ('v \<Rightarrow> string \<Rightarrow> bool) \<Rightarrow> string api_result \<Rightarrow> Account \<Rightarrow> rat \<Rightarrow> 'a app_forms_scheme \<Rightarrow> submit_request api_result" where
  "form_request coerce sat info acct rate s \<equiv>
     submitOrder_request coerce sat info (traderKey acct) (of_orderType s) (of_amount s) rate (derivedDuration s)
       (of_int \<lfloor>form_minChanSize s / ONE_UNIT\<rfloor>) (satsPerVByteToKWeight (form_maxBatchFeeRate s)) (Some (form_minNodeTier s))"

lemma placeOrder_sent:
  "perBlockFixedRate B s = Inr rate \<Longrightarrow>
   pool_sent (snd (placeOrder B coerce sat own rs s)) = pool_sent s @
     (case activeAccount s of
        Inl _ \<Rightarrow> []
      | Inr acct \<Rightarrow> (case form_request coerce sat (su_info rs) acct rate s of Inl _ \<Rightarrow> [] | Inr req \<Rightarrow> [PoolSubmit req]))"
  by (simp add: placeOrder_def then_do_def thrown_def Let_def setOrderSettings_def case_prod_beta submitOrder_sent)

lemma form_rate:
  assumes "big_law B" "form_isValid s" "of_amount s = of_int a" "of_premium s = of_int p" "derivedDuration s = of_int d"
    and "0 < a" "a \<le> 9 * 10 ^ 10" "0 \<le> p" "0 < d" "d \<le> 10 ^ 9"
  shows "perBlockFixedRate B s = Inr (of_int (p * 10 ^ 9 div (a * d)))"
proof -
  have "calcFixedRate B (of_amount s) (of_premium s) (derivedDuration s) = Inr (of_int (p * 10 ^ 9 div (a * d)))"
    unfolding assms(3-5) by (rule calcFixedRate_whole) (use assms in auto)
  moreover have "of_amount s \<noteq> 0" "of_premium s \<noteq> 0" using assms(2) by (simp_all add: form_isValid_def)
  ultimately show ?thesis by (simp add: perBlockFixedRate_def)
qed

lemma form_amount_positive:
  assumes "form_isValid s" "0 < form_minChanSize s"
  shows "form_minChanSize s \<le> of_amount s" "js_rem (of_amount s) ONE_UNIT = 0" "js_rem (form_minChanSize s) ONE_UNIT = 0"
  using assms by (auto simp: form_isValid_def minChanSizeError_def amountError_def split: if_splits)

text \<open>
  C10. Every order that the form sends is one the auction can take: it is for the active
  account and for a whole number of units, at least one, not fewer than the units of the
  smallest channel asked for; the rate is at least one billionth per block, and over the
  lease it never amounts to more than the premium the user entered; the batch fee rate is
  at least the floor.
\<close>

theorem placed_orders_are_well_formed:
  assumes "big_law B" "form_isValid s" "0 < form_minChanSize s"
    and "of_amount s = of_int a" "of_premium s = of_int p" "derivedDuration s = of_int d"
    and "a \<le> 9 * 10 ^ 10" "0 \<le> p" "0 < d" "d \<le> 10 ^ 9"
    and "pool_sent (snd (placeOrder B coerce sat own rs s)) \<noteq> pool_sent s"
  shows "\<exists>acct req n u r. activeAccount s = Inr acct \<and>
    pool_sent (snd (placeOrder B coerce sat own rs s)) = pool_sent s @ [PoolSubmit req] \<and>
    od_traderKey (sr_details req) = b64 (traderKey acct) False \<and>
    od_amt (sr_details req) = ONE_UNIT * of_int n \<and> od_minUnitsMatch (sr_details req) = of_int u \<and>
    of_int u * ONE_UNIT = form_minChanSize s \<and> 1 \<le> u \<and> u \<le> n \<and>
    od_rateFixed (sr_details req) = of_int r \<and> 1 \<le> r \<and> r * (a * d) \<le> p * 10 ^ 9 \<and>
    MIN_FEE_RATE_KW \<le> od_maxBatchFeeRateSatPerKw (sr_details req)"
proof -
  note amt = form_amount_positive [OF assms(2,3)]
  obtain n where n: "of_amount s = ONE_UNIT * of_int n" using positive_units [of "of_amount s"] amt assms(3) by force
  obtain u where u: "1 \<le> u" "form_minChanSize s = ONE_UNIT * of_int u" "\<lfloor>form_minChanSize s / ONE_UNIT\<rfloor> = u"
    using positive_units [OF assms(3) amt(3)] by blast
  have "u \<le> n" using amt(1) n u(2) by (simp add: ONE_UNIT_def)
  have a: "0 < a" using amt(1) assms(3,4) by (simp add: of_int_0_less_iff [where 'a = rat, symmetric] del: of_int_0_less_iff)
  define r where "r = p * 10 ^ 9 div (a * d)"
  have rate: "perBlockFixedRate B s = Inr (of_int r)" unfolding r_def by (rule form_rate) (use assms a in auto)
  obtain acct req where q: "activeAccount s = Inr acct" "form_request coerce sat (su_info rs) acct (of_int r) s = Inr req"
    using assms(11) unfolding placeOrder_sent [OF rate] by (auto split: sum.splits)
  have sent: "pool_sent (snd (placeOrder B coerce sat own rs s)) = pool_sent s @ [PoolSubmit req]"
    unfolding placeOrder_sent [OF rate] by (simp add: q)
  have req: "1 \<le> r" "od_traderKey (sr_details req) = b64 (traderKey acct) False" "od_amt (sr_details req) = of_amount s"
    "od_minUnitsMatch (sr_details req) = of_int u" "od_rateFixed (sr_details req) = of_int r"
    "od_maxBatchFeeRateSatPerKw (sr_details req) = satsPerVByteToKWeight (form_maxBatchFeeRate s)"
    using q(2) unfolding u(3) by (auto simp: submitOrder_request_def split: if_splits sum.splits)
  have "r * (a * d) \<le> p * 10 ^ 9"
    unfolding r_def using a assms(9) by (intro div_mult_le_int) simp
  then show ?thesis
    using q(1) sent req n u \<open>u \<le> n\<close> by (intro exI [of _ acct] exI [of _ req] exI [of _ n] exI [of _ u] exI [of _ r]) (simp add: satsPerVByteToKWeight_def Let_def)
qed

text \<open>
  The form does not catch a premium that is too low: it reports one, but \<open>isValid\<close> leaves
  the report out, so the order can be placed. Nothing is sent then; the API refuses it, the
  user gets an error alert and the form keeps its values.
\<close>

lemma low_premium_is_refused_late:
  assumes "big_law B" "form_isValid s" "of_amount s = of_int a" "of_premium s = of_int p" "derivedDuration s = of_int d"
    and "0 < a" "a \<le> 9 * 10 ^ 10" "0 \<le> p" "0 < d" "d \<le> 10 ^ 9" and "p * 10 ^ 9 < a * d"
  shows "premiumError B s = Inr (Some (Translated ''premiumLowError'')) \<and>
    (\<exists>e. placeOrder B coerce sat own rs s = (Inr None, handleError e ''Unable to submit the order'' s))"
proof -
  have "p * 10 ^ 9 div (a * d) = 0" using assms(8,11) by (intro div_pos_pos_trivial) simp_all
  then have rate: "perBlockFixedRate B s = Inr 0" using form_rate [OF assms(1-10)] by simp
  have "of_amount s \<noteq> 0" "of_premium s \<noteq> 0" using assms(2) by (simp_all add: form_isValid_def)
  then have "premiumError B s = Inr (Some (Translated ''premiumLowError''))" by (simp add: premiumError_def rate)
  moreover have "\<exists>e. placeOrder B coerce sat own rs s = (Inr None, handleError e ''Unable to submit the order'' s)"
    by (cases "activeAccount s")
      (simp_all add: placeOrder_def rate thrown_def then_do_def Let_def submitOrder_def submitOrder_request_def given_def, blast+)
  ultimately show ?thesis by simp
qed

section \<open>What the account forms send\<close>

lemma then_do_sent:
  assumes "\<And>x t. pool_sent (snd (k x t)) = pool_sent t"
  shows "pool_sent (snd (then_do r k)) = pool_sent (snd r)"
  using assms by (simp add: then_do_def split: prod.split sum.split)

lemma setSection_sent [simp]: "pool_sent (snd (setSection v s)) = pool_sent s"
  by (simp add: setSection_def Let_def split: sum.split)

lemma form_steps_sent [simp]:
  "pool_sent (snd (fn_cancel s)) = pool_sent s" "pool_sent (snd (ca_cancel s)) = pool_sent s"
  "pool_sent (fn_setLoading b s) = pool_sent s" "pool_sent (ca_setLoading b s) = pool_sent s"
  by (simp_all add: fn_cancel_def ca_cancel_def showSummary_def fn_setLoading_def ca_setLoading_def)

lemma createAccount_sent:
  "pool_sent (snd (createAccount amt n t reply s)) = pool_sent s @ [PoolAccount (initAccount_request amt n t)]"
  by (simp add: createAccount_def Let_def setActiveTraderKey_def split: sum.split)

lemma fn_fundAccount_sent:
  "pool_sent (snd (fn_fundAccount reply s)) =
     pool_sent s @ [PoolAccount (InitAccount (fn_amount s) (fn_expireBlocks s) (fn_confTarget s) POOL_INITIATOR)]"
proof -
  let ?r = "createAccount (fn_amount s) (fn_expireBlocks s) (Some (fn_confTarget s)) reply (fn_setLoading True s)"
  have "pool_sent (snd (fn_fundAccount reply s)) = pool_sent (snd ?r)"
    unfolding fn_fundAccount_def Let_def case_prod_beta by (subst then_do_sent) simp_all
  then show ?thesis by (simp add: createAccount_sent initAccount_request_def)
qed

text \<open>
  What the form for a new account checks: a valid amount other than zero is at least
  100,000 satoshis and within the confirmed wallet balance. But it accepts the amount zero,
  and it accepts the expiry and the confirmation target that it reports as errors; submitting
  sends these values.
\<close>

lemma fund_form_checks_amount_only:
  "(fn_isValid s \<longleftrightarrow> fn_confTarget s \<noteq> 0 \<and> fn_expireBlocks s \<noteq> 0 \<and>
      (fn_amount s = 0 \<or> (100000 \<le> fn_amount s \<and> fn_amount s \<le> confirmedBalance s))) \<and>
   pool_sent (snd (fn_fundAccount reply s)) =
     pool_sent s @ [PoolAccount (InitAccount (fn_amount s) (fn_expireBlocks s) (fn_confTarget s) POOL_INITIATOR)] \<and>
   (let t = s\<lparr>fn_amount := 0, fn_confTarget := 1, fn_expireBlocks := 1\<rparr>
    in fn_isValid t \<and> expireBlocksError t = Some (Translated ''lowExpireBlocks'') \<and>
       confTargetError t = Some (Translated ''lowConfTarget''))"
  unfolding fn_fundAccount_sent
  by (auto simp: fn_isValid_def fn_amountError_def form_walletBalance_def expireBlocksError_def confTargetError_def
      BLOCKS_PER_DAY_def Let_def)

subsection \<open>Closing\<close>

abbreviation cancel_requests :: "Order list \<Rightarrow> pool_request list" where
  "cancel_requests os \<equiv> map (\<lambda>ord. PoolCancel (b64 (ord_nonce ord) False)) os"

lemma cancel_each_all:
  "(\<And>n. answers n = Inr ()) \<Longrightarrow> cancel_each answers os s = (Inr (), s\<lparr>pool_sent := pool_sent s @ cancel_requests os\<rparr>)"
  by (induction os arbitrary: s) (simp_all add: Let_def pool_send_def)

lemma activeAccount_cong:
  fixes s t :: "'a app_pool_scheme"
  shows "accounts t = accounts s \<Longrightarrow> activeTraderKey t = activeTraderKey s \<Longrightarrow> activeAccount t = activeAccount s"
  by (simp only: activeAccount_def)

lemma closeAccount_sent:
  "activeAccount s = Inr acct \<Longrightarrow>
   pool_sent (snd (closeAccount rate dest txid rp s)) = pool_sent s @ [PoolAccount (closeAccount_request (traderKey acct) (Some rate) dest)]"
  by (simp add: closeAccount_def Let_def split: sum.split)

lemma close_form_frame:
  "ca_satsPerVbyte (handleError e t s) = ca_satsPerVbyte s" "ca_destination (handleError e t s) = ca_destination s"
  "ca_satsPerVbyte (fetchInfo i s) = ca_satsPerVbyte s" "ca_destination (fetchInfo i s) = ca_destination s"
  "ca_satsPerVbyte (fetchAccounts rp s) = ca_satsPerVbyte s" "ca_destination (fetchAccounts rp s) = ca_destination s"
  "ca_satsPerVbyte (fetchLeases r s) = ca_satsPerVbyte s" "ca_destination (fetchLeases r s) = ca_destination s"
  "ca_satsPerVbyte (fetchOrders own rp s) = ca_satsPerVbyte s" "ca_destination (fetchOrders own rp s) = ca_destination s"
proof -
  show h: "ca_satsPerVbyte (handleError e t s) = ca_satsPerVbyte s" "ca_destination (handleError e t s) = ca_destination s" for e t s
    by (simp_all add: handleError_def notify_def Let_def split: app_error.split)
  show i: "ca_satsPerVbyte (fetchInfo i s) = ca_satsPerVbyte s" "ca_destination (fetchInfo i s) = ca_destination s" for i s
    by (simp_all add: fetchInfo_def h Let_def split: sum.split list.split)
  show "ca_satsPerVbyte (fetchAccounts rp s) = ca_satsPerVbyte s" "ca_destination (fetchAccounts rp s) = ca_destination s" for rp s
    by (simp_all add: fetchAccounts_def h i setActiveTraderKey_def Let_def split: sum.split list.split)
  show l: "ca_satsPerVbyte (fetchLeases r s) = ca_satsPerVbyte s" "ca_destination (fetchLeases r s) = ca_destination s" for r s
    by (simp_all add: fetchLeases_def h split: sum.split)
  show "ca_satsPerVbyte (fetchOrders own rp s) = ca_satsPerVbyte s" "ca_destination (fetchOrders own rp s) = ca_destination s" for rp s
    by (simp_all add: fetchOrders_def h l split: sum.split)
qed

text \<open>
  The close form closes the wrong account. Once the user has confirmed, all pending orders
  of all accounts are cancelled, and the refresh that follows selects the open account with
  the largest balance; the request to close goes out for that one, whichever account the user
  had selected.
\<close>

lemma close_form_closes_first_account:
  assumes "ca_isValid s" "activeAccount s = Inr selected" "keyed traderKey (accounts s)"
    and "\<And>n. cl_cancels rs n = Inr ()" and "rp_accounts (cl_lists rs) = Inr accountsList"
    and "[] \<notin> account_key ` set accountsList"
    and "sort_accounts (map snd (refresh_accounts accountsList (accounts s))) = a # rest"
  shows "pool_sent (snd (ca_closeAccount own rs s)) = pool_sent s @ cancel_requests (filter ord_isPending (sortedOrders s)) @
    [PoolAccount (closeAccount_request (traderKey a) (Some (satsPerVByteToKWeight (ca_satsPerVbyte s))) (Some (ca_destination s)))]"
proof -
  define t where "t = ca_setLoading True s"
  have t: "accounts t = accounts s" "pool_sent t = pool_sent s" "sortedOrders t = sortedOrders s" "activeTraderKey t = activeTraderKey s"
    by (simp_all add: t_def ca_setLoading_def sortedOrders_def)
  then have sel: "activeAccount t = Inr selected" using assms(2) activeAccount_cong by metis
  define c where "c = t\<lparr>pool_sent := pool_sent t @ cancel_requests (filter ord_isPending (sortedOrders t))\<rparr>"
  define u where "u = fetchAccounts (cl_lists rs) (fetchOrders own (cl_lists rs) c)"
  have can: "cancelAllOrders own (cl_cancels rs) (cl_lists rs) t = (Inr (), u)"
    by (simp add: cancelAllOrders_def sel cancel_each_all [OF assms(4)] u_def c_def)
  have sent: "pool_sent u = pool_sent s @ cancel_requests (filter ord_isPending (sortedOrders s))"
    by (simp add: u_def c_def t)
  have acc: "accounts (fetchOrders own (cl_lists rs) c) = accounts s" by (simp add: c_def t)
  have "sortedAccounts u = a # rest"
    unfolding u_def sortedAccounts_def using fetchAccounts_state(1) [OF assms(5), of "fetchOrders own (cl_lists rs) c"] acc assms(7) by simp
  then have act: "activeAccount u = Inr a"
    using activeAccount_after_fetch [OF assms(5) _ assms(6) u_def] acc assms(3) by simp
  have form: "ca_satsPerVbyte u = ca_satsPerVbyte s" "ca_destination u = ca_destination s"
    by (simp_all add: u_def c_def t_def close_form_frame ca_setLoading_def)
  let ?close = "closeAccount (satsPerVByteToKWeight (ca_satsPerVbyte s)) (Some (ca_destination s)) (cl_txid rs) (cl_after rs) u"
  have "pool_sent (snd (ca_closeAccount own rs s)) = pool_sent (snd ?close)"
    using assms(1) can unfolding ca_closeAccount_def t_def by (simp add: Let_def case_prod_beta form then_do_sent)
  then show ?thesis by (simp add: closeAccount_sent [OF act] sent)
qed

section \<open>Witnesses\<close>

text \<open>
  Two open accounts; the user has selected the poorer one and filled the forms: an order of
  three units, and the closing of the account.
\<close>

definition initial_forms :: app_forms where
  "initial_forms = app_batches.extend (app_pool.extend (setActiveTraderKey ''01'' (fetchAccounts demo_replies initial_pool))
     (app_batches.fields 2016 [(2016, MARKET_OPEN)] [] 0 0 None False None None))
     (app_forms.fields Bid 0 0 0 False 0 0 False False ''summary'' 0 DEFAULT_CONF_TARGET DEFAULT_EXPIRE_BLOCKS 0 False 0 0 False [] 0 False DEFAULT_EXPIRE_BLOCKS 0 False)"

lemma initial_forms_simps [simp]:
  "accounts initial_forms = [(''01'', Account_update (demo_account ''AQ=='' 200000 ACCT_OPEN)), (''02'', Account_update (demo_account ''Ag=='' 300000 ACCT_OPEN))]"
  "activeTraderKey initial_forms = Some ''01''" "orders initial_forms = []" "pool_sent initial_forms = []"
  "selectedLeaseDuration initial_forms = 2016" "of_duration initial_forms = 0"
proof -
  let ?s = "setActiveTraderKey ''01'' (fetchAccounts demo_replies initial_pool)"
  have a: "accounts ?s = [(''01'', Account_update (demo_account ''AQ=='' 200000 ACCT_OPEN)), (''02'', Account_update (demo_account ''Ag=='' 300000 ACCT_OPEN))]"
    using fetchAccounts_state(1) [OF demo_reply(1), of initial_pool] by (simp add: setActiveTraderKey_def demo_refresh)
  have b: "accounts initial_forms = accounts ?s" "activeTraderKey initial_forms = activeTraderKey ?s" "orders initial_forms = orders ?s"
    "pool_sent initial_forms = pool_sent ?s" "selectedLeaseDuration initial_forms = 2016" "of_duration initial_forms = 0"
    by (simp_all add: initial_forms_def app_batches.extend_def app_pool.extend_def app_forms.fields_def app_batches.fields_def)
  show "accounts initial_forms = [(''01'', Account_update (demo_account ''AQ=='' 200000 ACCT_OPEN)), (''02'', Account_update (demo_account ''Ag=='' 300000 ACCT_OPEN))]"
    "activeTraderKey initial_forms = Some ''01''" "orders initial_forms = []" "pool_sent initial_forms = []"
    "selectedLeaseDuration initial_forms = 2016" "of_duration initial_forms = 0"
    unfolding b a by (simp_all add: setActiveTraderKey_def)
qed

definition demo_form :: "int \<Rightarrow> int \<Rightarrow> app_forms" where
  "demo_form a p = initial_forms\<lparr>of_amount := of_int a, of_premium := of_int p, form_minChanSize := 100000, form_maxBatchFeeRate := 100\<rparr>"

lemma demo_form_simps [simp]:
  "of_amount (demo_form a p) = of_int a" "of_premium (demo_form a p) = of_int p" "form_minChanSize (demo_form a p) = 100000"
  "derivedDuration (demo_form a p) = of_int 2016" "pool_sent (demo_form a p) = []"
  by (simp_all add: demo_form_def derivedDuration_def)

lemma demo_form_valid: "form_isValid (demo_form 300000 1000)" "form_isValid (demo_form 1000000 1)"
  by (simp_all add: demo_form_def form_isValid_def amountError_def minChanSizeError_def feeRateError_def js_rem_def js_trunc_def ONE_UNIT_def)

lemma demo_selected:
  assumes "accounts s = accounts initial_forms" "activeTraderKey s = Some ''01''"
  shows "activeAccount s = Inr (Account_update (demo_account ''AQ=='' 200000 ACCT_OPEN))"
  using assms by (simp add: activeAccount_def)

definition demo_submit :: submit_replies where
  "demo_submit = \<lparr>su_info = Inr ''0.5.4-alpha'', su_answer = Inr (''BQ=='', None), su_lists = demo_replies\<rparr>"

theorem placed_orders_are_well_formed_witness:
  "\<exists>req u. pool_sent (snd (placeOrder exact_big (\<lambda>v. Some v) (\<lambda>_ _. True) map_object_names demo_submit (demo_form 300000 1000))) =
     [PoolSubmit req] \<and> od_minUnitsMatch (sr_details req) = of_int u \<and> 1 \<le> u"
proof -
  let ?s = "demo_form 300000 1000"
  have act: "activeAccount ?s = Inr (Account_update (demo_account ''AQ=='' 200000 ACCT_OPEN))"
    by (rule demo_selected) (simp_all add: demo_form_def)
  have rate: "perBlockFixedRate exact_big ?s = Inr 1653"
    using form_rate [OF exact_big_law demo_form_valid(1), of 300000 1000 2016] by simp
  have "pool_sent (snd (placeOrder exact_big (\<lambda>v. Some v) (\<lambda>_ _. True) map_object_names demo_submit ?s)) \<noteq> pool_sent ?s"
    unfolding placeOrder_sent [OF rate] act by (simp add: submitOrder_request_def demo_submit_def)
  then show ?thesis
    using placed_orders_are_well_formed [OF exact_big_law demo_form_valid(1), of 300000 1000 2016 "\<lambda>v. Some v" "\<lambda>_ _. True" map_object_names demo_submit]
    by auto
qed

lemma low_premium_is_refused_late_witness:
  "premiumError exact_big (demo_form 1000000 1) = Inr (Some (Translated ''premiumLowError''))"
  using low_premium_is_refused_late [OF exact_big_law demo_form_valid(2), of 1000000 1 2016 "\<lambda>v. Some v" "\<lambda>_ _. True" map_object_names demo_submit]
  by simp

definition demo_close :: close_replies where
  "demo_close = \<lparr>cl_cancels = (\<lambda>_. Inr ()), cl_lists = demo_replies, cl_txid = Inr ''tx'', cl_after = demo_replies\<rparr>"

lemma close_form_closes_first_account_witness:
  "activeTraderKey (initial_forms\<lparr>ca_satsPerVbyte := 2\<rparr>) = Some ''01'' \<and>
   pool_sent (snd (ca_closeAccount map_object_names demo_close (initial_forms\<lparr>ca_satsPerVbyte := 2\<rparr>))) =
     [PoolAccount (closeAccount_request ''02'' (Some 500) (Some (ca_destination initial_forms)))]"
proof -
  let ?s = "initial_forms\<lparr>ca_satsPerVbyte := 2\<rparr>"
  have act: "activeAccount ?s = Inr (Account_update (demo_account ''AQ=='' 200000 ACCT_OPEN))" by (rule demo_selected) simp_all
  have valid: "ca_isValid ?s" by (simp add: ca_isValid_def)
  have keyed: "keyed traderKey (accounts ?s)" by (simp add: keyed_def)
  have lists: "rp_accounts (cl_lists demo_close) = Inr [demo_account ''AQ=='' 200000 ACCT_OPEN, demo_account ''Ag=='' 300000 ACCT_OPEN]"
    by (simp add: demo_close_def)
  have known: "refresh_accounts [demo_account ''AQ=='' 200000 ACCT_OPEN, demo_account ''Ag=='' 300000 ACCT_OPEN] (accounts ?s) = accounts ?s"
    by (simp add: refresh_accounts_def upsert_all_def drop_missing_def delete_all_def account_of_def)
  have head: "sort_accounts (map snd (refresh_accounts [demo_account ''AQ=='' 200000 ACCT_OPEN, demo_account ''Ag=='' 300000 ACCT_OPEN] (accounts ?s)))
    = Account_update (demo_account ''Ag=='' 300000 ACCT_OPEN) # [Account_update (demo_account ''AQ=='' 200000 ACCT_OPEN)]"
    unfolding known by (simp add: demo_sorted)
  have none: "sortedOrders ?s = []" by (simp add: sortedOrders_def sort_by_def js_sort_def)
  show ?thesis
    using close_form_closes_first_account [OF valid act keyed _ lists _ head, of map_object_names]
    by (simp add: demo_close_def none satsPerVByteToKWeight_def MIN_FEE_RATE_KW_def)
qed

end
