(* ===== verification/Pool_Views.thy ===== *)
theory Pool_Views
  imports Pool_Forms Js_Stringify
begin

text \<open>
  The lists of the Pool page and the sidecar wizard: \<open>app/src/store/views/leaseView.ts\<close>,
  \<open>orderListView.ts\<close>, \<open>batchesView.ts\<close> and \<open>registerSidecarView.ts\<close>. The wizard's timeouts and
  the requests that have not been answered are explicit: each can complete at any time.
\<close>

section \<open>Leases\<close>

record LeaseView =
  lv_lease :: Lease
  lv_currHeight :: int
  lv_channel :: "Channel option"

definition channel_status_text :: "ChannelStatus \<Rightarrow> string" where
  "channel_status_text t =
     (case t of UNKNOWN \<Rightarrow> ''Unknown'' | OPEN \<Rightarrow> ''Open'' | OPENING \<Rightarrow> ''Opening'' | CLOSING \<Rightarrow> ''Closing''
      | FORCE_CLOSING \<Rightarrow> ''Force Closing'' | WAITING_TO_CLOSE \<Rightarrow> ''Waiting To Close'')"

definition lv_channelPoint :: "LeaseView \<Rightarrow> string" where
  "lv_channelPoint v = ls_channelPoint (lv_lease v)"

definition plain_sats :: "big_lib \<Rightarrow> number_format \<Rightarrow> Big \<Rightarrow> string" where
  "plain_sats B fmt amt = formatSats B fmt amt \<lparr>fo_unit = None, fo_withSuffix = Some False, fo_lang = None\<rparr>"

definition lv_balances :: "big_lib \<Rightarrow> number_format \<Rightarrow> LeaseView \<Rightarrow> string" where
  "lv_balances B fmt v =
     (case lv_channel v of
        None \<Rightarrow> plain_sats B fmt (ls_channelAmtSat (lv_lease v))
      | Some c \<Rightarrow> plain_sats B fmt (localBalance c) @ '' / '' @ plain_sats B fmt (capacity c))"

definition lv_apr :: "big_lib \<Rightarrow> LeaseView \<Rightarrow> rat result" where
  "lv_apr B v =
     (let termInDays = of_int (ls_channelDurationBlocks (lv_lease v)) / BLOCKS_PER_DAY
      in annualPercentRate B (ls_channelAmtSat (lv_lease v)) (ls_premiumSat (lv_lease v)) termInDays)"

definition lv_aprLabel :: "big_lib \<Rightarrow> LeaseView \<Rightarrow> string result" where
  "lv_aprLabel B v = then_res (lv_apr B v) (\<lambda>r. Inr (number_text (toPercent r) @ ''%''))"

definition lv_premium :: "big_lib \<Rightarrow> number_format \<Rightarrow> LeaseView \<Rightarrow> string" where
  "lv_premium B fmt v = plain_sats B fmt (ls_premiumSat (lv_lease v))"

definition lv_status :: "LeaseView \<Rightarrow> string" where
  "lv_status v = (case lv_channel v of None \<Rightarrow> ''Closed'' | Some c \<Rightarrow> channel_status_text (ch_status c))"

definition blocksSoFar :: "LeaseView \<Rightarrow> int" where
  "blocksSoFar v =
     (if ls_channelLeaseExpiry (lv_lease v) = 0 then 0
      else max (ls_channelDurationBlocks (lv_lease v) - (ls_channelLeaseExpiry (lv_lease v) - lv_currHeight v)) 0)"

definition exceededDuration :: "LeaseView \<Rightarrow> bool" where
  "exceededDuration v \<longleftrightarrow> \<not> ls_purchased (lv_lease v) \<and> blocksSoFar v > ls_channelDurationBlocks (lv_lease v)"

definition lv_alias :: "LeaseView \<Rightarrow> string" where
  "lv_alias v =
     (case lv_channel v of
        None \<Rightarrow> ellipseInside (ls_channelRemoteNodeKey (lv_lease v)) 3 None
      | Some c \<Rightarrow> aliasLabel c)"

definition lv_remoteNodeUrl :: "'a app_settings_scheme \<Rightarrow> LeaseView \<Rightarrow> string" where
  "lv_remoteNodeUrl s v = settings_getLightningNodeUrl s (ls_channelRemoteNodeKey (lv_lease v))"

definition lv_localBalance :: "LeaseView \<Rightarrow> Big" where
  "lv_localBalance v = (case lv_channel v of Some c \<Rightarrow> localBalance c | None \<Rightarrow> 0)"

text \<open>The comparison by rate is used only where no rate throws (see \<open>selectedLeases\<close>).\<close>

definition LeaseView_compare :: "big_lib \<Rightarrow> string option \<Rightarrow> LeaseView \<Rightarrow> LeaseView \<Rightarrow> rat" where
  "LeaseView_compare B field a b =
     (if field = Some ''balances'' then lv_localBalance a - lv_localBalance b
      else if field = Some ''apr'' then
        (case (lv_apr B a, lv_apr B b) of (Inr x, Inr y) \<Rightarrow> x - y | _ \<Rightarrow> 0)
      else if field = Some ''premium'' then ls_premiumSat (lv_lease a) - ls_premiumSat (lv_lease b)
      else if field = Some ''status'' then (if str_gt (lv_status a) (lv_status b) then 1 else - 1)
      else if field = Some ''alias'' then (if str_gt (lv_alias a) (lv_alias b) then 1 else - 1)
      else of_int (blocksSoFar a - blocksSoFar b))"

section \<open>State\<close>

datatype OrdersFilter = NoFilter | FilterOpen | FilterFilled
datatype BatchesViewMode = ChartMode | ListMode

record app_views = app_forms +
  chosenNonce :: string
  orders_filter :: OrdersFilter
  batches_viewMode :: BatchesViewMode
  sc_currentStep :: int
  sc_ticket :: string
  sc_processingTimeout :: "nat option"
  sc_timers :: "nat list"
  sc_nextTimer :: nat
  sc_inFlight :: nat
  sc_sent :: "string list"

section \<open>The list of orders\<close>

definition listed_orders :: "'a app_views_scheme \<Rightarrow> Order list" where
  "listed_orders s =
     (case orders_filter s of
        NoFilter \<Rightarrow> sortedOrders s
      | FilterOpen \<Rightarrow> filter ord_isPending (sortedOrders s)
      | FilterFilled \<Rightarrow> filter (\<lambda>ord. ord_state ord = ORDER_EXECUTED) (sortedOrders s))"

definition channelsByPoint :: "big_lib \<Rightarrow> 'a app_views_scheme \<Rightarrow> (string \<times> Channel) list" where
  "channelsByPoint B s =
     foldl (\<lambda>m c. AList.update (channelPoint c) c m) [] (sortedChannels B s @ sortedPendingChannels B s)"

definition selectedNonce :: "'a app_views_scheme \<Rightarrow> string" where
  "selectedNonce s =
     (if chosenNonce s \<noteq> [] then chosenNonce s
      else case listed_orders s of [] \<Rightarrow> [] | ord # _ \<Rightarrow> ord_nonce ord)"

definition lease_views :: "big_lib \<Rightarrow> 'a app_views_scheme \<Rightarrow> LeaseView list" where
  "lease_views B s =
     map (\<lambda>x. \<lparr>lv_lease = x, lv_currHeight = blockHeight s, lv_channel = map_of (channelsByPoint B s) (ls_channelPoint x)\<rparr>)
       (case map_of (leasesByNonce s) (selectedNonce s) of None \<Rightarrow> [] | Some xs \<Rightarrow> xs)"

text \<open>Sorting by rate throws when there is something to compare and a rate throws.\<close>

definition selectedLeases :: "big_lib \<Rightarrow> 'a app_views_scheme \<Rightarrow> LeaseView list result" where
  "selectedLeases B s =
     (let vs = lease_views B s; field = so_field (leaseSort s) in
      if field = Some ''apr'' \<and> 2 \<le> length vs \<and> list_ex (\<lambda>v. isl (lv_apr B v)) vs
      then Inl (Error ''[big.js] Division by zero'')
      else Inr (sort_by (LeaseView_compare B field) (so_descending (leaseSort s)) vs))"

definition setChosenNonce :: "string \<Rightarrow> 'a app_views_scheme \<Rightarrow> 'a app_views_scheme" where
  "setChosenNonce nonce s = s\<lparr>chosenNonce := nonce\<rparr>"

definition setFilter :: "OrdersFilter \<Rightarrow> 'a app_views_scheme \<Rightarrow> 'a app_views_scheme" where
  "setFilter f s = s\<lparr>orders_filter := f, chosenNonce := []\<rparr>"

definition filterByOpen :: "'a app_views_scheme \<Rightarrow> 'a app_views_scheme" where
  "filterByOpen = setFilter FilterOpen"

definition filterByFilled :: "'a app_views_scheme \<Rightarrow> 'a app_views_scheme" where
  "filterByFilled = setFilter FilterFilled"

definition clearFilter :: "'a app_views_scheme \<Rightarrow> 'a app_views_scheme" where
  "clearFilter = setFilter NoFilter"

section \<open>The batches\<close>

definition currentRate :: "big_lib \<Rightarrow> 'a app_views_scheme \<Rightarrow> int" where
  "currentRate B s = (case sortedBatches s of [] \<Rightarrow> 0 | b # _ \<Rightarrow> basisPoints B b)"

definition currentFixedRate :: "'a app_views_scheme \<Rightarrow> int" where
  "currentFixedRate s = (case sortedBatches s of [] \<Rightarrow> 0 | b # _ \<Rightarrow> clearingPriceRate b)"

text \<open>The rates of sorted batches are positive, so the quotient is defined.\<close>

definition currentRateChange :: "'a app_views_scheme \<Rightarrow> rat" where
  "currentRateChange s =
     (case sortedBatches s of
        b # c # _ \<Rightarrow> toPercent (of_int (clearingPriceRate b - clearingPriceRate c) / of_int (clearingPriceRate c))
      | _ \<Rightarrow> 0)"

definition tier :: "'a app_views_scheme \<Rightarrow> string" where
  "tier s =
     (case nodeTier s of
        None \<Rightarrow> []
      | Some t \<Rightarrow> if t = 2 then ''T1'' else if t = TIER_0 \<or> t = 0 then ''T0'' else [])"

definition selectedMarket :: "'a app_views_scheme \<Rightarrow> string" where
  "selectedMarket s = int_to_string (selectedLeaseDuration s)"

definition openMarkets :: "'a app_views_scheme \<Rightarrow> (int \<times> int) list" where
  "openMarkets s = filter (\<lambda>(_, st). st = MARKET_OPEN) (sortedDurations s)"

text \<open>Label, value and tip.\<close>

definition marketOptions :: "'a app_views_scheme \<Rightarrow> (string \<times> string \<times> string) list" where
  "marketOptions s =
     map (\<lambda>(d, _). (blocksToTime (of_int d), int_to_string d, int_to_string d @ '' blocks'')) (openMarkets s)"

definition batches_isEmpty :: "'a app_views_scheme \<Rightarrow> bool" where
  "batches_isEmpty s \<longleftrightarrow> sortedBatches s = [] \<and> \<not> batches_loading s"

definition showMarketBadges :: "'a app_views_scheme \<Rightarrow> bool" where
  "showMarketBadges s \<longleftrightarrow> length (openMarkets s) > 1"

definition setViewMode :: "BatchesViewMode \<Rightarrow> 'a app_views_scheme \<Rightarrow> 'a app_views_scheme" where
  "setViewMode v s = s\<lparr>batches_viewMode := v\<rparr>"

text \<open>A value that is no number is not among the durations either.\<close>

definition changeMarket :: "string \<Rightarrow> 'a app_views_scheme \<Rightarrow> 'a app_views_scheme" where
  "changeMarket v s =
     (case parseInt10 v of
        Some duration \<Rightarrow> setActiveMarket duration s
      | None \<Rightarrow> handleError (AppError ''NaN is not a valid lease duration'') ''Unable to switch markets'' s)"

section \<open>The sidecar wizard\<close>

abbreviation (input) SIDECAR_CLOSED :: int where "SIDECAR_CLOSED \<equiv> 0"
abbreviation (input) ENTER_TICKET :: int where "ENTER_TICKET \<equiv> 1"
abbreviation (input) CONFIRM_TICKET :: int where "CONFIRM_TICKET \<equiv> 2"
abbreviation (input) SIDECAR_PROCESSING :: int where "SIDECAR_PROCESSING \<equiv> 3"
abbreviation (input) SIDECAR_COMPLETE :: int where "SIDECAR_COMPLETE \<equiv> 4"

definition sc_showWizard :: "'a app_views_scheme \<Rightarrow> bool" where
  "sc_showWizard s \<longleftrightarrow> sc_currentStep s \<in> {ENTER_TICKET, CONFIRM_TICKET, SIDECAR_PROCESSING, SIDECAR_COMPLETE}"

definition startRegister :: "'a app_views_scheme \<Rightarrow> 'a app_views_scheme" where
  "startRegister s = s\<lparr>sc_currentStep := ENTER_TICKET\<rparr>"

definition registerTicket :: "'a app_views_scheme \<Rightarrow> 'a app_views_scheme" where
  "registerTicket s =
     s\<lparr>sc_processingTimeout := Some (sc_nextTimer s), sc_timers := sc_timers s @ [sc_nextTimer s],
       sc_nextTimer := Suc (sc_nextTimer s)\<rparr>"

definition sc_goToNextStep :: "'a app_views_scheme \<Rightarrow> 'a app_views_scheme" where
  "sc_goToNextStep s =
     (let s = (if sc_currentStep s = CONFIRM_TICKET then registerTicket s else s)
      in s\<lparr>sc_currentStep := sc_currentStep s + 1\<rparr>)"

definition sc_abort :: "'a app_views_scheme \<Rightarrow> 'a app_views_scheme" where
  "sc_abort s =
     (case sc_processingTimeout s of
        None \<Rightarrow> s
      | Some t \<Rightarrow> s\<lparr>sc_timers := removeAll t (sc_timers s), sc_processingTimeout := None\<rparr>)"

definition sc_cancel :: "'a app_views_scheme \<Rightarrow> 'a app_views_scheme" where
  "sc_cancel s = s\<lparr>sc_currentStep := SIDECAR_CLOSED, sc_ticket := []\<rparr>"

definition sc_goToPrevStep :: "'a app_views_scheme \<Rightarrow> 'a app_views_scheme" where
  "sc_goToPrevStep s =
     (let s = (if sc_currentStep s = SIDECAR_PROCESSING then sc_abort s else s)
      in if sc_currentStep s = SIDECAR_COMPLETE then sc_cancel s
         else s\<lparr>sc_currentStep := sc_currentStep s - 1\<rparr>)"

definition setTicket :: "string \<Rightarrow> 'a app_views_scheme \<Rightarrow> 'a app_views_scheme" where
  "setTicket t s = s\<lparr>sc_ticket := t\<rparr>"

text \<open>A timeout fires: the request goes out with the ticket of that moment.\<close>

definition sc_timer_fires :: "nat \<Rightarrow> 'a app_views_scheme \<Rightarrow> 'a app_views_scheme" where
  "sc_timer_fires t s =
     s\<lparr>sc_timers := removeAll t (sc_timers s), sc_sent := sc_sent s @ [sc_ticket s], sc_inFlight := Suc (sc_inFlight s)\<rparr>"

text \<open>The answer to a request.\<close>

definition sc_reply :: "unit api_result \<Rightarrow> 'a app_views_scheme \<Rightarrow> 'a app_views_scheme" where
  "sc_reply res s =
     (let s = s\<lparr>sc_inFlight := sc_inFlight s - 1\<rparr> in
      case res of
        Inr _ \<Rightarrow> sc_goToNextStep s
      | Inl e \<Rightarrow> sc_goToPrevStep (handleError e ''Unable to register ticket'' s))"

section \<open>The leases of an order\<close>

lemma leases_grouped:
  "map_of (leasesByNonce s) n =
     (let xs = filter (\<lambda>x. ls_orderNonce x = n) (map snd (leases s)) in if xs = [] then None else Some xs)"
proof -
  let ?step = "\<lambda>m x. case map_of m (ls_orderNonce x) of
      None \<Rightarrow> AList.update (ls_orderNonce x) [x] m | Some xs \<Rightarrow> AList.update (ls_orderNonce x) (xs @ [x]) m"
  have "map_of (foldl ?step [] ls) n = (let xs = filter (\<lambda>x. ls_orderNonce x = n) ls in if xs = [] then None else Some xs)" for ls :: "Lease list"
  proof (induction ls rule: rev_induct)
    case (snoc x ls)
    then show ?case by (cases "ls_orderNonce x = n") (auto simp: Let_def update_conv' split: option.split)
  qed simp
  then show ?thesis by (simp add: leasesByNonce_def)
qed

lemma channelsByPoint_point: "map_of (channelsByPoint B s) k = Some c \<Longrightarrow> channelPoint c = k"
proof -
  have "map_of (foldl (\<lambda>m c. AList.update (channelPoint c) c m) [] cs) k = Some c \<Longrightarrow> channelPoint c = k" for cs
    by (induction cs rule: rev_induct) (auto simp: update_conv' split: if_splits)
  then show "map_of (channelsByPoint B s) k = Some c \<Longrightarrow> channelPoint c = k" unfolding channelsByPoint_def by blast
qed

text \<open>
  The lease list shows the leases of the selected order: each exactly once, with the
  channel at its channel point if the node still has it, and at the current height. It fails
  only when it is sorted by rate and a rate cannot be computed.
\<close>

lemma lease_list_shows_selected_order:
  "case selectedLeases B s of
     Inr vs \<Rightarrow>
       mset (map lv_lease vs) = mset (filter (\<lambda>x. ls_orderNonce x = selectedNonce s) (map snd (leases s))) \<and>
       list_all (\<lambda>v. lv_currHeight v = blockHeight s \<and>
         (case lv_channel v of None \<Rightarrow> lv_status v = ''Closed'' | Some c \<Rightarrow> channelPoint c = lv_channelPoint v)) vs
   | Inl e \<Rightarrow> so_field (leaseSort s) = Some ''apr'' \<and> list_ex (\<lambda>v. isl (lv_apr B v)) (lease_views B s)"
proof -
  have l: "map lv_lease (lease_views B s) = filter (\<lambda>x. ls_orderNonce x = selectedNonce s) (map snd (leases s))"
    by (simp add: lease_views_def leases_grouped Let_def comp_def)
  have a: "list_all (\<lambda>v. lv_currHeight v = blockHeight s \<and>
      (case lv_channel v of None \<Rightarrow> lv_status v = ''Closed'' | Some c \<Rightarrow> channelPoint c = lv_channelPoint v)) (lease_views B s)"
    by (auto simp: lease_views_def list_all_iff lv_status_def lv_channelPoint_def channelsByPoint_point split: option.split)
  have m: "mset (map lv_lease (sort_by cmp d vs)) = mset (map lv_lease vs)" for cmp d and vs :: "LeaseView list"
    by simp
  show ?thesis
    using a unfolding selectedLeases_def Let_def l [symmetric] m [of "LeaseView_compare B (so_field (leaseSort s))" "so_descending (leaseSort s)" "lease_views B s", symmetric]
    by (auto simp: list_all_iff)
qed

section \<open>Going back in the sidecar wizard\<close>

text \<open>Every delay sends at most one request, for whatever events in whatever order.\<close>

inductive sidecar_step :: "'a app_views_scheme \<Rightarrow> 'a app_views_scheme \<Rightarrow> bool" where
  "sidecar_step s (startRegister s)"
| "sidecar_step s (sc_goToNextStep s)"
| "sidecar_step s (sc_goToPrevStep s)"
| "sidecar_step s (sc_cancel s)"
| "sidecar_step s (setTicket t s)"
| "n \<in> set (sc_timers s) \<Longrightarrow> sidecar_step s (sc_timer_fires n s)"
| "0 < sc_inFlight s \<Longrightarrow> sidecar_step s (sc_reply res s)"

definition sidecar_inv :: "'a app_views_scheme \<Rightarrow> bool" where
  "sidecar_inv s \<longleftrightarrow> distinct (sc_timers s) \<and> (\<forall>n \<in> set (sc_timers s). n < sc_nextTimer s) \<and>
     length (sc_sent s) + length (sc_timers s) \<le> sc_nextTimer s"

lemmas sidecar_defs = startRegister_def sc_goToNextStep_def sc_goToPrevStep_def sc_cancel_def setTicket_def sc_timer_fires_def
  sc_reply_def registerTicket_def sc_abort_def

lemma removeAll_shorter: "n \<in> set xs \<Longrightarrow> Suc (length (removeAll n xs)) \<le> length xs"
  using length_removeAll_less [of n xs] by simp

lemma next_inv: "sidecar_inv s \<Longrightarrow> sidecar_inv (sc_goToNextStep s)"
  by (auto simp: sidecar_inv_def sidecar_defs Let_def less_Suc_eq)

lemma prev_inv: "sidecar_inv s \<Longrightarrow> sidecar_inv (sc_goToPrevStep s)"
proof -
  assume i: "sidecar_inv s"
  have "sidecar_inv (sc_abort s)"
  proof (cases "sc_processingTimeout s")
    case (Some t)
    have "length (sc_sent s) + length (removeAll t (sc_timers s)) \<le> length (sc_sent s) + length (sc_timers s)"
      by (simp add: length_removeAll_less_eq)
    then have "length (sc_sent s) + length (removeAll t (sc_timers s)) \<le> sc_nextTimer s" using i unfolding sidecar_inv_def by linarith
    then show ?thesis using i Some by (simp add: sidecar_inv_def sc_abort_def distinct_removeAll)
  qed (use i in \<open>simp add: sc_abort_def\<close>)
  then show ?thesis using i by (auto simp: sidecar_inv_def sc_goToPrevStep_def sc_cancel_def Let_def)
qed

lemma sidecar_step_inv: "sidecar_step s t \<Longrightarrow> sidecar_inv s \<Longrightarrow> sidecar_inv t"
proof (induction rule: sidecar_step.induct)
  case (6 n s)
  then show ?case using removeAll_shorter [OF 6(1)] by (auto simp: sidecar_inv_def sc_timer_fires_def distinct_removeAll)
next
  case (7 s res)
  have "sidecar_inv (s\<lparr>sc_inFlight := sc_inFlight s - 1\<rparr>)" using 7 by (simp add: sidecar_inv_def)
  moreover have "sidecar_inv (handleError e m u) = sidecar_inv u" for e m and u :: "'a app_views_scheme"
    by (simp add: sidecar_inv_def handleError_def notify_def Let_def split: app_error.split)
  ultimately show ?case by (auto simp: sc_reply_def Let_def next_inv prev_inv split: sum.split)
qed (simp_all add: next_inv prev_inv, simp_all add: sidecar_inv_def startRegister_def sc_cancel_def setTicket_def)

text \<open>
  C27. Every request to register a ticket stems from one delay that was started on the
  confirmation step, and going back before the delay has passed sends nothing. But going back
  while the request is on its way makes its success count as a confirmation: the wizard
  starts another delay by itself and registers the ticket a second time.
\<close>

theorem back_during_request_registers_again:
  assumes "sidecar_step\<^sup>*\<^sup>* s\<^sub>0 s" "sc_timers s\<^sub>0 = []" "sc_sent s\<^sub>0 = []" "sc_currentStep s = SIDECAR_PROCESSING"
  shows "length (sc_sent s) \<le> sc_nextTimer s \<and>
    (sc_timers s = [n] \<and> sc_processingTimeout s = Some n \<longrightarrow> sc_timers (sc_goToPrevStep s) = []) \<and>
    (let t = sc_reply (Inr ()) (sc_goToPrevStep s); k = sc_nextTimer s
     in k \<in> set (sc_timers t) \<and> sc_currentStep t = SIDECAR_PROCESSING \<and>
        sc_sent (sc_timer_fires k t) = sc_sent s @ [sc_ticket s])"
proof -
  have "sidecar_inv s"
    using assms(1)
  proof (induction rule: rtranclp_induct)
    case base
    then show ?case using assms(2,3) by (simp add: sidecar_inv_def)
  qed (rule sidecar_step_inv)
  then show ?thesis
    using assms(4) by (auto simp: sidecar_inv_def sidecar_defs Let_def split: option.split)
qed

definition initial_views :: app_views where
  "initial_views = app_forms.extend initial_forms (app_views.fields [] FilterOpen ChartMode SIDECAR_CLOSED [] None [] 0 0 [])"

definition demo_sidecar :: app_views where
  "demo_sidecar = sc_timer_fires 0 (sc_goToNextStep (sc_goToNextStep (setTicket ''sidecar1'' (startRegister initial_views))))"

lemma initial_views_simps [simp]:
  "sc_timers initial_views = []" "sc_sent initial_views = []" "sc_nextTimer initial_views = 0"
  by (simp_all add: initial_views_def app_forms.extend_def app_views.fields_def)

lemma demo_sidecar_reached: "sidecar_step\<^sup>*\<^sup>* initial_views demo_sidecar"
proof -
  let ?b = "setTicket ''sidecar1'' (startRegister initial_views)"
  let ?d = "sc_goToNextStep (sc_goToNextStep ?b)"
  have "sidecar_step initial_views (startRegister initial_views)" "sidecar_step (startRegister initial_views) ?b"
    "sidecar_step ?b (sc_goToNextStep ?b)" "sidecar_step (sc_goToNextStep ?b) ?d" by (rule sidecar_step.intros)+
  moreover have "sidecar_step ?d demo_sidecar"
    unfolding demo_sidecar_def by (rule sidecar_step.intros) (simp add: sidecar_defs Let_def)
  ultimately show ?thesis by (meson rtranclp.rtrancl_refl rtranclp.rtrancl_into_rtrancl)
qed

theorem back_during_request_registers_again_witness:
  "sc_sent (sc_timer_fires 1 (sc_reply (Inr ()) (sc_goToPrevStep demo_sidecar))) = [''sidecar1'', ''sidecar1'']"
proof -
  have s: "sc_currentStep demo_sidecar = SIDECAR_PROCESSING" "sc_nextTimer demo_sidecar = 1" "sc_sent demo_sidecar = [''sidecar1'']"
    "sc_ticket demo_sidecar = ''sidecar1''"
    by (simp_all add: demo_sidecar_def sidecar_defs Let_def)
  show ?thesis
    using back_during_request_registers_again [OF demo_sidecar_reached _ _ s(1), of 0] s(2-) by (simp add: Let_def)
qed

end
