(* ===== verification/Pool_Chart.thy ===== *)
theory Pool_Chart
  imports Pool_Batches
begin

text \<open>
  The chart of the auction's batches without its drawing:
  \<open>app/src/components/pool/batches/BatchChart.tsx\<close>, \<open>chart/D3Chart.ts\<close>, \<open>chart/Scales.ts\<close> and
  \<open>chart/Zoomer.ts\<close>. Kept of a chart are its data, dimensions and the domains of its scales, the
  positions it was panned to, and the pages it asked the batch store for.
\<close>

section \<open>Data\<close>

record BatchChartData =
  bd_id :: string
  bd_volume :: Big
  bd_orders :: nat
  bd_rate :: int
  bd_pctChange :: string
  bd_delta :: BatchDelta

record ChartDimensions =
  dm_outerWidth :: rat
  dm_outerHeight :: rat
  dm_width :: rat
  dm_height :: rat
  dm_blocksHeight :: rat
  dm_blocksPadding :: rat
  dm_blockSize :: rat
  dm_totalWidth :: rat

abbreviation (input) MARGIN_top :: rat where "MARGIN_top \<equiv> 0"
abbreviation (input) MARGIN_right :: rat where "MARGIN_right \<equiv> 30"
abbreviation (input) MARGIN_bottom :: rat where "MARGIN_bottom \<equiv> 30"
abbreviation (input) MARGIN_left :: rat where "MARGIN_left \<equiv> 50"
abbreviation (input) COL_WIDTH :: rat where "COL_WIDTH \<equiv> 150"

definition getDimensions :: "rat \<Rightarrow> rat \<Rightarrow> nat \<Rightarrow> ChartDimensions" where
  "getDimensions outerWidth outerHeight batchCount =
     \<lparr>dm_outerWidth = outerWidth, dm_outerHeight = outerHeight, dm_width = outerWidth - MARGIN_left - MARGIN_right,
      dm_height = outerHeight - MARGIN_top - MARGIN_bottom, dm_blocksHeight = outerHeight * (6 / 10),
      dm_blocksPadding = outerHeight * (6 / 10) * (2 / 10), dm_blockSize = 100,
      dm_totalWidth = max (of_nat batchCount * COL_WIDTH) (outerWidth - MARGIN_left - MARGIN_right)\<rparr>"

text \<open>\<open>num_text\<close> is \<open>Number.prototype.toString\<close>; a change that is no finite number is \<open>NaN\<close> or infinite.\<close>

definition pctToText :: "(rat \<Rightarrow> string) \<Rightarrow> int \<Rightarrow> rat option \<Rightarrow> string" where
  "pctToText num_text rate p =
     (case p of
        Some p \<Rightarrow> if p = 0 then ''--'' else (if p > 0 then ''+'' else []) @ num_text p @ ''%''
      | None \<Rightarrow> if rate = 0 then ''NaN%'' else ''+Infinity%'')"

definition convertData :: "big_lib \<Rightarrow> (rat \<Rightarrow> string) \<Rightarrow> Batch list \<Rightarrow> BatchChartData list" where
  "convertData B num_text bs =
     map (\<lambda>b. \<lparr>bd_id = batchIdEllipsed b, bd_volume = volume b, bd_orders = ordersCount b, bd_rate = basisPoints B b,
                bd_pctChange = pctToText num_text (basisPoints B b) (pctChange B bs b), bd_delta = delta B bs b\<rparr>) bs"

definition hasLoadedPastData :: "BatchChartData list \<Rightarrow> BatchChartData list \<Rightarrow> bool result" where
  "hasLoadedPastData oldData newData =
     (case oldData of
        [] \<Rightarrow> Inr False
      | o1 # _ \<Rightarrow>
          if length oldData = length newData then Inr False
          else (case newData of
                  [] \<Rightarrow> Inl (Error ''Cannot read properties of undefined (reading id)'')
                | n1 # _ \<Rightarrow> Inr (bd_id o1 = bd_id n1)))"

section \<open>The chart\<close>

record chart_scales =
  sc_x :: "string list"
  sc_volume :: "rat \<times> rat"
  sc_orders :: "nat \<times> nat"
  sc_rates :: "int \<times> int"

record d3_chart =
  dc_data :: "BatchChartData list"
  dc_market :: int
  dc_dimensions :: ChartDimensions
  dc_scales :: chart_scales
  dc_loading :: bool
  dc_shift :: rat
  dc_pans :: "rat list"
  dc_requests :: nat

definition scale_domains :: "BatchChartData list \<Rightarrow> chart_scales" where
  "scale_domains data =
     \<lparr>sc_x = map bd_id data, sc_volume = (0, Max (set (map bd_volume data))), sc_orders = (0, Max (set (map bd_orders data))),
      sc_rates = (Min (set (map bd_rate data)), Max (set (map bd_rate data)))\<rparr>"

definition resizeZoom :: "bool \<Rightarrow> ChartDimensions \<Rightarrow> d3_chart \<Rightarrow> d3_chart" where
  "resizeZoom pastData prev c =
     (let d = dc_dimensions c in
      if \<not> pastData then c\<lparr>dc_pans := dc_pans c @ [dm_width d - dm_totalWidth d]\<rparr>
      else (let diff = dm_totalWidth prev - dm_totalWidth d
            in c\<lparr>dc_pans := dc_pans c @ [diff, diff + dm_width d - 150]\<rparr>))"

definition chart_update :: "big_lib \<Rightarrow> (rat \<Rightarrow> string) \<Rightarrow> Batch list \<Rightarrow> int \<Rightarrow> d3_chart \<Rightarrow> d3_chart result" where
  "chart_update B num_text bs market c =
     (let data = convertData B num_text bs in
      then_res (hasLoadedPastData (dc_data c) data) (\<lambda>past.
        let pastData = (past \<and> dc_market c = market);
            prev = dc_dimensions c;
            c = c\<lparr>dc_data := data, dc_market := market,
                  dc_dimensions := getDimensions (dm_outerWidth prev) (dm_outerHeight prev) (length bs),
                  dc_scales := scale_domains data, dc_loading := False\<rparr>
        in Inr (resizeZoom pastData prev c)))"

definition chart_resize :: "rat \<Rightarrow> rat \<Rightarrow> d3_chart \<Rightarrow> d3_chart" where
  "chart_resize outerWidth outerHeight c =
     resizeZoom False (dc_dimensions c)
       (c\<lparr>dc_dimensions := getDimensions outerWidth outerHeight (length (dc_data c))\<rparr>)"

text \<open>A drag or scroll, also one the chart asked for, that ends at the position \<open>x\<close>.\<close>

definition zoom_event :: "rat \<Rightarrow> d3_chart \<Rightarrow> d3_chart" where
  "zoom_event x c =
     (let c = c\<lparr>dc_shift := MARGIN_left + x\<rparr>
      in if x = 0 \<and> \<not> dc_loading c then c\<lparr>dc_loading := True, dc_requests := Suc (dc_requests c)\<rparr> else c)"

definition new_D3Chart :: "big_lib \<Rightarrow> (rat \<Rightarrow> string) \<Rightarrow> Batch list \<Rightarrow> int \<Rightarrow> rat \<Rightarrow> rat \<Rightarrow> d3_chart result" where
  "new_D3Chart B num_text bs market outerWidth outerHeight =
     (let data = convertData B num_text bs;
          c = \<lparr>dc_data = data, dc_market = market, dc_dimensions = getDimensions outerWidth outerHeight (length bs),
               dc_scales = scale_domains data, dc_loading = False, dc_shift = MARGIN_left, dc_pans = [], dc_requests = 0\<rparr>
      in then_res (chart_update B num_text bs market c) (\<lambda>c. Inr (chart_resize outerWidth outerHeight c)))"

text \<open>The effect of the component, run when the list of batches or the market has changed.\<close>

definition chart_effect ::
    "big_lib \<Rightarrow> (rat \<Rightarrow> string) \<Rightarrow> rat \<Rightarrow> rat \<Rightarrow> 'a app_batches_scheme \<Rightarrow> d3_chart option \<Rightarrow> d3_chart option result" where
  "chart_effect B num_text w h s c =
     (if w = 0 \<or> h = 0 \<or> sortedBatches s = [] then Inr c
      else case c of
        None \<Rightarrow> then_res (new_D3Chart B num_text (sortedBatches s) (selectedLeaseDuration s) w h) (\<lambda>c. Inr (Some c))
      | Some c \<Rightarrow> then_res (chart_update B num_text (sortedBatches s) (selectedLeaseDuration s) c) (\<lambda>c. Inr (Some c)))"

section \<open>Pages and positions\<close>

lemma convertData_ids: "map bd_id (convertData B num_text bs) = map batchIdEllipsed bs" "length (convertData B num_text bs) = length bs"
  by (simp_all add: convertData_def comp_def)

text \<open>The effect never runs into the missing first batch.\<close>

lemma effect_returns: "\<exists>c'. chart_effect B num_text w h s c = Inr c'"
  by (auto simp: chart_effect_def new_D3Chart_def chart_update_def then_res_def hasLoadedPastData_def convertData_def Let_def
      split: option.split list.split)

lemma column_per_batch: "COL_WIDTH * of_nat n \<le> dm_totalWidth (getDimensions w h n) \<and> dm_width (getDimensions w h n) \<le> dm_totalWidth (getDimensions w h n)"
  by (simp add: getDimensions_def mult.commute)

text \<open>The chart of a state shows its batches and its market.\<close>

definition chart_shows :: "big_lib \<Rightarrow> (rat \<Rightarrow> string) \<Rightarrow> 'a app_batches_scheme \<Rightarrow> d3_chart \<Rightarrow> bool" where
  "chart_shows B num_text s c \<longleftrightarrow> dc_data c = convertData B num_text (sortedBatches s) \<and> dc_market c = selectedLeaseDuration s \<and>
     dc_dimensions c = getDimensions (dm_outerWidth (dc_dimensions c)) (dm_outerHeight (dc_dimensions c)) (length (sortedBatches s))"

lemma update_shows:
  assumes "chart_update B num_text (sortedBatches s) (selectedLeaseDuration s) c = Inr c'"
  shows "chart_shows B num_text s c' \<and> \<not> dc_loading c' \<and> dc_requests c' = dc_requests c \<and>
    dc_dimensions c' = getDimensions (dm_outerWidth (dc_dimensions c)) (dm_outerHeight (dc_dimensions c)) (length (sortedBatches s))"
  using assms
  by (auto simp: chart_update_def then_res_def Let_def resizeZoom_def chart_shows_def getDimensions_def split: sum.splits if_splits)

text \<open>Longer by a prefix: the first batch is the same.\<close>

lemma past_page:
  assumes "bs \<noteq> []" "bs' = bs @ e"
  shows "hasLoadedPastData (convertData B num_text bs) (convertData B num_text bs') = Inr (bs' \<noteq> bs)"
proof -
  obtain b r where bs: "bs = b # r" using assms(1) by (cases bs) auto
  show ?thesis by (cases e) (simp_all add: bs assms(2) hasLoadedPastData_def convertData_def)
qed

lemma sorted_prefix:
  assumes "history hs" "serves hs snapshots" "viewing hs d k s"
  shows "\<exists>e. sortedBatches (fetchBatches durations snapshots s) = sortedBatches s @ e"
    and "selectedLeaseDuration (fetchBatches durations snapshots s) = selectedLeaseDuration s"
proof -
  let ?t = "fetchBatches durations snapshots s"
  define k' where "k' = (if hasMoreBatches s then max k (min (length hs) (reach d (take k hs) + BATCH_QUERY_LIMIT)) else k)"
  have v: "viewing hs d k' ?t" using fetchBatches_page(1) [OF assms] assms(3) by (simp add: k'_def fetchBatches_done)
  have srt: "sortedBatches u = filter (\<lambda>b. clearingPriceRate b > 0) (map (new_Batch d) (take j hs))" if "viewing hs d j u" for j u
    using displays_sorted [OF assms(1), of j "activeMarket u"] that by (simp add: viewing_def sortedBatches_def)
  have "take k' hs = take k hs @ take (k' - k) (drop k hs)" using take_add [of k "k' - k" hs] by (simp add: k'_def)
  thus "\<exists>e. sortedBatches ?t = sortedBatches s @ e" unfolding srt [OF assms(3)] srt [OF v] by simp
  show "selectedLeaseDuration ?t = selectedLeaseDuration s" using v assms(3) by (simp add: viewing_def)
qed


section \<open>Requests\<close>

datatype chart_event = Zoomed rat | Resized rat rat | BatchesChanged "Batch list" int

fun chart_apply :: "big_lib \<Rightarrow> (rat \<Rightarrow> string) \<Rightarrow> chart_event \<Rightarrow> d3_chart \<Rightarrow> d3_chart" where
  "chart_apply B num_text (Zoomed x) c = zoom_event x c"
| "chart_apply B num_text (Resized w h) c = chart_resize w h c"
| "chart_apply B num_text (BatchesChanged bs market) c = (case chart_update B num_text bs market c of Inr c' \<Rightarrow> c' | Inl _ \<Rightarrow> c)"

definition changes :: "chart_event list \<Rightarrow> nat" where
  "changes es = length (filter (\<lambda>e. case e of BatchesChanged _ _ \<Rightarrow> True | _ \<Rightarrow> False) es)"

lemma resizeZoom_keeps [simp]: "dc_loading (resizeZoom p d c) = dc_loading c" "dc_requests (resizeZoom p d c) = dc_requests c"
  by (simp_all add: resizeZoom_def Let_def)

lemma chart_apply_count:
  "dc_requests (chart_apply B num_text e c) + (if dc_loading (chart_apply B num_text e c) then 0 else 1) \<le>
     dc_requests c + (if dc_loading c then 0 else 1) + changes [e]"
  by (cases e) (auto simp: zoom_event_def chart_resize_def chart_update_def then_res_def changes_def Let_def split: sum.split)

text \<open>
  C38. The chart asks for at most one page per change of the batches, and one before the first:
  however the user drags, scrolls and resizes, a request that brings no change is the last one.
\<close>

theorem chart_requests_bounded:
  "dc_requests (fold (chart_apply B num_text) es c) \<le> dc_requests c + (if dc_loading c then 0 else 1) + changes es"
proof -
  have "dc_requests (fold (chart_apply B num_text) es c) + (if dc_loading (fold (chart_apply B num_text) es c) then 0 else 1) \<le>
      dc_requests c + (if dc_loading c then 0 else 1) + changes es"
  proof (induction es arbitrary: c)
    case (Cons e es)
    have "changes (e # es) = changes [e] + changes es" by (simp add: changes_def)
    thus ?case using Cons.IH [of "chart_apply B num_text e c"] chart_apply_count [of B num_text e c] by (simp only: fold_Cons comp_def)
  qed (simp add: changes_def)
  thus ?thesis by linarith
qed

section \<open>A history of two batches\<close>

definition chart_batch :: "nat \<Rightarrow> pool_batch" where
  "chart_batch n = (demo_batch n)\<lparr>pb_matchedMarketsMap := [(2016, 2480, [])]\<rparr>"

definition chart_history :: "pool_batch list" where
  "chart_history = [chart_batch 2, chart_batch 1]"

definition chart_snapshots :: "nat \<Rightarrow> string \<Rightarrow> pool_batch list api_result" where
  "chart_snapshots n i = Inr (take n (if i = [] then chart_history else dropWhile (\<lambda>p. batch_key p \<noteq> i) chart_history))"

definition chart_state :: app_batches where
  "chart_state = demo_view\<lparr>selectedLeaseDuration := 2016, markets := [(2016, Market_add False (chart_batch 2) (new_Market 2016))]\<rparr>"

definition chart_before :: d3_chart where
  "chart_before =
     \<lparr>dc_data = convertData exact_big (\<lambda>_. []) (sortedBatches chart_state), dc_market = 2016,
      dc_dimensions = getDimensions 200 600 (length (sortedBatches chart_state)), dc_scales = scale_domains [],
      dc_loading = True, dc_shift = 50, dc_pans = [], dc_requests = 1\<rparr>"

lemma chart_keys: "map batch_key chart_history = [''02'', ''01'']" "map prev_key chart_history = [''01'', []]"
  by code_simp+

lemma chart_history_ok: "history chart_history"
  by (rule history_by_keys [of _ "[]"]) (simp_all add: chart_keys ZERO_BATCH_ID_def numeral_eq_Suc)

lemma chart_serves: "serves chart_history chart_snapshots"
proof -
  have "distinct (map batch_key chart_history)" "\<forall>p \<in> set chart_history. batch_key p \<noteq> []"
    using chart_history_ok by (auto simp: history_def)
  thus ?thesis by (auto simp: serves_def chart_snapshots_def dropWhile_at_key)
qed

lemma chart_viewing: "viewing chart_history 2016 1 chart_state"
proof -
  have "batchId (new_Batch 2016 (chart_batch 2)) = batch_key (chart_batch 2)"
    by (simp add: new_Batch_def Batch_update_entry chart_batch_def)
  thus ?thesis
    by (intro viewing_intro [of _ _ "Market_add False (chart_batch 2) (new_Market 2016)"])
      (simp_all add: chart_state_def Market_add_def new_Market_def displays_def chart_history_def Let_def)
qed

lemma chart_sorted:
  assumes "viewing chart_history 2016 j u"
  shows "sortedBatches u = map (new_Batch 2016) (take j chart_history)"
proof -
  have "clearingPriceRate (new_Batch 2016 p) > 0" if "p \<in> set chart_history" for p
    using that by (auto simp: chart_history_def chart_batch_def new_Batch_def Batch_update_def)
  thus ?thesis
    using displays_sorted [OF chart_history_ok, of j "activeMarket u"] assms
    by (auto simp: viewing_def sortedBatches_def filter_id_conv dest: in_set_takeD)
qed


end
