(* ===== verification/App_Auth.thy ===== *)
theory App_Auth
  imports App_Node
begin

text \<open>
  Logging in: \<open>app/src/store/stores/authStore.ts\<close>, the reaction to it in
  \<open>app/src/store/store.ts\<close>, the credentials of \<open>app/src/api/base.ts\<close>, the subscriptions of
  \<open>app/src/util/BaseEmitter.ts\<close> and the pairing flags of \<open>app/src/api/lncApi.ts\<close>.

  The clients of the four APIs are objects of an explicit store, because the client of LND is
  replaced at a login over Lightning Node Connect. The outcome of every call of the node or of
  the LNC library is an argument; a call that has a timeout may also never be answered.
\<close>

section \<open>State\<close>

text \<open>A client talks gRPC to the backend, or over one of the LNC connections.\<close>

record api_client =
  ac_session :: "nat option"
  ac_credentials :: string
  ac_streams :: nat
  ac_handlers :: "(string \<times> string) list"

record app_auth = app_node +
  credentials :: string
  isLnc :: bool
  mainErr :: string
  litDetail :: string
  lndDetail :: string
  sessionStorage :: "(string \<times> string) list"
  localStorage :: "(string \<times> string) list"
  clients :: "api_client list"
  api_lnd :: nat
  api_loop :: nat
  api_pool :: nat
  api_lit :: nat
  lnc_connections :: "bool list"
  streamsConnected :: bool
  store_initialized :: bool

text \<open>Thrown by the operations; two messages have characters beyond U+00FF.\<close>

datatype auth_error = Message string | CouldNotReachNode | VerificationTimedOut

datatype 'a call_outcome = Settles "'a api_result" | NoAnswer

definition update_client :: "nat \<Rightarrow> (api_client \<Rightarrow> api_client) \<Rightarrow> 'a app_auth_scheme \<Rightarrow> 'a app_auth_scheme" where
  "update_client i f s = s\<lparr>clients := (clients s)[i := f (clients s ! i)]\<rparr>"

section \<open>Clients\<close>

definition api_setCredentials :: "string \<Rightarrow> api_client \<Rightarrow> api_client" where
  "api_setCredentials c a = a\<lparr>ac_credentials := c\<rparr>"

definition api_meta :: "api_client \<Rightarrow> string option" where
  "api_meta a = (if ac_credentials a \<noteq> [] then Some (''Basic '' @ ac_credentials a) else None)"

definition emitter_on :: "string \<Rightarrow> string \<Rightarrow> api_client \<Rightarrow> api_client" where
  "emitter_on event handler a = a\<lparr>ac_handlers := ac_handlers a @ [(event, handler)]\<rparr>"

text \<open>Removes the handler added last among equal ones.\<close>

definition emitter_off :: "string \<Rightarrow> string \<Rightarrow> api_client \<Rightarrow> api_client" where
  "emitter_off event handler a = a\<lparr>ac_handlers := rev (remove1 (event, handler) (rev (ac_handlers a)))\<rparr>"

text \<open>The handlers called for an event.\<close>

definition emitter_emit :: "string \<Rightarrow> api_client \<Rightarrow> string list" where
  "emitter_emit event a = map snd (filter (\<lambda>(e, _). e = event) (ac_handlers a))"

definition api_connectStreams :: "api_client \<Rightarrow> api_client" where
  "api_connectStreams a = a\<lparr>ac_streams := Suc (ac_streams a)\<rparr>"

definition LNC_STORAGE_KEY :: string where
  "LNC_STORAGE_KEY = ''lnc-paired''"

definition lnc_isPaired :: "'a app_auth_scheme \<Rightarrow> bool" where
  "lnc_isPaired s \<longleftrightarrow> map_of (localStorage s) LNC_STORAGE_KEY = Some ''true''"

definition markPaired :: "'a app_auth_scheme \<Rightarrow> 'a app_auth_scheme" where
  "markPaired s = s\<lparr>localStorage := AList.update LNC_STORAGE_KEY ''true'' (localStorage s)\<rparr>"

definition clearPaired :: "'a app_auth_scheme \<Rightarrow> 'a app_auth_scheme" where
  "clearPaired s = s\<lparr>localStorage := AList.delete LNC_STORAGE_KEY (localStorage s)\<rparr>"

section \<open>Passwords\<close>

definition setSession :: "string \<Rightarrow> string \<Rightarrow> 'a app_auth_scheme \<Rightarrow> 'a app_auth_scheme" where
  "setSession key data s = s\<lparr>sessionStorage := AList.update key data (sessionStorage s)\<rparr>"

definition getSession :: "string \<Rightarrow> 'a app_auth_scheme \<Rightarrow> string option" where
  "getSession key s = (case map_of (sessionStorage s) key of Some v \<Rightarrow> if v = [] then None else Some v | None \<Rightarrow> None)"

definition setCredentials :: "string \<Rightarrow> 'a app_auth_scheme \<Rightarrow> 'a app_auth_scheme" where
  "setCredentials c s =
     (let s = setSession ''credentials'' c (s\<lparr>credentials := c\<rparr>)
      in fold (\<lambda>i. update_client i (api_setCredentials c)) [api_lnd s, api_loop s, api_pool s, api_lit s] s)"

definition lastIndexOf :: "string \<Rightarrow> string \<Rightarrow> int" where
  "lastIndexOf text p =
     (case filter (\<lambda>i. take (length p) (drop i text) = p) [0..<Suc (length text)] of
        [] \<Rightarrow> - 1
      | is \<Rightarrow> int (last is))"

text \<open>The test the code makes for \<open>text\<close> ending with \<open>p\<close>.\<close>

definition found_at_end :: "string \<Rightarrow> string \<Rightarrow> bool" where
  "found_at_end text p \<longleftrightarrow> int (length text) - int (length p) = lastIndexOf text p"

definition invalidPassMsg :: "string list" where
  "invalidPassMsg = [''expected 1 macaroon, got 0'']"

definition walletLockedMsg :: "string list" where
  "walletLockedMsg =
     [''wallet locked, unlock it to enable full RPC access'', ''proxy error with context auth: unknown macaroon to use'']"

text \<open>\<open>tr\<close> is the translation of a key of the store.\<close>

definition status_details ::
    "(string \<Rightarrow> string) \<Rightarrow> bool \<Rightarrow> (string \<times> SubServerStatus) list api_result \<Rightarrow> 'a app_auth_scheme \<Rightarrow> 'a app_auth_scheme" where
  "status_details tr walletLocked res s =
     (case res of
        Inl _ \<Rightarrow> s\<lparr>litDetail := tr ''litNotConnected''\<rparr>
      | Inr subServers \<Rightarrow>
          (let status = map_of (rev subServers);
               running = (\<lambda>name. case status name of Some x \<Rightarrow> ss_running x | None \<Rightarrow> False);
               err = (\<lambda>name. case status name of Some x \<Rightarrow> ss_error x | None \<Rightarrow> []);
               s = (if err ''lit'' \<noteq> [] then s\<lparr>litDetail := err ''lit''\<rparr>
                    else if \<not> running ''lit''
                    then s\<lparr>litDetail := tr ''litNotRunning'' @ (if walletLocked then tr ''suggestWalletUnlock'' else [])\<rparr>
                    else s)
           in if err ''lnd'' \<noteq> [] then s\<lparr>lndDetail := err ''lnd''\<rparr>
              else if \<not> running ''lnd'' then s\<lparr>lndDetail := tr ''lndNotRunning''\<rparr>
              else s))"

definition getErrMsg ::
    "(string \<Rightarrow> string) \<Rightarrow> (string \<times> SubServerStatus) list api_result \<Rightarrow> string \<Rightarrow> 'a app_auth_scheme \<Rightarrow> string \<times> 'a app_auth_scheme" where
  "getErrMsg tr res err s =
     (let s = (if list_ex (found_at_end err) invalidPassMsg then s\<lparr>mainErr := tr ''invalidPassErr''\<rparr> else s);
          walletLocked = (mainErr s = [] \<and> list_ex (found_at_end err) walletLockedMsg);
          s = (if walletLocked then s\<lparr>mainErr := tr ''walletLockedErr''\<rparr> else s);
          s = (if mainErr s = [] then s\<lparr>mainErr := tr ''noConnectionErr''\<rparr> else s);
          s = status_details tr walletLocked res s
      in (mainErr s, s))"

text \<open>
  The answer of \<open>getInfo\<close> depends on the LNC connection of the client, if any, on the
  authorization that is sent and on whether the connection is open.
\<close>

type_synonym node_access = "nat option \<Rightarrow> string option \<Rightarrow> bool \<Rightarrow> unit api_result"

definition client_open :: "'a app_auth_scheme \<Rightarrow> api_client \<Rightarrow> bool" where
  "client_open s a = (case ac_session a of None \<Rightarrow> True | Some n \<Rightarrow> lnc_connections s ! n)"

definition lnd_answer :: "node_access \<Rightarrow> 'a app_auth_scheme \<Rightarrow> unit api_result" where
  "lnd_answer getInfo s = (let a = clients s ! api_lnd s in getInfo (ac_session a) (api_meta a) (client_open s a))"

definition validate :: "unit api_result \<Rightarrow> 'a app_auth_scheme \<Rightarrow> app_error option \<times> 'a app_auth_scheme" where
  "validate res s = (case res of Inl e \<Rightarrow> (Some e, s) | Inr _ \<Rightarrow> (None, s\<lparr>authenticated := True\<rparr>))"

definition encode_password :: "string \<Rightarrow> string" where
  "encode_password password = base64_encode (utf8Bytes (password @ '':'' @ password))"

definition login ::
    "(string \<Rightarrow> string) \<Rightarrow> node_access \<Rightarrow> (string \<times> SubServerStatus) list api_result \<Rightarrow> string \<Rightarrow>
     'a app_auth_scheme \<Rightarrow> auth_error option \<times> 'a app_auth_scheme" where
  "login tr getInfo status password s =
     (if password = [] then (Some (Message (tr ''emptyPassErr'')), s)
      else (let s = setCredentials (encode_password password) s in
            case validate (lnd_answer getInfo s) s of
              (None, s) \<Rightarrow> (None, s)
            | (Some e, s) \<Rightarrow>
                (let s = (setCredentials [] s)\<lparr>mainErr := [], litDetail := [], lndDetail := []\<rparr>;
                     (msg, s) = getErrMsg tr status (error_message e) s
                 in (Some (Message msg), s))))"

text \<open>\<open>init\<close> of the store, at the start of the page.\<close>

definition auth_init :: "node_access \<Rightarrow> 'a app_auth_scheme \<Rightarrow> 'a app_auth_scheme" where
  "auth_init getInfo s =
     (case getSession ''credentials'' s of
        None \<Rightarrow> s
      | Some creds \<Rightarrow>
          (let s = setCredentials creds s in
           case validate (lnd_answer getInfo s) s of (None, s) \<Rightarrow> s | (Some _, s) \<Rightarrow> setCredentials [] s))"

section \<open>Lightning Node Connect\<close>

definition withTimeout :: "int \<Rightarrow> string \<Rightarrow> 'r call_outcome \<Rightarrow> 'r api_result" where
  "withTimeout ms label out =
     (case out of
        Settles r \<Rightarrow> r
      | NoAnswer \<Rightarrow> Inl (AppError (label @ '' timed out after '' @ int_to_string (ms div 1000) @ ''s'')))"

definition new_LNC :: "'a app_auth_scheme \<Rightarrow> nat \<times> 'a app_auth_scheme" where
  "new_LNC s = (length (lnc_connections s), s\<lparr>lnc_connections := lnc_connections s @ [False]\<rparr>)"

definition lnc_set :: "nat \<Rightarrow> bool \<Rightarrow> 'a app_auth_scheme \<Rightarrow> 'a app_auth_scheme" where
  "lnc_set n b s = s\<lparr>lnc_connections := (lnc_connections s)[n := b]\<rparr>"

text \<open>\<open>new LncApi(lnc)\<close> becomes the client of LND.\<close>

definition use_lnc :: "nat \<Rightarrow> 'a app_auth_scheme \<Rightarrow> 'a app_auth_scheme" where
  "use_lnc n s =
     (lnc_set n True s)\<lparr>api_lnd := length (clients s), isLnc := True,
       clients := clients s @ [\<lparr>ac_session = Some n, ac_credentials = [], ac_streams = 0, ac_handlers = []\<rparr>]\<rparr>"

definition loginWithLnc ::
    "string \<Rightarrow> string \<Rightarrow> bool call_outcome \<Rightarrow> unit call_outcome \<Rightarrow> 'a app_auth_scheme \<Rightarrow> auth_error option \<times> 'a app_auth_scheme" where
  "loginWithLnc pairingPhrase password conn val s =
     (if js_trim pairingPhrase = [] then (Some (Message ''Pairing phrase is required''), s)
      else if js_trim password = [] then (Some (Message ''Password is required''), s)
      else (let (n, s) = new_LNC s in
        case withTimeout 30000 ''Connection'' conn of
          Inl e \<Rightarrow>
            (let msg = error_message e in
             if str_includes ''timed out'' msg
             then (Some (Message ''Connection timed out. Make sure litd is running on your node and try a fresh pairing phrase.''),
                   lnc_set n False s)
             else if str_includes ''WASM'' msg \<or> str_includes ''proxy'' msg \<or> str_includes ''stream not found'' msg
             then (Some CouldNotReachNode, s)
             else (Some (Message msg), s))
        | Inr isConnected \<Rightarrow>
            if \<not> isConnected
            then (Some (Message ''Connection failed. Verify litd is running and reachable, then try a fresh pairing phrase.''), s)
            else (let s = use_lnc n s in
                  case withTimeout 15000 ''Validation'' val of
                    Inr _ \<Rightarrow> (None, markPaired (s\<lparr>authenticated := True\<rparr>))
                  | Inl e \<Rightarrow>
                      (Some (if str_includes ''timed out'' (error_message e) then VerificationTimedOut
                             else Message ''Connected but could not verify node access. Check your pairing phrase.''),
                       (lnc_set n False s)\<lparr>isLnc := False\<rparr>))))"

definition reconnectLnc ::
    "string \<Rightarrow> bool call_outcome \<Rightarrow> unit call_outcome \<Rightarrow> 'a app_auth_scheme \<Rightarrow> auth_error option \<times> 'a app_auth_scheme" where
  "reconnectLnc password conn val s =
     (if js_trim password = [] then (Some (Message ''Password is required''), s)
      else (let (n, s) = new_LNC s; expired = Message ''Session expired. Please connect with a new pairing phrase.'' in
        case withTimeout 12000 ''Reconnection'' conn of
          Inl e \<Rightarrow>
            (let s = clearPaired (lnc_set n False s); msg = error_message e
             in (Some (if list_ex (\<lambda>p. str_includes p msg) [''timed out'', ''stream not found'', ''WASM'', ''proxy'', ''closed network'']
                       then expired else Message msg), s))
        | Inr isConnected \<Rightarrow>
            if \<not> isConnected then (Some expired, clearPaired s)
            else (let s = use_lnc n s in
                  case withTimeout 15000 ''Validation'' val of
                    Inr _ \<Rightarrow> (None, s\<lparr>authenticated := True\<rparr>)
                  | Inl e \<Rightarrow> (Some (Message (error_message e)), s))))"

text \<open>A validation that is answered after its timeout still sets the flag.\<close>

definition late_validation :: "'a app_auth_scheme \<Rightarrow> 'a app_auth_scheme" where
  "late_validation s = s\<lparr>authenticated := True\<rparr>"

definition disconnectLnc :: "'a app_auth_scheme \<Rightarrow> 'a app_auth_scheme" where
  "disconnectLnc s =
     (let s = (if isLnc s
               then (case ac_session (clients s ! api_lnd s) of Some n \<Rightarrow> lnc_set n False s | None \<Rightarrow> s) else s)
      in (clearPaired s)\<lparr>isLnc := False, authenticated := False\<rparr>)"

section \<open>The reaction of the store\<close>

definition connectToStreams :: "'a app_auth_scheme \<Rightarrow> 'a app_auth_scheme" where
  "connectToStreams s =
     (if streamsConnected s then s
      else (update_client (api_loop s) api_connectStreams (update_client (api_lnd s) api_connectStreams s))
        \<lparr>streamsConnected := True\<rparr>)"

definition subscribeToStreams :: "'a app_auth_scheme \<Rightarrow> 'a app_auth_scheme" where
  "subscribeToStreams s =
     update_client (api_loop s) (emitter_on ''monitor'' ''onSwapUpdate'')
       (update_client (api_lnd s)
         (emitter_on ''invoice'' ''onInvoiceUpdate'' \<circ> emitter_on ''channel'' ''onChannelEvent'' \<circ>
          emitter_on ''transaction'' ''onTransaction'') s)"

definition unsubscribeFromStreams :: "'a app_auth_scheme \<Rightarrow> 'a app_auth_scheme" where
  "unsubscribeFromStreams s =
     update_client (api_loop s) (emitter_off ''monitor'' ''onSwapUpdate'')
       (update_client (api_lnd s)
         (emitter_off ''invoice'' ''onInvoiceUpdate'' \<circ> emitter_off ''channel'' ''onChannelEvent'' \<circ>
          emitter_off ''transaction'' ''onTransaction'') s)"

definition publicPaths :: "string \<Rightarrow> string list" where
  "publicPaths base = map (\<lambda>p. base @ p) [''/'', ''/connect-node'', ''/get-node'', ''/explore-network'', ''/auth'']"

text \<open>Runs at the start and whenever the flag has changed.\<close>

definition authenticatedAutorun :: "string \<Rightarrow> 'a app_auth_scheme \<Rightarrow> 'a app_auth_scheme" where
  "authenticatedAutorun base s =
     (let onPublic = (pathname s \<in> set (publicPaths base)) in
      if authenticated s
      then subscribeToStreams (connectToStreams (start_call FetchAllData
             (if onPublic then goToPage base ''/home'' s else s)))
      else unsubscribeFromStreams (if onPublic then s else gotoAuth base s))"

definition store_init :: "string \<Rightarrow> node_access \<Rightarrow> 'a app_auth_scheme \<Rightarrow> 'a app_auth_scheme" where
  "store_init base getInfo s = authenticatedAutorun base ((auth_init getInfo s)\<lparr>store_initialized := True\<rparr>)"

section \<open>Classifying the errors of a login\<close>

lemma ends_with_iff: "ends_with p text \<longleftrightarrow> length p \<le> length text \<and> drop (length text - length p) text = p"
proof
  assume e: "ends_with p text"
  then have "rev (take (length p) (rev text)) = p" by (simp add: ends_with_def starts_with_def)
  then have d: "drop (length text - length p) text = p" by (simp add: take_rev)
  then have "length text - (length text - length p) = length p" by (metis length_drop)
  with d show "length p \<le> length text \<and> drop (length text - length p) text = p" by simp
next
  assume "length p \<le> length text \<and> drop (length text - length p) text = p"
  then show "ends_with p text" by (simp add: ends_with_def starts_with_def take_rev)
qed

lemma found_at_end_iff: "found_at_end text p \<longleftrightarrow> ends_with p text \<or> Suc (length text) = length p"
proof -
  define L where "L = filter (\<lambda>i. take (length p) (drop i text) = p) [0..<Suc (length text)]"
  have mem: "i \<in> set L \<longleftrightarrow> i \<le> length text \<and> take (length p) (drop i text) = p" for i
    by (auto simp: L_def simp del: upt_Suc)
  have fit: "i + length p \<le> length text" if "i \<in> set L" for i
  proof -
    have "length (take (length p) (drop i text)) = length p" "i \<le> length text" using that mem by auto
    then show ?thesis by (auto simp: min_def split: if_splits)
  qed
  have at_end: "length text - length p \<in> set L" if "ends_with p text" using that by (simp add: mem ends_with_iff)
  have idx: "lastIndexOf text p = (case L of [] \<Rightarrow> - 1 | is \<Rightarrow> int (last is))" by (simp only: lastIndexOf_def L_def)
  show ?thesis
  proof (cases "L = []")
    case True
    then have "\<not> ends_with p text" using at_end by auto
    with True show ?thesis by (auto simp: found_at_end_def idx)
  next
    case False
    have m: "last L \<in> set L" using False by (rule last_in_set)
    have s: "sorted L" unfolding L_def by (intro sorted_wrt_filter) (simp del: upt_Suc)
    have i: "lastIndexOf text p = int (last L)" using False by (simp add: idx split: list.split)
    have n: "Suc (length text) \<noteq> length p" using fit [OF m] by linarith
    have "ends_with p text \<longleftrightarrow> length text = last L + length p"
    proof
      assume e: "ends_with p text"
      then obtain k where k: "k < length L" "L ! k = length text - length p" using at_end by (metis in_set_conv_nth)
      have "L ! k \<le> last L"
        unfolding last_conv_nth [OF False] by (rule sorted_nth_mono [OF s]) (use k(1) in linarith)+
      then show "length text = last L + length p" using fit [OF m] e k(2) by (simp add: ends_with_iff)
    next
      assume e: "length text = last L + length p"
      then have "take (length p) (drop (length text - length p) text) = p" using m mem by simp
      with e show "ends_with p text" by (simp add: ends_with_iff)
    qed
    with n show ?thesis by (auto simp: found_at_end_def i)
  qed
qed

definition login_error_key :: "string \<Rightarrow> string" where
  "login_error_key err =
     (if ends_with ''expected 1 macaroon, got 0'' err \<or> length err = 25 then ''invalidPassErr''
      else if ends_with ''wallet locked, unlock it to enable full RPC access'' err \<or> length err = 49 \<or>
              ends_with ''proxy error with context auth: unknown macaroon to use'' err \<or> length err = 53
      then ''walletLockedErr''
      else ''noConnectionErr'')"

lemma details_keep:
  "mainErr (status_details tr w res s) = mainErr s" "credentials (status_details tr w res s) = credentials s"
  "authenticated (status_details tr w res s) = authenticated s" "clients (status_details tr w res s) = clients s"
  "sessionStorage (status_details tr w res s) = sessionStorage s" "api_lnd (status_details tr w res s) = api_lnd s"
  "api_loop (status_details tr w res s) = api_loop s" "lnc_connections (status_details tr w res s) = lnc_connections s"
  "api_pool (status_details tr w res s) = api_pool s" "api_lit (status_details tr w res s) = api_lit s"
  "streamsConnected (status_details tr w res s) = streamsConnected s" "isLnc (status_details tr w res s) = isLnc s"
  by (simp_all add: status_details_def Let_def split: sum.split)

lemma getErrMsg_keeps [simp]:
  "credentials (snd (getErrMsg tr res err s)) = credentials s"
  "authenticated (snd (getErrMsg tr res err s)) = authenticated s" "clients (snd (getErrMsg tr res err s)) = clients s"
  "sessionStorage (snd (getErrMsg tr res err s)) = sessionStorage s" "api_lnd (snd (getErrMsg tr res err s)) = api_lnd s"
  "api_loop (snd (getErrMsg tr res err s)) = api_loop s" "lnc_connections (snd (getErrMsg tr res err s)) = lnc_connections s"
  "api_pool (snd (getErrMsg tr res err s)) = api_pool s" "api_lit (snd (getErrMsg tr res err s)) = api_lit s"
  "streamsConnected (snd (getErrMsg tr res err s)) = streamsConnected s" "isLnc (snd (getErrMsg tr res err s)) = isLnc s"
  by (simp_all add: getErrMsg_def Let_def details_keep)

lemma getErrMsg_key:
  assumes "mainErr s = []" "\<And>k. tr k \<noteq> []"
  shows "fst (getErrMsg tr res err s) = tr (login_error_key err)"
  using assms
  by (simp add: getErrMsg_def Let_def details_keep login_error_key_def found_at_end_iff invalidPassMsg_def walletLockedMsg_def)

section \<open>Passwords are kept only when they are accepted\<close>

definition wf_clients :: "'a app_auth_scheme \<Rightarrow> bool" where
  "wf_clients s \<longleftrightarrow> distinct [api_lnd s, api_loop s, api_pool s, api_lit s] \<and>
     list_all (\<lambda>i. i < length (clients s)) [api_lnd s, api_loop s, api_pool s, api_lit s]"

lemma update_client_keeps [simp]:
  "length (clients (update_client i f s)) = length (clients s)" "api_lnd (update_client i f s) = api_lnd s"
  "api_loop (update_client i f s) = api_loop s" "api_pool (update_client i f s) = api_pool s"
  "api_lit (update_client i f s) = api_lit s" "lnc_connections (update_client i f s) = lnc_connections s"
  "streamsConnected (update_client i f s) = streamsConnected s" "authenticated (update_client i f s) = authenticated s"
  "credentials (update_client i f s) = credentials s" "sessionStorage (update_client i f s) = sessionStorage s"
  "isLnc (update_client i f s) = isLnc s" "mainErr (update_client i f s) = mainErr s"
  by (simp_all add: update_client_def)

lemma update_client_nth:
  "clients (update_client i f s) ! j = (if i = j \<and> j < length (clients s) then f (clients s ! j) else clients s ! j)"
  by (cases "i < length (clients s)") (auto simp: update_client_def nth_list_update list_update_beyond)

lemma credentials_fold [simp]:
  fixes s :: "'a app_auth_scheme" and c
  defines "F \<equiv> fold (\<lambda>i. update_client i (api_setCredentials c))"
  shows "length (clients (F is s)) = length (clients s)" "api_lnd (F is s) = api_lnd s" "api_loop (F is s) = api_loop s"
    "api_pool (F is s) = api_pool s" "api_lit (F is s) = api_lit s" "lnc_connections (F is s) = lnc_connections s"
    "streamsConnected (F is s) = streamsConnected s" "authenticated (F is s) = authenticated s"
    "credentials (F is s) = credentials s" "sessionStorage (F is s) = sessionStorage s" "isLnc (F is s) = isLnc s"
  unfolding F_def by (induction "is" arbitrary: s) simp_all

lemma setCredentials_keeps [simp]:
  "length (clients (setCredentials c s)) = length (clients s)" "api_lnd (setCredentials c s) = api_lnd s"
  "api_loop (setCredentials c s) = api_loop s" "api_pool (setCredentials c s) = api_pool s"
  "api_lit (setCredentials c s) = api_lit s" "lnc_connections (setCredentials c s) = lnc_connections s"
  "streamsConnected (setCredentials c s) = streamsConnected s" "authenticated (setCredentials c s) = authenticated s"
  "credentials (setCredentials c s) = c" "isLnc (setCredentials c s) = isLnc s"
  "sessionStorage (setCredentials c s) = AList.update ''credentials'' c (sessionStorage s)"
  by (simp_all add: setCredentials_def setSession_def Let_def)

lemma setCredentials_nth:
  "clients (setCredentials c s) ! j =
     (if j \<in> {api_lnd s, api_loop s, api_pool s, api_lit s} \<and> j < length (clients s)
      then (clients s ! j)\<lparr>ac_credentials := c\<rparr> else clients s ! j)"
  by (auto simp: setCredentials_def setSession_def Let_def update_client_nth api_setCredentials_def)

definition all_credentials :: "string \<Rightarrow> 'a app_auth_scheme \<Rightarrow> bool" where
  "all_credentials c s \<longleftrightarrow> credentials s = c \<and> map_of (sessionStorage s) ''credentials'' = Some c \<and>
     list_all (\<lambda>i. ac_credentials (clients s ! i) = c) [api_lnd s, api_loop s, api_pool s, api_lit s]"

lemma setCredentials_all: "wf_clients s \<Longrightarrow> all_credentials c (setCredentials c s)"
  by (simp add: all_credentials_def wf_clients_def setCredentials_nth update_conv')

lemma encode_password_nonempty: "password \<noteq> [] \<Longrightarrow> encode_password password \<noteq> []"
proof -
  assume "password \<noteq> []"
  then have "utf8Bytes (password @ '':'' @ password) \<noteq> []" by (cases password) (auto simp: utf8Bytes_def utf8_char_def Let_def)
  moreover have "encode_groups ns \<noteq> []" if "ns \<noteq> []" for ns :: "nat list"
    using that by (cases ns rule: encode_groups.cases) simp_all
  ultimately show ?thesis by (simp add: encode_password_def base64_encode_def)
qed

text \<open>
  C7. An accepted password is kept as the credentials of the store, of all four clients and
  of the browser session, so that the page is logged in again after it is reloaded. A refused
  one is cleared from all of them and the page is not logged in.
\<close>

theorem login_survives_reload:
  assumes wf: "wf_clients s" "wf_clients r" and "password \<noteq> []"
    and grpc: "ac_session (clients s ! api_lnd s) = None" "ac_session (clients r ! api_lnd r) = None"
    and login: "login tr getInfo status password s = (e, t)" and reload: "sessionStorage r = sessionStorage t"
  shows "(e = None \<longrightarrow> authenticated t \<and> all_credentials (encode_password password) t \<and>
      authenticated (auth_init getInfo r) \<and> all_credentials (encode_password password) (auth_init getInfo r)) \<and>
    (e \<noteq> None \<longrightarrow> authenticated t = authenticated s \<and> all_credentials [] t \<and> auth_init getInfo r = r)"
proof -
  let ?c = "encode_password password" and ?u = "setCredentials (encode_password password) s"
  have c: "?c \<noteq> []" using assms by (simp add: encode_password_nonempty)
  have a: "lnd_answer getInfo (setCredentials d w) = getInfo None (if d = [] then None else Some (''Basic '' @ d)) True"
    if "wf_clients w" "ac_session (clients w ! api_lnd w) = None" for d and w :: "'b app_auth_scheme"
    using that by (simp add: lnd_answer_def setCredentials_nth wf_clients_def client_open_def api_meta_def Let_def)
  have u: "lnd_answer getInfo ?u = getInfo None (Some (''Basic '' @ ?c)) True" using a wf grpc c
    by (simp add: lnd_answer_def setCredentials_nth wf_clients_def client_open_def api_meta_def Let_def)
  show ?thesis
  proof (cases "getInfo None (Some (''Basic '' @ ?c)) True")
    case (Inr x)
    then have t: "e = None" "t = ?u\<lparr>authenticated := True\<rparr>"
      using login u assms(3) by (auto simp: login_def validate_def Let_def)
    have "getSession ''credentials'' r = Some ?c" using c reload t by (simp add: getSession_def update_conv')
    then have "auth_init getInfo r = (setCredentials ?c r)\<lparr>authenticated := True\<rparr>"
      using a [OF wf(2) grpc(2), of ?c] c Inr by (simp add: auth_init_def validate_def Let_def)
    then show ?thesis
      using t setCredentials_all [OF wf(1), of ?c] setCredentials_all [OF wf(2), of ?c] by (simp add: all_credentials_def)
  next
    case (Inl x)
    let ?v = "(setCredentials [] ?u)\<lparr>mainErr := [], litDetail := [], lndDetail := []\<rparr>"
    have t: "e \<noteq> None" "t = snd (getErrMsg tr status (error_message x) ?v)"
      using login u assms(3) Inl by (auto simp: login_def validate_def Let_def split: prod.splits)
    have "wf_clients ?u" using wf(1) by (simp add: wf_clients_def)
    from setCredentials_all [OF this, of "[]"] have "all_credentials [] t" "authenticated t = authenticated s"
      using t(2) by (simp_all add: all_credentials_def)
    moreover from this have "auth_init getInfo r = r" using reload by (simp add: auth_init_def getSession_def all_credentials_def)
    ultimately show ?thesis using t(1) by auto
  qed
qed

text \<open>
  A refused login reports a wrong password exactly when the message of the error ends with
  the phrase for a missing macaroon, or is 25 characters long whatever it says: the position
  \<open>-1\<close> of a phrase that was not found then equals the difference of the lengths. Likewise
  errors of 49 or 53 characters report a locked wallet.
\<close>

lemma login_error_named:
  assumes "password \<noteq> []" "lnd_answer getInfo (setCredentials (encode_password password) s) = Inl e"
    and "\<And>k. tr k \<noteq> []"
  shows "fst (login tr getInfo status password s) = Some (Message (tr (login_error_key (error_message e))))"
  using assms by (simp add: login_def validate_def Let_def split_beta getErrMsg_key)

section \<open>A closed connection\<close>

lemma login_keeps:
  "api_lnd (snd (login tr getInfo status p s)) = api_lnd s" "lnc_connections (snd (login tr getInfo status p s)) = lnc_connections s"
  "length (clients (snd (login tr getInfo status p s))) = length (clients s)"
  "streamsConnected (snd (login tr getInfo status p s)) = streamsConnected s"
  "api_loop (snd (login tr getInfo status p s)) = api_loop s" "api_pool (snd (login tr getInfo status p s)) = api_pool s"
  "api_lit (snd (login tr getInfo status p s)) = api_lit s"
  by (auto simp: login_def validate_def Let_def split_beta split: sum.split)

lemma login_client:
  "ac_session (clients (snd (login tr getInfo status p s)) ! j) = ac_session (clients s ! j)"
  "ac_streams (clients (snd (login tr getInfo status p s)) ! j) = ac_streams (clients s ! j)"
  "ac_handlers (clients (snd (login tr getInfo status p s)) ! j) = ac_handlers (clients s ! j)"
  by (auto simp: login_def validate_def Let_def split_beta setCredentials_nth split: sum.split)

definition closed_lnd :: "'a app_auth_scheme \<Rightarrow> bool" where
  "closed_lnd s \<longleftrightarrow> (\<exists>n. ac_session (clients s ! api_lnd s) = Some n \<and> \<not> lnc_connections s ! n)"

lemma closed_login:
  assumes "closed_lnd s" "\<And>n m. isl (getInfo (Some n) m False)"
  shows "closed_lnd (snd (login tr getInfo status p s))" "fst (login tr getInfo status p s) \<noteq> None"
proof -
  show "closed_lnd (snd (login tr getInfo status p s))" using assms(1) by (simp add: closed_lnd_def login_keeps login_client)
  have "isl (lnd_answer getInfo (setCredentials c s))" for c
    using assms by (auto simp: closed_lnd_def lnd_answer_def client_open_def setCredentials_nth Let_def)
  then obtain e where "lnd_answer getInfo (setCredentials (encode_password p) s) = Inl e" by (metis isl_def)
  then show "fst (login tr getInfo status p s) \<noteq> None" by (auto simp: login_def validate_def Let_def split_beta split: sum.split)
qed

lemma closed_lnd_stays_closed:
  assumes "closed_lnd s" "\<And>n m. isl (getInfo (Some n) m False)"
  shows "closed_lnd (foldl (\<lambda>s p. snd (login tr getInfo status p s)) s ps)"
  using assms by (induction ps rule: rev_induct) (simp_all add: closed_login)


section \<open>Events of the node\<close>

text \<open>The state of the page together with the value of the flag that the reaction saw last.\<close>

inductive auth_step :: "string \<Rightarrow> bool \<times> 'a app_auth_scheme \<Rightarrow> bool \<times> 'a app_auth_scheme \<Rightarrow> bool" for base where
  step_login: "auth_step base (b, s) (b, snd (login tr getInfo status p s))"
| step_lnc: "auth_step base (b, s) (b, snd (loginWithLnc phrase p conn val s))"
| step_reconnect: "auth_step base (b, s) (b, snd (reconnectLnc p conn val s))"
| step_disconnect: "auth_step base (b, s) (b, disconnectLnc s)"
| step_late: "auth_step base (b, s) (b, late_validation s)"
| step_error: "auth_step base (b, s) (b, handleError e title s)"
| step_reaction: "authenticated s \<noteq> b \<Longrightarrow> auth_step base (b, s) (authenticated s, authenticatedAutorun base s)"

text \<open>What every operation but the reaction keeps: at most a fresh client replaces that of LND.\<close>

definition clients_kept :: "'a app_auth_scheme \<Rightarrow> 'a app_auth_scheme \<Rightarrow> bool" where
  "clients_kept s t \<longleftrightarrow> streamsConnected t = streamsConnected s \<and> api_loop t = api_loop s \<and> api_pool t = api_pool s \<and>
     api_lit t = api_lit s \<and> length (clients s) \<le> length (clients t) \<and>
     (\<forall>j < length (clients s). ac_streams (clients t ! j) = ac_streams (clients s ! j) \<and>
        ac_handlers (clients t ! j) = ac_handlers (clients s ! j)) \<and>
     (api_lnd t = api_lnd s \<or>
      api_lnd t = length (clients s) \<and> length (clients t) = Suc (length (clients s)) \<and>
      ac_handlers (clients t ! api_lnd t) = [] \<and> ac_streams (clients t ! api_lnd t) = 0)"

lemma use_lnc_kept: "clients_kept s (use_lnc n s)"
  by (simp add: clients_kept_def use_lnc_def lnc_set_def nth_append)

definition client_view :: "'a app_auth_scheme \<Rightarrow> api_client list \<times> nat list \<times> bool" where
  "client_view s = (clients s, [api_lnd s, api_loop s, api_pool s, api_lit s], streamsConnected s)"

lemma kept_refl: "clients_kept s s"
  by (simp add: clients_kept_def)

lemma kept_by_view:
  assumes "client_view t = client_view s \<or> (\<exists>n. client_view t = client_view (use_lnc n s))"
  shows "clients_kept s t"
proof -
  have "clients_kept s t" if "client_view t = client_view u" "clients_kept s u" for u :: "'a app_auth_scheme"
    using that by (simp add: client_view_def clients_kept_def)
  then show ?thesis using assms kept_refl use_lnc_kept by metis
qed

lemma login_kept: "clients_kept s (snd (login tr getInfo status p s))"
  by (simp add: clients_kept_def login_keeps login_client)

lemmas lnc_operations = loginWithLnc_def reconnectLnc_def new_LNC_def clearPaired_def markPaired_def lnc_set_def use_lnc_def client_view_def

lemma lnc_kept: "clients_kept s (snd (loginWithLnc phrase p conn val s))"
  by (rule kept_by_view) (simp add: lnc_operations Let_def split: sum.split)

lemma reconnect_kept: "clients_kept s (snd (reconnectLnc p conn val s))"
  by (rule kept_by_view) (simp add: lnc_operations Let_def split: sum.split)

lemma handleError_keeps [simp]:
  "clients (handleError e m s) = clients s" "api_lnd (handleError e m s) = api_lnd s" "api_loop (handleError e m s) = api_loop s"
  "api_pool (handleError e m s) = api_pool s" "api_lit (handleError e m s) = api_lit s"
  "streamsConnected (handleError e m s) = streamsConnected s"
  by (simp_all add: handleError_def notify_def Let_def split: app_error.split)

lemma other_kept: "clients_kept s (disconnectLnc s)" "clients_kept s (late_validation s)" "clients_kept s (handleError e m s)"
  by (rule kept_by_view, simp add: disconnectLnc_def late_validation_def lnc_operations Let_def split: option.split)+

lemmas operations_kept = login_kept lnc_kept reconnect_kept other_kept

lemma auth_step_cases:
  assumes "auth_step base (b, s) (c, t)"
  shows "c = b \<and> clients_kept s t \<or> c = (\<not> b) \<and> c = authenticated s \<and> t = authenticatedAutorun base s"
  using assms by (cases rule: auth_step.cases) (auto simp: operations_kept)

lemma navigation_keeps [simp]:
  "client_view (goToPage base route s) = client_view s" "client_view (gotoAuth base s) = client_view s"
  "client_view (start_call c s) = client_view s"
  by (simp_all add: client_view_def goToPage_def gotoAuth_def goTo_def autoCollapseSidebar_def start_call_def Let_def)

lemma view_fields:
  assumes "client_view t = client_view s"
  shows "clients t = clients s" "api_lnd t = api_lnd s" "api_loop t = api_loop s" "api_pool t = api_pool s" "api_lit t = api_lit s"
    "streamsConnected t = streamsConnected s"
  using assms by (simp_all add: client_view_def)

text \<open>The reaction up to navigation, which does not touch the clients.\<close>

lemma autorun_split:
  obtains u where "client_view u = client_view s"
    "authenticatedAutorun base s = (if authenticated s then subscribeToStreams (connectToStreams u) else unsubscribeFromStreams u)"
proof -
  let ?pub = "pathname s \<in> set (publicPaths base)"
  let ?u = "if authenticated s then start_call FetchAllData (if ?pub then goToPage base ''/home'' s else s)
            else if ?pub then s else gotoAuth base s"
  show ?thesis by (rule that [of ?u]) (simp_all add: authenticatedAutorun_def Let_def)
qed

lemma autorun_streams:
  assumes "streamsConnected s"
  shows "streamsConnected (authenticatedAutorun base s)" "length (clients (authenticatedAutorun base s)) = length (clients s)"
    "ac_streams (clients (authenticatedAutorun base s) ! j) = ac_streams (clients s ! j)"
proof -
  obtain u where u: "client_view u = client_view s"
    "authenticatedAutorun base s = (if authenticated s then subscribeToStreams (connectToStreams u) else unsubscribeFromStreams u)"
    by (rule autorun_split)
  note [simp] = view_fields [OF u(1)]
  show "streamsConnected (authenticatedAutorun base s)" "length (clients (authenticatedAutorun base s)) = length (clients s)"
    "ac_streams (clients (authenticatedAutorun base s) ! j) = ac_streams (clients s ! j)"
    using assms
    by (simp_all add: u(2) connectToStreams_def subscribeToStreams_def unsubscribeFromStreams_def update_client_nth
        emitter_on_def emitter_off_def)
qed

lemma streams_fixed:
  assumes "(auth_step base)\<^sup>*\<^sup>* (b, s) (c, t)" "streamsConnected s"
  shows "streamsConnected t \<and> length (clients s) \<le> length (clients t) \<and>
    (\<forall>j < length (clients s). ac_streams (clients t ! j) = ac_streams (clients s ! j))"
  using assms
proof (induction "(c, t)" arbitrary: c t rule: rtranclp_induct)
  case base
  then show ?case by simp
next
  case (step y)
  obtain d u where y: "y = (d, u)" by (cases y)
  have u: "streamsConnected u" "length (clients s) \<le> length (clients u)"
    "\<forall>j < length (clients s). ac_streams (clients u ! j) = ac_streams (clients s ! j)"
    using step y by auto
  from auth_step_cases [OF step(2) [unfolded y]] show ?case
  proof
    assume "c = d \<and> clients_kept u t"
    then show ?thesis using u by (auto simp: clients_kept_def)
  next
    assume "c = (\<not> d) \<and> c = authenticated u \<and> t = authenticatedAutorun base u"
    then show ?thesis using u by (simp add: autorun_streams)
  qed
qed

text \<open>
  C36. The streams of events are connected for the first client only: once they are, a later
  login over Lightning Node Connect succeeds, but the streams of its client are never
  connected, whatever follows, so the page gets no events of that node.
\<close>

theorem later_nodes_send_no_events:
  assumes "streamsConnected s" "loginWithLnc phrase p conn val s = (None, t)" "(auth_step base)\<^sup>*\<^sup>* (b, t) (c, v)"
  shows "authenticated t \<and> isLnc t \<and> ac_streams (clients v ! api_lnd t) = 0"
proof -
  have t: "authenticated t" "isLnc t" "streamsConnected t" "api_lnd t < length (clients t)" "ac_streams (clients t ! api_lnd t) = 0"
    using assms(1,2) by (auto simp: lnc_operations Let_def split: if_splits sum.splits)
  with streams_fixed [OF assms(3)] show ?thesis by auto
qed

definition lnd_handlers :: "(string \<times> string) list" where
  "lnd_handlers = [(''transaction'', ''onTransaction''), (''channel'', ''onChannelEvent''), (''invoice'', ''onInvoiceUpdate'')]"

definition loop_handlers :: "(string \<times> string) list" where
  "loop_handlers = [(''monitor'', ''onSwapUpdate'')]"

definition subscriptions_ok :: "bool \<times> 'a app_auth_scheme \<Rightarrow> bool" where
  "subscriptions_ok = (\<lambda>(b, s). wf_clients s \<and>
     ac_handlers (clients s ! api_loop s) = (if b then loop_handlers else []) \<and>
     (ac_handlers (clients s ! api_lnd s) = [] \<or> b \<and> ac_handlers (clients s ! api_lnd s) = lnd_handlers))"

lemma kept_subscriptions: "clients_kept s t \<Longrightarrow> subscriptions_ok (b, s) \<Longrightarrow> subscriptions_ok (b, t)"
  by (auto simp: clients_kept_def subscriptions_ok_def wf_clients_def)

lemma autorun_subscriptions:
  assumes "subscriptions_ok (b, s)" "authenticated s \<noteq> b \<or> \<not> b"
  shows "subscriptions_ok (authenticated s, authenticatedAutorun base s)"
proof -
  obtain u where u: "client_view u = client_view s"
    "authenticatedAutorun base s = (if authenticated s then subscribeToStreams (connectToStreams u) else unsubscribeFromStreams u)"
    by (rule autorun_split)
  note [simp] = view_fields [OF u(1)]
  show ?thesis
    using assms
    by (auto simp: u(2) subscriptions_ok_def wf_clients_def connectToStreams_def subscribeToStreams_def unsubscribeFromStreams_def
        update_client_nth emitter_on_def emitter_off_def api_connectStreams_def lnd_handlers_def loop_handlers_def)
qed

lemma subscriptions_invariant:
  assumes "(auth_step base)\<^sup>*\<^sup>* x y" "subscriptions_ok x"
  shows "subscriptions_ok y"
  using assms
proof (induction rule: rtranclp_induct)
  case (step y z)
  obtain b s c t where p: "y = (b, s)" "z = (c, t)" by (cases y, cases z) auto
  from auth_step_cases [OF step(2) [unfolded p]] show ?case
  proof
    assume "c = b \<and> clients_kept s t"
    then show ?thesis using step p kept_subscriptions by blast
  next
    assume "c = (\<not> b) \<and> c = authenticated s \<and> t = authenticatedAutorun base s"
    then show ?thesis using step p autorun_subscriptions [of b s base] by auto
  qed
qed

lemma auth_init_keeps:
  "wf_clients s \<Longrightarrow> wf_clients (auth_init getInfo s)" "api_loop (auth_init getInfo s) = api_loop s"
  "api_lnd (auth_init getInfo s) = api_lnd s" "ac_handlers (clients (auth_init getInfo s) ! j) = ac_handlers (clients s ! j)"
  by (auto simp: auth_init_def validate_def Let_def wf_clients_def setCredentials_nth split: option.split sum.split)

lemma autorun_authenticated: "authenticated (authenticatedAutorun base s) = authenticated s"
  by (simp add: authenticatedAutorun_def connectToStreams_def subscribeToStreams_def unsubscribeFromStreams_def goToPage_def
      gotoAuth_def goTo_def autoCollapseSidebar_def start_call_def Let_def)


section \<open>Witnesses\<close>

definition grpc_client :: api_client where
  "grpc_client = \<lparr>ac_session = None, ac_credentials = [], ac_streams = 0, ac_handlers = []\<rparr>"

definition initial_auth :: app_auth where
  "initial_auth =
     (let ready = \<lparr>ss_disabled = False, ss_running = True, ss_error = []\<rparr> in
      app_node.extend
        (app_settings.extend initial_shell
          (app_node.fields [] [] [] [] ''bitcoin'' ''mainnet'' 0 0 0 0 False ready ready ready))
        (app_auth.fields [] False [] [] [] [] [] (replicate 4 grpc_client) 0 1 2 3 [] False False))"

text \<open>A node that accepts one password, and no call over a closed connection.\<close>

definition demo_node :: "string \<Rightarrow> node_access" where
  "demo_node password session meta opened =
     (case session of
        Some _ \<Rightarrow> if opened then Inr () else Inl (AppError ''closed'')
      | None \<Rightarrow> if meta = Some (''Basic '' @ encode_password password) then Inr () else Inl (AppError ''expected 1 macaroon, got 0''))"

definition demo_text :: "string \<Rightarrow> string" where
  "demo_text k = ''stores.authStore.'' @ k"

lemma initial_auth_simps [simp]:
  "clients initial_auth = replicate 4 grpc_client" "api_lnd initial_auth = 0" "api_loop initial_auth = 1" "api_pool initial_auth = 2"
  "api_lit initial_auth = 3" "lnc_connections initial_auth = []" "sessionStorage initial_auth = []" "streamsConnected initial_auth = False"
  "authenticated initial_auth = False" "credentials initial_auth = []"
  by (simp_all add: initial_auth_def app_settings.extend_def app_node.extend_def app_node.fields_def app_auth.fields_def initial_shell_def Let_def)

lemma initial_wf: "wf_clients initial_auth"
  by (simp add: wf_clients_def)

theorem login_survives_reload_witness:
  "authenticated (auth_init (demo_node ''pw'')
     (initial_auth\<lparr>sessionStorage := sessionStorage (snd (login demo_text (demo_node ''pw'') (Inr []) ''pw'' initial_auth))\<rparr>))"
proof -
  let ?r = "initial_auth\<lparr>sessionStorage := sessionStorage (snd (login demo_text (demo_node ''pw'') (Inr []) ''pw'' initial_auth))\<rparr>"
  have "login demo_text (demo_node ''pw'') (Inr []) ''pw'' initial_auth =
      (None, snd (login demo_text (demo_node ''pw'') (Inr []) ''pw'' initial_auth))"
    using encode_password_nonempty [of "''pw''"]
    by (simp add: login_def validate_def lnd_answer_def setCredentials_nth client_open_def api_meta_def demo_node_def grpc_client_def Let_def)
  then show ?thesis
    using login_survives_reload [of initial_auth ?r "''pw''" demo_text "demo_node ''pw''" "Inr []" None] initial_wf
    by (simp add: wf_clients_def grpc_client_def)
qed

lemma login_error_named_witness:
  "fst (login demo_text (\<lambda>_ _ _. Inl (AppError ''Failed to fetch the page.'')) (Inr []) ''pw'' initial_auth)
     = Some (Message ''stores.authStore.invalidPassErr'')"
  using login_error_named [of "''pw''" "\<lambda>_ _ _. Inl (AppError ''Failed to fetch the page.'')" initial_auth
      "AppError ''Failed to fetch the page.''" demo_text "Inr []"]
  by (simp add: lnd_answer_def Let_def demo_text_def login_error_key_def error_message_def)


definition logged_in :: app_auth where
  "logged_in = authenticatedAutorun [] (initial_auth\<lparr>authenticated := True\<rparr>)"

definition second_login :: app_auth where
  "second_login = snd (loginWithLnc ''word list'' ''secret'' (Settles (Inr True)) (Settles (Inr ())) (logged_in\<lparr>authenticated := False\<rparr>))"

theorem later_nodes_send_no_events_witness:
  "ac_streams (clients (authenticatedAutorun [] second_login) ! api_lnd second_login) = 0 \<and> authenticated second_login"
proof -
  let ?s = "logged_in\<lparr>authenticated := False\<rparr>"
  have s: "streamsConnected ?s"
    by (simp add: logged_in_def authenticatedAutorun_def connectToStreams_def subscribeToStreams_def Let_def)
  have l: "loginWithLnc ''word list'' ''secret'' (Settles (Inr True)) (Settles (Inr ())) ?s = (None, second_login)"
    by (simp add: second_login_def loginWithLnc_def new_LNC_def withTimeout_def js_trim_def js_whitespace_def Let_def)
  have "authenticated second_login" using later_nodes_send_no_events [OF s l, of "[]" False False second_login] by simp
  then have "(auth_step [])\<^sup>*\<^sup>* (False, second_login) (True, authenticatedAutorun [] second_login)"
    using step_reaction [of second_login False "[]"] by auto
  from later_nodes_send_no_events [OF s l this] show ?thesis by simp
qed


end
