(* ===== verification/Lit_Nodes.thy ===== *)
theory Lit_Nodes
  imports App_Auth App_Sync Js_Stringify
begin

text \<open>
  Several nodes at once: \<open>app/src/store/stores/nodeConnectionStore.ts\<close>, the aliases of
  \<open>app/src/api/lncApi.ts\<close> and the typed storage of \<open>app/src/util/appStorage.ts\<close>. Amounts in
  the replies of a node are decimal texts, as Lightning Node Connect delivers them; the
  identifier of a new node (time and random digits) is an argument.
\<close>

section \<open>Data\<close>

record NodeChannel =
  nc_chanId :: string
  nc_remotePubkey :: string
  nc_capacity :: int
  nc_localBalance :: int
  nc_remoteBalance :: int
  nc_active :: bool
  nc_alias :: string

record NodeConnection =
  cn_id :: string
  cn_label :: string
  cn_type :: string
  cn_connected :: bool
  cn_connecting :: bool
  cn_error :: string
  cn_api :: "nat option"
  cn_pubkey :: string
  cn_alias :: string
  cn_channelBalanceLocal :: int
  cn_channelBalanceRemote :: int
  cn_walletBalanceConfirmed :: int
  cn_walletBalanceUnconfirmed :: int
  cn_channels :: "NodeChannel list"
  cn_lncNamespace :: string
  cn_lnc :: "nat option"

record app_connections = app_auth +
  connections :: "(string \<times> NodeConnection) list"
  activeLeftId :: "string option"
  activeRightId :: "string option"

text \<open>The replies of a node.\<close>

record lnc_info =
  li_identityPubkey :: string
  li_alias :: string

record lnc_channelBalance =
  lb_localSat :: string
  lb_balance :: string
  lb_remoteSat :: string

record lnc_walletBalance =
  lw_confirmedBalance :: string
  lw_totalBalance :: string
  lw_unconfirmedBalance :: string

record lnc_channel =
  lc_chanId :: string
  lc_remotePubkey :: string
  lc_capacity :: string
  lc_localBalance :: string
  lc_remoteBalance :: string
  lc_active :: bool

record node_replies =
  nr_info :: "lnc_info api_result"
  nr_channelBalance :: "lnc_channelBalance api_result"
  nr_walletBalance :: "lnc_walletBalance api_result"
  nr_channels :: "(string \<times> lnc_channel list) list api_result"

section \<open>Replies\<close>

text \<open>\<open>a || b\<close> on texts, and \<open>Number(a || 0)\<close> on decimal texts.\<close>

definition or_text :: "string \<Rightarrow> string \<Rightarrow> string" where
  "or_text a b = (if a \<noteq> [] then a else b)"

definition text_number :: "string \<Rightarrow> int" where
  "text_number a = (if a = [] then 0 else case parseInt10 a of Some n \<Rightarrow> n | None \<Rightarrow> 0)"

definition aliasArrayFields :: "(string \<times> 'v) list \<Rightarrow> (string \<times> string) list \<Rightarrow> (string \<times> 'v) list" where
  "aliasArrayFields obj mapping =
     foldl (\<lambda>obj (src, dest).
         case map_of obj src of
           Some v \<Rightarrow> if map_of obj dest = None then AList.update dest v obj else obj
         | None \<Rightarrow> obj) obj mapping"

definition lnc_listChannels :: "(string \<times> 'v) list \<Rightarrow> (string \<times> 'v) list" where
  "lnc_listChannels res = aliasArrayFields res [(''channels'', ''channelsList'')]"

definition new_NodeConnection :: "string \<Rightarrow> string \<Rightarrow> string \<Rightarrow> string \<Rightarrow> NodeConnection" where
  "new_NodeConnection i label type namespace =
     \<lparr>cn_id = i, cn_label = label, cn_type = type, cn_connected = False, cn_connecting = False, cn_error = [], cn_api = None,
      cn_pubkey = [], cn_alias = [], cn_channelBalanceLocal = 0, cn_channelBalanceRemote = 0, cn_walletBalanceConfirmed = 0,
      cn_walletBalanceUnconfirmed = 0, cn_channels = [], cn_lncNamespace = or_text namespace (''lnc-node-'' @ i), cn_lnc = None\<rparr>"

definition cn_fetchInfo :: "node_replies \<Rightarrow> NodeConnection \<Rightarrow> NodeConnection" where
  "cn_fetchInfo r x =
     (if cn_api x = None then x
      else (let x = (case nr_info r of
                       Inr info \<Rightarrow> x\<lparr>cn_pubkey := li_identityPubkey info, cn_alias := or_text (li_alias info) (cn_label x)\<rparr>
                     | Inl _ \<Rightarrow> x)
            in case (nr_channelBalance r, nr_walletBalance r) of
                 (Inr cb, Inr wb) \<Rightarrow>
                   x\<lparr>cn_channelBalanceLocal := text_number (or_text (lb_localSat cb) (lb_balance cb)),
                     cn_channelBalanceRemote := text_number (lb_remoteSat cb),
                     cn_walletBalanceConfirmed := text_number (or_text (lw_confirmedBalance wb) (lw_totalBalance wb)),
                     cn_walletBalanceUnconfirmed := text_number (lw_unconfirmedBalance wb)\<rparr>
               | _ \<Rightarrow> x))"

definition node_channel :: "lnc_channel \<Rightarrow> NodeChannel" where
  "node_channel ch =
     \<lparr>nc_chanId = lc_chanId ch, nc_remotePubkey = lc_remotePubkey ch, nc_capacity = text_number (lc_capacity ch),
      nc_localBalance = text_number (lc_localBalance ch), nc_remoteBalance = text_number (lc_remoteBalance ch),
      nc_active = lc_active ch, nc_alias = []\<rparr>"

definition cn_fetchChannels :: "node_replies \<Rightarrow> NodeConnection \<Rightarrow> NodeConnection" where
  "cn_fetchChannels r x =
     (if cn_api x = None then x
      else case nr_channels r of
        Inl _ \<Rightarrow> x
      | Inr res \<Rightarrow>
          (let raw = (case map_of res ''channelsList'' of
                        Some cs \<Rightarrow> cs
                      | None \<Rightarrow> (case map_of res ''channels'' of Some cs \<Rightarrow> cs | None \<Rightarrow> []))
           in x\<lparr>cn_channels := map node_channel raw\<rparr>))"

section \<open>One connection\<close>

definition markPairedFor :: "string \<Rightarrow> 'a app_auth_scheme \<Rightarrow> 'a app_auth_scheme" where
  "markPairedFor namespace s = s\<lparr>localStorage := AList.update (LNC_STORAGE_KEY @ ''-'' @ namespace) ''true'' (localStorage s)\<rparr>"

definition clearPairedFor :: "string \<Rightarrow> 'a app_auth_scheme \<Rightarrow> 'a app_auth_scheme" where
  "clearPairedFor namespace s = s\<lparr>localStorage := AList.delete (LNC_STORAGE_KEY @ ''-'' @ namespace) (localStorage s)\<rparr>"

definition isPairedFor :: "string \<Rightarrow> 'a app_auth_scheme \<Rightarrow> bool" where
  "isPairedFor namespace s \<longleftrightarrow> map_of (localStorage s) (LNC_STORAGE_KEY @ ''-'' @ namespace) = Some ''true''"

text \<open>A new LNC client for the connection \<open>n\<close>.\<close>

definition open_client :: "nat \<Rightarrow> 'a app_auth_scheme \<Rightarrow> nat \<times> 'a app_auth_scheme" where
  "open_client n s =
     (length (clients s),
      (lnc_set n True s)\<lparr>clients := clients s @ [\<lparr>ac_session = Some n, ac_credentials = [], ac_streams = 0, ac_handlers = []\<rparr>]\<rparr>)"

text \<open>The body that \<open>connectLnc\<close> and \<open>reconnectLnc\<close> of a connection share, with their messages.\<close>

definition connect_node ::
    "string \<Rightarrow> string \<Rightarrow> bool \<Rightarrow> bool api_result \<Rightarrow> node_replies \<Rightarrow> NodeConnection \<Rightarrow> 'a app_auth_scheme \<Rightarrow>
     string option \<times> NodeConnection \<times> 'a app_auth_scheme" where
  "connect_node notConnected failed mark conn r x s =
     (let x = x\<lparr>cn_connecting := True, cn_error := []\<rparr>;
          (n, s) = new_LNC s;
          res = (case conn of Inl e \<Rightarrow> Inl (error_message e) | Inr up \<Rightarrow> if up then Inr () else Inl notConnected)
      in case res of
           Inl msg \<Rightarrow> (Some msg, x\<lparr>cn_connecting := False, cn_error := or_text msg failed, cn_connected := False\<rparr>, s)
         | Inr _ \<Rightarrow>
             (let (a, s) = open_client n s;
                  x = x\<lparr>cn_lnc := Some n, cn_api := Some a, cn_connected := True, cn_connecting := False\<rparr>;
                  s = (if mark then markPairedFor (cn_lncNamespace x) s else s)
              in (None, cn_fetchChannels r (cn_fetchInfo r x), s)))"

definition cn_connectLnc where
  "cn_connectLnc = connect_node ''Failed to establish LNC connection'' ''Connection failed'' True"

definition cn_reconnectLnc where
  "cn_reconnectLnc = connect_node ''Failed to reconnect via LNC'' ''Reconnection failed'' False"

definition cn_disconnect :: "NodeConnection \<Rightarrow> 'a app_auth_scheme \<Rightarrow> NodeConnection \<times> 'a app_auth_scheme" where
  "cn_disconnect x s =
     (x\<lparr>cn_lnc := None, cn_api := None, cn_connected := False, cn_channels := [], cn_pubkey := [], cn_alias := []\<rparr>,
      case cn_lnc x of Some n \<Rightarrow> lnc_set n False s | None \<Rightarrow> s)"

definition cn_displayName :: "NodeConnection \<Rightarrow> string" where
  "cn_displayName x = or_text (cn_alias x) (or_text (cn_label x) (''Node '' @ cn_id x))"

definition cn_initial :: "NodeConnection \<Rightarrow> string" where
  "cn_initial x = toUpperCase (take 1 (or_text (cn_alias x) (or_text (cn_label x) ''?'')))"

section \<open>The store\<close>

definition allNodes :: "'a app_connections_scheme \<Rightarrow> NodeConnection list" where
  "allNodes s = map snd (connections s)"

definition connectedNodes :: "'a app_connections_scheme \<Rightarrow> NodeConnection list" where
  "connectedNodes s = filter cn_connected (allNodes s)"

definition active_node :: "string option \<Rightarrow> 'a app_connections_scheme \<Rightarrow> NodeConnection option" where
  "active_node i s = (case i of None \<Rightarrow> None | Some k \<Rightarrow> if k = [] then None else map_of (connections s) k)"

definition activeLeft :: "'a app_connections_scheme \<Rightarrow> NodeConnection option" where
  "activeLeft s = active_node (activeLeftId s) s"

definition activeRight :: "'a app_connections_scheme \<Rightarrow> NodeConnection option" where
  "activeRight s = active_node (activeRightId s) s"

definition hasMultipleConnected :: "'a app_connections_scheme \<Rightarrow> bool" where
  "hasMultipleConnected s \<longleftrightarrow> 2 \<le> length (connectedNodes s)"

definition channelBetweenActive :: "'a app_connections_scheme \<Rightarrow> NodeChannel option" where
  "channelBetweenActive s =
     (case (activeLeft s, activeRight s) of
        (Some l, Some r) \<Rightarrow>
          if cn_connected l \<and> cn_connected r
          then (case find (\<lambda>ch. nc_remotePubkey ch = cn_pubkey r) (cn_channels l) of
                  Some ch \<Rightarrow> Some ch
                | None \<Rightarrow> find (\<lambda>ch. nc_remotePubkey ch = cn_pubkey l) (cn_channels r))
          else None
      | _ \<Rightarrow> None)"

definition setActiveLeft :: "string \<Rightarrow> 'a app_connections_scheme \<Rightarrow> 'a app_connections_scheme" where
  "setActiveLeft i s = s\<lparr>activeLeftId := Some i\<rparr>"

definition setActiveRight :: "string \<Rightarrow> 'a app_connections_scheme \<Rightarrow> 'a app_connections_scheme" where
  "setActiveRight i s = s\<lparr>activeRightId := Some i\<rparr>"

definition unset :: "string option \<Rightarrow> bool" where
  "unset i \<longleftrightarrow> (case i of None \<Rightarrow> True | Some k \<Rightarrow> k = [])"

definition autoAssignActive :: "string \<Rightarrow> 'a app_connections_scheme \<Rightarrow> 'a app_connections_scheme" where
  "autoAssignActive i s =
     (if unset (activeLeftId s) then s\<lparr>activeLeftId := Some i\<rparr>
      else if unset (activeRightId s) \<and> activeLeftId s \<noteq> Some i then s\<lparr>activeRightId := Some i\<rparr>
      else s)"

definition STORAGE_KEY :: string where
  "STORAGE_KEY = ''lit-node-connections''"

definition node_meta :: "NodeConnection \<Rightarrow> json" where
  "node_meta x =
     JObj [(''id'', JStr (cn_id x)), (''label'', JStr (cn_label x)), (''type'', JStr (cn_type x)), (''lncNamespace'', JStr (cn_lncNamespace x))]"

definition persist :: "'a app_connections_scheme \<Rightarrow> 'a app_connections_scheme" where
  "persist s =
     (let metas = map node_meta (filter (\<lambda>x. cn_id x \<noteq> ''primary'') (allNodes s))
      in s\<lparr>localStorage := AList.update STORAGE_KEY (JSON_stringify (JArr metas)) (localStorage s)\<rparr>)"

text \<open>
  An element without an id, label and type, which the store never writes, ends the loop here,
  as reading a property of \<open>null\<close> does; so does a text that is no array.
\<close>

fun restore_nodes :: "json list \<Rightarrow> (string \<times> NodeConnection) list \<Rightarrow> (string \<times> NodeConnection) list" where
  "restore_nodes [] m = m"
| "restore_nodes (v # vs) m =
     (case (json_string ''id'' v, json_string ''label'' v, json_string ''type'' v) of
        (Some i, Some label, Some type) \<Rightarrow>
          restore_nodes vs
            (AList.update i (new_NodeConnection i label type (case json_string ''lncNamespace'' v of Some n \<Rightarrow> n | None \<Rightarrow> [])) m)
      | _ \<Rightarrow> m)"

definition restore :: "'a app_connections_scheme \<Rightarrow> 'a app_connections_scheme" where
  "restore s =
     (case map_of (localStorage s) STORAGE_KEY of
        None \<Rightarrow> s
      | Some raw \<Rightarrow>
          if raw = [] then s
          else (case JSON_parse raw of
                  Inr (JArr metas) \<Rightarrow> s\<lparr>connections := restore_nodes metas (connections s)\<rparr>
                | _ \<Rightarrow> s))"

definition connections_init :: "'a app_connections_scheme \<Rightarrow> 'a app_connections_scheme" where
  "connections_init = restore"

definition put_node :: "string \<Rightarrow> NodeConnection \<Rightarrow> 'a app_connections_scheme \<Rightarrow> 'a app_connections_scheme" where
  "put_node i x s = s\<lparr>connections := AList.update i x (connections s)\<rparr>"

definition addLncNode ::
    "string \<Rightarrow> string \<Rightarrow> bool api_result \<Rightarrow> node_replies \<Rightarrow> 'a app_connections_scheme \<Rightarrow> string option \<times> 'a app_connections_scheme" where
  "addLncNode i label conn r s =
     (let node = new_NodeConnection i label ''lnc'' [];
          s = put_node i node s;
          (e, node, s) = cn_connectLnc conn r node s;
          s = put_node i node s
      in case e of Some msg \<Rightarrow> (Some msg, s) | None \<Rightarrow> (None, persist (autoAssignActive i s)))"

definition reconnectNode ::
    "string \<Rightarrow> bool api_result \<Rightarrow> node_replies \<Rightarrow> 'a app_connections_scheme \<Rightarrow> string option \<times> 'a app_connections_scheme" where
  "reconnectNode i conn r s =
     (case map_of (connections s) i of
        None \<Rightarrow> (None, s)
      | Some node \<Rightarrow>
          if cn_type node \<noteq> ''lnc'' then (None, s)
          else (let (e, node, s) = cn_reconnectLnc conn r node s;
                    s = put_node i node s
                in case e of Some msg \<Rightarrow> (Some msg, s) | None \<Rightarrow> (None, autoAssignActive i s)))"

definition nth_id :: "nat \<Rightarrow> NodeConnection list \<Rightarrow> string option" where
  "nth_id k xs = (if k < length xs \<and> cn_id (xs ! k) \<noteq> [] then Some (cn_id (xs ! k)) else None)"

definition removeNode :: "string \<Rightarrow> 'a app_connections_scheme \<Rightarrow> 'a app_connections_scheme" where
  "removeNode i s =
     (let s = (case map_of (connections s) i of
                 None \<Rightarrow> s
               | Some node \<Rightarrow> clearPairedFor (cn_lncNamespace node) (snd (cn_disconnect node s)));
          s = s\<lparr>connections := AList.delete i (connections s)\<rparr>;
          s = (if activeLeftId s = Some i then s\<lparr>activeLeftId := nth_id 0 (connectedNodes s)\<rparr> else s);
          s = (if activeRightId s = Some i then s\<lparr>activeRightId := nth_id 1 (connectedNodes s)\<rparr> else s)
      in persist s)"

definition registerPrimaryNode :: "'a app_connections_scheme \<Rightarrow> 'a app_connections_scheme" where
  "registerPrimaryNode s =
     (let pk = pubkey s in
      if pk = [] then s
      else if list_ex (\<lambda>x. cn_pubkey x = pk) (allNodes s) then s
      else (let name = or_text (node_alias s) ''My Node'';
                node = (new_NodeConnection ''primary'' name ''direct'' [])
                         \<lparr>cn_connected := True, cn_pubkey := pk, cn_alias := name, cn_api := Some (api_lnd s)\<rparr>;
                s = put_node ''primary'' node s
            in if unset (activeLeftId s) then s\<lparr>activeLeftId := Some ''primary''\<rparr> else s))"

definition refreshAllData :: "(string \<Rightarrow> node_replies) \<Rightarrow> 'a app_connections_scheme \<Rightarrow> 'a app_connections_scheme" where
  "refreshAllData r s =
     s\<lparr>connections := map (\<lambda>(i, x). (i, if cn_connected x then cn_fetchChannels (r (cn_id x)) (cn_fetchInfo (r (cn_id x)) x) else x))
         (connections s)\<rparr>"

section \<open>Typed storage\<close>

definition storage_set :: "string \<Rightarrow> json \<Rightarrow> 'a app_auth_scheme \<Rightarrow> 'a app_auth_scheme" where
  "storage_set key data s = s\<lparr>localStorage := AList.update key (JSON_stringify data) (localStorage s)\<rparr>"

definition storage_get :: "string \<Rightarrow> 'a app_auth_scheme \<Rightarrow> json option result" where
  "storage_get key s =
     (case map_of (localStorage s) key of
        None \<Rightarrow> Inr None
      | Some text \<Rightarrow> if text = [] then Inr None else then_res (JSON_parse text) (\<lambda>v. Inr (Some v)))"

section \<open>The active nodes exist\<close>

definition conn_ok :: "'a app_connections_scheme \<Rightarrow> bool" where
  "conn_ok s \<longleftrightarrow> keyed cn_id (connections s) \<and> [] \<notin> fst ` set (connections s) \<and>
     set_option (activeLeftId s) \<subseteq> fst ` set (connections s) \<and> set_option (activeRightId s) \<subseteq> fst ` set (connections s)"

definition store_view :: "'a app_connections_scheme \<Rightarrow> (string \<times> NodeConnection) list \<times> string option \<times> string option" where
  "store_view s = (connections s, activeLeftId s, activeRightId s)"

lemma conn_ok_view: "store_view t = store_view s \<Longrightarrow> conn_ok t = conn_ok s"
  by (simp add: conn_ok_def store_view_def)

lemma fetch_keeps_id [simp]: "cn_id (cn_fetchInfo r x) = cn_id x" "cn_id (cn_fetchChannels r x) = cn_id x"
  by (simp_all add: cn_fetchInfo_def cn_fetchChannels_def Let_def split: sum.split)

lemma connect_node_keeps [simp]:
  "cn_id (fst (snd (connect_node a b mk conn r x s))) = cn_id x"
  "store_view (snd (snd (connect_node a b mk conn r x s))) = store_view s"
  by (auto simp: connect_node_def new_LNC_def open_client_def lnc_set_def markPairedFor_def store_view_def Let_def split: sum.split)

lemma persist_view [simp]: "store_view (persist s) = store_view s"
  by (simp add: persist_def store_view_def)

lemma disconnect_view [simp]: "store_view (snd (cn_disconnect x s)) = store_view s" "store_view (clearPairedFor n s) = store_view s"
  by (simp_all add: cn_disconnect_def clearPairedFor_def lnc_set_def store_view_def split: option.split)

lemma put_node_ok: "conn_ok s \<Longrightarrow> cn_id x = i \<Longrightarrow> i \<noteq> [] \<Longrightarrow> conn_ok (put_node i x s)"
  by (auto simp: conn_ok_def put_node_def keyed_update dom_update)

lemma put_node_key: "i \<in> fst ` set (connections (put_node i x s))"
  by (simp add: put_node_def dom_update)

lemma autoAssign_ok: "conn_ok s \<Longrightarrow> i \<in> fst ` set (connections s) \<Longrightarrow> conn_ok (autoAssignActive i s)"
  by (simp add: conn_ok_def autoAssignActive_def)

lemma keyed_delete: "keyed f m \<Longrightarrow> keyed f (AList.delete k m)"
  by (auto simp: keyed_def AList.delete_eq distinct_map_filter)

lemma nth_id_key:
  assumes "keyed cn_id (connections s)"
  shows "set_option (nth_id k (connectedNodes s)) \<subseteq> fst ` set (connections s)"
proof -
  have "cn_id x \<in> fst ` set (connections s)" if "x \<in> set (connectedNodes s)" for x
    using that assms by (force simp: connectedNodes_def allNodes_def keyed_def)
  then show ?thesis by (auto simp: nth_id_def dest: nth_mem)
qed

lemma persist_ok [simp]: "conn_ok (persist s) = conn_ok s"
  by (rule conn_ok_view) simp

lemma connected_put_ok:
  assumes "conn_ok s" "cn_id x = i" "i \<noteq> []"
  shows "conn_ok (put_node i (fst (snd (connect_node a b mk conn r x s))) (snd (snd (connect_node a b mk conn r x s))))"
proof (rule put_node_ok)
  show "conn_ok (snd (snd (connect_node a b mk conn r x s)))"
    using conn_ok_view [OF connect_node_keeps(2) [of a b mk conn r x s]] assms(1) by simp
qed (use assms in simp_all)

lemma add_ok: "conn_ok s \<Longrightarrow> i \<noteq> [] \<Longrightarrow> conn_ok (snd (addLncNode i label conn r s))"
  using put_node_ok [of s "new_NodeConnection i label ''lnc'' []" i]
  by (simp add: addLncNode_def cn_connectLnc_def Let_def split_beta new_NodeConnection_def connected_put_ok autoAssign_ok
      put_node_key split: option.split)

lemma reconnect_ok: "conn_ok s \<Longrightarrow> conn_ok (snd (reconnectNode i conn r s))"
proof -
  assume ok: "conn_ok s"
  show ?thesis
  proof (cases "map_of (connections s) i")
    case (Some x)
    then have "cn_id x = i" "i \<noteq> []" using ok by (auto simp: conn_ok_def dest: keyed_lookup map_of_SomeD intro: rev_image_eqI)
    then show ?thesis
      using ok Some
      by (simp add: reconnectNode_def cn_reconnectLnc_def Let_def split_beta connected_put_ok autoAssign_ok put_node_key split: option.split)
  qed (use ok in \<open>simp add: reconnectNode_def\<close>)
qed

lemma conn_okI:
  assumes "keyed cn_id (connections t)" "[] \<notin> fst ` set (connections t)"
    "set_option (activeLeftId t) \<subseteq> fst ` set (connections t)" "set_option (activeRightId t) \<subseteq> fst ` set (connections t)"
  shows "conn_ok t"
  using assms by (simp add: conn_ok_def)

lemma remove_ok: "conn_ok s \<Longrightarrow> conn_ok (removeNode i s)"
proof -
  assume ok: "conn_ok s"
  define u where "u = (case map_of (connections s) i of None \<Rightarrow> s
    | Some x \<Rightarrow> clearPairedFor (cn_lncNamespace x) (snd (cn_disconnect x s)))"
  define d where "d = u\<lparr>connections := AList.delete i (connections u)\<rparr>"
  define l where "l = (if activeLeftId d = Some i then d\<lparr>activeLeftId := nth_id 0 (connectedNodes d)\<rparr> else d)"
  define r where "r = (if activeRightId l = Some i then l\<lparr>activeRightId := nth_id 1 (connectedNodes l)\<rparr> else l)"
  have rm: "removeNode i s = persist r" by (simp only: removeNode_def u_def [symmetric] d_def [symmetric] l_def [symmetric] r_def [symmetric] Let_def)
  have v: "store_view u = store_view s" by (simp add: u_def split: option.split)
  have d: "connections d = AList.delete i (connections s)" "activeLeftId d = activeLeftId s" "activeRightId d = activeRightId s"
    using v by (simp_all add: d_def store_view_def)
  have k: "keyed cn_id (connections d)" using ok d by (simp add: conn_ok_def keyed_delete)
  have keys: "fst ` set (connections d) = fst ` set (connections s) - {i}" by (force simp: d AList.delete_eq)
  have l: "connections l = connections d" "activeRightId l = activeRightId s" by (simp_all add: l_def d)
  have ll: "set_option (activeLeftId l) \<subseteq> fst ` set (connections d)"
    using nth_id_key [OF k, of 0] ok keys by (auto simp: l_def d(2) conn_ok_def)
  have r: "connections r = connections d" "activeLeftId r = activeLeftId l" by (simp_all add: r_def l)
  have "set_option (nth_id 1 (connectedNodes l)) \<subseteq> fst ` set (connections d)" using nth_id_key [of l 1] k l by simp
  then have rr: "set_option (activeRightId r) \<subseteq> fst ` set (connections d)"
    using ok keys by (auto simp: r_def l(2) conn_ok_def)
  have "conn_ok r" by (rule conn_okI) (use k keys ll rr ok r in \<open>simp_all add: conn_ok_def\<close>)
  then show ?thesis by (simp add: rm)
qed

lemma register_ok: "conn_ok s \<Longrightarrow> conn_ok (registerPrimaryNode s)"
proof -
  assume ok: "conn_ok s"
  have "conn_ok (put_node ''primary'' x s)" "conn_ok ((put_node ''primary'' x s)\<lparr>activeLeftId := Some ''primary''\<rparr>)"
    if "cn_id x = ''primary''" for x
    using put_node_ok [OF ok that] by (simp_all add: conn_ok_def put_node_def dom_update)
  then show ?thesis
    using ok by (simp add: registerPrimaryNode_def Let_def new_NodeConnection_def)
qed

lemma refresh_ok: "conn_ok s \<Longrightarrow> conn_ok (refreshAllData r s)"
  by (auto simp: conn_ok_def refreshAllData_def keyed_def comp_def split_beta image_image)

inductive conn_step :: "'a app_connections_scheme \<Rightarrow> 'a app_connections_scheme \<Rightarrow> bool" where
  "i \<noteq> [] \<Longrightarrow> conn_step s (snd (addLncNode i label conn r s))"
| "conn_step s (snd (reconnectNode i conn r s))"
| "conn_step s (removeNode i s)"
| "conn_step s (registerPrimaryNode s)"
| "conn_step s (refreshAllData replies s)"
| "i \<in> fst ` set (connections s) \<Longrightarrow> conn_step s (setActiveLeft i s)"
| "i \<in> fst ` set (connections s) \<Longrightarrow> conn_step s (setActiveRight i s)"

lemma conn_step_ok: "conn_step s t \<Longrightarrow> conn_ok s \<Longrightarrow> conn_ok t"
  by (induction rule: conn_step.induct)
    (simp_all add: add_ok reconnect_ok remove_ok register_ok refresh_ok, simp_all add: conn_ok_def setActiveLeft_def setActiveRight_def)

lemma conn_run_ok: "conn_step\<^sup>*\<^sup>* s t \<Longrightarrow> conn_ok s \<Longrightarrow> conn_ok t"
  by (induction rule: rtranclp_induct) (auto intro: conn_step_ok)


section \<open>Saved nodes\<close>

definition reborn :: "NodeConnection \<Rightarrow> NodeConnection" where
  "reborn x = new_NodeConnection (cn_id x) (cn_label x) (cn_type x) (cn_lncNamespace x)"

lemma meta_fields:
  "json_string ''id'' (node_meta x) = Some (cn_id x)" "json_string ''label'' (node_meta x) = Some (cn_label x)"
  "json_string ''type'' (node_meta x) = Some (cn_type x)" "json_string ''lncNamespace'' (node_meta x) = Some (cn_lncNamespace x)"
  by (simp_all add: json_string_def json_prop_def node_meta_def)

lemma update_fresh: "k \<notin> fst ` set m \<Longrightarrow> AList.update k v m = m @ [(k, v)]"
  by (induction m) auto

lemma restore_metas:
  "distinct (map fst m @ map cn_id xs) \<Longrightarrow> restore_nodes (map node_meta xs) m = m @ map (\<lambda>x. (cn_id x, reborn x)) xs"
proof (induction xs arbitrary: m)
  case (Cons x xs)
  then have "AList.update (cn_id x) (reborn x) m = m @ [(cn_id x, reborn x)]" by (intro update_fresh) auto
  with Cons show ?case by (simp add: meta_fields reborn_def [symmetric])
qed simp

lemma stringify_array_nonempty: "JSON_stringify (JArr vs) \<noteq> []"
  by (simp add: JSON_stringify_def enclosed_def)

lemma restore_persisted:
  assumes "conn_ok s" "connections u = []" "localStorage u = localStorage (persist s)"
  shows "connections (connections_init u) = map (\<lambda>x. (cn_id x, reborn x)) (filter (\<lambda>x. cn_id x \<noteq> ''primary'') (allNodes s))"
proof -
  let ?xs = "filter (\<lambda>x. cn_id x \<noteq> ''primary'') (allNodes s)"
  have "map cn_id (allNodes s) = map fst (connections s)" using assms(1) by (auto simp: conn_ok_def keyed_def allNodes_def)
  then have d: "distinct (map cn_id ?xs)" using assms(1) by (simp add: conn_ok_def keyed_def distinct_map_filter)
  have "plain_json (JArr (map node_meta ?xs))" by (simp add: list_all_iff node_meta_def)
  then have "JSON_parse (JSON_stringify (JArr (map node_meta ?xs))) = Inr (JArr (map node_meta ?xs))" by (rule parse_stringify)
  then show ?thesis
    using assms(2,3) d restore_metas [of "[]" ?xs]
    by (simp add: connections_init_def restore_def persist_def update_conv' stringify_array_nonempty)
qed


text \<open>Removing the node on the right may show the node on the left on both sides.\<close>

lemma removal_can_show_left_twice:
  assumes "activeRightId s = Some i" "activeLeftId s = Some k" "k \<noteq> i"
    and "filter cn_connected (map snd (AList.delete i (connections s))) = x # y # rest" "cn_id y = k" "k \<noteq> []"
  shows "activeRightId (removeNode i s) = activeLeftId (removeNode i s)"
proof -
  define u where "u = (case map_of (connections s) i of None \<Rightarrow> s
    | Some x \<Rightarrow> clearPairedFor (cn_lncNamespace x) (snd (cn_disconnect x s)))"
  have "store_view u = store_view s" by (simp add: u_def split: option.split)
  then show ?thesis
    using assms by (simp add: removeNode_def u_def [symmetric] Let_def persist_def store_view_def nth_id_def connectedNodes_def allNodes_def)
qed

text \<open>A node whose first connection fails stays in the list and is not saved.\<close>

lemma failed_node_stays_listed:
  assumes "addLncNode i label conn r s = (Some msg, t)" "conn_ok s" "i \<noteq> []"
  shows "(\<exists>x \<in> set (allNodes t). cn_id x = i \<and> cn_label x = label \<and> \<not> cn_connected x) \<and> localStorage t = localStorage s"
proof -
  have "conn \<noteq> Inr True"
    using assms(1) by (auto simp: addLncNode_def cn_connectLnc_def connect_node_def new_LNC_def Let_def split_beta split: option.splits)
  then have "\<exists>x. t = put_node i x (put_node i (new_NodeConnection i label ''lnc'' []) (s\<lparr>lnc_connections := lnc_connections s @ [False]\<rparr>)) \<and>
      cn_id x = i \<and> cn_label x = label \<and> \<not> cn_connected x"
    using assms(1)
    by (auto simp: addLncNode_def cn_connectLnc_def connect_node_def new_LNC_def new_NodeConnection_def put_node_def Let_def
        split_beta split: sum.splits if_splits)
  then obtain x where x: "t = put_node i x (put_node i (new_NodeConnection i label ''lnc'' []) (s\<lparr>lnc_connections := lnc_connections s @ [False]\<rparr>))"
      "cn_id x = i" "cn_label x = label" "\<not> cn_connected x" by blast
  have "map_of (connections t) i = Some x" by (simp add: x(1) put_node_def update_conv')
  then have "x \<in> set (allNodes t)" by (force simp: allNodes_def dest: map_of_SomeD)
  moreover have "localStorage t = localStorage s" by (simp add: x(1) put_node_def)
  ultimately show ?thesis using x by blast
qed

lemma storage_roundtrip: "plain_json v \<Longrightarrow> JSON_stringify v \<noteq> [] \<Longrightarrow> storage_get key (storage_set key v s) = Inr (Some v)"
  by (simp add: storage_get_def storage_set_def update_conv' parse_stringify)

section \<open>Witnesses\<close>

definition initial_connections :: app_connections where
  "initial_connections = app_auth.extend initial_auth (app_connections.fields [] None None)"

lemma initial_connections_simps [simp]:
  "connections initial_connections = []" "activeLeftId initial_connections = None" "activeRightId initial_connections = None"
  "lnc_connections initial_connections = []" "clients initial_connections = replicate 4 grpc_client"
  by (simp_all add: initial_connections_def app_auth.extend_def app_connections.fields_def)

definition no_replies :: node_replies where
  "no_replies = \<lparr>nr_info = Inl (AppError []), nr_channelBalance = Inl (AppError []), nr_walletBalance = Inl (AppError []),
    nr_channels = Inl (AppError [])\<rparr>"

definition one_node :: app_connections where
  "one_node = snd (addLncNode ''n1'' ''Home'' (Inr True) no_replies initial_connections)"

lemma one_node_added: "addLncNode ''n1'' ''Home'' (Inr True) no_replies initial_connections = (None, one_node)"
  by (simp add: one_node_def addLncNode_def cn_connectLnc_def connect_node_def new_LNC_def Let_def split_beta)

lemma one_node_fields: "map cn_id (allNodes one_node) = [''n1'']" "map cn_label (allNodes one_node) = [''Home'']" "activeLeftId one_node = Some ''n1''"
  by (simp_all add: one_node_def addLncNode_def cn_connectLnc_def connect_node_def new_LNC_def Let_def split_beta open_client_def
      lnc_set_def markPairedFor_def put_node_def autoAssignActive_def persist_def unset_def new_NodeConnection_def
      cn_fetchInfo_def cn_fetchChannels_def no_replies_def allNodes_def)



end
