(* ===== verification/App_Activity.thy ===== *)
theory App_Activity
  imports App_Node
begin

text \<open>
  The animations of the home page: \<open>app/src/store/stores/paymentActivityStore.ts\<close>, a queue of
  payments with a simulation for development, and \<open>app/src/store/stores/networkGraphStore.ts\<close>,
  the best connected nodes of the network. Random numbers are arguments; the timeouts that have
  been started and neither fired nor cleared are explicit.
\<close>

section \<open>Payments\<close>

datatype payment_direction = Outgoing | Incoming

record PaymentEvent =
  pe_direction :: payment_direction
  pe_amountSat :: int
  pe_timestamp :: int

record app_activity = app_node +
  pendingEvents :: "PaymentEvent list"
  simulationTimer :: "nat option"
  sim_timers :: "nat list"
  sim_next :: nat

record lnd_invoice =
  inv_state :: int
  inv_amtPaidSat :: string
  inv_value :: string

definition push_event :: "payment_direction \<Rightarrow> int \<Rightarrow> 'a app_activity_scheme \<Rightarrow> 'a app_activity_scheme" where
  "push_event d amt s = s\<lparr>pendingEvents := pendingEvents s @ [\<lparr>pe_direction = d, pe_amountSat = amt, pe_timestamp = clock s\<rparr>]\<rparr>"

definition invoice_amount :: "lnd_invoice \<Rightarrow> int" where
  "invoice_amount i =
     (case parseInt10 (inv_amtPaidSat i) of
        Some n \<Rightarrow> if n \<noteq> 0 then n else or_default (parseInt10 (inv_value i)) 0
      | None \<Rightarrow> or_default (parseInt10 (inv_value i)) 0)"

definition onInvoiceUpdate :: "lnd_invoice \<Rightarrow> 'a app_activity_scheme \<Rightarrow> 'a app_activity_scheme" where
  "onInvoiceUpdate i s = (if inv_state i = 1 then push_event Incoming (invoice_amount i) s else s)"

definition onPaymentSent :: "int \<Rightarrow> 'a app_activity_scheme \<Rightarrow> 'a app_activity_scheme" where
  "onPaymentSent amountSat s = push_event Outgoing amountSat s"

definition activity_dequeue :: "'a app_activity_scheme \<Rightarrow> PaymentEvent option \<times> 'a app_activity_scheme" where
  "activity_dequeue s =
     (case pendingEvents s of [] \<Rightarrow> (None, s) | e # es \<Rightarrow> (Some e, s\<lparr>pendingEvents := es\<rparr>))"

definition hasPending :: "'a app_activity_scheme \<Rightarrow> bool" where
  "hasPending s \<longleftrightarrow> pendingEvents s \<noteq> []"

definition start_sim_timer :: "'a app_activity_scheme \<Rightarrow> 'a app_activity_scheme" where
  "start_sim_timer s =
     s\<lparr>simulationTimer := Some (sim_next s), sim_timers := sim_timers s @ [sim_next s], sim_next := Suc (sim_next s)\<rparr>"

definition stopSimulation :: "'a app_activity_scheme \<Rightarrow> 'a app_activity_scheme" where
  "stopSimulation s =
     (case simulationTimer s of
        None \<Rightarrow> s
      | Some t \<Rightarrow> s\<lparr>sim_timers := removeAll t (sim_timers s), simulationTimer := None\<rparr>)"

text \<open>\<open>sample\<close> is the setting \<open>USE_SAMPLE_DATA\<close>.\<close>

definition startSimulation :: "bool \<Rightarrow> 'a app_activity_scheme \<Rightarrow> 'a app_activity_scheme" where
  "startSimulation sample s = (if \<not> sample then s else start_sim_timer (stopSimulation s))"

text \<open>The timeout \<open>t\<close> fires; \<open>coin\<close> and \<open>dice\<close> are the random numbers, from 0 up to 1.\<close>

definition simulation_tick :: "nat \<Rightarrow> rat \<Rightarrow> rat \<Rightarrow> 'a app_activity_scheme \<Rightarrow> 'a app_activity_scheme" where
  "simulation_tick t coin dice s =
     start_sim_timer
       (push_event (if coin > 1 / 2 then Outgoing else Incoming) (\<lfloor>dice * 500000\<rfloor> + 1000)
         (s\<lparr>sim_timers := removeAll t (sim_timers s)\<rparr>))"

section \<open>The network\<close>

record MempoolNode =
  mn_publicKey :: string
  mn_alias :: string
  mn_channels :: int
  mn_capacity :: int
  mn_updatedAt :: int
  mn_color :: string

record graph_node =
  gn_lastUpdate :: int
  gn_pubKey :: string
  gn_alias :: string
  gn_color :: string

record network_info =
  ni_numNodes :: int
  ni_numChannels :: int
  ni_totalNetworkCapacity :: string

text \<open>The statistics of the latest day, missing numbers being 0.\<close>

record mempool_stats =
  ms_node_count :: int
  ms_channel_count :: int
  ms_total_capacity :: int

record app_graph = app_activity +
  graph_nodes :: "graph_node list"
  mempoolData :: "(string \<times> MempoolNode) list"
  networkInfo :: "network_info option"
  graph_loading :: bool
  graph_error :: string

abbreviation (input) DEFAULT_COLOR :: string where "DEFAULT_COLOR \<equiv> ''#8b5cf6''"

definition merge_rankings :: "MempoolNode list \<Rightarrow> MempoolNode list \<Rightarrow> (string \<times> MempoolNode) list" where
  "merge_rankings connData liqData =
     foldl (\<lambda>m n. if map_of m (mn_publicKey n) = None then AList.update (mn_publicKey n) n m else m) []
       (take 60 connData @ take 60 liqData)"

definition graph_node_of :: "MempoolNode \<Rightarrow> graph_node" where
  "graph_node_of n =
     \<lparr>gn_lastUpdate = mn_updatedAt n, gn_pubKey = mn_publicKey n, gn_alias = mn_alias n,
      gn_color = (if mn_color n \<noteq> [] then mn_color n else DEFAULT_COLOR)\<rparr>"

text \<open>The reply: both rankings and the statistics, or the message of the error.\<close>

definition fetchGraph ::
    "string + (MempoolNode list \<times> MempoolNode list \<times> mempool_stats) \<Rightarrow> 'a app_graph_scheme \<Rightarrow> 'a app_graph_scheme" where
  "fetchGraph res s =
     (if graph_loading s then s
      else case res of
        Inl msg \<Rightarrow> s\<lparr>graph_error := (if msg \<noteq> [] then msg else ''Failed to fetch network data''), graph_loading := False\<rparr>
      | Inr (connData, liqData, stats) \<Rightarrow>
          (let nodeMap = merge_rankings connData liqData;
               allNodes = map snd nodeMap;
               totalCap = sum_list (map mn_capacity allNodes)
           in s\<lparr>graph_error := [], graph_nodes := map graph_node_of allNodes, mempoolData := nodeMap,
                networkInfo := Some
                  \<lparr>ni_numNodes = (if ms_node_count stats \<noteq> 0 then ms_node_count stats else int (length allNodes)),
                   ni_numChannels = ms_channel_count stats,
                   ni_totalNetworkCapacity =
                     int_to_string (if ms_total_capacity stats \<noteq> 0 then ms_total_capacity stats else totalCap)\<rparr>,
                graph_loading := False\<rparr>))"

definition nodesByPubkey :: "'a app_graph_scheme \<Rightarrow> (string \<times> graph_node) list" where
  "nodesByPubkey s = foldl (\<lambda>m n. AList.update (gn_pubKey n) n m) [] (graph_nodes s)"

definition getNodeAlias :: "string \<Rightarrow> 'a app_graph_scheme \<Rightarrow> string" where
  "getNodeAlias pk s =
     (case map_of (nodesByPubkey s) pk of
        Some n \<Rightarrow> if gn_alias n \<noteq> [] then gn_alias n else take 12 pk @ ''...''
      | None \<Rightarrow> take 12 pk @ ''...'')"

definition getNodeColor :: "string \<Rightarrow> 'a app_graph_scheme \<Rightarrow> string" where
  "getNodeColor pk s =
     (case map_of (nodesByPubkey s) pk of
        Some n \<Rightarrow> if gn_color n \<noteq> [] then gn_color n else DEFAULT_COLOR
      | None \<Rightarrow> DEFAULT_COLOR)"

section \<open>Payments are shown in order\<close>

text \<open>What a run has queued and what it has taken out of the queue, beside the state.\<close>

inductive activity_run :: "'a app_activity_scheme \<Rightarrow> PaymentEvent list \<Rightarrow> PaymentEvent list \<Rightarrow> 'a app_activity_scheme \<Rightarrow> bool"
  for s\<^sub>0 where
  start: "activity_run s\<^sub>0 [] [] s\<^sub>0"
| push: "activity_run s\<^sub>0 ins outs s \<Longrightarrow> t = push_event d amt s \<Longrightarrow> activity_run s\<^sub>0 (ins @ [last (pendingEvents t)]) outs t"
| take: "activity_run s\<^sub>0 ins outs s \<Longrightarrow> activity_dequeue s = (Some e, t) \<Longrightarrow> activity_run s\<^sub>0 ins (outs @ [e]) t"

lemma payments_in_order:
  assumes "activity_run s\<^sub>0 ins outs s" "pendingEvents s\<^sub>0 = []"
  shows "ins = outs @ pendingEvents s"
  using assms by induction (auto simp: push_event_def activity_dequeue_def split: list.splits)

section \<open>Stopping the simulation\<close>

inductive simulation_step :: "'a app_activity_scheme \<Rightarrow> 'a app_activity_scheme \<Rightarrow> bool" where
  "simulation_step s (startSimulation sample s)"
| "simulation_step s (stopSimulation s)"
| "t \<in> set (sim_timers s) \<Longrightarrow> simulation_step s (simulation_tick t coin dice s)"
| "simulation_step s (onPaymentSent amt s)"
| "simulation_step s (onInvoiceUpdate i s)"

definition one_timer :: "'a app_activity_scheme \<Rightarrow> bool" where
  "one_timer s \<longleftrightarrow> sim_timers s = (case simulationTimer s of None \<Rightarrow> [] | Some t \<Rightarrow> [t])"

lemma one_timer_step: "simulation_step s t \<Longrightarrow> one_timer s \<Longrightarrow> one_timer t"
  by (induction rule: simulation_step.induct)
    (auto simp: one_timer_def startSimulation_def stopSimulation_def start_sim_timer_def simulation_tick_def push_event_def
      onPaymentSent_def onInvoiceUpdate_def split: option.splits)

lemma simulation_stops:
  assumes "simulation_step\<^sup>*\<^sup>* s t" "sim_timers s = []" "simulationTimer s = None"
  shows "sim_timers (stopSimulation t) = [] \<and> length (sim_timers t) \<le> 1"
proof -
  have "one_timer t" using assms(1)
  proof (induction rule: rtranclp_induct)
    case base
    then show ?case using assms(2,3) by (simp add: one_timer_def)
  qed (rule one_timer_step)
  then show ?thesis by (auto simp: one_timer_def stopSimulation_def split: option.splits)
qed

section \<open>The merged rankings\<close>

lemma merge_keeps_first:
  fixes m :: "(string \<times> MempoolNode) list"
  defines "F \<equiv> foldl (\<lambda>m n. if map_of m (mn_publicKey n) = None then AList.update (mn_publicKey n) n m else m)"
  shows "map_of (F m ns) k = (case map_of m k of Some n \<Rightarrow> Some n | None \<Rightarrow> find (\<lambda>n. mn_publicKey n = k) ns)"
    and "distinct (map fst m) \<Longrightarrow> distinct (map fst (F m ns))"
    and "length (F m ns) \<le> length m + length ns"
proof -
  have up: "map_of m k = None \<Longrightarrow> length (AList.update k v m) = Suc (length m)" for k v and m :: "(string \<times> MempoolNode) list"
    by (induction m) auto
  show "map_of (F m ns) k = (case map_of m k of Some n \<Rightarrow> Some n | None \<Rightarrow> find (\<lambda>n. mn_publicKey n = k) ns)"
    unfolding F_def by (induction ns arbitrary: m) (auto simp: update_conv' split: option.splits)
  show "distinct (map fst m) \<Longrightarrow> distinct (map fst (F m ns))"
    unfolding F_def by (induction ns arbitrary: m) (auto simp: distinct_update)
  show "length (F m ns) \<le> length m + length ns"
    unfolding F_def
  proof (induction ns arbitrary: m)
    case (Cons n ns)
    show ?case using Cons [of m] Cons [of "AList.update (mn_publicKey n) n m"] up [of m "mn_publicKey n" n] by auto
  qed simp
qed

lemma graph_merges_rankings:
  "distinct (map fst (merge_rankings c l)) \<and> length (merge_rankings c l) \<le> 120 \<and>
   map_of (merge_rankings c l) k = find (\<lambda>n. mn_publicKey n = k) (take 60 c @ take 60 l)"
  using merge_keeps_first(3) [of "[]" "take 60 c @ take 60 l"]
  by (auto simp: merge_rankings_def merge_keeps_first(1,2) simp del: foldl_append)

end
