(* ===== verification/App_Lists.thy ===== *)
theory App_Lists
  imports Lit_Nodes App_Activity
begin

text \<open>
  The list of payments of \<open>app/src/components/history/HistoryPage.tsx\<close> and the lists of nodes and
  assets of \<open>app/src/components/explore/ExplorePage.tsx\<close>. Numbers in the replies of the node are
  decimal texts; \<open>localeCompare\<close> of the browser is the argument \<open>lc\<close>, and the date of a
  distant time is the argument \<open>date\<close>.
\<close>

section \<open>Activity\<close>

datatype item_type = PaymentItem | InvoiceItem

record ActivityItem =
  it_id :: string
  it_type :: item_type
  it_amount :: int
  it_fee :: int
  it_status :: string
  it_memo :: string
  it_timestamp :: int
  it_hash :: string

record lnd_payment =
  py_paymentIndex :: string
  py_paymentHash :: string
  py_valueSat :: string
  py_value :: string
  py_feeSat :: string
  py_fee :: string
  py_status :: int
  py_creationDate :: string

text \<open>The hash of an invoice is a text, or bytes whose text is used for the id only.\<close>

record lnd_invoice_entry =
  ie_addIndex :: string
  ie_rHash :: string
  ie_hashIsText :: bool
  ie_amtPaidSat :: string
  ie_value :: string
  ie_state :: int
  ie_memo :: string
  ie_settleDate :: string
  ie_creationDate :: string

definition or_number :: "int \<Rightarrow> int \<Rightarrow> int" where
  "or_number a b = (if a \<noteq> 0 then a else b)"

definition paymentToItem :: "lnd_payment \<Rightarrow> ActivityItem" where
  "paymentToItem p =
     \<lparr>it_id = ''pay-'' @ or_text (py_paymentIndex p) (py_paymentHash p), it_type = PaymentItem,
      it_amount = or_number (text_number (py_valueSat p)) (text_number (py_value p)),
      it_fee = or_number (text_number (py_feeSat p)) (text_number (py_fee p)),
      it_status = (if py_status p = 1 then ''in_flight'' else if py_status p = 2 then ''succeeded''
                   else if py_status p = 3 then ''failed'' else ''unknown''),
      it_memo = [], it_timestamp = text_number (py_creationDate p), it_hash = py_paymentHash p\<rparr>"

definition invoiceToItem :: "lnd_invoice_entry \<Rightarrow> ActivityItem" where
  "invoiceToItem i =
     \<lparr>it_id = ''inv-'' @ or_text (ie_addIndex i) (ie_rHash i), it_type = InvoiceItem,
      it_amount = or_number (text_number (ie_amtPaidSat i)) (text_number (ie_value i)), it_fee = 0,
      it_status = (if ie_state i = 0 then ''open'' else if ie_state i = 1 then ''settled'' else if ie_state i = 2 then ''canceled''
                   else if ie_state i = 3 then ''accepted'' else ''unknown''),
      it_memo = ie_memo i,
      it_timestamp = (if ie_state i = 1 then text_number (ie_settleDate i) else text_number (ie_creationDate i)),
      it_hash = (if ie_hashIsText i then ie_rHash i else [])\<rparr>"

text \<open>\<open>now\<close> is \<open>Date.now()\<close>, in milliseconds.\<close>

definition timeAgo :: "(int \<Rightarrow> string) \<Rightarrow> int \<Rightarrow> int \<Rightarrow> string" where
  "timeAgo date now unix =
     (let diff = (of_int now :: rat) / 1000 - of_int unix in
      if diff < 60 then ''just now''
      else if diff < 3600 then int_to_string \<lfloor>diff / 60\<rfloor> @ ''m ago''
      else if diff < 86400 then int_to_string \<lfloor>diff / 3600\<rfloor> @ ''h ago''
      else if diff < 2592000 then int_to_string \<lfloor>diff / 86400\<rfloor> @ ''d ago''
      else date (unix * 1000))"

datatype TabFilter = AllTab | PaymentsTab | InvoicesTab
datatype SortKey = ByDetails | ByAmount | ByFee | ByStatus | ByTime
datatype SortDir = Asc | Desc

record history_page =
  hp_items :: "ActivityItem list"
  hp_loading :: bool
  hp_search :: string
  hp_tab :: TabFilter
  hp_sortBy :: SortKey
  hp_sortDir :: SortDir

text \<open>\<open>None\<close> when one of the two requests fails.\<close>

definition fetchActivity :: "(lnd_payment list \<times> lnd_invoice_entry list) option \<Rightarrow> history_page \<Rightarrow> history_page" where
  "fetchActivity res s =
     (let s = (case res of
                 None \<Rightarrow> s
               | Some (ps, is) \<Rightarrow>
                   (let payItems = map paymentToItem ps;
                        invItems = filter (\<lambda>i. it_status i \<noteq> ''open'' \<and> it_status i \<noteq> ''canceled'') (map invoiceToItem is)
                    in s\<lparr>hp_items := js_sort (\<lambda>a b. of_int (it_timestamp b - it_timestamp a)) (payItems @ invItems)\<rparr>))
      in s\<lparr>hp_loading := False\<rparr>)"

definition toggleSort :: "SortKey \<Rightarrow> history_page \<Rightarrow> history_page" where
  "toggleSort key s =
     (if hp_sortBy s = key then s\<lparr>hp_sortDir := (if hp_sortDir s = Asc then Desc else Asc)\<rparr>
      else s\<lparr>hp_sortBy := key, hp_sortDir := (if key = ByTime then Desc else Asc)\<rparr>)"

definition item_shown :: "history_page \<Rightarrow> ActivityItem \<Rightarrow> bool" where
  "item_shown s x \<longleftrightarrow>
     (if hp_tab s = PaymentsTab \<and> it_type x \<noteq> PaymentItem then False
      else if hp_tab s = InvoicesTab \<and> it_type x \<noteq> InvoiceItem then False
      else if hp_search s \<noteq> []
      then (let q = toLowerCase (hp_search s) in
            str_includes q (toLowerCase (it_memo x)) \<or> str_includes q (toLowerCase (it_hash x)) \<or>
            str_includes q (int_to_string (it_amount x)))
      else True)"

definition item_compare :: "(string \<Rightarrow> string \<Rightarrow> int) \<Rightarrow> SortKey \<Rightarrow> ActivityItem \<Rightarrow> ActivityItem \<Rightarrow> int" where
  "item_compare lc key a b =
     (case key of
        ByDetails \<Rightarrow> lc (or_text (it_memo a) (it_hash a)) (or_text (it_memo b) (it_hash b))
      | ByAmount \<Rightarrow> it_amount a - it_amount b
      | ByFee \<Rightarrow> it_fee a - it_fee b
      | ByStatus \<Rightarrow> lc (it_status a) (it_status b)
      | ByTime \<Rightarrow> it_timestamp a - it_timestamp b)"

definition filtered_items :: "(string \<Rightarrow> string \<Rightarrow> int) \<Rightarrow> history_page \<Rightarrow> ActivityItem list" where
  "filtered_items lc s =
     js_sort (\<lambda>a b. let c = of_int (item_compare lc (hp_sortBy s) a b) in if hp_sortDir s = Asc then c else - c)
       (filter (item_shown s) (hp_items s))"

definition totalSent :: "history_page \<Rightarrow> int" where
  "totalSent s = sum_list (map it_amount (filter (\<lambda>i. it_type i = PaymentItem \<and> it_status i = ''succeeded'') (hp_items s)))"

definition totalReceived :: "history_page \<Rightarrow> int" where
  "totalReceived s = sum_list (map it_amount (filter (\<lambda>i. it_type i = InvoiceItem \<and> it_status i = ''settled'') (hp_items s)))"

definition totalFees :: "history_page \<Rightarrow> int" where
  "totalFees s = sum_list (map it_fee (filter (\<lambda>i. it_type i = PaymentItem \<and> it_status i = ''succeeded'') (hp_items s)))"

section \<open>Exploring the network\<close>

record UniverseAsset =
  ua_assetId :: string
  ua_name :: string
  ua_supply :: string
  ua_proofType :: string

record UniverseStats =
  us_totalAssets :: "int option"
  us_totalGroups :: "int option"
  us_totalProofs :: "int option"
  us_totalSyncs :: "int option"

datatype ExploreTab = ChannelsTab | NodesTab | AssetsTab

record explore_page =
  ex_tab :: ExploreTab
  ex_nodes :: "MempoolNode list"
  ex_nodesLoading :: bool
  ex_nodeSearch :: string
  ex_assets :: "UniverseAsset list"
  ex_stats :: "UniverseStats option"
  ex_assetsLoading :: bool
  ex_assetSearch :: string

definition merge_by_capacity :: "MempoolNode list \<Rightarrow> MempoolNode list \<Rightarrow> MempoolNode list" where
  "merge_by_capacity connData liqData =
     (let merged = foldl (\<lambda>m n. AList.update (mn_publicKey n) n m) [] liqData;
          merged = foldl (\<lambda>m n. if map_of m (mn_publicKey n) = None then AList.update (mn_publicKey n) n m else m) merged connData
      in js_sort (\<lambda>a b. of_int (mn_capacity b - mn_capacity a)) (map snd merged))"

definition fetchNodes :: "(MempoolNode list \<times> MempoolNode list) option \<Rightarrow> explore_page \<Rightarrow> explore_page" where
  "fetchNodes res s =
     (case res of Some (connData, liqData) \<Rightarrow> s\<lparr>ex_nodes := merge_by_capacity connData liqData\<rparr> | None \<Rightarrow> s)\<lparr>ex_nodesLoading := False\<rparr>"

text \<open>A root of the universe, its missing parts being empty; \<open>NaN\<close> is \<open>None\<close>.\<close>

record universe_root =
  ur_asset_id :: string
  ur_asset_name :: string
  ur_root_sum :: string
  ur_proof_type :: string

definition asset_of_root :: "universe_root \<Rightarrow> UniverseAsset" where
  "asset_of_root r =
     \<lparr>ua_assetId = ur_asset_id r, ua_name = or_text (ur_asset_name r) ''Unknown'', ua_supply = or_text (ur_root_sum r) ''0'',
      ua_proofType = (if ur_proof_type r = ''PROOF_TYPE_TRANSFER'' then ''Transfer'' else ''Asset'')\<rparr>"

definition fetchAssets ::
    "(string \<Rightarrow> string \<Rightarrow> int) \<Rightarrow> (universe_root list \<times> string \<times> string \<times> string \<times> string) option \<Rightarrow> explore_page \<Rightarrow> explore_page" where
  "fetchAssets lc res s =
     (case res of
        None \<Rightarrow> s
      | Some (roots, a, g, p, y) \<Rightarrow>
          s\<lparr>ex_stats := Some \<lparr>us_totalAssets = parseInt10 (or_text a ''0''), us_totalGroups = parseInt10 (or_text g ''0''),
                us_totalProofs = parseInt10 (or_text p ''0''), us_totalSyncs = parseInt10 (or_text y ''0'')\<rparr>,
            ex_assets := js_sort (\<lambda>a b. of_int (lc (ua_name a) (ua_name b))) (map asset_of_root roots)\<rparr>)\<lparr>ex_assetsLoading := False\<rparr>"

definition maxCapacity :: "explore_page \<Rightarrow> int" where
  "maxCapacity s = (case ex_nodes s of n # _ \<Rightarrow> mn_capacity n | [] \<Rightarrow> 1)"

definition filteredNodes :: "explore_page \<Rightarrow> MempoolNode list" where
  "filteredNodes s =
     (if ex_nodeSearch s \<noteq> [] then filter (\<lambda>n. str_includes (toLowerCase (ex_nodeSearch s)) (toLowerCase (mn_alias n))) (ex_nodes s)
      else ex_nodes s)"

definition filteredAssets :: "explore_page \<Rightarrow> UniverseAsset list" where
  "filteredAssets s =
     (if ex_assetSearch s \<noteq> [] then filter (\<lambda>a. str_includes (toLowerCase (ex_assetSearch s)) (toLowerCase (ua_name a))) (ex_assets s)
      else ex_assets s)"

definition formatAge :: "int \<Rightarrow> int \<Rightarrow> string" where
  "formatAge now timestamp =
     (let days = \<lfloor>((of_int now :: rat) / 1000 - of_int timestamp) / 86400\<rfloor> in
      if days \<ge> 365 then int_to_string (days div 365) @ ''y''
      else if days \<ge> 30 then int_to_string (days div 30) @ ''mo''
      else int_to_string days @ ''d'')"

section \<open>What the history shows\<close>

lemma comparator_int: "comparator (\<lambda>a b. of_int (f a - f b :: int))" "comparator (\<lambda>a b. - of_int (f a - f b :: int))"
  by (auto simp: comparator_def)

text \<open>The number a list is sorted by, for the columns with numbers.\<close>

definition item_number :: "SortKey \<Rightarrow> ActivityItem \<Rightarrow> int" where
  "item_number key x = (case key of ByAmount \<Rightarrow> it_amount x | ByFee \<Rightarrow> it_fee x | _ \<Rightarrow> it_timestamp x)"

lemma filtered_sorted:
  assumes "hp_sortBy s \<in> {ByAmount, ByFee, ByTime}"
  shows "sorted_wrt (\<lambda>a b. if hp_sortDir s = Asc then item_number (hp_sortBy s) a \<le> item_number (hp_sortBy s) b
     else item_number (hp_sortBy s) b \<le> item_number (hp_sortBy s) a) (filtered_items lc s)"
proof -
  let ?n = "item_number (hp_sortBy s)"
  have c: "item_compare lc (hp_sortBy s) a b = ?n a - ?n b" for a b
    using assms by (auto simp: item_compare_def item_number_def)
  show ?thesis
  proof (cases "hp_sortDir s = Asc")
    case True
    then show ?thesis
      using sorted_js_sort [OF comparator_int(1) [of ?n], of "filter (item_shown s) (hp_items s)"]
      by (simp add: filtered_items_def c)
  next
    case False
    then show ?thesis
      using sorted_js_sort [OF comparator_int(2) [of ?n], of "filter (item_shown s) (hp_items s)"]
      by (simp add: filtered_items_def c Let_def)
  qed
qed

text \<open>Whether an entry of the node belongs to the history.\<close>

definition settled_invoice :: "lnd_invoice_entry \<Rightarrow> bool" where
  "settled_invoice i \<longleftrightarrow> ie_state i \<noteq> 0 \<and> ie_state i \<noteq> 2"

lemma fetched_items:
  "mset (hp_items (fetchActivity (Some (ps, is)) s)) = mset (map paymentToItem ps) + mset (map invoiceToItem (filter settled_invoice is))"
proof -
  have "(it_status (invoiceToItem i) \<noteq> ''open'' \<and> it_status (invoiceToItem i) \<noteq> ''canceled'') = settled_invoice i" for i
    by (simp add: invoiceToItem_def settled_invoice_def)
  then show ?thesis by (simp add: fetchActivity_def Let_def filter_map comp_def)
qed


section \<open>The largest node\<close>

text \<open>The bars of the node list are scaled by the largest capacity, so that none exceeds its column.\<close>

lemma maxCapacity_is_largest:
  assumes "x \<in> set (filteredNodes (fetchNodes (Some (c, l)) s))"
  shows "mn_capacity x \<le> maxCapacity (fetchNodes (Some (c, l)) s)"
proof -
  define t where "t = fetchNodes (Some (c, l)) s"
  have "sorted_wrt (\<lambda>a b. of_int (mn_capacity b - mn_capacity a) \<le> (0::rat)) (ex_nodes t)"
    unfolding t_def fetchNodes_def
    using sorted_js_sort [OF comparator_int(2) [of mn_capacity]] by (simp add: merge_by_capacity_def Let_def)
  moreover have "x \<in> set (ex_nodes t)" using assms by (auto simp: filteredNodes_def t_def split: if_splits)
  ultimately show ?thesis unfolding t_def [symmetric] by (cases "ex_nodes t") (auto simp: maxCapacity_def)
qed

section \<open>Witness\<close>

definition demo_payment :: lnd_payment where
  "demo_payment = \<lparr>py_paymentIndex = ''1'', py_paymentHash = ''ab'', py_valueSat = ''2100'', py_value = [], py_feeSat = ''3'', py_fee = [],
    py_status = 2, py_creationDate = ''1700000000''\<rparr>"

definition demo_activity_page :: history_page where
  "demo_activity_page = \<lparr>hp_items = [], hp_loading = True, hp_search = [], hp_tab = AllTab, hp_sortBy = ByTime, hp_sortDir = Desc\<rparr>"


end
