(* ===== verification/App_Payments.thy ===== *)
theory App_Payments
  imports App_Activity
begin

text \<open>
  Sending and receiving: the state and the handlers of
  \<open>app/src/components/common/TransactionModal.tsx\<close> and \<open>OpenChannelModal.tsx\<close>.
  A handler is split at its \<open>await\<close>: pressing a
  button sends a request with the fields of that moment, and the answer arrives at any time
  later. A button or field can be used only while it is shown and not disabled.
\<close>

section \<open>State\<close>

datatype tx_direction = ReceiveBitcoin | SendBitcoin
datatype tx_method = Lightning | OnChain
datatype tx_step = FormStep | ConfirmStep | ResultStep

record decoded_invoice =
  di_destination :: string
  di_numSatoshis :: string
  di_description :: string
  di_expiry :: string

text \<open>The success with its preimage, or the error of the payment.\<close>

type_synonym payment_result = "string + string"

text \<open>A payment keeps the invoice that was shown when it was confirmed.\<close>

datatype tx_request =
    AddInvoice string string
  | NewAddress
  | DecodePayReq string
  | SendPayment string "decoded_invoice option"
  | SendCoins string string

datatype tx_answer =
    PaymentRequest string
  | Address string
  | Decoded decoded_invoice
  | Paid payment_result
  | Txid string

record app_tx = app_activity +
  tx_way :: tx_direction
  tx_via :: tx_method
  tx_at :: tx_step
  tx_loading :: bool
  tx_error :: string
  tx_copied :: bool
  invoiceAmount :: string
  invoiceMemo :: string
  generatedInvoice :: string
  generatedAddress :: string
  payReq :: string
  decodedInvoice :: "decoded_invoice option"
  paymentResult :: "payment_result option"
  sendAddress :: string
  sendAmount :: string
  tx_txid :: string
  tx_inFlight :: "tx_request list"
  tx_requests :: "tx_request list"

section \<open>Handlers\<close>

definition send_request :: "tx_request \<Rightarrow> 'a app_tx_scheme \<Rightarrow> 'a app_tx_scheme" where
  "send_request r s =
     s\<lparr>tx_loading := True, tx_error := [], tx_inFlight := tx_inFlight s @ [r], tx_requests := tx_requests s @ [r]\<rparr>"

definition handleCreateInvoice :: "'a app_tx_scheme \<Rightarrow> 'a app_tx_scheme" where
  "handleCreateInvoice s = send_request (AddInvoice (if invoiceAmount s \<noteq> [] then invoiceAmount s else ''0'') (invoiceMemo s)) s"

definition handleGenerateAddress :: "'a app_tx_scheme \<Rightarrow> 'a app_tx_scheme" where
  "handleGenerateAddress s = send_request NewAddress s"

definition handleDecodeInvoice :: "'a app_tx_scheme \<Rightarrow> 'a app_tx_scheme" where
  "handleDecodeInvoice s = send_request (DecodePayReq (js_trim (payReq s))) s"

definition handlePayInvoice :: "'a app_tx_scheme \<Rightarrow> 'a app_tx_scheme" where
  "handlePayInvoice s = send_request (SendPayment (js_trim (payReq s)) (decodedInvoice s)) s"

definition handleSendOnChain :: "'a app_tx_scheme \<Rightarrow> 'a app_tx_scheme" where
  "handleSendOnChain s = send_request (SendCoins (js_trim (sendAddress s)) (sendAmount s)) s"

text \<open>The text shown when the error has none.\<close>

definition failure_text :: "tx_request \<Rightarrow> string" where
  "failure_text r =
     (case r of AddInvoice _ _ \<Rightarrow> ''Failed to create invoice'' | NewAddress \<Rightarrow> ''Failed to generate address''
      | DecodePayReq _ \<Rightarrow> ''Failed to decode invoice'' | SendPayment _ _ \<Rightarrow> ''Payment failed'' | SendCoins _ _ \<Rightarrow> ''Transaction failed'')"

definition shown_amount :: "decoded_invoice option \<Rightarrow> int" where
  "shown_amount d = (case d of Some d \<Rightarrow> or_default (parseInt10 (di_numSatoshis d)) 0 | None \<Rightarrow> 0)"

text \<open>The rest of a handler, once its request is answered.\<close>

definition tx_reply :: "tx_request \<Rightarrow> tx_answer api_result \<Rightarrow> 'a app_tx_scheme \<Rightarrow> 'a app_tx_scheme" where
  "tx_reply r res s =
     (let s = s\<lparr>tx_inFlight := remove1 r (tx_inFlight s)\<rparr>;
          s = (case res of
                 Inl e \<Rightarrow> s\<lparr>tx_error := (if error_message e \<noteq> [] then error_message e else failure_text r)\<rparr>
               | Inr (PaymentRequest p) \<Rightarrow> s\<lparr>generatedInvoice := p, tx_at := ResultStep\<rparr>
               | Inr (Address a) \<Rightarrow> s\<lparr>generatedAddress := a, tx_at := ResultStep\<rparr>
               | Inr (Decoded d) \<Rightarrow> s\<lparr>decodedInvoice := Some d, tx_at := ConfirmStep\<rparr>
               | Inr (Paid p) \<Rightarrow>
                   (let s = s\<lparr>paymentResult := Some p\<rparr>;
                        s = (case (p, r) of (Inr _, SendPayment _ d) \<Rightarrow> onPaymentSent (shown_amount d) s | _ \<Rightarrow> s)
                    in s\<lparr>tx_at := ResultStep\<rparr>)
               | Inr (Txid t) \<Rightarrow> s\<lparr>tx_txid := t, tx_at := ResultStep\<rparr>)
      in s\<lparr>tx_loading := False\<rparr>)"

definition resetState :: "'a app_tx_scheme \<Rightarrow> 'a app_tx_scheme" where
  "resetState s =
     s\<lparr>tx_at := FormStep, tx_error := [], generatedInvoice := [], generatedAddress := [], payReq := [], decodedInvoice := None,
       paymentResult := None, sendAddress := [], sendAmount := [], tx_txid := []\<rparr>"

definition handleMethodSwitch :: "tx_method \<Rightarrow> 'a app_tx_scheme \<Rightarrow> 'a app_tx_scheme" where
  "handleMethodSwitch m s = resetState (s\<lparr>tx_via := m\<rparr>)"

definition copyToClipboard :: "'a app_tx_scheme \<Rightarrow> 'a app_tx_scheme" where
  "copyToClipboard s = s\<lparr>tx_copied := True\<rparr>"

section \<open>What is shown\<close>

datatype tx_screen = InvoiceForm | InvoiceShown | AddressForm | AddressShown | PayForm | PayConfirm | PayResult | CoinsForm | CoinsSent

definition renderContent :: "'a app_tx_scheme \<Rightarrow> tx_screen" where
  "renderContent s =
     (case (tx_way s, tx_via s) of
        (ReceiveBitcoin, Lightning) \<Rightarrow> if tx_at s = ResultStep \<and> generatedInvoice s \<noteq> [] then InvoiceShown else InvoiceForm
      | (ReceiveBitcoin, OnChain) \<Rightarrow> if tx_at s = ResultStep \<and> generatedAddress s \<noteq> [] then AddressShown else AddressForm
      | (SendBitcoin, Lightning) \<Rightarrow>
          if tx_at s = ResultStep \<and> paymentResult s \<noteq> None then PayResult
          else if tx_at s = ConfirmStep \<and> decodedInvoice s \<noteq> None then PayConfirm
          else PayForm
      | (SendBitcoin, OnChain) \<Rightarrow> if tx_at s = ResultStep \<and> tx_txid s \<noteq> [] then CoinsSent else CoinsForm)"

datatype tx_event =
    TypeInvoiceAmount string | TypeMemo string | TypePayReq string | TypeAddress string | TypeAmount string
  | PressCreate | PressAddress | PressReview | PressPay | PressSend | PressReset | SwitchMethod tx_method | PressCopy
  | Answer tx_request "tx_answer api_result"

fun answers :: "tx_request \<Rightarrow> tx_answer \<Rightarrow> bool" where
  "answers (AddInvoice _ _) (PaymentRequest _) = True"
| "answers NewAddress (Address _) = True"
| "answers (DecodePayReq _) (Decoded _) = True"
| "answers (SendPayment _ _) (Paid _) = True"
| "answers (SendCoins _ _) (Txid _) = True"
| "answers _ _ = False"

fun tx_enabled :: "tx_event \<Rightarrow> 'a app_tx_scheme \<Rightarrow> bool" where
  "tx_enabled (TypeInvoiceAmount _) s \<longleftrightarrow> renderContent s = InvoiceForm"
| "tx_enabled (TypeMemo _) s \<longleftrightarrow> renderContent s = InvoiceForm"
| "tx_enabled (TypePayReq _) s \<longleftrightarrow> renderContent s = PayForm"
| "tx_enabled (TypeAddress _) s \<longleftrightarrow> renderContent s = CoinsForm"
| "tx_enabled (TypeAmount _) s \<longleftrightarrow> renderContent s = CoinsForm"
| "tx_enabled PressCreate s \<longleftrightarrow> renderContent s = InvoiceForm \<and> \<not> tx_loading s"
| "tx_enabled PressAddress s \<longleftrightarrow> renderContent s = AddressForm \<and> \<not> tx_loading s"
| "tx_enabled PressReview s \<longleftrightarrow> renderContent s = PayForm \<and> \<not> tx_loading s \<and> js_trim (payReq s) \<noteq> []"
| "tx_enabled PressPay s \<longleftrightarrow> renderContent s = PayConfirm \<and> \<not> tx_loading s"
| "tx_enabled PressSend s \<longleftrightarrow> renderContent s = CoinsForm \<and> \<not> tx_loading s \<and> js_trim (sendAddress s) \<noteq> [] \<and> sendAmount s \<noteq> []"
| "tx_enabled PressReset s \<longleftrightarrow> renderContent s \<in> {InvoiceShown, AddressShown, PayConfirm, PayResult, CoinsSent}"
| "tx_enabled (SwitchMethod _) s \<longleftrightarrow> True"
| "tx_enabled PressCopy s \<longleftrightarrow> renderContent s \<in> {InvoiceShown, AddressShown, CoinsSent}"
| "tx_enabled (Answer r res) s \<longleftrightarrow> r \<in> set (tx_inFlight s) \<and> (case res of Inr a \<Rightarrow> answers r a | Inl _ \<Rightarrow> True)"

fun tx_apply :: "tx_event \<Rightarrow> 'a app_tx_scheme \<Rightarrow> 'a app_tx_scheme" where
  "tx_apply (TypeInvoiceAmount v) s = s\<lparr>invoiceAmount := v\<rparr>"
| "tx_apply (TypeMemo v) s = s\<lparr>invoiceMemo := v\<rparr>"
| "tx_apply (TypePayReq v) s = s\<lparr>payReq := v\<rparr>"
| "tx_apply (TypeAddress v) s = s\<lparr>sendAddress := v\<rparr>"
| "tx_apply (TypeAmount v) s = s\<lparr>sendAmount := v\<rparr>"
| "tx_apply PressCreate s = handleCreateInvoice s"
| "tx_apply PressAddress s = handleGenerateAddress s"
| "tx_apply PressReview s = handleDecodeInvoice s"
| "tx_apply PressPay s = handlePayInvoice s"
| "tx_apply PressSend s = handleSendOnChain s"
| "tx_apply PressReset s = resetState s"
| "tx_apply (SwitchMethod m) s = handleMethodSwitch m s"
| "tx_apply PressCopy s = copyToClipboard s"
| "tx_apply (Answer r res) s = tx_reply r res s"

inductive tx_run :: "'a app_tx_scheme \<Rightarrow> tx_event list \<Rightarrow> 'a app_tx_scheme \<Rightarrow> bool" for s\<^sub>0 where
  tx_start: "tx_run s\<^sub>0 [] s\<^sub>0"
| tx_step: "tx_run s\<^sub>0 es s \<Longrightarrow> tx_enabled e s \<Longrightarrow> tx_run s\<^sub>0 (es @ [e]) (tx_apply e s)"

section \<open>Opening a channel\<close>

record open_channel =
  oc_nodePubkey :: string
  oc_amount :: string
  oc_loading :: bool
  oc_error :: string
  oc_success :: bool
  oc_fundingTxid :: string

text \<open>The request with the key and the amount, if one is sent.\<close>

definition handleOpen :: "open_channel \<Rightarrow> (string \<times> string) option \<times> open_channel" where
  "handleOpen s =
     (if js_trim (oc_nodePubkey s) = [] \<or> oc_amount s = [] then (None, s)
      else (Some (js_trim (oc_nodePubkey s), oc_amount s), s\<lparr>oc_loading := True, oc_error := []\<rparr>))"

text \<open>The answer has the id of the funding transaction as text, as another text, or none.\<close>

definition open_reply :: "(string \<times> string) api_result \<Rightarrow> open_channel \<Rightarrow> open_channel" where
  "open_reply res s =
     (let s = (case res of
                 Inr (str, raw) \<Rightarrow> s\<lparr>oc_fundingTxid := (if str \<noteq> [] then str else raw), oc_success := True\<rparr>
               | Inl e \<Rightarrow> s\<lparr>oc_error := (if error_message e \<noteq> [] then error_message e else ''Failed to open channel'')\<rparr>)
      in s\<lparr>oc_loading := False\<rparr>)"

section \<open>The invoice that is paid\<close>

definition fresh_tx :: "tx_direction \<Rightarrow> 'a app_tx_scheme \<Rightarrow> bool" where
  "fresh_tx way s \<longleftrightarrow> tx_way s = way \<and> tx_via s = Lightning \<and> tx_at s = FormStep \<and> \<not> tx_loading s \<and> decodedInvoice s = None \<and>
     paymentResult s = None \<and> tx_inFlight s = [] \<and> tx_requests s = []"

definition is_decode :: "tx_request \<Rightarrow> bool" where
  "is_decode r = (case r of DecodePayReq _ \<Rightarrow> True | _ \<Rightarrow> False)"

text \<open>
  Runs in which the user waits while an invoice is decoded, and the node decodes every text to
  the invoice \<open>decode\<close> says.
\<close>

fun patient :: "(string \<Rightarrow> decoded_invoice option) \<Rightarrow> tx_event \<Rightarrow> 'a app_tx_scheme \<Rightarrow> bool" where
  "patient decode (Answer (DecodePayReq p) (Inr (Decoded d))) s \<longleftrightarrow> decode p = Some d"
| "patient decode (Answer r res) s \<longleftrightarrow> True"
| "patient decode e s \<longleftrightarrow> list_all (\<lambda>r. \<not> is_decode r) (tx_inFlight s)"

inductive patient_run :: "(string \<Rightarrow> decoded_invoice option) \<Rightarrow> 'a app_tx_scheme \<Rightarrow> 'a app_tx_scheme \<Rightarrow> bool" for decode s\<^sub>0 where
  patient_start: "patient_run decode s\<^sub>0 s\<^sub>0"
| patient_step: "patient_run decode s\<^sub>0 s \<Longrightarrow> tx_enabled e s \<Longrightarrow> patient decode e s \<Longrightarrow> patient_run decode s\<^sub>0 (tx_apply e s)"

definition one_request :: "'a app_tx_scheme \<Rightarrow> bool" where
  "one_request s \<longleftrightarrow> (tx_loading s \<longleftrightarrow> tx_inFlight s \<noteq> []) \<and> length (tx_inFlight s) \<le> 1"

lemma send_request_keeps [simp]:
  "tx_loading (send_request r s)" "tx_inFlight (send_request r s) = tx_inFlight s @ [r]"
  "tx_requests (send_request r s) = tx_requests s @ [r]" "decodedInvoice (send_request r s) = decodedInvoice s"
  "payReq (send_request r s) = payReq s" "tx_at (send_request r s) = tx_at s" "tx_via (send_request r s) = tx_via s"
  "tx_way (send_request r s) = tx_way s" "paymentResult (send_request r s) = paymentResult s"
  by (simp_all add: send_request_def)

lemma reply_keeps [simp]:
  "\<not> tx_loading (tx_reply r res s)" "tx_inFlight (tx_reply r res s) = remove1 r (tx_inFlight s)"
  "tx_requests (tx_reply r res s) = tx_requests s" "payReq (tx_reply r res s) = payReq s" "tx_via (tx_reply r res s) = tx_via s"
  "tx_way (tx_reply r res s) = tx_way s"
  by (simp_all add: tx_reply_def Let_def onPaymentSent_def push_event_def split: sum.split tx_answer.split tx_request.split)

lemma reset_keeps [simp]:
  "tx_loading (resetState s) = tx_loading s" "tx_inFlight (resetState s) = tx_inFlight s" "tx_requests (resetState s) = tx_requests s"
  "tx_via (resetState s) = tx_via s" "tx_way (resetState s) = tx_way s" "decodedInvoice (resetState s) = None"
  by (simp_all add: resetState_def)

lemmas tx_handlers = handleCreateInvoice_def handleGenerateAddress_def handleDecodeInvoice_def handlePayInvoice_def handleSendOnChain_def
  handleMethodSwitch_def copyToClipboard_def

lemma single_removed: "length xs \<le> 1 \<Longrightarrow> r \<in> set xs \<Longrightarrow> xs = [r] \<and> remove1 r xs = []"
  by (cases xs) auto

lemma one_request_step: "one_request s \<Longrightarrow> tx_enabled e s \<Longrightarrow> one_request (tx_apply e s)"
proof (cases e)
  case (Answer r res)
  assume "one_request s" "tx_enabled e s"
  then show ?thesis using Answer single_removed [of "tx_inFlight s" r] by (simp add: one_request_def)
qed (auto simp: one_request_def tx_handlers)

lemma screens:
  "renderContent s = InvoiceForm \<Longrightarrow> tx_way s = ReceiveBitcoin" "renderContent s = AddressForm \<Longrightarrow> tx_way s = ReceiveBitcoin"
  "renderContent s = CoinsForm \<Longrightarrow> tx_via s = OnChain"
  "renderContent s = PayConfirm \<Longrightarrow> decodedInvoice s \<noteq> None"
  "renderContent s = PayForm \<Longrightarrow> tx_way s = SendBitcoin \<and> tx_via s = Lightning \<and> \<not> (tx_at s = ResultStep \<and> paymentResult s \<noteq> None) \<and>
     \<not> (tx_at s = ConfirmStep \<and> decodedInvoice s \<noteq> None)"
  by (auto simp: renderContent_def split: tx_direction.splits tx_method.splits if_splits)

definition shown_ok :: "(string \<Rightarrow> decoded_invoice option) \<Rightarrow> 'a app_tx_scheme \<Rightarrow> bool" where
  "shown_ok decode s \<longleftrightarrow> (\<forall>d. decodedInvoice s = Some d \<longrightarrow> decode (js_trim (payReq s)) = Some d \<and> tx_way s = SendBitcoin \<and>
     tx_via s = Lightning \<and> (tx_at s = ConfirmStep \<or> tx_at s = ResultStep \<and> paymentResult s \<noteq> None))"

definition flight_ok :: "'a app_tx_scheme \<Rightarrow> bool" where
  "flight_ok s \<longleftrightarrow> list_all (\<lambda>r. case r of
       DecodePayReq p \<Rightarrow> p = js_trim (payReq s) \<and> decodedInvoice s = None \<and> tx_way s = SendBitcoin \<and> tx_via s = Lightning
     | SendPayment _ _ \<Rightarrow> True
     | _ \<Rightarrow> decodedInvoice s = None) (tx_inFlight s)"

definition paid_shown :: "(string \<Rightarrow> decoded_invoice option) \<Rightarrow> tx_request list \<Rightarrow> bool" where
  "paid_shown decode rs \<longleftrightarrow> list_all (\<lambda>r. case r of SendPayment p d \<Rightarrow> d \<noteq> None \<and> d = decode p | _ \<Rightarrow> True) rs"

definition tx_inv :: "(string \<Rightarrow> decoded_invoice option) \<Rightarrow> 'a app_tx_scheme \<Rightarrow> bool" where
  "tx_inv decode s \<longleftrightarrow> one_request s \<and> shown_ok decode s \<and> flight_ok s \<and> paid_shown decode (tx_requests s)"

lemma form_shows_nothing:
  assumes "shown_ok decode s" "renderContent s \<in> {InvoiceForm, AddressForm, CoinsForm, PayForm}"
  shows "decodedInvoice s = None"
  using assms screens(1,2,3,5) [of s] by (cases "decodedInvoice s") (auto simp: shown_ok_def)

lemma no_decode_flight:
  assumes "flight_ok s" "list_all (\<lambda>r. \<not> is_decode r) (tx_inFlight s)" "decodedInvoice t = None" "tx_inFlight t = tx_inFlight s"
  shows "flight_ok t"
  using assms by (auto simp: flight_ok_def list_all_iff is_decode_def split: tx_request.splits)

lemma no_decode_flight_typed:
  assumes "flight_ok s" "list_all (\<lambda>r. \<not> is_decode r) (tx_inFlight s)" "decodedInvoice t = decodedInvoice s" "tx_inFlight t = tx_inFlight s"
  shows "flight_ok t"
  using assms by (auto simp: flight_ok_def list_all_iff is_decode_def split: tx_request.splits)

lemma flight_cong:
  assumes "payReq t = payReq s" "decodedInvoice t = decodedInvoice s" "tx_way t = tx_way s" "tx_via t = tx_via s" "tx_inFlight t = tx_inFlight s"
  shows "flight_ok t = flight_ok s"
  unfolding flight_ok_def assms ..

lemma flight_frames [simp]:
  "flight_ok (s\<lparr>invoiceAmount := v\<rparr>) = flight_ok s" "flight_ok (s\<lparr>invoiceMemo := v\<rparr>) = flight_ok s"
  "flight_ok (s\<lparr>sendAddress := v\<rparr>) = flight_ok s" "flight_ok (s\<lparr>sendAmount := v\<rparr>) = flight_ok s"
  "flight_ok (s\<lparr>tx_copied := c\<rparr>) = flight_ok s"
  by (rule flight_cong, simp, simp, simp, simp, simp)+

lemma idle: "one_request s \<Longrightarrow> \<not> tx_loading s \<Longrightarrow> tx_inFlight s = []"
  by (simp add: one_request_def)

lemma answer_inv:
  assumes inv: "tx_inv decode s" and en: "tx_enabled (Answer r res) s" and p: "patient decode (Answer r res) s"
  shows "shown_ok decode (tx_reply r res s)" "flight_ok (tx_reply r res s)"
proof -
  have f: "tx_inFlight s = [r]" "remove1 r (tx_inFlight s) = []"
    using inv en single_removed [of "tx_inFlight s" r] by (auto simp: tx_inv_def one_request_def)
  then show "flight_ok (tx_reply r res s)" by (simp add: flight_ok_def)
  have fr: "flight_ok s" "shown_ok decode s" using inv by (simp_all add: tx_inv_def)
  show "shown_ok decode (tx_reply r res s)"
  proof (cases res)
    case (Inr a)
    then have "answers r a" using en by simp
    then show ?thesis
      using fr f p Inr
      by (cases "(r, a)" rule: answers.cases)
        (auto simp: tx_reply_def shown_ok_def flight_ok_def Let_def onPaymentSent_def push_event_def split: sum.split)
  qed (use fr in \<open>simp add: tx_reply_def shown_ok_def\<close>)
qed

lemma tx_inv_step:
  assumes inv: "tx_inv decode s" and en: "tx_enabled e s" and p: "patient decode e s"
  shows "tx_inv decode (tx_apply e s)"
proof -
  have one: "one_request (tx_apply e s)" using inv en by (simp add: tx_inv_def one_request_step)
  have i: "one_request s" "shown_ok decode s" "flight_ok s" "paid_shown decode (tx_requests s)" using inv by (simp_all add: tx_inv_def)
  note none = form_shows_nothing [OF i(2)] and idle = idle [OF i(1)]
  have "shown_ok decode (tx_apply e s) \<and> flight_ok (tx_apply e s) \<and> paid_shown decode (tx_requests (tx_apply e s))"
  proof (cases e)
    case (Answer r res)
    then show ?thesis using answer_inv [OF inv] en p i(4) by auto
  next
    case (TypePayReq v)
    then have "decodedInvoice s = None" using en none by simp
    moreover have "flight_ok (s\<lparr>payReq := v\<rparr>)" using no_decode_flight_typed [OF i(3), of "s\<lparr>payReq := v\<rparr>"] p TypePayReq by simp
    ultimately show ?thesis using TypePayReq i(4) by (simp add: shown_ok_def)
  next
    case PressReview
    then have "decodedInvoice s = None" "tx_inFlight s = []" using en none idle by simp_all
    then show ?thesis using PressReview en i(4) screens(5) [of s] by (simp add: tx_handlers shown_ok_def flight_ok_def paid_shown_def)
  next
    case PressPay
    then have "tx_inFlight s = []" "decodedInvoice s \<noteq> None" using en idle screens(4) [of s] by simp_all
    then show ?thesis using PressPay i by (auto simp: tx_handlers shown_ok_def flight_ok_def paid_shown_def)
  next
    case PressSend
    then have "decodedInvoice s = None" "tx_inFlight s = []" using en none idle by simp_all
    then show ?thesis using PressSend i(4) by (simp add: tx_handlers shown_ok_def flight_ok_def paid_shown_def)
  next
    case PressCreate
    then have "decodedInvoice s = None" "tx_inFlight s = []" using en none idle by simp_all
    then show ?thesis using PressCreate i(4) by (simp add: tx_handlers shown_ok_def flight_ok_def paid_shown_def)
  next
    case PressAddress
    then have "decodedInvoice s = None" "tx_inFlight s = []" using en none idle by simp_all
    then show ?thesis using PressAddress i(4) by (simp add: tx_handlers shown_ok_def flight_ok_def paid_shown_def)
  next
    case PressReset
    then show ?thesis using no_decode_flight [OF i(3), of "resetState s"] p i(4) by (simp add: shown_ok_def)
  next
    case (SwitchMethod m)
    then show ?thesis
      using no_decode_flight [OF i(3), of "handleMethodSwitch m s"] p i(4) by (simp add: shown_ok_def handleMethodSwitch_def)
  qed (use i in \<open>simp_all add: shown_ok_def copyToClipboard_def\<close>)
  then show ?thesis using one by (simp add: tx_inv_def)
qed

text \<open>
  C9. Whatever is typed and pressed in whatever order, at most one request is on its way, and if
  the user waits while an invoice is being decoded, every payment that is sent is for the very
  invoice whose destination and amount were shown for confirmation.
\<close>

theorem paid_invoice_was_shown:
  assumes "patient_run decode s\<^sub>0 s" "fresh_tx way s\<^sub>0"
  shows "length (tx_inFlight s) \<le> 1 \<and>
    list_all (\<lambda>r. case r of SendPayment p d \<Rightarrow> d \<noteq> None \<and> d = decode p | _ \<Rightarrow> True) (tx_requests s)"
proof -
  have "tx_inv decode s"
    using assms(1)
  proof induction
    case patient_start
    then show ?case using assms(2) by (simp add: tx_inv_def fresh_tx_def one_request_def shown_ok_def flight_ok_def paid_shown_def)
  qed (rule tx_inv_step)
  then show ?thesis by (simp add: tx_inv_def one_request_def paid_shown_def)
qed

text \<open>
  C19. The field with the invoice stays editable while the invoice is being decoded: who changes
  it then confirms the destination and amount of the first invoice and pays the second one,
  which was never decoded.
\<close>

theorem edited_invoice_is_paid:
  assumes "fresh_tx SendBitcoin s\<^sub>0" "js_trim p \<noteq> []"
  shows "\<exists>s. tx_run s\<^sub>0 [TypePayReq p, PressReview, TypePayReq q, Answer (DecodePayReq (js_trim p)) (Inr (Decoded d)), PressPay] s \<and>
    tx_requests s = [DecodePayReq (js_trim p), SendPayment (js_trim q) (Some d)]"
proof -
  let ?a = "tx_apply (TypePayReq p) s\<^sub>0"
  let ?b = "tx_apply PressReview ?a"
  let ?c = "tx_apply (TypePayReq q) ?b"
  let ?e = "Answer (DecodePayReq (js_trim p)) (Inr (Decoded d))"
  let ?d = "tx_apply ?e ?c"
  note f = assms(1) [unfolded fresh_tx_def]
  have 1: "tx_run s\<^sub>0 [TypePayReq p] ?a"
    using tx_step [OF tx_start, of "TypePayReq p" s\<^sub>0] f by (simp add: renderContent_def)
  have 2: "tx_run s\<^sub>0 [TypePayReq p, PressReview] ?b"
    using tx_step [OF 1, of PressReview] f assms(2) by (simp add: renderContent_def)
  have 3: "tx_run s\<^sub>0 [TypePayReq p, PressReview, TypePayReq q] ?c"
    using tx_step [OF 2, of "TypePayReq q"] f by (simp add: renderContent_def handleDecodeInvoice_def)
  have 4: "tx_run s\<^sub>0 [TypePayReq p, PressReview, TypePayReq q, ?e] ?d"
    using tx_step [OF 3, of ?e] f by (simp add: handleDecodeInvoice_def)
  have s: "decodedInvoice ?d = Some d" "tx_at ?d = ConfirmStep" by (simp_all add: tx_reply_def)
  then have 5: "tx_run s\<^sub>0 [TypePayReq p, PressReview, TypePayReq q, ?e, PressPay] (tx_apply PressPay ?d)"
    using tx_step [OF 4, of PressPay] f by (simp add: renderContent_def handleDecodeInvoice_def)
  have "tx_requests (tx_apply PressPay ?d) = [DecodePayReq (js_trim p), SendPayment (js_trim q) (Some d)]"
    using f s by (simp add: handlePayInvoice_def handleDecodeInvoice_def)
  with 5 show ?thesis by blast
qed

section \<open>Witnesses\<close>

definition initial_tx :: app_tx where
  "initial_tx =
     (let ready = \<lparr>ss_disabled = False, ss_running = True, ss_error = []\<rparr> in
      app_activity.extend
        (app_node.extend
          (app_settings.extend initial_shell
            (app_node.fields [] [] [] [] ''bitcoin'' ''mainnet'' 0 0 0 0 False ready ready ready))
          (app_activity.fields [] None [] 0))
        (app_tx.fields SendBitcoin Lightning FormStep False [] False [] [] [] [] [] None None [] [] [] [] []))"

lemma initial_tx_fresh: "fresh_tx SendBitcoin initial_tx"
  by (simp add: fresh_tx_def initial_tx_def Let_def app_activity.extend_def app_node.extend_def app_settings.extend_def app_tx.fields_def
      app_activity.fields_def app_node.fields_def initial_shell_def)

definition demo_invoice :: decoded_invoice where
  "demo_invoice = \<lparr>di_destination = ''02ab'', di_numSatoshis = ''2100'', di_description = ''coffee'', di_expiry = ''3600''\<rparr>"

definition paid_tx :: app_tx where
  "paid_tx = tx_apply PressPay (tx_apply (Answer (DecodePayReq ''lnbc1'') (Inr (Decoded demo_invoice)))
     (tx_apply PressReview (tx_apply (TypePayReq ''lnbc1'') initial_tx)))"

theorem paid_invoice_was_shown_witness:
  "list_all (\<lambda>r. case r of SendPayment p d \<Rightarrow> d \<noteq> None \<and> d = (if p = ''lnbc1'' then Some demo_invoice else None) | _ \<Rightarrow> True) (tx_requests paid_tx)
   \<and> tx_requests paid_tx = [DecodePayReq ''lnbc1'', SendPayment ''lnbc1'' (Some demo_invoice)]"
proof -
  let ?dec = "\<lambda>p. if p = ''lnbc1'' then Some demo_invoice else None"
  let ?a = "tx_apply (TypePayReq ''lnbc1'') initial_tx"
  let ?b = "tx_apply PressReview ?a"
  let ?e = "Answer (DecodePayReq ''lnbc1'') (Inr (Decoded demo_invoice))"
  note f = initial_tx_fresh [unfolded fresh_tx_def]
  have t: "js_trim ''lnbc1'' = ''lnbc1''" by (simp add: js_trim_def js_whitespace_def)
  have 1: "patient_run ?dec initial_tx ?a"
    using patient_step [OF patient_start, of "TypePayReq ''lnbc1''" initial_tx ?dec] f by (simp add: renderContent_def)
  have 2: "patient_run ?dec initial_tx ?b"
    using patient_step [OF 1, of PressReview] f by (simp add: renderContent_def t)
  have 3: "patient_run ?dec initial_tx (tx_apply ?e ?b)"
    using patient_step [OF 2, of ?e] f by (simp add: handleDecodeInvoice_def t)
  have s: "decodedInvoice (tx_apply ?e ?b) = Some demo_invoice" "tx_at (tx_apply ?e ?b) = ConfirmStep" by (simp_all add: tx_reply_def)
  have 4: "patient_run ?dec initial_tx paid_tx"
    unfolding paid_tx_def using patient_step [OF 3, of PressPay] f s by (simp add: renderContent_def handleDecodeInvoice_def t)
  have "tx_requests paid_tx = [DecodePayReq ''lnbc1'', SendPayment ''lnbc1'' (Some demo_invoice)]"
    unfolding paid_tx_def using f s by (simp add: handlePayInvoice_def handleDecodeInvoice_def t)
  with paid_invoice_was_shown [OF 4 initial_tx_fresh] show ?thesis by blast
qed

theorem edited_invoice_is_paid_witness:
  "\<exists>es s. tx_run initial_tx es s \<and> tx_requests s = [DecodePayReq ''lnbc1'', SendPayment ''lnbc2'' (Some demo_invoice)]"
proof -
  have t: "js_trim ''lnbc1'' = ''lnbc1''" "js_trim ''lnbc2'' = ''lnbc2''" by (simp_all add: js_trim_def js_whitespace_def)
  show ?thesis
    using edited_invoice_is_paid [OF initial_tx_fresh, of "''lnbc1''" "''lnbc2''" demo_invoice] unfolding t by fastforce
qed

end
