(* ===== verification/App_Pages.thy ===== *)
theory App_Pages
  imports Lit_Nodes App_Payments Loop_Stores
begin

text \<open>
  The state and the handlers of pages and dialogues that work on the stores:
  \<open>app/src/components/auth/AuthPage.tsx\<close>, \<open>auth/ConnectNodePage.tsx\<close>, \<open>common/AddNodeModal.tsx\<close>,
  \<open>layout/NodePicker.tsx\<close>, \<open>home/SplitNodeView.tsx\<close>, \<open>home/GraphVisualization.tsx\<close> (the graph and
  its totals without the positions and the drawing), \<open>tour/OnboardingModal.tsx\<close>,
  \<open>loop/LoopPage.tsx\<close>, \<open>settings/ExplorerSettings.tsx\<close> and \<open>home/NodePanel.tsx\<close>.
\<close>

section \<open>Logging in\<close>

record auth_page =
  ap_pass :: string
  ap_error :: string
  ap_detailLit :: string
  ap_detailLnd :: string
  ap_showDetailButton :: bool

definition auth_handleChange :: "string \<Rightarrow> auth_page \<Rightarrow> auth_page" where
  "auth_handleChange v p = p\<lparr>ap_pass := v, ap_error := [], ap_detailLit := [], ap_detailLnd := [], ap_showDetailButton := False\<rparr>"

definition auth_handleSubmit ::
    "(string \<Rightarrow> string) \<Rightarrow> node_access \<Rightarrow> (string \<times> SubServerStatus) list api_result \<Rightarrow>
     auth_page \<times> 'a app_auth_scheme \<Rightarrow> auth_page \<times> 'a app_auth_scheme" where
  "auth_handleSubmit tr getInfo status ps =
     (let (p, s) = ps in
      case login tr getInfo status (ap_pass p) s of
        (Some (Message m), s) \<Rightarrow>
          (p\<lparr>ap_error := m, ap_detailLit := litDetail s, ap_detailLnd := lndDetail s,
             ap_showDetailButton := litDetail s \<noteq> [] \<or> litDetail s \<noteq> []\<rparr>, s)
      | (_, s) \<Rightarrow> (p, s))"

datatype connect_method = LncMethod | PasswordMethod

record connect_page =
  cp_method :: connect_method
  cp_pairingPhrase :: string
  cp_lncPassword :: string
  cp_password :: string
  cp_loading :: bool
  cp_error :: "auth_error option"
  cp_showNewSession :: bool

definition shown_error :: "auth_error \<Rightarrow> auth_error" where
  "shown_error e = (case e of Message m \<Rightarrow> Message (or_text m ''Connection failed'') | _ \<Rightarrow> e)"

definition mentions_session :: "auth_error \<Rightarrow> bool" where
  "mentions_session e = (case e of Message m \<Rightarrow> str_includes ''expired'' m \<or> str_includes ''Session'' m | _ \<Rightarrow> False)"

definition page_handleLncConnect ::
    "bool call_outcome \<Rightarrow> unit call_outcome \<Rightarrow> connect_page \<times> 'a app_auth_scheme \<Rightarrow> connect_page \<times> 'a app_auth_scheme" where
  "page_handleLncConnect conn val ps =
     (let (p, s) = ps;
          (e, s) = (if lnc_isPaired s \<and> \<not> cp_showNewSession p \<and> js_trim (cp_pairingPhrase p) = []
                    then reconnectLnc (cp_lncPassword p) conn val s
                    else loginWithLnc (cp_pairingPhrase p) (cp_lncPassword p) conn val (if cp_showNewSession p then clearPaired s else s));
          p = p\<lparr>cp_error := map_option shown_error e\<rparr>;
          p = (case e of
                 Some e \<Rightarrow> if mentions_session (shown_error e) then p\<lparr>cp_showNewSession := True, cp_lncPassword := []\<rparr> else p
               | None \<Rightarrow> p)
      in (p\<lparr>cp_loading := False\<rparr>, s))"

definition page_handlePasswordSubmit ::
    "(string \<Rightarrow> string) \<Rightarrow> node_access \<Rightarrow> (string \<times> SubServerStatus) list api_result \<Rightarrow>
     connect_page \<times> 'a app_auth_scheme \<Rightarrow> connect_page \<times> 'a app_auth_scheme" where
  "page_handlePasswordSubmit tr getInfo status ps =
     (let (p, s) = ps in
      if js_trim (cp_password p) = [] then (p, s)
      else (let (e, s) = login tr getInfo status (cp_password p) s
            in (p\<lparr>cp_error := map_option shown_error e, cp_loading := False\<rparr>, s)))"

definition showLncForm :: "connect_page \<Rightarrow> 'a app_auth_scheme \<Rightarrow> bool" where
  "showLncForm p s \<longleftrightarrow> \<not> lnc_isPaired s \<or> cp_showNewSession p"

section \<open>Choosing nodes\<close>

record add_node =
  ad_label :: string
  ad_pairingPhrase :: string
  ad_lncPassword :: string
  ad_rpcServer :: string
  ad_macaroonHex :: string
  ad_tlsCertPath :: string
  ad_error :: string
  ad_closed :: bool

definition modal_handleLncConnect ::
    "string \<Rightarrow> bool api_result \<Rightarrow> node_replies \<Rightarrow> add_node \<times> 'a app_connections_scheme \<Rightarrow> add_node \<times> 'a app_connections_scheme" where
  "modal_handleLncConnect i conn r ps =
     (let (p, s) = ps in
      if js_trim (ad_pairingPhrase p) = [] \<or> js_trim (ad_lncPassword p) = [] then (p, s)
      else (case addLncNode i (or_text (js_trim (ad_label p)) ''Remote Node'') conn r s of
              (None, s) \<Rightarrow> (p\<lparr>ad_error := [], ad_closed := True\<rparr>, s)
            | (Some msg, s) \<Rightarrow> (p\<lparr>ad_error := or_text msg ''Failed to connect via LNC''\<rparr>, s)))"

record SavedNode =
  sv_id :: string
  sv_alias :: string
  sv_rpcServer :: string
  sv_macaroonHex :: string
  sv_tlsCertPath :: string

definition handleManualSave :: "string \<Rightarrow> add_node \<Rightarrow> SavedNode option \<times> add_node" where
  "handleManualSave i p =
     (if js_trim (ad_rpcServer p) = [] \<or> js_trim (ad_macaroonHex p) = [] then (None, p)
      else (Some \<lparr>sv_id = i, sv_alias = or_text (js_trim (ad_label p)) (takeWhile (\<lambda>c. c \<noteq> CHR ''.'') (ad_rpcServer p)),
                  sv_rpcServer = js_trim (ad_rpcServer p), sv_macaroonHex = js_trim (ad_macaroonHex p),
                  sv_tlsCertPath = js_trim (ad_tlsCertPath p)\<rparr>,
            p\<lparr>ad_closed := True\<rparr>))"

text \<open>The node for which the picker asks for a password, and the store.\<close>

definition handleNodeClick :: "string \<Rightarrow> string option \<times> 'a app_connections_scheme \<Rightarrow> string option \<times> 'a app_connections_scheme" where
  "handleNodeClick i ps =
     (let (asking, s) = ps in
      case map_of (connections s) i of
        None \<Rightarrow> (asking, s)
      | Some node \<Rightarrow>
          if cn_connected node
          then (if activeLeftId s = Some i \<or> activeRightId s = Some i then (asking, s)
                else if unset (activeRightId s) \<or> activeRightId s = Some ''primary'' then (asking, setActiveRight i s)
                else (asking, setActiveLeft i s))
          else if cn_type node = ''lnc'' \<and> \<not> cn_connecting node then (Some i, s)
          else (asking, s))"

definition handleDeleteNode :: "string \<Rightarrow> string option \<times> 'a app_connections_scheme \<Rightarrow> string option \<times> 'a app_connections_scheme" where
  "handleDeleteNode i ps = (let (asking, s) = ps in (asking, removeNode i s))"

definition handleReconnect ::
    "string \<Rightarrow> bool api_result \<Rightarrow> node_replies \<Rightarrow> string option \<times> 'a app_connections_scheme \<Rightarrow> string option \<times> 'a app_connections_scheme" where
  "handleReconnect i conn r ps = (let (_, s) = ps in (None, snd (reconnectNode i conn r s)))"

section \<open>Two nodes side by side\<close>

datatype channel_direction = LeftToRight | RightToLeft

definition sourceNode :: "channel_direction \<Rightarrow> 'a app_connections_scheme \<Rightarrow> NodeConnection option" where
  "sourceNode d s = (if d = LeftToRight then activeLeft s else activeRight s)"

definition targetNode :: "channel_direction \<Rightarrow> 'a app_connections_scheme \<Rightarrow> NodeConnection option" where
  "targetNode d s = (if d = LeftToRight then activeRight s else activeLeft s)"

definition handleSwapDirection :: "channel_direction \<Rightarrow> channel_direction" where
  "handleSwapDirection d = (if d = LeftToRight then RightToLeft else LeftToRight)"

definition channelFromRight :: "'a app_connections_scheme \<Rightarrow> NodeChannel option" where
  "channelFromRight s =
     (case (activeLeft s, activeRight s) of
        (Some l, Some r) \<Rightarrow> if cn_connected l \<and> cn_connected r then find (\<lambda>ch. nc_remotePubkey ch = cn_pubkey l) (cn_channels r) else None
      | _ \<Rightarrow> None)"

text \<open>Whether the view is shown, and the client and the key a channel is opened with.\<close>

definition split_view_shown :: "'a app_connections_scheme \<Rightarrow> bool" where
  "split_view_shown s \<longleftrightarrow> graphViewMode s = MyNode \<and> hasMultipleConnected s \<and> activeRight s \<noteq> None"

definition opening_client :: "channel_direction \<Rightarrow> 'a app_connections_scheme \<Rightarrow> (nat \<times> string) option" where
  "opening_client d s =
     (case (sourceNode d s, targetNode d s) of
        (Some src, Some tgt) \<Rightarrow> Some (case cn_api src of Some a \<Rightarrow> a | None \<Rightarrow> api_lnd s, cn_pubkey tgt)
      | _ \<Rightarrow> None)"

section \<open>The graph of the home page\<close>

text \<open>
  The nodes and edges without their positions. The channels of a peer after its first add
  neither a node nor an edge. The node is \<open>s\<close>; the network is \<open>g\<close>.
\<close>

record NodeData =
  nd_id :: string
  nd_alias :: string
  nd_isCenter :: bool
  nd_capacity :: Big
  nd_color :: string
  nd_channelCount :: int

record EdgeData =
  ed_from :: NodeData
  ed_to :: NodeData
  ed_capacity :: Big
  ed_active :: bool
  ed_localBalance :: Big
  ed_remoteBalance :: Big

definition center_node :: "big_lib \<Rightarrow> 'a app_channels_scheme \<Rightarrow> NodeData" where
  "center_node B s =
     \<lparr>nd_id = or_text (pubkey s) ''self'', nd_alias = or_text (node_alias s) ''My Node'', nd_isCenter = True,
      nd_capacity = 0, nd_color = ''#c4b5fd'', nd_channelCount = int (length (sortedChannels B s))\<rparr>"

definition peer_node :: "Channel \<Rightarrow> NodeData" where
  "peer_node c =
     \<lparr>nd_id = remotePubkey c, nd_alias = or_text (aliasLabel c) (take 12 (remotePubkey c) @ ''...''), nd_isCenter = False,
      nd_capacity = capacity c, nd_color = ''#8b5cf6'', nd_channelCount = 1\<rparr>"

definition channel_edge :: "NodeData \<Rightarrow> Channel \<Rightarrow> EdgeData" where
  "channel_edge center c =
     \<lparr>ed_from = center, ed_to = peer_node c, ed_capacity = capacity c, ed_active = (ch_status c = OPEN),
      ed_localBalance = localBalance c, ed_remoteBalance = remoteBalance c\<rparr>"

fun graph_channels :: "string list \<Rightarrow> Channel list \<Rightarrow> Channel list" where
  "graph_channels seen [] = []"
| "graph_channels seen (c # cs) =
     (if remotePubkey c \<in> set seen then graph_channels seen cs
      else c # graph_channels (remotePubkey c # seen) cs)"

definition myNodeGraph :: "big_lib \<Rightarrow> 'a app_channels_scheme \<Rightarrow> NodeData list \<times> EdgeData list" where
  "myNodeGraph B s =
     (let chs = graph_channels [] (sortedChannels B s); center = center_node B s
      in (center # map peer_node chs, map (channel_edge center) chs))"

definition networkGraph :: "string \<Rightarrow> 'a app_graph_scheme \<Rightarrow> NodeData list \<times> EdgeData list" where
  "networkGraph pk g =
     (map (\<lambda>n. let md = map_of (mempoolData g) (gn_pubKey n); self = gn_pubKey n = pk in
           \<lparr>nd_id = gn_pubKey n, nd_alias = or_text (gn_alias n) (take 12 (gn_pubKey n) @ ''...''), nd_isCenter = self,
            nd_capacity = (case md of Some d \<Rightarrow> of_int (mn_capacity d) | None \<Rightarrow> 0),
            nd_color = (if self then ''#c4b5fd'' else or_text (gn_color n) ''#8b5cf6''),
            nd_channelCount = (case md of Some d \<Rightarrow> mn_channels d | None \<Rightarrow> 0)\<rparr>) (graph_nodes g), [])"

definition home_graph :: "big_lib \<Rightarrow> 'a app_channels_scheme \<Rightarrow> 'b app_graph_scheme \<Rightarrow> NodeData list \<times> EdgeData list" where
  "home_graph B s g = (if graphViewMode s = MyNode then myNodeGraph B s else networkGraph (pubkey s) g)"

definition home_totalCap :: "big_lib \<Rightarrow> 'a app_channels_scheme \<Rightarrow> 'b app_graph_scheme \<Rightarrow> Big" where
  "home_totalCap B s g =
     (if graphViewMode s = MyNode then sum_list (map ed_capacity (snd (home_graph B s g)))
      else sum_list (map nd_capacity (fst (home_graph B s g))))"

definition home_totalIn :: "big_lib \<Rightarrow> 'a app_channels_scheme \<Rightarrow> 'b app_graph_scheme \<Rightarrow> Big" where
  "home_totalIn B s g = (if graphViewMode s = MyNode then sum_list (map ed_remoteBalance (snd (home_graph B s g))) else 0)"

definition home_totalOut :: "big_lib \<Rightarrow> 'a app_channels_scheme \<Rightarrow> 'b app_graph_scheme \<Rightarrow> Big" where
  "home_totalOut B s g = (if graphViewMode s = MyNode then sum_list (map ed_localBalance (snd (home_graph B s g))) else 0)"

definition home_activeCh :: "big_lib \<Rightarrow> 'a app_channels_scheme \<Rightarrow> 'b app_graph_scheme \<Rightarrow> nat" where
  "home_activeCh B s g = length (filter ed_active (snd (home_graph B s g)))"

definition rankedNodes :: "(string \<times> MempoolNode) list \<Rightarrow> MempoolNode list" where
  "rankedNodes m = js_sort (\<lambda>a b. of_int (mn_capacity b - mn_capacity a)) (map snd m)"

definition filteredRankedNodes :: "string \<Rightarrow> (string \<times> MempoolNode) list \<Rightarrow> MempoolNode list" where
  "filteredRankedNodes search m =
     (if js_trim search = [] then rankedNodes m
      else filter (\<lambda>n. str_includes (toLowerCase search) (toLowerCase (mn_alias n))) (rankedNodes m))"

section \<open>Introduction and liquidity\<close>

definition ONBOARDING_STEPS :: "string list" where
  "ONBOARDING_STEPS = [''welcome'', ''graph'', ''liquidity'', ''explore'', ''ready'']"

text \<open>The step, whether the dialogue was closed, and the settings.\<close>

definition onboarding_handleNext :: "nat \<times> bool \<times> 'a app_settings_scheme \<Rightarrow> nat \<times> bool \<times> 'a app_settings_scheme" where
  "onboarding_handleNext x =
     (let (step, closed, s) = x in
      if step = length ONBOARDING_STEPS - 1 then (step, True, s\<lparr>tourAutoShown := True\<rparr>) else (step + 1, closed, s))"

definition onboarding_handleBack :: "nat \<times> bool \<times> 'a app_settings_scheme \<Rightarrow> nat \<times> bool \<times> 'a app_settings_scheme" where
  "onboarding_handleBack x = (let (step, closed, s) = x in (if step = 0 then step else step - 1, closed, s))"

definition onboarding_handleSkip :: "nat \<times> bool \<times> 'a app_settings_scheme \<Rightarrow> nat \<times> bool \<times> 'a app_settings_scheme" where
  "onboarding_handleSkip x = (let (step, _, s) = x in (step, True, s\<lparr>tourAutoShown := True\<rparr>))"

definition loopRunning :: "'a app_node_scheme \<Rightarrow> bool" where
  "loopRunning s \<longleftrightarrow> ss_running (ss_loop s) \<and> ss_error (ss_loop s) = []"

definition inPct :: "big_lib \<Rightarrow> 'a app_channels_scheme \<Rightarrow> rat" where
  "inPct B s = (let total = totalInbound B s + totalOutbound B s in if total > 0 then totalInbound B s / total * 100 else 50)"

definition outPct :: "big_lib \<Rightarrow> 'a app_channels_scheme \<Rightarrow> rat" where
  "outPct B s = (let total = totalInbound B s + totalOutbound B s in if total > 0 then totalOutbound B s / total * 100 else 50)"

definition isUnbalanced :: "big_lib \<Rightarrow> 'a app_channels_scheme \<Rightarrow> bool" where
  "isUnbalanced B s \<longleftrightarrow>
     (let total = totalInbound B s + totalOutbound B s; ratio = (if total > 0 then totalOutbound B s / total else 1 / 2)
      in ratio > 3 / 4 \<or> ratio < 1 / 4)"

text \<open>The page for the block explorers: the fields, when they can be saved, and saving them.\<close>

record explorer_page =
  xp_bitcoinTx :: string
  xp_lnNode :: string

definition open_explorers :: "'a app_settings_scheme \<Rightarrow> explorer_page" where
  "open_explorers s = \<lparr>xp_bitcoinTx = bitcoinTxUrl s, xp_lnNode = lnNodeUrl s\<rparr>"

definition canSave :: "explorer_page \<Rightarrow> 'a app_settings_scheme \<Rightarrow> bool" where
  "canSave p s \<longleftrightarrow> validateExplorerUrl (xp_bitcoinTx p) ''{txid}'' = None \<and> validateExplorerUrl (xp_lnNode p) ''{pubkey}'' = None \<and>
     (xp_bitcoinTx p \<noteq> bitcoinTxUrl s \<or> xp_lnNode p \<noteq> lnNodeUrl s)"

definition press_save :: "string \<Rightarrow> explorer_page \<Rightarrow> 'a app_settings_scheme \<Rightarrow> 'a app_settings_scheme" where
  "press_save base p s = (if canSave p s then setExplorerUrls base (xp_bitcoinTx p) (xp_lnNode p) s else s)"

text \<open>The panel of a node.\<close>

definition panel_handleRefresh :: "node_replies \<Rightarrow> NodeConnection \<Rightarrow> NodeConnection" where
  "panel_handleRefresh r x = cn_fetchChannels r (cn_fetchInfo r x)"

definition panel_activeChannels :: "NodeConnection \<Rightarrow> NodeChannel list" where
  "panel_activeChannels x = filter nc_active (cn_channels x)"

definition panel_totalCapacity :: "NodeConnection \<Rightarrow> int" where
  "panel_totalCapacity x = foldl (\<lambda>t ch. t + nc_capacity ch) 0 (cn_channels x)"

section \<open>What the pages show\<close>

lemma graph_channels_peers:
  "set (map remotePubkey (graph_channels seen cs)) = set (map remotePubkey cs) - set seen"
  "distinct (map remotePubkey (graph_channels seen cs))"
  by (induction seen cs rule: graph_channels.induct) auto

lemma graph_channels_all:
  "distinct (map remotePubkey cs) \<Longrightarrow> set (map remotePubkey cs) \<inter> set seen = {} \<Longrightarrow> graph_channels seen cs = cs"
  by (induction seen cs rule: graph_channels.induct) auto

lemma sum_graph_channels:
  assumes "\<And>c. c \<in> set cs \<Longrightarrow> 0 \<le> (f c :: rat)"
  shows "0 \<le> sum_list (map f (graph_channels seen cs)) \<and> sum_list (map f (graph_channels seen cs)) \<le> sum_list (map f cs)"
  using assms by (induction seen cs rule: graph_channels.induct) (auto intro: add_increasing add_left_mono)

lemma set_sortedChannels: "set (sortedChannels B s) = snd ` set (channels s)"
  by (simp add: sortedChannels_def sort_channels_def)

lemma my_node_totals:
  assumes "graphViewMode s = MyNode"
  shows "home_totalIn B s g = sum_list (map remoteBalance (graph_channels [] (sortedChannels B s)))"
    "home_totalOut B s g = sum_list (map localBalance (graph_channels [] (sortedChannels B s)))"
  using assms by (simp_all add: home_totalIn_def home_totalOut_def home_graph_def myNodeGraph_def Let_def comp_def channel_edge_def)

lemma peers_distinct_sorted:
  "distinct (map (remotePubkey \<circ> snd) (channels s)) \<Longrightarrow> distinct (map remotePubkey (sortedChannels B s))"
proof -
  assume d: "distinct (map (remotePubkey \<circ> snd) (channels s))"
  have "mset (sortedChannels B s) = mset (map snd (channels s))" by (simp add: sortedChannels_def sort_channels_def)
  hence "mset (map remotePubkey (sortedChannels B s)) = mset (map (remotePubkey \<circ> snd) (channels s))" by (simp add: multiset.map_comp)
  thus ?thesis using d mset_eq_imp_distinct_iff by blast
qed


text \<open>Every peer is drawn once.\<close>

lemma peers_drawn_once:
  "distinct (map nd_id (tl (fst (myNodeGraph B s)))) \<and>
   set (map nd_id (tl (fst (myNodeGraph B s)))) = (remotePubkey \<circ> snd) ` set (channels s)"
  using graph_channels_peers [of "[]" "sortedChannels B s"]
  by (simp add: myNodeGraph_def Let_def comp_def peer_node_def set_sortedChannels image_image)

text \<open>The gestures of the node picker are steps of the node store.\<close>

lemma picker_steps:
  "conn_step\<^sup>*\<^sup>* s (snd (handleNodeClick i (asking, s)))"
  "conn_step\<^sup>*\<^sup>* s (snd (handleDeleteNode i (asking, s)))"
  "conn_step\<^sup>*\<^sup>* s (snd (handleReconnect i conn r (asking, s)))"
proof -
  have k: "i \<in> fst ` set (connections s)" if "map_of (connections s) i = Some x" for x
    using that by (force dest: map_of_SomeD)
  have "conn_step\<^sup>*\<^sup>* s (setActiveLeft i s) \<and> conn_step\<^sup>*\<^sup>* s (setActiveRight i s)" if "map_of (connections s) i = Some x" for x
    using conn_step.intros(6,7) [OF k [OF that]] by blast
  thus "conn_step\<^sup>*\<^sup>* s (snd (handleNodeClick i (asking, s)))"
    by (cases "map_of (connections s) i") (simp_all add: handleNodeClick_def)
qed (auto simp: handleDeleteNode_def handleReconnect_def Let_def intro: conn_step.intros)

lemma click_keeps_sides_apart:
  assumes "activeLeftId s \<noteq> activeRightId s" "i \<noteq> []"
  shows "activeLeftId (snd (handleNodeClick i (asking, s))) \<noteq> activeRightId (snd (handleNodeClick i (asking, s)))"
  using assms by (auto simp: handleNodeClick_def setActiveLeft_def setActiveRight_def split: option.splits)

text \<open>
  A side whose node has no connection opens its channels with the client of the primary node,
  although the dialogue names the other one.
\<close>

lemma unconnected_source_opens_from_primary:
  assumes "sourceNode d s = Some a" "targetNode d s = Some b" "cn_api a = None"
  shows "opening_client d s = Some (api_lnd s, cn_pubkey b)"
  using assms by (simp add: opening_client_def)

lemma swapped_direction: "sourceNode (handleSwapDirection d) s = targetNode d s" "targetNode (handleSwapDirection d) s = sourceNode d s"
  by (cases d; simp add: sourceNode_def targetNode_def handleSwapDirection_def)+

text \<open>After a refused login the detail of LND alone has no button that shows it.\<close>

lemma lnd_detail_has_no_button:
  assumes "login tr getInfo status (ap_pass p) s = (Some (Message m), t)" "litDetail t = []"
  shows "ap_detailLnd (fst (auth_handleSubmit tr getInfo status (p, s))) = lndDetail t \<and>
    \<not> ap_showDetailButton (fst (auth_handleSubmit tr getInfo status (p, s)))"
  using assms by (simp add: auth_handleSubmit_def)

lemma shares_add_up: "inPct B s + outPct B s = 100"
proof -
  have "a / (a + b) * 100 + b / (a + b) * 100 = 100" if "a + b > 0" for a b :: rat
  proof -
    have "a / (a + b) * 100 + b / (a + b) * 100 = (a + b) / (a + b) * 100"
      unfolding add_divide_distrib distrib_right ..
    thus ?thesis using that by simp
  qed
  thus ?thesis by (simp add: inPct_def outPct_def Let_def)
qed

lemma onboarding_in_range:
  assumes "step < length ONBOARDING_STEPS"
  shows "fst (onboarding_handleNext (step, shut, s)) < length ONBOARDING_STEPS \<and>
    fst (onboarding_handleBack (step, shut, s)) < length ONBOARDING_STEPS \<and>
    fst (onboarding_handleSkip (step, shut, s)) < length ONBOARDING_STEPS"
proof -
  have "step \<noteq> length ONBOARDING_STEPS - 1 \<Longrightarrow> Suc step < length ONBOARDING_STEPS" using assms by linarith
  thus ?thesis using assms by (auto simp: onboarding_handleNext_def onboarding_handleBack_def onboarding_handleSkip_def)
qed

text \<open>
  The explorer addresses of the settings keep their placeholders, so that a link always has the
  id of the transaction in place of the placeholder.
\<close>

lemma replace_first_found: "str_includes p u \<Longrightarrow> \<exists>a b. u = a @ p @ b \<and> replace_first p r u = a @ r @ b"
proof (induction p r u rule: replace_first.induct)
  case (2 p r c s)
  show ?case
  proof (cases "starts_with p (c # s)")
    case True
    hence "c # s = [] @ p @ drop (length p) (c # s)" by (metis append_Nil append_take_drop_id starts_with_def)
    thus ?thesis using True by (metis append_Nil replace_first.simps(2))
  next
    case False
    then obtain a b where "s = a @ p @ b" "replace_first p r s = a @ r @ b" using 2 by auto
    thus ?thesis using False by (metis append_Cons replace_first.simps(2))
  qed
qed auto

lemma press_save_keeps:
  assumes "validateExplorerUrl (bitcoinTxUrl s) ''{txid}'' = None" "validateExplorerUrl (lnNodeUrl s) ''{pubkey}'' = None"
  shows "validateExplorerUrl (bitcoinTxUrl (press_save base p s)) ''{txid}'' = None \<and>
    validateExplorerUrl (lnNodeUrl (press_save base p s)) ''{pubkey}'' = None"
  using assms by (simp add: press_save_def canSave_def setExplorerUrls_def showSettings_def goTo_def Let_def)

lemma link_has_txid:
  assumes "validateExplorerUrl (bitcoinTxUrl s) ''{txid}'' = None"
  shows "\<exists>a b. bitcoinTxUrl s = a @ ''{txid}'' @ b \<and> getBitcoinTxUrl s txid = a @ txid @ b"
  using assms replace_first_found [of "''{txid}''" "bitcoinTxUrl s" txid]
  by (auto simp: validateExplorerUrl_def getBitcoinTxUrl_def split: if_splits)

section \<open>Concrete instances\<close>

definition initial_graph :: app_graph where
  "initial_graph =
     app_activity.extend
       (app_node.extend
         (app_settings.extend initial_shell
           (app_node.fields [] [] [] [] ''bitcoin'' ''mainnet'' 0 0 0 0 False running running running))
         (app_activity.fields [] None [] 0))
       (app_graph.fields [] [] None False [])"

definition two_channels :: "string \<Rightarrow> app_loop" where
  "two_channels peer =
     initial_loop\<lparr>channels := [(''7'', Channel_create (demo_lnd_channel ''7'')),
       (''9'', Channel_create ((demo_lnd_channel ''9'')\<lparr>lnd_remotePubkey := peer\<rparr>))]\<rparr>"

lemma two_channels_view: "graphViewMode (two_channels peer) = MyNode"
  by (simp add: two_channels_def initial_loop_def initial_shell_def app_settings.extend_def app_node.fields_def
      app_node.extend_def app_channels.extend_def app_channels.fields_def app_loop.fields_def)

lemmas two_channels_simps = two_channels_def Channel_create_def Channel_update_def demo_lnd_channel_def


lemma one_peer: "(\<And>c. c \<in> set cs \<Longrightarrow> remotePubkey c \<in> set seen) \<Longrightarrow> graph_channels seen cs = []"
  by (induction seen cs rule: graph_channels.induct) auto

lemma second_channel_left_out: "home_totalOut exact_big (two_channels ''02ab'') initial_graph = 620000"
proof -
  obtain c cs where cs: "sortedChannels exact_big (two_channels ''02ab'') = c # cs"
    using set_sortedChannels [of exact_big "two_channels ''02ab''"]
    by (cases "sortedChannels exact_big (two_channels ''02ab'')") (auto simp: two_channels_simps)
  have "remotePubkey x = ''02ab'' \<and> localBalance x = 620000" if "x \<in> set (c # cs)" for x
  proof -
    have "x \<in> snd ` set (channels (two_channels ''02ab''))" using that unfolding cs [symmetric] set_sortedChannels .
    thus ?thesis by (auto simp: two_channels_simps)
  qed
  thus ?thesis unfolding my_node_totals(2) [OF two_channels_view] cs by (simp add: one_peer)
qed

end
