(* ===== verification/Lit_Sessions.thy ===== *)
theory Lit_Sessions
  imports App_Sync App_Node Loop_Models
begin

text \<open>
  Terminal Connect sessions: \<open>app/src/store/models/session.ts\<close>,
  \<open>app/src/store/stores/sessionStore.ts\<close>, \<open>app/src/store/views/addSessionView.ts\<close> and the
  requests of \<open>app/src/api/lit.ts\<close> they make. A time is the number of milliseconds since the
  epoch, \<open>None\<close> for an invalid \<open>Date\<close>. What depends on the time zone and the locale is the
  parameter \<open>date_lib\<close>: midnight of the first of January of a year, the same time of day
  some days later, the reading and the printing of a date.
\<close>

section \<open>Sessions\<close>

record date_lib =
  dl_newYear :: "int \<Rightarrow> int"
  dl_addDays :: "int \<Rightarrow> int \<Rightarrow> int"
  dl_parse :: "string \<Rightarrow> int option"
  dl_format :: "string \<Rightarrow> int option \<Rightarrow> string"

definition MAX_DATE :: "date_lib \<Rightarrow> int" where
  "MAX_DATE D = dl_newYear D 9999"

abbreviation (input) STATE_CREATED :: int where "STATE_CREATED \<equiv> 0"
abbreviation (input) STATE_IN_USE :: int where "STATE_IN_USE \<equiv> 1"
abbreviation (input) STATE_REVOKED :: int where "STATE_REVOKED \<equiv> 2"
abbreviation (input) STATE_EXPIRED :: int where "STATE_EXPIRED \<equiv> 3"
abbreviation (input) TYPE_MACAROON_READONLY :: int where "TYPE_MACAROON_READONLY \<equiv> 0"
abbreviation (input) TYPE_MACAROON_ADMIN :: int where "TYPE_MACAROON_ADMIN \<equiv> 1"
abbreviation (input) TYPE_MACAROON_CUSTOM :: int where "TYPE_MACAROON_CUSTOM \<equiv> 2"
abbreviation (input) TYPE_UI_PASSWORD :: int where "TYPE_UI_PASSWORD \<equiv> 3"
abbreviation (input) TYPE_MACAROON_ACCOUNT :: int where "TYPE_MACAROON_ACCOUNT \<equiv> 5"

record Session =
  se_label :: string
  se_state :: int
  se_type :: int
  se_expiry :: "int option"
  mailboxServerAddr :: string
  devServer :: bool
  pairingSecretMnemonic :: string
  localPublicKey :: string
  remotePublicKey :: string

text \<open>\<open>LIT.Session.AsObject\<close>; the expiry is a decimal text.\<close>

record lit_session =
  lt_label :: string
  lt_sessionState :: int
  lt_sessionType :: int
  lt_expiryTimestampSeconds :: string
  lt_mailboxServerAddr :: string
  lt_devServer :: bool
  lt_pairingSecretMnemonic :: string
  lt_localPublicKey :: string
  lt_remotePublicKey :: string

definition se_stateLabel :: "Session \<Rightarrow> string" where
  "se_stateLabel x =
     (if se_state x = STATE_CREATED then ''Created''
      else if se_state x = STATE_IN_USE then ''In Use''
      else if se_state x = STATE_REVOKED then ''Revoked''
      else if se_state x = STATE_EXPIRED then ''Expired''
      else ''Unknown'')"

definition typeLabel :: "Session \<Rightarrow> string" where
  "typeLabel x =
     (if se_type x = TYPE_MACAROON_READONLY then ''Read-Only''
      else if se_type x = TYPE_MACAROON_ADMIN then ''Admin''
      else if se_type x = TYPE_MACAROON_CUSTOM then ''Custom''
      else if se_type x = TYPE_MACAROON_ACCOUNT then ''Custodial''
      else if se_type x = TYPE_UI_PASSWORD then ''LiT UI Password''
      else ''Unknown'')"

definition expiryLabel :: "date_lib \<Rightarrow> Session \<Rightarrow> string" where
  "expiryLabel D x =
     (let minDate = dl_newYear D (9999 - 999)
      in if (case se_expiry x of Some t \<Rightarrow> t > minDate | None \<Rightarrow> False) then ''Never''
         else dl_format D ''MMM d, yyyy h:mm a'' (se_expiry x))"

definition isActive :: "Session \<Rightarrow> bool" where
  "isActive x \<longleftrightarrow> se_state x = STATE_CREATED \<or> se_state x = STATE_IN_USE"

definition isPaired :: "Session \<Rightarrow> bool" where
  "isPaired x \<longleftrightarrow> remotePublicKey x \<noteq> []"

definition pairedLabel :: "Session \<Rightarrow> string" where
  "pairedLabel x = (if isPaired x then ''In Use'' else ''Created'')"

text \<open>\<open>Buffer.from(data, 'ascii')\<close> takes the code units as bytes.\<close>

definition ascii_bytes :: "string \<Rightarrow> byte list" where
  "ascii_bytes t = map of_char t"

definition encodedPairingData :: "Session \<Rightarrow> string" where
  "encodedPairingData x =
     base64_encode (ascii_bytes (pairingSecretMnemonic x @ ''||'' @ mailboxServerAddr x @ ''||'' @ typeLabel x))"

text \<open>\<open>LNC_APP_BASE_URL\<close> is an argument.\<close>

definition terminalConnectUrl :: "string \<Rightarrow> Session \<Rightarrow> string" where
  "terminalConnectUrl base x = base @ ''#/connect/pair/'' @ encodedPairingData x"

definition Session_update :: "lit_session \<Rightarrow> Session" where
  "Session_update p =
     \<lparr>se_label = lt_label p, se_state = lt_sessionState p, se_type = lt_sessionType p,
      se_expiry = map_option (\<lambda>n. n * 1000) (parseInt10 (lt_expiryTimestampSeconds p)),
      mailboxServerAddr = lt_mailboxServerAddr p, devServer = lt_devServer p,
      pairingSecretMnemonic = lt_pairingSecretMnemonic p, localPublicKey = hex (lt_localPublicKey p) False,
      remotePublicKey = hex (lt_remotePublicKey p) False\<rparr>"

text \<open>The difference of two times; one that is not a number orders like zero.\<close>

definition time_diff :: "int option \<Rightarrow> int option \<Rightarrow> rat" where
  "time_diff a b = (case (a, b) of (Some x, Some y) \<Rightarrow> of_int (x - y) | _ \<Rightarrow> 0)"

definition Session_compare :: "string option \<Rightarrow> Session \<Rightarrow> Session \<Rightarrow> rat" where
  "Session_compare field a b =
     (if field = Some ''label'' then compare_text (se_label a) (se_label b)
      else if field = Some ''stateLabel'' then compare_text (se_stateLabel a) (se_stateLabel b)
      else if field = Some ''typeLabel'' then compare_text (typeLabel a) (typeLabel b)
      else time_diff (se_expiry a) (se_expiry b))"

section \<open>The store\<close>

text \<open>\<open>AddSessionRequest\<close> and \<open>CreateAccountRequest\<close>; a time that is not a number is \<open>None\<close>.\<close>

record add_session_request =
  as_label :: string
  as_sessionType :: int
  as_expiryTimestampSeconds :: "int option"
  as_mailboxServerAddr :: string
  as_devServer :: bool
  as_permissions :: "(string \<times> string) list"
  as_accountId :: string

datatype lit_request =
    AddSession add_session_request
  | RevokeSession string
  | CreateAccount rat "int option"

record app_sessions = app_node +
  sessions :: "(string \<times> Session) list"
  clipboard :: "string option"
  lit_sent :: "lit_request list"

definition lit_send :: "lit_request \<Rightarrow> 'a app_sessions_scheme \<Rightarrow> 'a app_sessions_scheme" where
  "lit_send r s = s\<lparr>lit_sent := lit_sent s @ [r]\<rparr>"

definition in_seconds :: "int option \<Rightarrow> int option" where
  "in_seconds t = map_option (\<lambda>ms. ms div 1000) t"

definition addSession_request ::
    "string \<Rightarrow> int \<Rightarrow> int option \<Rightarrow> string \<Rightarrow> bool \<Rightarrow> (string \<times> string) list \<Rightarrow> string \<Rightarrow> add_session_request" where
  "addSession_request label type expiry addr dev permissions accountId =
     \<lparr>as_label = label, as_sessionType = type, as_expiryTimestampSeconds = in_seconds expiry,
      as_mailboxServerAddr = addr, as_devServer = dev, as_permissions = permissions, as_accountId = accountId\<rparr>"

text \<open>\<open>is_max\<close>: the argument is the object \<open>MAX_DATE\<close> itself.\<close>

definition createAccount_lit_request :: "rat \<Rightarrow> bool \<Rightarrow> int option \<Rightarrow> lit_request" where
  "createAccount_lit_request balance is_max expirationDate =
     CreateAccount balance (if is_max then Some 0 else in_seconds expirationDate)"

definition proxyServer :: "bool \<Rightarrow> string" where
  "proxyServer IS_PROD = (if IS_PROD then ''mailbox.terminal.lightning.today:443'' else ''aperture:11110'')"

definition sortedSessions :: "'a app_sessions_scheme \<Rightarrow> Session list" where
  "sortedSessions s =
     sort_by (Session_compare (so_field (sessionSort s))) (so_descending (sessionSort s))
       (filter isActive (map snd (sessions s)))"

definition unpairedSessions :: "'a app_sessions_scheme \<Rightarrow> Session list" where
  "unpairedSessions s = filter (\<lambda>x. \<not> isPaired x) (sortedSessions s)"

definition nextSessionLabel :: "'a app_sessions_scheme \<Rightarrow> string" where
  "nextSessionLabel s =
     (let count = length (filter (\<lambda>x. starts_with ''Generated Session'' (se_label x)) (map snd (sessions s)));
          countText = (if count = 0 then [] else '' ('' @ nat_to_string count @ '')'')
      in ''Generated Session'' @ countText)"

definition session_key :: "lit_session \<Rightarrow> string" where
  "session_key p = hex (lt_localPublicKey p) False"

definition session_of :: "lit_session \<Rightarrow> Session option \<Rightarrow> Session" where
  "session_of p existing = Session_update p"

text \<open>As in the swap and order stores, \<open>own\<close> is \<open>Object.keys\<close> of the MobX map.\<close>

definition refresh_sessions :: "string list \<Rightarrow> lit_session list \<Rightarrow> (string \<times> Session) list \<Rightarrow> (string \<times> Session) list" where
  "refresh_sessions own sessionsList m =
     (let m = upsert_all session_key session_of sessionsList m;
          serverIds = map session_key sessionsList;
          localIds = own
      in drop_missing localIds serverIds m)"

definition fetchSessions :: "string list \<Rightarrow> lit_session list api_result \<Rightarrow> 'a app_sessions_scheme \<Rightarrow> 'a app_sessions_scheme" where
  "fetchSessions own res s =
     (case res of
        Inl e \<Rightarrow>
          if str_includes ''not ready'' (error_message e) then s
          else handleError e ''Unable to fetch sessions'' s
      | Inr sessionsList \<Rightarrow> s\<lparr>sessions := refresh_sessions own sessionsList (sessions s)\<rparr>)"

definition copyPhrase :: "string \<Rightarrow> string \<Rightarrow> 'a app_sessions_scheme \<Rightarrow> 'a app_sessions_scheme" where
  "copyPhrase label phrase s =
     notify (Plain (''Copied Pairing Phrase for '' @ [CHR 0x27] @ label @ [CHR 0x27] @ '' to clipboard'')) (Some (Plain [])) Success
       (s\<lparr>clipboard := Some phrase\<rparr>)"

definition copyFirstPhrase :: "'a app_sessions_scheme \<Rightarrow> 'a app_sessions_scheme" where
  "copyFirstPhrase s =
     (case sortedSessions s of [] \<Rightarrow> s | x # _ \<Rightarrow> copyPhrase (se_label x) (pairingSecretMnemonic x) s)"

text \<open>The replies of the daemon to a change, and to the list request that follows it.\<close>

record session_replies =
  sn_added :: "lit_session option api_result"
  sn_list :: "lit_session list api_result"

definition addSession ::
    "bool \<Rightarrow> string list \<Rightarrow> string \<Rightarrow> int \<Rightarrow> int option \<Rightarrow> bool \<Rightarrow> string option \<Rightarrow> (string \<times> string) list option
     \<Rightarrow> string option \<Rightarrow> session_replies \<Rightarrow> 'a app_sessions_scheme \<Rightarrow> Session option \<times> 'a app_sessions_scheme" where
  "addSession IS_PROD own label type expiry copy proxy customPermissions accountId rs s =
     (let addr = (case proxy of Some p \<Rightarrow> if p = [] then proxyServer IS_PROD else p | None \<Rightarrow> proxyServer IS_PROD);
          req = addSession_request label type expiry addr (\<not> IS_PROD)
                  (case customPermissions of Some ps \<Rightarrow> ps | None \<Rightarrow> []) (case accountId of Some a \<Rightarrow> a | None \<Rightarrow> []);
          s = lit_send (AddSession req) s
      in case sn_added rs of
           Inl e \<Rightarrow> (None, handleError e ''Unable to add session'' s)
         | Inr added \<Rightarrow>
             (let s = fetchSessions own (sn_list rs) s in
              case added of
                None \<Rightarrow> (None, s)
              | Some p \<Rightarrow>
                  (let s = (if copy then copyPhrase (lt_label p) (lt_pairingSecretMnemonic p) s else s);
                       s = notify (Plain ''Please connect immediately. The pairing phrase will expire in 10 minutes.'')
                             (Some (Plain ''Session Created'')) Warning s
                   in (map_of (sessions s) (session_key p), s))))"

definition getNewSessionUrl ::
    "date_lib \<Rightarrow> bool \<Rightarrow> string \<Rightarrow> string list \<Rightarrow> session_replies \<Rightarrow> 'a app_sessions_scheme \<Rightarrow> string \<times> 'a app_sessions_scheme" where
  "getNewSessionUrl D IS_PROD base own rs s =
     (let (session, s) =
            (case unpairedSessions s of
               x # _ \<Rightarrow> (Some x, s)
             | [] \<Rightarrow> addSession IS_PROD own (nextSessionLabel s) TYPE_MACAROON_ADMIN (Some (MAX_DATE D)) False None None None rs s)
      in (case session of Some x \<Rightarrow> terminalConnectUrl base x | None \<Rightarrow> [], s))"

text \<open>The address that the new tab, if the browser opened one, is sent to.\<close>

definition connectToTerminalWeb ::
    "bool \<Rightarrow> date_lib \<Rightarrow> bool \<Rightarrow> string \<Rightarrow> string list \<Rightarrow> session_replies \<Rightarrow> 'a app_sessions_scheme
     \<Rightarrow> string option \<times> 'a app_sessions_scheme" where
  "connectToTerminalWeb tab D IS_PROD base own rs s =
     (let (url, s) = getNewSessionUrl D IS_PROD base own rs s in (if tab then Some url else None, s))"

definition revokeSession ::
    "string list \<Rightarrow> Session \<Rightarrow> unit api_result \<Rightarrow> lit_session list api_result \<Rightarrow> 'a app_sessions_scheme \<Rightarrow> 'a app_sessions_scheme" where
  "revokeSession own x reply lst s =
     (let s = lit_send (RevokeSession (b64 (localPublicKey x) False)) s in
      case reply of
        Inl e \<Rightarrow> handleError e ''Unable to revoke the session'' s
      | Inr _ \<Rightarrow> fetchSessions own lst s)"

section \<open>The form for a new session\<close>

datatype PermissionTypeValues = Admin | ReadOnly | Liquidity | Payments | Messenger | Custodial | Custom

definition permission_type_text :: "PermissionTypeValues \<Rightarrow> string" where
  "permission_type_text t =
     (case t of Admin \<Rightarrow> ''admin'' | ReadOnly \<Rightarrow> ''read-only'' | Liquidity \<Rightarrow> ''liquidity'' | Payments \<Rightarrow> ''payments''
      | Messenger \<Rightarrow> ''messenger'' | Custodial \<Rightarrow> ''custodial'' | Custom \<Rightarrow> ''custom'')"

definition PermissionUriMap :: "(string \<times> string list) list" where
  "PermissionUriMap =
     [(''openChannel'', [''/lnrpc.Lightning/OpenChannel'', ''/lnrpc.Lightning/BatchOpenChannel'', ''/lnrpc.Lightning/OpenChannelSync'']),
      (''closeChannel'', [''/lnrpc.Lightning/CloseChannel'']),
      (''setFees'', [''/lnrpc.Lightning/EstimateFee'', ''/lnrpc.Lightning/FeeReport'', ''/lnrpc.Lightning/UpdateChannelPolicy'']),
      (''loop'', [''^/looprpc'' @ [CHR 0x5C] @ ''.SwapClient/.*$'']),
      (''pool'', [''^/poolrpc'' @ [CHR 0x5C] @ ''.Trader/.*$'']),
      (''send'', [''/lnrpc.Lightning/SendCoins'', ''/lnrpc.Lightning/SendMany'', ''/lnrpc.Lightning/SendPayment'',
         ''/routerrpc.Router/SendPaymentV2'', ''/lnrpc.Lightning/SendPaymentSync'', ''/lnrpc.Lightning/SendToRoute'',
         ''/routerrpc.Router/SendToRouteV2'', ''/lnrpc.Lightning/SendToRouteSync'']),
      (''receive'', [''/lnrpc.Lightning/NewAddress'', ''/lnrpc.Lightning/AddInvoice'', ''/lnrpc.Lightning/LookupInvoice'',
         ''/lnrpc.Lightning/ListInvoices'', ''/lnrpc.Lightning/SubscribeInvoices'']),
      (''sign'', [''/lnrpc.Lightning/SignMessage''])]"

record app_add_session = app_sessions +
  an_label :: string
  permissionType :: PermissionTypeValues
  an_editing :: bool
  an_permissions :: "(string \<times> bool) list"
  expiration :: string
  expirationDate :: string
  showAdvanced :: bool
  an_proxy :: string
  custodialBalance :: rat

definition expirationOptions :: "(string \<times> string) list" where
  "expirationOptions = [(''7 Days'', ''7''), (''30 Days'', ''30''), (''60 Days'', ''60''), (''90 Days'', ''90''),
     (''Never'', ''never''), (''Custom'', ''custom'')]"

definition no_permissions :: "(string \<times> bool) list" where
  "no_permissions = map (\<lambda>k. (k, False)) [''openChannel'', ''closeChannel'', ''setFees'', ''loop'', ''pool'', ''send'', ''receive'', ''sign'']"

definition sessionType :: "'a app_add_session_scheme \<Rightarrow> int" where
  "sessionType s =
     (if permissionType s = Admin then TYPE_MACAROON_ADMIN
      else if permissionType s = ReadOnly then TYPE_MACAROON_READONLY
      else if permissionType s = Custodial then TYPE_MACAROON_ACCOUNT
      else TYPE_MACAROON_CUSTOM)"

text \<open>
  The date, and whether it is the object \<open>MAX_DATE\<close>. The expiration is the value of one of the
  options; \<open>clock\<close> is the time of \<open>new Date()\<close>.
\<close>

definition sessionDate :: "date_lib \<Rightarrow> 'a app_add_session_scheme \<Rightarrow> bool \<times> int option" where
  "sessionDate D s =
     (case parseInt10 (expiration s) of
        Some days \<Rightarrow> (False, Some (dl_addDays D (clock s) days))
      | None \<Rightarrow>
          if expiration s = ''custom'' then (False, dl_parse D (expirationDate s))
          else (True, Some (MAX_DATE D)))"

definition sessionProxy :: "'a app_add_session_scheme \<Rightarrow> string option" where
  "sessionProxy s = (if an_proxy s \<noteq> [] then Some (an_proxy s) else None)"

text \<open>The actions of the enabled permissions; a name that the table lacks makes the spread throw.\<close>

fun enabled_uris :: "(string \<times> bool) list \<Rightarrow> string list result" where
  "enabled_uris [] = Inr []"
| "enabled_uris ((name, enabled) # ps) =
     (if enabled
      then case map_of PermissionUriMap name of
        None \<Rightarrow> Inl (Error ''undefined is not iterable'')
      | Some uris \<Rightarrow> then_res (enabled_uris ps) (\<lambda>rest. Inr (uris @ rest))
      else enabled_uris ps)"

definition getMacaroonPermissions :: "'a app_add_session_scheme \<Rightarrow> (string \<times> string) list result" where
  "getMacaroonPermissions s =
     (if sessionType s = TYPE_MACAROON_CUSTOM
      then then_res (enabled_uris (an_permissions s)) (\<lambda>uris. Inr (map (\<lambda>uri. (''uri'', uri)) (''***readonly***'' # uris)))
      else Inr [])"

definition setLabel :: "string \<Rightarrow> 'a app_add_session_scheme \<Rightarrow> 'a app_add_session_scheme" where
  "setLabel t s = s\<lparr>an_label := t\<rparr>"

definition setExpiration :: "string \<Rightarrow> 'a app_add_session_scheme \<Rightarrow> 'a app_add_session_scheme" where
  "setExpiration t s = s\<lparr>expiration := t\<rparr>"

definition setExpirationDate :: "string \<Rightarrow> 'a app_add_session_scheme \<Rightarrow> 'a app_add_session_scheme" where
  "setExpirationDate t s = s\<lparr>expirationDate := t\<rparr>"

definition setProxy :: "string \<Rightarrow> 'a app_add_session_scheme \<Rightarrow> 'a app_add_session_scheme" where
  "setProxy t s = s\<lparr>an_proxy := t\<rparr>"

definition setCustodialBalance :: "rat \<Rightarrow> 'a app_add_session_scheme \<Rightarrow> 'a app_add_session_scheme" where
  "setCustodialBalance b s = s\<lparr>custodialBalance := b\<rparr>"

definition setAllPermissions :: "bool \<Rightarrow> 'a app_add_session_scheme \<Rightarrow> 'a app_add_session_scheme" where
  "setAllPermissions v s = s\<lparr>an_permissions := map (\<lambda>(k, _). (k, v)) (an_permissions s)\<rparr>"

definition grant :: "string list \<Rightarrow> 'a app_add_session_scheme \<Rightarrow> 'a app_add_session_scheme" where
  "grant names s = s\<lparr>an_permissions := foldl (\<lambda>m k. AList.update k True m) (an_permissions s) names\<rparr>"

definition setPermissionType :: "PermissionTypeValues \<Rightarrow> 'a app_add_session_scheme \<Rightarrow> 'a app_add_session_scheme" where
  "setPermissionType t s =
     (let s = s\<lparr>permissionType := t\<rparr> in
      case t of
        Admin \<Rightarrow> setAllPermissions True s
      | ReadOnly \<Rightarrow> setAllPermissions False s
      | Liquidity \<Rightarrow> grant [''setFees'', ''loop'', ''pool''] (setAllPermissions False s)
      | Payments \<Rightarrow> grant [''send'', ''receive''] (setAllPermissions False s)
      | Messenger \<Rightarrow> grant [''send'', ''receive'', ''sign''] (setAllPermissions False s)
      | Custodial \<Rightarrow> grant [''send'', ''receive''] (setAllPermissions False s)
      | Custom \<Rightarrow> s)"

definition togglePermission :: "string \<Rightarrow> 'a app_add_session_scheme \<Rightarrow> 'a app_add_session_scheme" where
  "togglePermission name s =
     (let s = setPermissionType Custom s;
          old = (case map_of (an_permissions s) name of Some b \<Rightarrow> b | None \<Rightarrow> False)
      in s\<lparr>an_permissions := AList.update name (\<not> old) (an_permissions s)\<rparr>)"

definition toggleEditing :: "'a app_add_session_scheme \<Rightarrow> 'a app_add_session_scheme" where
  "toggleEditing s = s\<lparr>an_editing := \<not> an_editing s\<rparr>"

definition toggleAdvanced :: "'a app_add_session_scheme \<Rightarrow> 'a app_add_session_scheme" where
  "toggleAdvanced s = s\<lparr>showAdvanced := \<not> showAdvanced s\<rparr>"

definition session_cancel :: "'a app_add_session_scheme \<Rightarrow> 'a app_add_session_scheme" where
  "session_cancel s =
     (let s = s\<lparr>an_label := [], permissionType := Admin, an_editing := False\<rparr>;
          s = setAllPermissions False s
      in s\<lparr>expiration := ''never'', showAdvanced := False, sidebarVisible := True\<rparr>)"

text \<open>\<open>base\<close> is \<open>PUBLIC_URL\<close>.\<close>

definition handleSubmit ::
    "date_lib \<Rightarrow> bool \<Rightarrow> string \<Rightarrow> string list \<Rightarrow> session_replies \<Rightarrow> 'a app_add_session_scheme \<Rightarrow> 'a app_add_session_scheme" where
  "handleSubmit D IS_PROD base own rs s =
     (if permissionType s = Custom then goToPage base ''/connect/custom'' s
      else
        let (session, s) = addSession IS_PROD own (an_label s) (sessionType s) (Some (MAX_DATE D)) True None None None rs s
        in if session \<noteq> None then session_cancel s else s)"

text \<open>The reply: the id of the account, if the response has one.\<close>

definition registerCustodialAccount ::
    "date_lib \<Rightarrow> string option api_result \<Rightarrow> 'a app_add_session_scheme \<Rightarrow> string option \<times> 'a app_add_session_scheme" where
  "registerCustodialAccount D res s =
     (let (is_max, date) = sessionDate D s;
          s = lit_send (createAccount_lit_request (custodialBalance s) is_max date) s
      in case res of
           Inl e \<Rightarrow> (None, handleError e ''Unable to register custodial account'' s)
         | Inr account \<Rightarrow> (account, s))"

definition handleCustomSubmit ::
    "date_lib \<Rightarrow> bool \<Rightarrow> string \<Rightarrow> string list \<Rightarrow> string option api_result \<Rightarrow> session_replies \<Rightarrow> 'a app_add_session_scheme
     \<Rightarrow> unit result \<times> 'a app_add_session_scheme" where
  "handleCustomSubmit D IS_PROD base own account rs s =
     (let label = (if an_label s = [] then ''My '' @ permission_type_text (permissionType s) @ '' session'' else an_label s);
          (accountId, s) = (if permissionType s = Custodial then registerCustodialAccount D account s else (Some [], s))
      in if permissionType s = Custodial \<and> (accountId = None \<or> accountId = Some []) then (Inr (), s)
         else case getMacaroonPermissions s of
           Inl e \<Rightarrow> (Inl e, s)
         | Inr permissions \<Rightarrow>
             (let (session, s) = addSession IS_PROD own label (sessionType s) (snd (sessionDate D s)) True (sessionProxy s)
                    (Some permissions) accountId rs s
              in (Inr (), if session \<noteq> None then goToPage base ''/connect'' (session_cancel s) else s)))"

section \<open>What a new session may do\<close>

abbreviation (input) names_ok :: "'a app_add_session_scheme \<Rightarrow> bool" where
  "names_ok s \<equiv> map fst (an_permissions s) = map fst no_permissions"

definition enabled :: "'a app_add_session_scheme \<Rightarrow> string set" where
  "enabled s = {name. map_of (an_permissions s) name = Some True}"

text \<open>The permissions that come with a type of session.\<close>

definition preset :: "PermissionTypeValues \<Rightarrow> string set" where
  "preset t = (case t of Admin \<Rightarrow> fst ` set no_permissions | ReadOnly \<Rightarrow> {} | Liquidity \<Rightarrow> {''setFees'', ''loop'', ''pool''}
     | Payments \<Rightarrow> {''send'', ''receive''} | Messenger \<Rightarrow> {''send'', ''receive'', ''sign''}
     | Custodial \<Rightarrow> {''send'', ''receive''} | Custom \<Rightarrow> {})"

lemma update_known: "k \<in> set (map fst m) \<Longrightarrow> map fst (AList.update k v m) = map fst m"
  by (induction m) auto

lemma setAllPermissions_fields:
  "map fst (an_permissions (setAllPermissions v s)) = map fst (an_permissions s)"
  "map_of (an_permissions (setAllPermissions v s)) k = (if k \<in> set (map fst (an_permissions s)) then Some v else None)"
proof -
  have "map_of (map (\<lambda>(k, _). (k, v)) m) k = (if k \<in> set (map fst m) then Some v else None)" for m :: "(string \<times> bool) list"
    by (induction m) auto
  then show "map_of (an_permissions (setAllPermissions v s)) k = (if k \<in> set (map fst (an_permissions s)) then Some v else None)"
    by (simp add: setAllPermissions_def)
qed (simp add: setAllPermissions_def comp_def case_prod_beta)

lemma grant_fields:
  "set names \<subseteq> set (map fst (an_permissions s)) \<Longrightarrow> map fst (an_permissions (grant names s)) = map fst (an_permissions s)"
  "map_of (an_permissions (grant names s)) k = (if k \<in> set names then Some True else map_of (an_permissions s) k)"
proof -
  have "set names \<subseteq> set (map fst m) \<Longrightarrow> map fst (foldl (\<lambda>m k. AList.update k True m) m names) = map fst m" for m :: "(string \<times> bool) list"
  proof (induction names arbitrary: m)
    case (Cons n names)
    then have "map fst (AList.update n True m) = map fst m" by (intro update_known) auto
    then show ?case using Cons.IH [of "AList.update n True m"] Cons.prems by simp
  qed simp
  then show "set names \<subseteq> set (map fst (an_permissions s)) \<Longrightarrow> map fst (an_permissions (grant names s)) = map fst (an_permissions s)"
    by (simp add: grant_def)
  have "map_of (foldl (\<lambda>m k. AList.update k True m) m names) k = (if k \<in> set names then Some True else map_of m k)" for m :: "(string \<times> bool) list"
    by (induction names arbitrary: m) (auto simp: update_conv')
  then show "map_of (an_permissions (grant names s)) k = (if k \<in> set names then Some True else map_of (an_permissions s) k)"
    by (simp add: grant_def)
qed

lemma names_of_form: "set (map fst no_permissions) = {''openChannel'', ''closeChannel'', ''setFees'', ''loop'', ''pool'', ''send'', ''receive'', ''sign''}"
  by (simp add: no_permissions_def)

lemma setPermissionType_names:
  assumes "names_ok s"
  shows "names_ok (setPermissionType t s)"
proof -
  have "names_ok (grant ns (setAllPermissions v (s\<lparr>permissionType := t\<rparr>)))" if "set ns \<subseteq> set (map fst no_permissions)" for ns v
  proof -
    have a: "names_ok (setAllPermissions v (s\<lparr>permissionType := t\<rparr>))" using assms by (simp add: setAllPermissions_fields(1))
    then show ?thesis using grant_fields(1) [of ns "setAllPermissions v (s\<lparr>permissionType := t\<rparr>)"] that by (simp only: a)
  qed
  from this [of "[]"] this [of "[''setFees'', ''loop'', ''pool'']" False] this [of "[''send'', ''receive'']" False]
    this [of "[''send'', ''receive'', ''sign'']" False] assms
  show ?thesis
    unfolding names_of_form
    by (cases t) (simp_all add: setPermissionType_def Let_def grant_def [of "[]"])
qed

lemma setPermissionType_enabled:
  assumes "names_ok s" "t \<noteq> Custom"
  shows "enabled (setPermissionType t s) = preset t"
proof -
  have "set (map fst (an_permissions (s\<lparr>permissionType := t\<rparr>))) = fst ` set no_permissions"
    using arg_cong [OF assms(1), of set] by simp
  then show ?thesis
    using assms(2)
    by (cases t) (auto simp: enabled_def preset_def setPermissionType_def Let_def grant_fields(2) setAllPermissions_fields(2) split: if_splits)
qed

lemma enabled_uris_all:
  assumes "set (map fst ps) \<subseteq> set (map fst PermissionUriMap)" "distinct (map fst ps)"
  shows "\<exists>uris. enabled_uris ps = Inr uris \<and>
    set uris = {uri. \<exists>name us. map_of ps name = Some True \<and> map_of PermissionUriMap name = Some us \<and> uri \<in> set us}"
  using assms
proof (induction ps)
  case (Cons p ps)
  obtain name b where p: "p = (name, b)" by (cases p)
  from Cons obtain uris where u: "enabled_uris ps = Inr uris"
    "set uris = {uri. \<exists>name us. map_of ps name = Some True \<and> map_of PermissionUriMap name = Some us \<and> uri \<in> set us}" by auto
  have n: "map_of ps name = None" using Cons.prems(2) p by (simp add: map_of_eq_None_iff)
  obtain us where us: "map_of PermissionUriMap name = Some us"
    using Cons.prems(1) p by (cases "map_of PermissionUriMap name") (auto simp: map_of_eq_None_iff)
  have e: "map_of (p # ps) m = Some True \<longleftrightarrow> m = name \<and> b \<or> map_of ps m = Some True" for m using n by (auto simp: p)
  show ?case unfolding e using u us by (cases b) (auto simp: p)
qed simp

lemma form_names_known:
  assumes "names_ok s"
  shows "set (map fst (an_permissions s)) \<subseteq> set (map fst PermissionUriMap)" "distinct (map fst (an_permissions s))"
  unfolding assms by (auto simp: no_permissions_def PermissionUriMap_def)

lemma addSession_sent:
  "lit_sent (snd (addSession live own label type expiry copy proxy ps acct rs s)) = lit_sent s @
     [AddSession (addSession_request label type expiry
        (case proxy of Some p \<Rightarrow> if p = [] then proxyServer live else p | None \<Rightarrow> proxyServer live) (\<not> live)
        (case ps of Some ps \<Rightarrow> ps | None \<Rightarrow> []) (case acct of Some a \<Rightarrow> a | None \<Rightarrow> []))]"
proof -
  have h: "lit_sent (handleError e t s) = lit_sent s" for e t and s :: "'a app_sessions_scheme"
    by (simp add: handleError_def notify_def Let_def split: app_error.split)
  have f: "lit_sent (fetchSessions own r s) = lit_sent s" for r and s :: "'a app_sessions_scheme"
    by (simp add: fetchSessions_def h split: sum.split)
  show ?thesis
    by (cases "sn_added rs")
      (simp_all add: addSession_def Let_def h f lit_send_def copyPhrase_def notify_def split: option.split)
qed

lemma session_cancel_sent [simp]: "lit_sent (session_cancel s) = lit_sent s" "lit_sent (goToPage base route s) = lit_sent s"
  by (simp_all add: session_cancel_def setAllPermissions_def goToPage_def autoCollapseSidebar_def goTo_def Let_def)


section \<open>The collection of sessions\<close>

definition sessions_ok :: "string list \<Rightarrow> (string \<times> Session) list \<Rightarrow> bool" where
  "sessions_ok own m \<longleftrightarrow> keyed localPublicKey m \<and> dom (map_of m) \<inter> set own = {}"

lemma session_of_key [simp]: "localPublicKey (session_of p e) = session_key p"
  by (simp add: session_of_def Session_update_def session_key_def)

interpretation session_list: accumulating_store session_key session_of "\<lambda>e. session_key e \<notin> set own" "sessions_ok own"
    "refresh_sessions own" for own
proof unfold_locales
  fix m items k
  assume m: "sessions_ok own m" and i: "list_all (\<lambda>e. session_key e \<notin> set own) items"
  have d: "dom (map_of m) \<inter> set own = {}" using m by (simp add: sessions_ok_def)
  have l: "map_of (refresh_sessions own items m) k = latest session_key session_of items k (map_of m k)" for k
    using drop_own_lookup [OF d i] by (simp add: refresh_sessions_def Let_def)
  show "map_of (refresh_sessions own items m) k = latest session_key session_of items k (map_of m k)" by (rule l)
  show "map_of (refresh_sessions own items m) k = map_of m k" if "k \<notin> session_key ` set items"
    using l that by (simp add: latest_absent)
  show "sessions_ok own (refresh_sessions own items m)"
    using m drop_own_disjoint [OF d i] by (simp add: refresh_sessions_def Let_def sessions_ok_def keyed_drop keyed_upsert)
qed (simp add: session_of_def)

lemma sorted_sessions_stored:
  assumes "keyed localPublicKey (sessions s)" "y \<in> set (sortedSessions s)"
  shows "map_of (sessions s) (localPublicKey y) = Some y \<and> isActive y"
  using assms by (auto simp: sortedSessions_def keyed_def)

text \<open>
  Revoking works as seen by the user: when the daemon confirms it and lists the session as
  revoked, the session is neither shown nor ever reused for a connection to Terminal Web. The
  store keeps it all the same, and keeps every session that the daemon no longer lists.
\<close>

lemma revoked_session_is_not_offered:
  assumes "sessions_ok own (sessions s)" "list_all (\<lambda>e. session_key e \<notin> set own) sessionsList"
    and "distinct (map session_key sessionsList)" "p \<in> set sessionsList"
    and "session_key p = localPublicKey x" "lt_sessionState p = STATE_REVOKED"
    and "s' = revokeSession own x (Inr ()) (Inr sessionsList) s"
  shows "lit_sent s' = lit_sent s @ [RevokeSession (b64 (localPublicKey x) False)] \<and>
    (\<forall>y \<in> set (sortedSessions s') \<union> set (unpairedSessions s'). localPublicKey y \<noteq> localPublicKey x) \<and>
    map_of (sessions s') (localPublicKey x) = Some (Session_update p) \<and>
    (\<forall>k. k \<notin> session_key ` set sessionsList \<longrightarrow> map_of (sessions s') k = map_of (sessions s) k)"
proof -
  have m: "sessions s' = refresh_sessions own sessionsList (sessions s)" and sent: "lit_sent s' = lit_sent s @ [RevokeSession (b64 (localPublicKey x) False)]"
    using assms(7) by (simp_all add: revokeSession_def fetchSessions_def lit_send_def Let_def)
  have p: "map_of (sessions s') (localPublicKey x) = Some (Session_update p)"
    using session_list.entry_current_distinct [OF assms(1-4)] assms(5) by (simp add: m session_of_def)
  have ok: "sessions_ok own (sessions s')" unfolding m by (rule session_list.refresh_good [OF assms(1,2)])
  have "localPublicKey y \<noteq> localPublicKey x" if "y \<in> set (sortedSessions s')" for y
  proof
    assume "localPublicKey y = localPublicKey x"
    moreover have "map_of (sessions s') (localPublicKey y) = Some y \<and> isActive y"
      using sorted_sessions_stored that ok by (auto simp: sessions_ok_def)
    ultimately have "isActive (Session_update p)" using p by simp
    then show False using assms(6) by (simp add: isActive_def Session_update_def)
  qed
  then show ?thesis
    using sent p session_list.refresh_keeps [OF assms(1,2)] by (auto simp: m unpairedSessions_def)
qed

text \<open>
  Cancelling the form resets the label, the type, the permissions and the expiration, but
  not the proxy, the date and the balance: the next session that is submitted goes to the mail
  box server that was entered for the cancelled one.
\<close>

lemma cancelled_form_keeps_proxy:
  assumes "names_ok s" "t \<notin> {Custodial, Custom}" and "an_proxy s \<noteq> []"
  defines "c \<equiv> session_cancel s"
  shows "an_label c = [] \<and> permissionType c = Admin \<and> enabled c = {} \<and> expiration c = ''never'' \<and>
    an_proxy c = an_proxy s \<and> expirationDate c = expirationDate s \<and> custodialBalance c = custodialBalance s \<and>
    (\<exists>req. lit_sent (snd (handleCustomSubmit D live base own acct rs (setPermissionType t c))) = lit_sent s @ [AddSession req] \<and>
      as_mailboxServerAddr req = an_proxy s)"
proof -
  have f: "an_label c = []" "permissionType c = Admin" "expiration c = ''never''" "an_proxy c = an_proxy s"
    "expirationDate c = expirationDate s" "custodialBalance c = custodialBalance s" "lit_sent c = lit_sent s"
    by (simp_all add: c_def session_cancel_def setAllPermissions_def Let_def)
  have e: "enabled c = {}"
    using setAllPermissions_fields(2) [of False "s\<lparr>an_label := [], permissionType := Admin, an_editing := False\<rparr>"]
    by (auto simp: enabled_def c_def session_cancel_def Let_def)
  let ?s = "setPermissionType t c"
  have n: "names_ok c" using assms(1) by (simp add: c_def session_cancel_def setAllPermissions_fields(1) Let_def)
  have g: "permissionType ?s = t" "an_proxy ?s = an_proxy s" "lit_sent ?s = lit_sent s"
    by (cases t; simp add: setPermissionType_def setAllPermissions_def grant_def f Let_def)+
  obtain uris where "enabled_uris (an_permissions ?s) = Inr uris"
    using enabled_uris_all [OF form_names_known [OF setPermissionType_names [OF n, of t]]] by blast
  then obtain ps where ps: "getMacaroonPermissions ?s = Inr ps" by (cases "sessionType ?s = TYPE_MACAROON_CUSTOM") (simp_all add: getMacaroonPermissions_def)
  have "\<exists>req. lit_sent (snd (handleCustomSubmit D live base own acct rs ?s)) = lit_sent s @ [AddSession req] \<and> as_mailboxServerAddr req = an_proxy s"
    using assms(2,3) g ps by (simp add: handleCustomSubmit_def Let_def case_prod_beta addSession_sent sessionProxy_def addSession_request_def)
  then show ?thesis using f e by simp
qed

text \<open>The pairing data is read back exactly.\<close>

lemma pairing_data_roundtrip:
  "base64_decode (encodedPairingData x) = ascii_bytes (pairingSecretMnemonic x @ ''||'' @ mailboxServerAddr x @ ''||'' @ typeLabel x)"
  by (simp add: encodedPairingData_def codec_simps)

section \<open>Witnesses\<close>

definition initial_sessions :: app_add_session where
  "initial_sessions = app_sessions.extend (app_node.extend (app_settings.extend initial_shell
       (app_node.fields [] [] [] [] ''bitcoin'' ''mainnet'' 0 0 0 0 False
          \<lparr>ss_disabled = False, ss_running = True, ss_error = []\<rparr> \<lparr>ss_disabled = False, ss_running = True, ss_error = []\<rparr>
          \<lparr>ss_disabled = False, ss_running = True, ss_error = []\<rparr>))
     (app_sessions.fields [] None []))
     (app_add_session.fields [] Admin False no_permissions ''never'' [] False [] 0)"

lemma initial_sessions_simps [simp]:
  "sessions initial_sessions = []" "lit_sent initial_sessions = []" "an_permissions initial_sessions = no_permissions"
  "permissionType initial_sessions = Admin"
  by (simp_all add: initial_sessions_def app_sessions.extend_def app_sessions.fields_def app_add_session.fields_def app_node.extend_def)

definition demo_dates :: date_lib where
  "demo_dates = \<lparr>dl_newYear = (\<lambda>y. (y - 1970) * 31556952000), dl_addDays = (\<lambda>t d. t + d * 86400000),
     dl_parse = (\<lambda>_. None), dl_format = (\<lambda>_ _. [])\<rparr>"

definition demo_session :: "int \<Rightarrow> lit_session" where
  "demo_session st = \<lparr>lt_label = ''phone'', lt_sessionState = st, lt_sessionType = TYPE_MACAROON_ADMIN,
     lt_expiryTimestampSeconds = ''1700000000'', lt_mailboxServerAddr = ''mailbox:443'', lt_devServer = False,
     lt_pairingSecretMnemonic = ''absurd ability'', lt_localPublicKey = ''AQ=='', lt_remotePublicKey = []\<rparr>"

definition demo_session_replies :: session_replies where
  "demo_session_replies = \<lparr>sn_added = Inr (Some (demo_session STATE_CREATED)), sn_list = Inr [demo_session STATE_CREATED]\<rparr>"


lemma revoked_session_is_not_offered_witness:
  "sortedSessions (revokeSession [] (Session_update (demo_session STATE_CREATED)) (Inr ()) (Inr [demo_session STATE_REVOKED])
     (initial_sessions\<lparr>sessions := [(''01'', Session_update (demo_session STATE_CREATED))]\<rparr>)) = []"
proof -
  have h: "hex ''AQ=='' False = ''01''" by code_simp
  let ?x = "Session_update (demo_session STATE_CREATED)"
  let ?s = "initial_sessions\<lparr>sessions := [(''01'', ?x)]\<rparr>"
  let ?t = "revokeSession [] ?x (Inr ()) (Inr [demo_session STATE_REVOKED]) ?s"
  have x: "localPublicKey (Session_update (demo_session st)) = ''01''" "session_key (demo_session st) = ''01''" for st
    by (simp_all add: Session_update_def session_key_def demo_session_def h)
  have ok: "sessions_ok [] (sessions ?s)" by (simp add: sessions_ok_def keyed_def x)
  have r: "lt_sessionState (demo_session STATE_REVOKED) = STATE_REVOKED" by (simp add: demo_session_def)
  have none: "\<forall>y \<in> set (sortedSessions ?t). localPublicKey y \<noteq> ''01''" and only: "dom (map_of (sessions ?t)) \<subseteq> {''01''}"
    using revoked_session_is_not_offered [OF ok, of "[demo_session STATE_REVOKED]" "demo_session STATE_REVOKED" ?x, OF _ _ _ _ r refl]
    by (auto simp: x split: if_splits)
  have "keyed localPublicKey (sessions ?t)"
    using session_list.refresh_good [OF ok, of "[demo_session STATE_REVOKED]"]
    by (simp add: x sessions_ok_def revokeSession_def fetchSessions_def lit_send_def Let_def)
  then have "localPublicKey y = ''01''" if "y \<in> set (sortedSessions ?t)" for y
    using sorted_sessions_stored [OF _ that] only by blast
  then show ?thesis using none by (cases "sortedSessions ?t") auto
qed

lemma cancelled_form_keeps_proxy_witness:
  "an_proxy (session_cancel (initial_sessions\<lparr>an_proxy := ''other:443''\<rparr>)) = ''other:443''"
  using cancelled_form_keeps_proxy [of "initial_sessions\<lparr>an_proxy := ''other:443''\<rparr>" Admin demo_dates True "[]" "[]" "Inr None" demo_session_replies]
  by simp

end
