(* ===== verification/Api_Clients.thy ===== *)
theory Api_Clients
  imports Lit_Nodes Lit_Sessions Loop_Wizard Pool_Models
begin

text \<open>
  The clients of the daemons: \<open>app/src/api/grpc.ts\<close>, \<open>lnd.ts\<close>, \<open>lncApi.ts\<close>, \<open>loop.ts\<close>, \<open>pool.ts\<close> and
  \<open>lit.ts\<close>, the loading of all data in \<open>app/src/store/store.ts\<close>, and the logger of
  \<open>app/src/util/log.ts\<close>. A call is its service, its name, the fields that were set and the
  header; what the server answers is a parameter. The library of Lightning Node Connect and the
  library \<open>debug\<close> that prints a line are outside.
\<close>

section \<open>Logging\<close>

datatype LogLevel = debug | info | warn | error | none

fun level_value :: "LogLevel \<Rightarrow> nat" where
  "level_value debug = 1"
| "level_value info = 2"
| "level_value warn = 3"
| "level_value error = 4"
| "level_value none = 5"

definition level_name :: "LogLevel \<Rightarrow> string" where
  "level_name l =
     (case l of debug \<Rightarrow> ''debug'' | info \<Rightarrow> ''info'' | warn \<Rightarrow> ''warn'' | error \<Rightarrow> ''error'' | none \<Rightarrow> ''none'')"

text \<open>
  The level of a logger: an index of the enumeration that is not one of the five names gives
  no number, and every comparison with it is false.
\<close>

definition level_of_name :: "string \<Rightarrow> LogLevel option" where
  "level_of_name t = find (\<lambda>l. level_name l = t) [debug, info, warn, error, none]"

definition Logger_fromEnv :: "bool \<Rightarrow> (string \<times> string) list \<Rightarrow> LogLevel option \<times> (string \<times> string) list" where
  "Logger_fromEnv IS_DEV st =
     (if text_arg (map_of st ''debug'') \<noteq> None
      then (level_of_name (case text_arg (map_of st ''debug-level'') of Some l \<Rightarrow> l | None \<Rightarrow> ''debug''), st)
      else if IS_DEV then (Some debug, AList.update ''debug-level'' ''debug'' (AList.update ''debug'' ''*'' st))
      else (Some none, st))"

definition log_line :: "LogLevel option \<Rightarrow> LogLevel \<Rightarrow> string \<Rightarrow> string list" where
  "log_line levelToOutput level message =
     (if (case levelToOutput of Some l \<Rightarrow> level_value level < level_value l | None \<Rightarrow> False) then []
      else [''['' @ level_name level @ ''] '' @ message])"

section \<open>Calls over gRPC\<close>

text \<open>\<open>Dec\<close> is the decimal text of a number, \<open>Msg\<close> a message inside a message.\<close>

datatype rpc_value = Text string | Num rat | Dec rat | Flag bool | Texts "string list" | Msg "(string \<times> rpc_value) list" | Msgs "(string \<times> rpc_value) list list"

type_synonym rpc_fields = "(string \<times> rpc_value) list"

record rpc_call =
  rc_service :: string
  rc_name :: string
  rc_fields :: rpc_fields
  rc_authorization :: "string option"

record 'm grpc_reply =
  gr_status :: int
  gr_statusMessage :: string
  gr_message :: "'m option"

abbreviation (input) grpc_OK :: int where "grpc_OK \<equiv> 0"
abbreviation (input) grpc_Unauthenticated :: int where "grpc_Unauthenticated \<equiv> 16"

text \<open>The calls that were sent, and the result. Sample data may be missing.\<close>

definition grpc_request ::
    "bool \<Rightarrow> (string \<Rightarrow> 'm option) \<Rightarrow> (rpc_call \<Rightarrow> 'm grpc_reply) \<Rightarrow> rpc_call \<Rightarrow> rpc_call list \<times> 'm option api_result" where
  "grpc_request useSampleData sampleApiResponses server c =
     (if useSampleData then ([], Inr (sampleApiResponses (rc_service c @ ''.'' @ rc_name c)))
      else ([c],
        let r = server c in
        if gr_status r = grpc_OK \<and> gr_message r \<noteq> None then Inr (gr_message r)
        else if gr_status r = grpc_Unauthenticated then Inl (AuthenticationError (gr_statusMessage r))
        else Inl (AppError (gr_statusMessage r))))"

text \<open>The streams that were opened, with the event each message is emitted as.\<close>

definition grpc_subscribe :: "bool \<Rightarrow> rpc_call \<Rightarrow> string \<Rightarrow> (rpc_call \<times> string) list" where
  "grpc_subscribe useSampleData c event = (if useSampleData then [] else [(c, event)])"

definition opt_field :: "string \<Rightarrow> ('v \<Rightarrow> rpc_value) \<Rightarrow> 'v option \<Rightarrow> rpc_fields" where
  "opt_field name f v = (case v of Some x \<Rightarrow> [(name, f x)] | None \<Rightarrow> [])"

section \<open>The node\<close>

datatype lnd_op =
    LndGetInfo | LndChannelBalance | LndWalletBalance | LndListChannels | LndPendingChannels
  | LndGetNodeInfo string | LndDescribeGraph | LndGetNetworkInfo | LndGetChannelInfo string
  | LndListPayments | LndListInvoices | LndAddInvoice string string | LndDecodePayReq string
  | LndSendPaymentSync string | LndNewAddress | LndSendCoins string string | LndOpenChannelSync string string

fun LndApi_request :: "lnd_op \<Rightarrow> string \<times> rpc_fields" where
  "LndApi_request LndGetInfo = (''GetInfo'', [])"
| "LndApi_request LndChannelBalance = (''ChannelBalance'', [])"
| "LndApi_request LndWalletBalance = (''WalletBalance'', [])"
| "LndApi_request LndListChannels = (''ListChannels'', [])"
| "LndApi_request LndPendingChannels = (''PendingChannels'', [])"
| "LndApi_request (LndGetNodeInfo pk) = (''GetNodeInfo'', [(''pubKey'', Text pk), (''includeChannels'', Flag True)])"
| "LndApi_request LndDescribeGraph = (''DescribeGraph'', [])"
| "LndApi_request LndGetNetworkInfo = (''GetNetworkInfo'', [])"
| "LndApi_request (LndGetChannelInfo i) = (''GetChanInfo'', [(''chanId'', Text i)])"
| "LndApi_request LndListPayments = (''ListPayments'', [(''includeIncomplete'', Flag True), (''maxPayments'', Text ''100'')])"
| "LndApi_request LndListInvoices = (''ListInvoices'', [(''numMaxInvoices'', Text ''100''), (''reversed'', Flag True)])"
| "LndApi_request (LndAddInvoice a memo) = (''AddInvoice'', [(''value'', Text a), (''memo'', Text memo)])"
| "LndApi_request (LndDecodePayReq p) = (''DecodePayReq'', [(''payReq'', Text p)])"
| "LndApi_request (LndSendPaymentSync p) = (''SendPaymentSync'', [(''paymentRequest'', Text p)])"
| "LndApi_request LndNewAddress = (''NewAddress'', [(''type'', Num 0)])"
| "LndApi_request (LndSendCoins addr a) = (''SendCoins'', [(''addr'', Text addr), (''amount'', Text a)])"
| "LndApi_request (LndOpenChannelSync pk a) = (''OpenChannelSync'', [(''nodePubkeyString'', Text pk), (''localFundingAmount'', Text a)])"

definition service_call :: "string \<Rightarrow> string \<times> rpc_fields \<Rightarrow> api_client \<Rightarrow> rpc_call" where
  "service_call service r a = \<lparr>rc_service = service, rc_name = fst r, rc_fields = snd r, rc_authorization = api_meta a\<rparr>"

definition LndApi_connectStreams :: "bool \<Rightarrow> api_client \<Rightarrow> (rpc_call \<times> string) list" where
  "LndApi_connectStreams useSampleData a =
     concat (map (\<lambda>(name, event). grpc_subscribe useSampleData (service_call ''lnrpc.Lightning'' (name, []) a) event)
       [(''SubscribeTransactions'', ''transaction''), (''SubscribeChannelEvents'', ''channel''), (''SubscribeInvoices'', ''invoice'')])"

text \<open>The same operations over Lightning Node Connect: the function of the library and its argument.\<close>

fun LncApi_request :: "lnd_op \<Rightarrow> string \<times> rpc_fields" where
  "LncApi_request LndGetInfo = (''getInfo'', [])"
| "LncApi_request LndChannelBalance = (''channelBalance'', [])"
| "LncApi_request LndWalletBalance = (''walletBalance'', [])"
| "LncApi_request LndListChannels = (''listChannels'', [])"
| "LncApi_request LndPendingChannels = (''pendingChannels'', [])"
| "LncApi_request (LndGetNodeInfo pk) = (''getNodeInfo'', [(''pubKey'', Text pk), (''includeChannels'', Flag True)])"
| "LncApi_request LndDescribeGraph = (''describeGraph'', [(''includeUnannounced'', Flag False)])"
| "LncApi_request LndGetNetworkInfo = (''getNetworkInfo'', [])"
| "LncApi_request (LndGetChannelInfo i) = (''getChanInfo'', [(''chanId'', Text i)])"
| "LncApi_request LndListPayments = (''listPayments'', [(''includeIncomplete'', Flag True), (''maxPayments'', Text ''100'')])"
| "LncApi_request LndListInvoices = (''listInvoices'', [(''numMaxInvoices'', Text ''100''), (''reversed'', Flag True)])"
| "LncApi_request (LndAddInvoice a memo) = (''addInvoice'', [(''value'', Text a), (''memo'', Text memo)])"
| "LncApi_request (LndDecodePayReq p) = (''decodePayReq'', [(''payReq'', Text p)])"
| "LncApi_request (LndSendPaymentSync p) = (''sendPaymentSync'', [(''paymentRequest'', Text p)])"
| "LncApi_request LndNewAddress = (''newAddress'', [(''type'', Num 0)])"
| "LncApi_request (LndSendCoins addr a) = (''sendCoins'', [(''addr'', Text addr), (''amount'', Text a)])"
| "LncApi_request (LndOpenChannelSync pk a) = (''openChannelSync'', [(''nodePubkeyString'', Text pk), (''localFundingAmount'', Text a)])"

fun LncApi_aliases :: "lnd_op \<Rightarrow> (string \<times> string) list" where
  "LncApi_aliases LndGetInfo = [(''chains'', ''chainsList''), (''uris'', ''urisList''), (''features'', ''featuresList'')]"
| "LncApi_aliases LndListChannels = [(''channels'', ''channelsList'')]"
| "LncApi_aliases LndPendingChannels =
     [(''pendingOpenChannels'', ''pendingOpenChannelsList''), (''pendingClosingChannels'', ''pendingClosingChannelsList''),
      (''pendingForceClosingChannels'', ''pendingForceClosingChannelsList''), (''waitingCloseChannels'', ''waitingCloseChannelsList'')]"
| "LncApi_aliases LndListPayments = [(''payments'', ''paymentsList'')]"
| "LncApi_aliases LndListInvoices = [(''invoices'', ''invoicesList'')]"
| "LncApi_aliases _ = []"

definition LncApi_reply :: "lnd_op \<Rightarrow> (string \<times> 'v) list \<Rightarrow> (string \<times> 'v) list" where
  "LncApi_reply op obj = aliasArrayFields obj (LncApi_aliases op)"

text \<open>A subscription the library throws at is skipped.\<close>

definition LncApi_connectStreams :: "(string \<Rightarrow> bool) \<Rightarrow> (string \<times> string) list" where
  "LncApi_connectStreams supported =
     filter (\<lambda>(name, _). supported name)
       [(''subscribeTransactions'', ''transaction''), (''subscribeChannelEvents'', ''channel''), (''subscribeInvoices'', ''invoice'')]"

section \<open>Loop, Pool and Lit\<close>

datatype loop_op =
    LoopListSwaps | LoopGetInTerms | LoopGetOutTerms
  | LoopGetInQuote Big "js_number option" "string option" | LoopGetOutQuote Big "js_number option"
  | LoopDoIn Big Quote "string option" "js_number option"
  | LoopDoOut Big Quote "string list" int "js_number option" "string option"

fun LoopApi_request :: "big_lib \<Rightarrow> loop_op \<Rightarrow> string \<times> rpc_fields" where
  "LoopApi_request B LoopListSwaps = (''ListSwaps'', [])"
| "LoopApi_request B LoopGetInTerms = (''GetLoopInTerms'', [])"
| "LoopApi_request B LoopGetOutTerms = (''LoopOutTerms'', [])"
| "LoopApi_request B (LoopGetInQuote a target hop) =
     (let q = getLoopInQuote_request a target hop in
      (''GetLoopInQuote'', [(''amt'', Dec (qr_amt q))] @ opt_field ''confTarget'' Num (qr_confTarget q) @
        opt_field ''loopInLastHop'' Text (qr_loopInLastHop q)))"
| "LoopApi_request B (LoopGetOutQuote a target) =
     (let q = getLoopOutQuote_request a target in
      (''LoopOutQuote'', [(''amt'', Dec (qr_amt q))] @ opt_field ''confTarget'' Num (qr_confTarget q)))"
| "LoopApi_request B (LoopDoIn a q hop target) =
     (let r = loopIn_request a q hop target in
      (''LoopIn'', [(''amt'', Dec (li_amt r)), (''maxSwapFee'', Dec (li_maxSwapFee r)), (''maxMinerFee'', Dec (li_maxMinerFee r)),
        (''initiator'', Text (li_initiator r))] @ opt_field ''lastHop'' Text (li_lastHop r) @
        opt_field ''htlcConfTarget'' Num (li_htlcConfTarget r)))"
| "LoopApi_request B (LoopDoOut a q chanIds dl target dest) =
     (let r = loopOut_request B a q chanIds dl target dest in
      (''LoopOut'', [(''amt'', Dec (lo_amt r)), (''maxSwapFee'', Dec (lo_maxSwapFee r)), (''maxMinerFee'', Dec (lo_maxMinerFee r)),
        (''maxPrepayAmt'', Dec (lo_maxPrepayAmt r)), (''maxSwapRoutingFee'', Dec (lo_maxSwapRoutingFee r)),
        (''maxPrepayRoutingFee'', Dec (lo_maxPrepayRoutingFee r)), (''outgoingChanSet'', Texts (lo_outgoingChanSet r)),
        (''swapPublicationDeadline'', Dec (of_int (lo_publicationDeadline r))), (''initiator'', Text (lo_initiator r))] @
        opt_field ''sweepConfTarget'' Num (lo_sweepConfTarget r) @ opt_field ''dest'' Text (lo_dest r)))"

definition LoopApi_connectStreams :: "bool \<Rightarrow> api_client \<Rightarrow> (rpc_call \<times> string) list" where
  "LoopApi_connectStreams useSampleData a =
     grpc_subscribe useSampleData (service_call ''looprpc.SwapClient'' (''Monitor'', []) a) ''monitor''"

text \<open>The requests that change accounts, and the other ones of \<open>PoolApi\<close>.\<close>

fun account_fields :: "account_request \<Rightarrow> string \<times> rpc_fields" where
  "account_fields (InitAccount a height target initiator) =
     (''InitAccount'', [(''accountValue'', Dec a), (''relativeHeight'', Num height), (''confTarget'', Num target), (''initiator'', Text initiator)])"
| "account_fields (RenewAccount key expiry rate) =
     (''RenewAccount'', [(''accountKey'', Text key), (''relativeExpiry'', Num expiry), (''feeRateSatPerKw'', Dec rate)])"
| "account_fields (CloseAccount key rate dest) =
     (''CloseAccount'', [(''traderKey'', Text key), (''outputWithFee'', Msg ([(''feeRateSatPerKw'', Dec rate)] @ opt_field ''address'' Text dest))])"
| "account_fields (DepositAccount key a rate) =
     (''DepositAccount'', [(''traderKey'', Text key), (''amountSat'', Dec a), (''feeRateSatPerKw'', Dec rate)])"
| "account_fields (WithdrawAccount key a rate) =
     (''WithdrawAccount'', [(''traderKey'', Text key), (''feeRateSatPerKw'', Dec rate), (''outputs'', Msgs [[(''valueSat'', Dec a)]])])"

definition order_fields :: "submit_request \<Rightarrow> string \<times> rpc_fields" where
  "order_fields r =
     (let d = sr_details r;
          details = Msg [(''traderKey'', Text (od_traderKey d)), (''amt'', Dec (od_amt d)), (''rateFixed'', Num (od_rateFixed d)),
            (''minUnitsMatch'', Num (od_minUnitsMatch d)), (''maxBatchFeeRateSatPerKw'', Dec (od_maxBatchFeeRateSatPerKw d))];
          body = [(''leaseDurationBlocks'', Num (sr_leaseDurationBlocks r)), (''version'', Num (of_int (sr_version r)))]
            @ opt_field ''minNodeTier'' (Num \<circ> of_int) (sr_minNodeTier r) @ [(''details'', details)]
      in (''SubmitOrder'', [(''initiator'', Text (sr_initiator r)), (if sr_type r = Bid then ''bid'' else ''ask'', Msg body)]))"

datatype pool_op =
    PoolGetInfo | PoolQuoteAccount Big rat | PoolListAccounts | PoolListOrders | PoolQuoteOrder quote_order_request
  | PoolCancelOrder string | PoolListLeases | PoolBatchSnapshots rat "string option" | PoolNextBatchInfo
  | PoolNodeRatings string | PoolLeaseDurations | PoolRegisterSidecar string
  | PoolAccountChange account_request | PoolSubmitOrder submit_request

fun PoolApi_request :: "pool_op \<Rightarrow> string \<times> rpc_fields" where
  "PoolApi_request PoolGetInfo = (''GetInfo'', [])"
| "PoolApi_request (PoolQuoteAccount a target) = (''QuoteAccount'', [(''accountValue'', Dec a), (''confTarget'', Num target)])"
| "PoolApi_request PoolListAccounts = (''ListAccounts'', [])"
| "PoolApi_request PoolListOrders = (''ListOrders'', [])"
| "PoolApi_request (PoolQuoteOrder q) =
     (''QuoteOrder'', [(''amt'', Dec (qo_amt q)), (''rateFixed'', Num (qo_rateFixed q)), (''leaseDurationBlocks'', Num (qo_leaseDurationBlocks q)),
       (''minUnitsMatch'', Num (qo_minUnitsMatch q)), (''maxBatchFeeRateSatPerKw'', Dec (qo_maxBatchFeeRateSatPerKw q))])"
| "PoolApi_request (PoolCancelOrder nonce) = (''CancelOrder'', [(''orderNonce'', Text (b64 nonce False))])"
| "PoolApi_request PoolListLeases = (''Leases'', [])"
| "PoolApi_request (PoolBatchSnapshots n batchId) =
     (''BatchSnapshots'', [(''numBatchesBack'', Num n)] @ opt_field ''startBatchId'' (\<lambda>b. Text (b64 b False)) (text_arg batchId))"
| "PoolApi_request PoolNextBatchInfo = (''NextBatchInfo'', [])"
| "PoolApi_request (PoolNodeRatings pk) = (''NodeRatings'', [(''nodePubkeys'', Texts [b64 pk False])])"
| "PoolApi_request PoolLeaseDurations = (''LeaseDurations'', [])"
| "PoolApi_request (PoolRegisterSidecar ticket) = (''RegisterSidecar'', [(''ticket'', Text ticket), (''autoNegotiate'', Flag True)])"
| "PoolApi_request (PoolAccountChange r) = account_fields r"
| "PoolApi_request (PoolSubmitOrder r) = order_fields r"

text \<open>A date that is no date gives the text \<open>NaN\<close>.\<close>

definition seconds_field :: "int option \<Rightarrow> rpc_value" where
  "seconds_field t = (case t of Some n \<Rightarrow> Dec (of_int n) | None \<Rightarrow> Text ''NaN'')"

fun LitApi_change :: "lit_request \<Rightarrow> string \<times> string \<times> rpc_fields" where
  "LitApi_change (CreateAccount balance expiry) =
     (''litrpc.Accounts'', ''CreateAccount'', [(''accountBalance'', Dec balance), (''expirationDate'', seconds_field expiry)])"
| "LitApi_change (AddSession r) =
     (''litrpc.Sessions'', ''AddSession'', [(''label'', Text (as_label r)), (''sessionType'', Num (of_int (as_sessionType r))),
       (''expiryTimestampSeconds'', seconds_field (as_expiryTimestampSeconds r)), (''mailboxServerAddr'', Text (as_mailboxServerAddr r)),
       (''devServer'', Flag (as_devServer r)),
       (''macaroonCustomPermissions'', Msgs (map (\<lambda>(e, a). [(''entity'', Text e), (''action'', Text a)]) (as_permissions r))),
       (''accountId'', Text (as_accountId r))])"
| "LitApi_change (RevokeSession key) = (''litrpc.Sessions'', ''RevokeSession'', [(''localPublicKey'', Text key)])"

datatype lit_op = LitChange lit_request | LitListSessions | LitListSubServerStatus

fun LitApi_request :: "lit_op \<Rightarrow> string \<times> string \<times> rpc_fields" where
  "LitApi_request (LitChange r) = LitApi_change r"
| "LitApi_request LitListSessions = (''litrpc.Sessions'', ''ListSessions'', [])"
| "LitApi_request LitListSubServerStatus = (''litrpc.Status'', ''SubServerStatus'', [])"

definition LitApi_call :: "lit_op \<Rightarrow> api_client \<Rightarrow> rpc_call" where
  "LitApi_call op a = (let (service, r) = LitApi_request op in service_call service r a)"

section \<open>Loading all data\<close>

text \<open>
  The sessions are kept beside the channels and swaps; \<open>session_view\<close> is their store in the
  application state \<open>s\<close>. Of the shared state, loading sessions changes alerts and login only.
\<close>

record all_replies =
  ar_status :: "(string \<times> SubServerStatus) list api_result"
  ar_info :: "node_info api_result"
  ar_channels :: "lnd_channel list api_result"
  ar_offChain :: "int api_result"
  ar_onChain :: "(int \<times> int) api_result"
  ar_sessions :: "lit_session list api_result"
  ar_swaps :: "loop_swap list api_result"

definition session_view :: "'a app_loop_scheme \<Rightarrow> app_sessions \<Rightarrow> app_sessions" where
  "session_view s u = app_node.extend (app_node.truncate s) (app_sessions.fields (sessions u) (clipboard u) (lit_sent u))"

definition fetchSessions_in ::
    "string list \<Rightarrow> lit_session list api_result \<Rightarrow> 'a app_loop_scheme \<times> app_sessions \<Rightarrow> 'a app_loop_scheme \<times> app_sessions" where
  "fetchSessions_in own res x =
     (let (s, u) = x; v = fetchSessions own res (session_view s u)
      in (s\<lparr>authenticated := authenticated v, alerts := alerts v\<rparr>, v))"

definition fetchAllData ::
    "big_lib \<Rightarrow> string list \<Rightarrow> all_replies \<Rightarrow> 'a app_loop_scheme \<times> app_sessions \<Rightarrow> 'a app_loop_scheme \<times> app_sessions" where
  "fetchAllData B own r x =
     (let (s, u) = x;
          s = fetchStatus (ar_status r) s;
          s = fetchInfo (ar_info r) s;
          s = fetchChannels B (ar_channels r) s;
          s = fetchBalances (ar_offChain r) (ar_onChain r) s;
          (s, u) = (if ss_running (ss_lit s) then fetchSessions_in own (ar_sessions r) (s, u) else (s, u));
          s = (if canFetchData s then fetchSwaps own (ar_swaps r) s else s)
      in (s, u))"

section \<open>Two clients, one node\<close>

text \<open>
  A field that is not set has the default of its type on the wire, and the library of Lightning
  Node Connect names a function after the call, with a small first letter.
\<close>

definition default_value :: "rpc_value \<Rightarrow> bool" where
  "default_value v \<longleftrightarrow> v \<in> {Text [], Num 0, Dec 0, Flag False, Texts [], Msgs []}"

definition on_wire :: "string \<times> rpc_fields \<Rightarrow> string \<times> rpc_fields" where
  "on_wire r = (map_prod id (filter (\<lambda>(_, v). \<not> default_value v)) r)"

definition lower_first :: "string \<Rightarrow> string" where
  "lower_first t = toLowerCase (take 1 t) @ drop 1 t"

lemma same_request: "on_wire (LncApi_request op) = on_wire (map_prod lower_first id (LndApi_request op))"
  by (cases op) (simp_all add: on_wire_def lower_first_def toLowerCase_def lower_char_def default_value_def char_of_def bit_iff_odd)

lemma aliasArrayFields_step:
  "aliasArrayFields obj ((k, d) # m) =
     aliasArrayFields (case map_of obj k of Some v \<Rightarrow> if map_of obj d = None then AList.update d v obj else obj | None \<Rightarrow> obj) m"
  by (simp add: aliasArrayFields_def)

lemma aliased_reads:
  assumes "distinct (map snd m)" "set (map fst m) \<inter> set (map snd m) = {}" "\<forall>d \<in> set (map snd m). map_of obj d = None"
  shows "map_of (aliasArrayFields obj m) k =
    (case map_of (map prod.swap m) k of Some f \<Rightarrow> map_of obj f | None \<Rightarrow> map_of obj k)"
  using assms
proof (induction m arbitrary: obj)
  case (Cons x m)
  obtain f d where x: "x = (f, d)" by (cases x)
  define obj' where "obj' = (case map_of obj f of Some v \<Rightarrow> if map_of obj d = None then AList.update d v obj else obj | None \<Rightarrow> obj)"
  have o: "map_of obj' k = (if k = d then map_of obj f else map_of obj k)" for k
    using Cons.prems by (auto simp: obj'_def x update_conv' split: option.splits)
  have "\<forall>d' \<in> set (map snd m). map_of obj' d' = None" using Cons.prems by (auto simp: o x)
  hence ih: "map_of (aliasArrayFields obj' m) k =
      (case map_of (map prod.swap m) k of Some f \<Rightarrow> map_of obj' f | None \<Rightarrow> map_of obj' k)"
    using Cons.IH [of obj'] Cons.prems by (auto simp: x)
  have n: "f' \<noteq> d" "k \<noteq> d" if "map_of (map prod.swap m) k = Some f'" for f'
  proof -
    have "(f', k) \<in> set m" using map_of_SomeD [OF that] by auto
    hence "f' \<in> set (map fst m)" "k \<in> set (map snd m)" by force+
    thus "f' \<noteq> d" "k \<noteq> d" using Cons.prems(1,2) by (auto simp: x)
  qed
  have step: "aliasArrayFields obj (x # m) = aliasArrayFields obj' m" by (simp add: x aliasArrayFields_step obj'_def)
  show ?case
    by (cases "map_of (map prod.swap m) k") (use n in \<open>simp_all add: step [unfolded x] ih o x\<close>)
qed (simp add: aliasArrayFields_def)

text \<open>
  The object of a reply in the naming of \<open>toObject\<close>: the repeated fields of the message (the
  three lists of names below are those of \<open>lnd_pb.js\<close>) get the suffix.
\<close>

fun repeated_fields :: "lnd_op \<Rightarrow> string list" where
  "repeated_fields LndGetInfo = [''chains'', ''uris'']"
| "repeated_fields LndListChannels = [''channels'']"
| "repeated_fields LndPendingChannels =
     [''pendingOpenChannels'', ''pendingClosingChannels'', ''pendingForceClosingChannels'', ''waitingCloseChannels'']"
| "repeated_fields LndListPayments = [''payments'']"
| "repeated_fields LndListInvoices = [''invoices'']"
| "repeated_fields _ = []"

definition toObject_names :: "string list \<Rightarrow> (string \<times> 'v) list \<Rightarrow> (string \<times> 'v) list" where
  "toObject_names reps msg = map (\<lambda>(k, v). (if k \<in> set reps then k @ ''List'' else k, v)) msg"

lemma toObject_reads:
  assumes "\<forall>f \<in> set reps. map_of msg (f @ ''List'') = None"
  shows "f \<in> set reps \<Longrightarrow> map_of (toObject_names reps msg) (f @ ''List'') = map_of msg f"
    and "k \<notin> set reps \<Longrightarrow> \<forall>f \<in> set reps. k \<noteq> f @ ''List'' \<Longrightarrow> map_of (toObject_names reps msg) k = map_of msg k"
  using assms by (induction msg) (auto simp: toObject_names_def split: if_splits)

lemma aliases_distinct:
  "distinct (map snd (LncApi_aliases op))" "set (map fst (LncApi_aliases op)) \<inter> set (map snd (LncApi_aliases op)) = {}"
  "map snd (LncApi_aliases op) = map (\<lambda>f. f @ ''List'') (map fst (LncApi_aliases op))"
  "f \<in> set (repeated_fields op) \<Longrightarrow> map_of (map prod.swap (LncApi_aliases op)) (f @ ''List'') = Some f"
  by (cases op; auto)+


section \<open>Refused logins\<close>

definition is_auth_error :: "app_error \<Rightarrow> bool" where
  "is_auth_error e \<longleftrightarrow> (case e of AuthenticationError _ \<Rightarrow> True | AppError _ \<Rightarrow> False)"

definition refused :: "'r api_result \<Rightarrow> bool" where
  "refused r \<longleftrightarrow> (case r of Inl e \<Rightarrow> is_auth_error e | Inr _ \<Rightarrow> False)"

lemma refused_simps [simp]: "refused (Inl e) = is_auth_error e" "\<not> refused (Inr x)"
  by (simp_all add: refused_def)

lemma request_refused:
  "refused (snd (grpc_request False samples server c)) \<longleftrightarrow> gr_status (server c) = grpc_Unauthenticated"
  by (simp add: grpc_request_def is_auth_error_def Let_def)

lemma handleError_login: "authenticated (handleError e t s) \<longleftrightarrow> authenticated s \<and> \<not> is_auth_error e"
  by (cases e) (simp_all add: handleError_def notify_def Let_def is_auth_error_def)

lemma apply_status_login [simp]: "authenticated (apply_status xs s) = authenticated s"
  by (induction xs s rule: apply_status.induct) auto

lemma handleError_servers [simp]: "ss_loop (handleError e t s) = ss_loop s" "ss_lit (handleError e t s) = ss_lit s"
  by (simp_all add: handleError_def notify_def Let_def split: app_error.split)

lemma start_call_servers [simp]:
  "ss_loop (start_call c s) = ss_loop s" "ss_lit (start_call c s) = ss_lit s" "authenticated (start_call c s) = authenticated s"
  by (simp_all add: start_call_def)

lemma status_login: "authenticated (fetchStatus r s) \<longleftrightarrow> authenticated s \<and> \<not> refused r"
  by (cases r) (simp_all add: fetchStatus_def Let_def handleError_login)

lemma fetch_login:
  "authenticated (fetchInfo i s) \<longleftrightarrow> authenticated s \<and> \<not> refused i"
  "authenticated (fetchChannels B c s) \<longleftrightarrow> authenticated s \<and> \<not> refused c"
  "authenticated (fetchSwaps own w s) \<longleftrightarrow> authenticated s \<and> \<not> refused w"
proof -
  show "authenticated (fetchInfo i s) \<longleftrightarrow> authenticated s \<and> \<not> refused i"
    by (cases i) (auto simp: fetchInfo_def Let_def handleError_login split: list.split)
  show "authenticated (fetchChannels B c s) \<longleftrightarrow> authenticated s \<and> \<not> refused c"
    by (cases c) (auto simp: fetchChannels_def Let_def handleError_login)
  show "authenticated (fetchSwaps own w s) \<longleftrightarrow> authenticated s \<and> \<not> refused w"
    by (cases w) (auto simp: fetchSwaps_def Let_def handleError_login pruneSwappedChannels_def)
qed

lemma balances_login:
  "authenticated (fetchBalances f n s) \<longleftrightarrow> authenticated s \<and> \<not> refused f \<and> (\<not> (isl f) \<longrightarrow> \<not> refused n)"
  by (cases f; cases n) (simp_all add: fetchBalances_def handleError_login case_prod_beta)

lemma fetch_servers [simp]:
  "ss_loop (fetchInfo i s) = ss_loop s" "ss_lit (fetchInfo i s) = ss_lit s"
  "ss_loop (fetchChannels B c s) = ss_loop s" "ss_lit (fetchChannels B c s) = ss_lit s"
  "ss_loop (fetchBalances f n s) = ss_loop s" "ss_lit (fetchBalances f n s) = ss_lit s"
  by (simp_all add: fetchInfo_def fetchChannels_def fetchBalances_def Let_def split: sum.split list.split prod.split)

lemma session_view_login [simp]: "authenticated (session_view s u) = authenticated s"
  by (simp add: session_view_def app_node.extend_def app_node.truncate_def)

lemma sessions_login:
  "authenticated (fst (fetchSessions_in own r (s, u))) \<longleftrightarrow>
     authenticated s \<and> \<not> (refused r \<and> \<not> (\<exists>e. r = Inl e \<and> str_includes ''not ready'' (error_message e)))"
  by (cases r) (auto simp: fetchSessions_in_def fetchSessions_def Let_def handleError_login)

lemma sessions_servers [simp]: "ss_loop (fst (fetchSessions_in own r (s, u))) = ss_loop s"
  by (simp add: fetchSessions_in_def Let_def)


section \<open>What is logged\<close>

text \<open>A production build without the key \<open>debug\<close> logs nothing; an unknown level logs everything.\<close>

lemma production_logs_nothing:
  "map_of st ''debug'' = None \<Longrightarrow> log_line (fst (Logger_fromEnv False st)) l m = (if l = none then [''[none] '' @ m] else [])"
  by (cases l) (simp_all add: Logger_fromEnv_def text_arg_def log_line_def level_name_def)

lemma unknown_level_logs_all:
  assumes "map_of st ''debug'' = Some d" "d \<noteq> []" "map_of st ''debug-level'' = Some v" "v \<notin> set (map level_name [debug, info, warn, error, none])" "v \<noteq> []"
  shows "log_line (fst (Logger_fromEnv b st)) l m = [''['' @ level_name l @ ''] '' @ m]"
proof -
  have "level_of_name v = None" using assms(4) by (auto simp: level_of_name_def find_None_iff)
  thus ?thesis using assms by (simp add: Logger_fromEnv_def text_arg_def log_line_def)
qed

section \<open>Concrete instances\<close>


definition demo_loading :: all_replies where
  "demo_loading =
     \<lparr>ar_status = Inr [(''loop'', \<lparr>ss_disabled = False, ss_running = False, ss_error = ''unreachable''\<rparr>)], ar_info = Inl (AppError ''offline''),
      ar_channels = Inr [], ar_offChain = Inl (AppError ''offline''), ar_onChain = Inl (AuthenticationError ''never asked''),
      ar_sessions = Inl (AuthenticationError ''session server not ready''), ar_swaps = Inl (AuthenticationError ''never asked'')\<rparr>"


end
