(* ===== verification/Spec2Isabelle.thy ===== *)
theory Spec2Isabelle
  imports Loop_Tour Paywall_Shop Pool_Views Pool_Chart App_Lists App_Pages Api_Clients
begin

text \<open>
  Verification of Lightning Terminal: the skill paywall (\<open>src/paywall-web\<close>), its command line
  client (\<open>src/scripts/l402_walkthrough.mjs\<close>) and the stores, API clients and pages of the web
  app (\<open>src/app/src\<close>).

  \<^bold>\<open>The program.\<close> The paywall is a web service that sells text files ("skills"): a manifest
  route names the current version, a content route answers 402 with a macaroon and a Lightning
  invoice until it gets the macaroon together with the preimage of the invoice, and an admin
  route publishes versions. The client walks a user through these requests. The web app shows
  channels, swaps and auctions of a Lightning node: its stores keep collections in step with
  the daemons \<open>lnd\<close>, \<open>loop\<close> and \<open>pool\<close>, its views (wizard and forms) turn what the user
  enters into requests, and pages with state of their own send, receive and list payments.

  \<^bold>\<open>Conventions.\<close> Every definition is a translation of the code whose name it carries. A thrown
  error is an \<open>Inl\<close>; an operation that changes state returns the new state; an operation that
  waits for another service is a function of that service's reply, so "for all replies" in a
  theorem covers failures. Strings are lists of code units up to U+00FF, numbers are exact
  rationals (\<open>Lit_Prelude\<close> says where that is justified), MobX maps are association lists in
  insertion order. State records extend each other (\<open>app_shell\<close>, \<open>app_settings\<close>, \<open>app_node\<close>,
  \<open>app_channels\<close>, \<open>app_loop\<close>, then \<open>app_pool\<close>, \<open>app_batches\<close> and \<open>app_forms\<close> for the auction
  pages, the wizard's record for the swaps and \<open>app_sessions\<close> for the sessions), the way all
  stores hang off one \<open>Store\<close> object.

  \<^bold>\<open>Language layer.\<close> \<open>Lit_Prelude\<close> (strings, numbers, results, ordered maps), \<open>Js_Base64\<close>,
  \<open>Js_Json\<close> (\<open>JSON.parse\<close>), \<open>Js_Stringify\<close> (\<open>JSON.stringify\<close>, with the round trip through the
  parser), \<open>Js_RegExp\<close> and \<open>Js_RegExp_Run\<close> (a backtracking matcher in JavaScript's order).

  \<^bold>\<open>Paywall.\<close>
  \<^item> \<open>Paywall_Wire\<close>: the binary macaroon writer of \<open>lib/l402.ts\<close>. The contract
    \<open>prefix_codec\<close> is interpreted for every layer; the export is read back exactly.
  \<^item> \<open>Paywall_Store\<close> (\<open>lib/types.ts\<close>, \<open>lib/db.ts\<close>) and \<open>Paywall_L402\<close> (the rest of
    \<open>lib/l402.ts\<close>): configuration, invoices, minting and verification. What is issued can be
    redeemed, and only an authentic macaroon with exactly the expected caveats and the matching
    preimage is accepted.
  \<^item> \<open>Paywall_Catalog\<close> (\<open>lib/catalog.ts\<close>, \<open>lib/blob.ts\<close>): one active version per skill, other
    versions untouched, lookups return what was published.
  \<^item> \<open>Paywall_Routes\<close> (\<open>lib/paywall.ts\<close> and the route files below \<open>app\<close>): content only
    against payment, changes only with the admin token.
  \<^item> \<open>Paywall_Demo\<close>: a library and a deployment that satisfy all hypotheses, for the witnesses.
  \<^item> \<open>Paywall_Shop\<close>: an abstract shop; the whole site refines it (locale \<open>simulation\<close>).

  \<^bold>\<open>Client.\<close> \<open>Walk_Client\<close> holds the checks, headers, bundles and challenge files, \<open>Walk_Flows\<close>
  the dialogue as programs over typed lines, files and a remote side, \<open>Walk_Site\<close> the dialogue
  with the routes of the paywall as its remote side: the purchase goes through. The loops of
  the dialogue are recursive on the lines still to be typed or on fuel that is at least the
  number of those lines; \<open>walkthrough_ends\<close> shows that the fuel never runs out.

  \<^bold>\<open>Web app.\<close>
  \<^item> \<open>App_Big\<close>, \<open>App_Util\<close>: \<open>util/bigmath.ts\<close>, \<open>strings.ts\<close>, \<open>formatters.ts\<close>,
    \<open>balances.ts\<close>, \<open>constants.ts\<close>, \<open>csv.ts\<close>.
  \<^item> \<open>App_Shell\<close>: \<open>views/appView.ts\<close> and \<open>stores/settingsStore.ts\<close> (alerts, errors,
    navigation, settings and their persistence).
  \<^item> \<open>App_Sync\<close>: the contract of a refresh, as the locales \<open>upserting_store\<close>,
    \<open>mirroring_store\<close> and \<open>accumulating_store\<close>. The channel, pending channel, account and lease
    collections are mirroring; swaps, orders and sessions are accumulating, because their code compares
    the reply with the property names of the map object instead of its keys.
  \<^item> \<open>App_Node\<close>: \<open>util/appStorage.ts\<close> (the cache), \<open>stores/nodeStore.ts\<close>,
    \<open>stores/subServerStore.ts\<close>.
  \<^item> \<open>Loop_Models\<close>, \<open>Loop_Stores\<close>, \<open>Loop_Wizard\<close>: \<open>models/channel.ts\<close>, \<open>models/swap.ts\<close>,
    \<open>stores/channelStore.ts\<close>, \<open>stores/swapStore.ts\<close>, \<open>views/buildSwapView.ts\<close>, \<open>api/loop.ts\<close>.
    The stores stay well formed under every interleaving of operations; the wizard sends a swap
    at most once per confirmation, within the quoted limits, and never after going back.
  \<^item> \<open>Pool_Models\<close>, \<open>Pool_Stores\<close>: \<open>models/account.ts\<close>, \<open>order.ts\<close>, \<open>lease.ts\<close>,
    \<open>stores/accountStore.ts\<close>, \<open>stores/orderStore.ts\<close>, \<open>api/pool.ts\<close>. The fixed rate is the
    exact quotient for amounts up to 900 bitcoin (three divisions with 20 decimals leave an
    error below the distance to the next integer there); a refresh selects the richest open
    account; collections stay well formed.
  \<^item> \<open>Pool_Batches\<close>: \<open>models/batch.ts\<close>, \<open>models/market.ts\<close>, \<open>stores/batchStore.ts\<close>. The
    batches on display are a gapless newest-first prefix of the auction's history, extended
    page by page, but paging stalls at a page without trades.
  \<^item> \<open>Pool_Forms\<close>: \<open>views/orderFormView.ts\<close>, \<open>accountSectionView.ts\<close>,
    \<open>fundNewAccountView.ts\<close>, \<open>fundAccountView.ts\<close>, \<open>closeAccountView.ts\<close>,
    \<open>renewAccountView.ts\<close>. What the forms send, and where their validation has gaps.
  \<^item> \<open>Pool_Views\<close>: \<open>views/leaseView.ts\<close>, \<open>orderListView.ts\<close>, \<open>batchesView.ts\<close>,
    \<open>registerSidecarView.ts\<close>. The lease list shows the leases of the selected order; the sidecar
    wizard sends one request per started delay, but going back during a request starts another.
  \<^item> \<open>Pool_Chart\<close>: \<open>components/pool/batches/BatchChart.tsx\<close>, \<open>chart/D3Chart.ts\<close>, \<open>Scales.ts\<close>,
    \<open>Zoomer.ts\<close>. A page of older batches keeps the position of the chart; it asks for at most one
    page per change of the batches.
  \<^item> \<open>Lit_Sessions\<close>: \<open>models/session.ts\<close>, \<open>stores/sessionStore.ts\<close>,
    \<open>views/addSessionView.ts\<close>, \<open>api/lit.ts\<close>. A session is granted exactly the permissions
    that are switched on; a revoked one is never offered again.
  \<^item> \<open>App_Auth\<close>: \<open>stores/authStore.ts\<close>, \<open>store.ts\<close>, \<open>api/base.ts\<close>, \<open>util/BaseEmitter.ts\<close>. API clients
    are objects of an explicit store. An accepted password survives a reload and a refused one
    is cleared; events are handled at most once in every run of logins and lost sessions; what
    goes wrong after a login over Lightning Node Connect.
  \<^item> \<open>Lit_Nodes\<close>: \<open>stores/nodeConnectionStore.ts\<close>, \<open>api/lncApi.ts\<close>. Nodes are stored once, the
    sides of the split view show existing nodes, and a reload restores the saved nodes.
  \<^item> \<open>App_Activity\<close>: \<open>stores/paymentActivityStore.ts\<close>, \<open>stores/networkGraphStore.ts\<close>. Payments
    are shown in order; the rankings are merged without duplicates.
  \<^item> \<open>App_Payments\<close>: \<open>components/common/TransactionModal.tsx\<close>, \<open>OpenChannelModal.tsx\<close>, as events
    that a screen admits. A user who waits pays the invoice that was shown; one who edits the
    field during the request can pay another one.
  \<^item> \<open>App_Lists\<close>: \<open>components/history/HistoryPage.tsx\<close>, \<open>explore/ExplorePage.tsx\<close>. The history is
    complete and sorted, its totals do not depend on the search.
  \<^item> \<open>App_Pages\<close>: \<open>components/auth/AuthPage.tsx\<close>, \<open>ConnectNodePage.tsx\<close>, \<open>common/AddNodeModal.tsx\<close>,
    \<open>layout/NodePicker.tsx\<close>, \<open>home/SplitNodeView.tsx\<close>, \<open>home/GraphVisualization.tsx\<close>,
    \<open>home/NodePanel.tsx\<close>, \<open>tour/OnboardingModal.tsx\<close>, \<open>loop/LoopPage.tsx\<close>,
    \<open>settings/ExplorerSettings.tsx\<close>. The picker makes only steps of the node store;
    the totals of the home page are bounded by those of the channel store.
  \<^item> \<open>Api_Clients\<close>: \<open>api/grpc.ts\<close>, \<open>lnd.ts\<close>, \<open>lncApi.ts\<close>, \<open>loop.ts\<close>, \<open>pool.ts\<close>, \<open>lit.ts\<close>,
    \<open>util/log.ts\<close> and \<open>fetchAllData\<close> of \<open>store.ts\<close>. The two clients of a node send the same calls
    and their replies read the same; loading the data ends a login exactly when a request was
    refused as unauthenticated.
  \<^item> \<open>Loop_Tour\<close>: the steps of the tour of \<open>appView.ts\<close> and its return to the real data.

  \<^bold>\<open>Parameters.\<close> The macaroon library (\<open>macaroon_contract\<close>), SHA-256, \<open>fetch\<close>, the services
  behind the paywall (database failures, edge configuration, blob store), the URL parser,
  \<open>big.js\<close> (\<open>big_law\<close>), \<open>semver\<close>, \<open>date-fns\<close>, the calendar of the time zone, the auctioneer's
  history (\<open>history\<close>, \<open>serves\<close>), the browser's number formatter, \<open>localeCompare\<close> and the property
  names of a MobX map object are arguments with their documented laws as hypotheses; each such
  hypothesis is satisfied by a concrete instance in a witness.

  \<^bold>\<open>Bounds.\<close> 1100 rounds print a number, because a double has at most 1074 digits after the
  point; varints are exact below \<open>2 ^ 32\<close> because the code uses 32-bit operators.

  \<^bold>\<open>Not modelled.\<close> The Go daemon (accounts, firewall, sessions, RPC proxy): another language,
  behind gRPC. Of the React components, markup, styles, the drawing of charts, animation, translations
  and the 3D scene with its positions and mouse handling: what they show is the modelled state. Generated
  protocol files (\<open>app/src/types/generated\<close>): produced by a compiler; the names of their fields
  appear in \<open>Api_Clients\<close>. The libraries for gRPC and Lightning Node Connect below the API
  clients, the router's copy of the browser location, and build scripts.
\<close>

end
